(* ===== verification/Prelude.thy ===== *)
theory Prelude
  imports Main "HOL-Library.Word" "HOL-Library.Sublist" "HOL-Library.AList"
begin

text \<open>
  The vocabulary every component theory shares: Go's integer and byte types, the outcome of a Go
  call that may panic, the functions of Go's standard library the sources use on strings
  (\<open>strconv.Itoa\<close>, \<open>strconv.Atoi\<close>, \<open>strings.Split\<close>, \<open>strings.Join\<close>, \<open>strings.HasSuffix\<close>),
  reachability of a step relation with the interface of an inductive invariant, and the lemma
  collections the component proofs draw on.
\<close>

section \<open>Types\<close>

type_synonym uint8 = "8 word"
type_synonym uint16 = "16 word"
type_synonym uint32 = "32 word"
type_synonym uint64 = "64 word"
type_synonym bytes = "8 word list"

text \<open>A Go call returns, panics with a reason, or waits for something that does not happen.\<close>

datatype 'a go = Ret 'a | Panic string | Block

fun go_bind :: "'a go \<Rightarrow> ('a \<Rightarrow> 'b go) \<Rightarrow> 'b go" where
  "go_bind (Ret a) f = f a"
| "go_bind (Panic m) f = Panic m"
| "go_bind Block f = Block"

fun returns :: "'a go \<Rightarrow> bool" where
  "returns (Ret a) = True"
| "returns (Panic m) = False"
| "returns Block = False"

section \<open>Lemma collections\<close>

named_theorems handler_simps \<open>the fields of the handler layers\<close>
named_theorems inv_intros \<open>an operation preserves its component's invariant\<close>

section \<open>Strings\<close>

text \<open>\<open>strconv.Itoa\<close>: decimal digits, most significant first, with a leading minus sign.\<close>

fun digits :: "nat \<Rightarrow> string" where
  "digits n = (if n < 10 then [char_of (48 + n)] else digits (n div 10) @ [char_of (48 + n mod 10)])"

declare digits.simps [simp del]

definition itoa :: "int \<Rightarrow> string" where
  "itoa i = (if i < 0 then CHR ''-'' # digits (nat (- i)) else digits (nat i))"

definition is_digit :: "char \<Rightarrow> bool" where
  "is_digit c \<longleftrightarrow> 48 \<le> (of_char c :: nat) \<and> (of_char c :: nat) \<le> 57"

definition digit_val :: "char \<Rightarrow> nat" where
  "digit_val c = of_char c - 48"

definition undigits :: "string \<Rightarrow> nat" where
  "undigits s = foldl (\<lambda>n c. 10 * n + digit_val c) 0 s"

text \<open>\<open>strconv.Atoi\<close> on a 64-bit platform: an optional sign, at least one digit and nothing
  else, and a value in the range of \<open>int\<close>; \<open>None\<close> is its error.\<close>

definition unsigned_part :: "string \<Rightarrow> string" where
  "unsigned_part s = (case s of [] \<Rightarrow> [] | c # cs \<Rightarrow> if c = CHR ''-'' \<or> c = CHR ''+'' then cs else s)"

definition atoi :: "string \<Rightarrow> int option" where
  "atoi s = (let u = unsigned_part s;
                 v = (if s \<noteq> [] \<and> hd s = CHR ''-'' then - int (undigits u) else int (undigits u))
             in if u \<noteq> [] \<and> list_all is_digit u \<and> - (2 ^ 63) \<le> v \<and> v < 2 ^ 63 then Some v else None)"

text \<open>\<open>strings.Split\<close> on a one-character separator and \<open>strings.Join\<close>.\<close>

fun split_on :: "char \<Rightarrow> string \<Rightarrow> string list" where
  "split_on c [] = [[]]"
| "split_on c (x # xs) =
     (if x = c then [] # split_on c xs
      else case split_on c xs of [] \<Rightarrow> [[x]] | y # ys \<Rightarrow> (x # y) # ys)"

definition has_prefix :: "string \<Rightarrow> string \<Rightarrow> bool" where
  "has_prefix s p = (take (length p) s = p)"

fun join :: "string \<Rightarrow> string list \<Rightarrow> string" where
  "join sep [] = []"
| "join sep [x] = x"
| "join sep (x # y # ys) = x @ sep @ join sep (y # ys)"

abbreviation has_suffix :: "string \<Rightarrow> string \<Rightarrow> bool" where
  "has_suffix s suf \<equiv> suffix suf s"

lemma is_digit_char_of [simp]: "n < 10 \<Longrightarrow> is_digit (char_of (48 + n :: nat))"
  by (simp add: is_digit_def)

lemma digit_val_char_of [simp]: "n < 10 \<Longrightarrow> digit_val (char_of (48 + n :: nat)) = n"
  by (simp add: digit_val_def)

lemma undigits_snoc [simp]: "undigits (s @ [c]) = 10 * undigits s + digit_val c"
  by (simp add: undigits_def)

lemma digits_nonempty [simp]: "digits n \<noteq> []"
  by (subst digits.simps) simp

lemma digits_all_digit [simp]: "list_all is_digit (digits n)"
proof (induction n rule: digits.induct)
  case (1 n)
  then show ?case by (subst digits.simps) simp
qed

lemma undigits_digits [simp]: "undigits (digits n) = n"
proof (induction n rule: digits.induct)
  case (1 n)
  show ?case
  proof (cases "n < 10")
    case True
    then show ?thesis by (subst digits.simps) (simp add: undigits_def)
  next
    case False
    then show ?thesis by (subst digits.simps) (simp add: 1)
  qed
qed

lemma digit_not_sign: "is_digit c \<Longrightarrow> c \<noteq> CHR ''-'' \<and> c \<noteq> CHR ''+''"
  by (auto simp: is_digit_def)

lemma digit_not_colon: "is_digit c \<Longrightarrow> c \<noteq> CHR '':''"
  by (auto simp: is_digit_def)

lemma digits_no_colon [simp]: "CHR '':'' \<notin> set (digits n)"
  using digits_all_digit [of n] digit_not_colon by (auto simp: list_all_iff)

lemma hd_digits: "is_digit (hd (digits n))"
  using digits_all_digit [of n] by (simp add: list_all_iff)

lemma unsigned_part_digits [simp]: "unsigned_part (digits n) = digits n"
  using digit_not_sign [OF hd_digits, of n] by (auto simp: unsigned_part_def split: list.splits)

lemma atoi_itoa: "- (2 ^ 63) \<le> i \<Longrightarrow> i < 2 ^ 63 \<Longrightarrow> atoi (itoa i) = Some i"
proof (cases "i < 0")
  case True
  moreover assume "- (2 ^ 63) \<le> i" "i < 2 ^ 63"
  ultimately show ?thesis
    by (simp add: atoi_def itoa_def unsigned_part_def Let_def)
next
  case False
  moreover assume "- (2 ^ 63) \<le> i" "i < 2 ^ 63"
  moreover have "hd (digits (nat i)) \<noteq> CHR ''-''"
    using hd_digits digit_not_sign by blast
  ultimately show ?thesis
    by (simp add: atoi_def itoa_def Let_def)
qed

lemma split_on_nonempty [simp]: "split_on c s \<noteq> []"
  by (induction s) (auto split: list.splits)

lemma join_cons: "ys \<noteq> [] \<Longrightarrow> join sep (x # ys) = x @ sep @ join sep ys"
  by (cases ys) auto

lemma join_split_on: "join [c] (split_on c s) = s"
proof (induction s)
  case (Cons x s)
  then show ?case
  proof (cases "split_on c s")
    case (Cons y ys)
    then show ?thesis using Cons.IH by (cases ys) auto
  qed simp
qed simp

lemma split_on_no_sep: "c \<notin> set s \<Longrightarrow> split_on c s = [s]"
  by (induction s) auto

lemma split_on_append: "c \<notin> set s \<Longrightarrow> split_on c (s @ c # t) = s # split_on c t"
  by (induction s) auto

lemma split_on_snoc: "c \<notin> set t \<Longrightarrow> split_on c (s @ c # t) = split_on c s @ [t]"
proof (induction s)
  case (Cons x s)
  then show ?case
    by (cases "split_on c s") (auto simp: split_on_nonempty split: list.splits)
qed (simp add: split_on_no_sep)

lemma subseq_distinct: "subseq xs ys \<Longrightarrow> distinct ys \<Longrightarrow> distinct xs"
proof (induction rule: list_emb.induct)
  case (list_emb_Cons2 x y xs ys)
  then have "x \<notin> set xs" using list_emb_set [of "(=)" xs ys x] by auto
  with list_emb_Cons2 show ?case by simp
qed auto

section \<open>Association lists\<close>

text \<open>Go maps that are iterated over or counted are association lists with distinct keys.\<close>

definition count_vals :: "('v \<Rightarrow> bool) \<Rightarrow> ('k \<times> 'v) list \<Rightarrow> nat" where
  "count_vals P al = length (filter (\<lambda>kv. P (snd kv)) al)"

lemma count_vals_simps [simp]:
  "count_vals P [] = 0"
  "count_vals P ((k, v) # al) = (if P v then 1 else 0) + count_vals P al"
  by (simp_all add: count_vals_def)

lemma count_vals_update_new:
  "map_of al k = None \<Longrightarrow> count_vals P (AList.update k v al) = count_vals P al + (if P v then 1 else 0)"
  by (induction al) (auto split: if_splits)

lemma count_vals_update_old:
  "map_of al k = Some w \<Longrightarrow>
   count_vals P (AList.update k v al) + (if P w then 1 else 0) = count_vals P al + (if P v then 1 else 0)"
  by (induction al) (auto split: if_splits)

lemma count_vals_pos: "map_of al k = Some v \<Longrightarrow> P v \<Longrightarrow> 0 < count_vals P al"
  by (induction al) (auto split: if_splits)

lemma count_vals_zero: "count_vals P al = 0 \<longleftrightarrow> (\<forall>kv \<in> set al. \<not> P (snd kv))"
  by (induction al) auto

section \<open>Outcomes of calls\<close>

lemma go_bind_RetE:
  assumes "go_bind m f = Ret b"
  obtains a where "m = Ret a" "f a = Ret b"
  using assms by (cases m) auto

lemma returns_iff: "returns m \<longleftrightarrow> (\<exists>a. m = Ret a)"
  by (cases m) auto

section \<open>Reachable states and inductive invariants\<close>

text \<open>The states a step relation reaches from its initial states.\<close>

inductive reach :: "('s \<Rightarrow> bool) \<Rightarrow> ('s \<Rightarrow> 's \<Rightarrow> bool) \<Rightarrow> 's \<Rightarrow> bool" for I step where
  reach_init: "I s \<Longrightarrow> reach I step s"
| reach_step: "reach I step s \<Longrightarrow> step s t \<Longrightarrow> reach I step t"

text \<open>The contract of an inductive invariant: it holds initially and every step keeps it.\<close>

locale inductive_invariant =
  fixes I :: "'s \<Rightarrow> bool" and step :: "'s \<Rightarrow> 's \<Rightarrow> bool" and P :: "'s \<Rightarrow> bool"
  assumes base: "I s \<Longrightarrow> P s"
    and preserved: "P s \<Longrightarrow> step s t \<Longrightarrow> P t"
begin

lemma holds: "reach I step s \<Longrightarrow> P s"
  by (induction rule: reach.induct) (auto intro: base preserved)

lemma kept_by_run: "step\<^sup>*\<^sup>* s t \<Longrightarrow> P s \<Longrightarrow> P t"
  by (induction rule: rtranclp_induct) (auto intro: preserved)

end

section \<open>The registry interface\<close>

text \<open>A table of named objects: what looking up gives after adding and removing an entry.\<close>

locale registry =
  fixes register :: "'k \<Rightarrow> 'v \<Rightarrow> 'r \<Rightarrow> 'r"
    and unregister :: "'k \<Rightarrow> 'r \<Rightarrow> 'r"
    and lookup :: "'r \<Rightarrow> 'k \<Rightarrow> 'v option"
  assumes lookup_register: "lookup (register k v r) = (lookup r)(k \<mapsto> v)"
    and lookup_unregister: "lookup (unregister k r) = (lookup r)(k := None)"
begin

lemma register_unregister: "lookup r k = None \<Longrightarrow> lookup (unregister k (register k v r)) = lookup r"
  by (auto simp: lookup_register lookup_unregister)

lemma register_others: "k' \<noteq> k \<Longrightarrow> lookup (register k v r) k' = lookup r k'"
  by (simp add: lookup_register)

end

end
