(* ===== verification/Messages.thy ===== *)
theory Messages
  imports Prelude
begin

text \<open>
  The error values of the program: \<open>message/message.go\<close> (coded messages with a user-facing text,
  and messages that wrap a cause) and \<open>config/error.go\<close> (configuration errors that carry the path
  of the offending option). An \<open>error\<close> is an option of \<open>go_error\<close>, \<open>None\<close> being Go's \<open>nil\<close>.
  Formatting is done by the caller of the model: the explanation is the formatted text. Labels are
  left out, only the log writer reads them.
\<close>

datatype go_error =
    ErrorString string
  | Message string string string
  | WrappingMessage string string string go_error
  | ConfigError string "string list" "go_error option"

fun error_text :: "go_error \<Rightarrow> string" where
  "error_text (ErrorString s) = s"
| "error_text (Message code user explanation) = explanation"
| "error_text (WrappingMessage code user explanation cause) = explanation"
| "error_text (ConfigError message path cause) =
     ''invalid configuration option: '' @ join ''.'' path @ '' ('' @ message @ '')''"

fun error_code :: "go_error \<Rightarrow> string option" where
  "error_code (Message code user explanation) = Some code"
| "error_code (WrappingMessage code user explanation cause) = Some code"
| "error_code _ = None"

fun unwrap :: "go_error \<Rightarrow> go_error option" where
  "unwrap (WrappingMessage code user explanation cause) = Some cause"
| "unwrap (ConfigError message path cause) = cause"
| "unwrap _ = None"

definition UserMessage :: "string \<Rightarrow> string \<Rightarrow> string \<Rightarrow> go_error" where
  "UserMessage code user explanation = Message code user explanation"

definition WrapUser :: "go_error \<Rightarrow> string \<Rightarrow> string \<Rightarrow> string \<Rightarrow> go_error" where
  "WrapUser cause code user explanation =
     WrappingMessage code user (explanation @ '' ('' @ error_text cause @ '')'') cause"

definition NewMessage :: "string \<Rightarrow> string \<Rightarrow> go_error" where
  "NewMessage code explanation = UserMessage code ''Internal Error'' explanation"

definition Wrap :: "go_error \<Rightarrow> string \<Rightarrow> string \<Rightarrow> go_error" where
  "Wrap cause code explanation =
     WrappingMessage code ''Internal Error'' (explanation @ '' ('' @ error_text cause @ '')'') cause"

section \<open>Configuration errors\<close>

definition newError :: "string \<Rightarrow> string \<Rightarrow> go_error" where
  "newError opt message = ConfigError message [opt] None"

text \<open>\<open>errors.As\<close> for the type of configuration errors: the first one in the chain of causes.\<close>

fun as_configError :: "go_error \<Rightarrow> (string \<times> string list) option" where
  "as_configError (ConfigError message path cause) = Some (message, path)"
| "as_configError (WrappingMessage code user explanation cause) = as_configError cause"
| "as_configError (Message code user explanation) = None"
| "as_configError (ErrorString s) = None"

definition wrapWithMessage :: "go_error option \<Rightarrow> string \<Rightarrow> string \<Rightarrow> go_error option" where
  "wrapWithMessage err opt message =
     (case err of
        None \<Rightarrow> None
      | Some e \<Rightarrow>
          (case as_configError e of
             Some (m, path) \<Rightarrow>
               Some (ConfigError (if message = '''' then m else message) (opt # path) (Some e))
           | None \<Rightarrow>
               Some (ConfigError
                 (if message = '''' then error_text e else message @ '' ('' @ error_text e @ '')'')
                 [opt] (Some e))))"

definition wrap_option :: "go_error option \<Rightarrow> string \<Rightarrow> go_error option" where
  "wrap_option err opt = wrapWithMessage err opt ''''"

fun option_path :: "go_error option \<Rightarrow> string list" where
  "option_path None = []"
| "option_path (Some e) = (case as_configError e of None \<Rightarrow> [] | Some (m, path) \<Rightarrow> path)"

lemma wrapWithMessage_None [simp]:
  "wrapWithMessage None opt m = None" "(wrapWithMessage err opt m = None) = (err = None)"
  by (auto simp: wrapWithMessage_def split: option.splits)

lemma wrap_option_None [simp]:
  "wrap_option None opt = None" "(wrap_option err opt = None) = (err = None)"
  by (simp_all add: wrap_option_def)

lemma option_path_wrap:
  "err \<noteq> None \<Longrightarrow> option_path (wrap_option err opt) = opt # option_path err"
  by (auto simp: wrap_option_def wrapWithMessage_def split: option.splits)

lemma option_path_newError [simp]: "option_path (Some (newError opt m)) = [opt]"
  by (simp add: newError_def)

text \<open>Checks made one after the other, of which the first error is returned.\<close>

fun first_error :: "go_error option list \<Rightarrow> go_error option" where
  "first_error [] = None"
| "first_error (None # es) = first_error es"
| "first_error (Some e # es) = Some e"

lemma first_error_None [simp]: "first_error es = None \<longleftrightarrow> list_all (\<lambda>e. e = None) es"
  by (induction es rule: first_error.induct) simp_all

lemma first_error_in: "first_error es = Some e \<Longrightarrow> Some e \<in> set es"
  by (induction es rule: first_error.induct) auto

end
