(* ===== verification/Metadata.thy ===== *)
theory Metadata
  imports Messages
begin

text \<open>
  The \<open>metadata\<close> package: what is known of a connection before, during and after authentication,
  and of a channel. Go's embedded structs are record extensions, a map that may be \<open>nil\<close> is an
  option. \<open>net.IP\<close> is the byte slice it is in Go.
\<close>

record Value =
  val_Value :: string
  val_Sensitive :: bool

record BinaryValue =
  bin_Value :: bytes
  bin_Sensitive :: bool

record RemoteAddress =
  IP :: bytes
  Port :: int

record ConnectionMetadata =
  RemoteAddr :: RemoteAddress
  ConnectionID :: string
  Metadata :: "(string \<rightharpoonup> Value) option"
  Environment :: "(string \<rightharpoonup> Value) option"
  Files :: "(string \<rightharpoonup> BinaryValue) option"

record ConnectionAuthPendingMetadata = ConnectionMetadata +
  ClientVersion :: string
  Username :: string

record ConnectionAuthenticatedMetadata = ConnectionAuthPendingMetadata +
  AuthenticatedUsername :: string

record ChannelMetadata =
  Connection :: ConnectionAuthenticatedMetadata
  ChannelID :: uint64

definition StartAuthentication :: "ConnectionMetadata \<Rightarrow> string \<Rightarrow> string \<Rightarrow> ConnectionAuthPendingMetadata" where
  "StartAuthentication meta clientVersion username =
     ConnectionMetadata.extend meta (ConnectionAuthPendingMetadata.fields clientVersion username)"

definition Authenticated :: "ConnectionAuthPendingMetadata \<Rightarrow> string \<Rightarrow> ConnectionAuthenticatedMetadata" where
  "Authenticated c username =
     ConnectionAuthPendingMetadata.extend c (ConnectionAuthenticatedMetadata.fields username)"

definition AuthFailed :: "ConnectionAuthPendingMetadata \<Rightarrow> ConnectionAuthenticatedMetadata" where
  "AuthFailed c = ConnectionAuthPendingMetadata.extend c (ConnectionAuthenticatedMetadata.fields '''')"

definition Channel :: "ConnectionAuthenticatedMetadata \<Rightarrow> uint64 \<Rightarrow> ChannelMetadata" where
  "Channel meta channelID = \<lparr>Connection = meta, ChannelID = channelID\<rparr>"

text \<open>The accessors create the map when it is \<open>nil\<close>; they return it with the updated receiver.\<close>

definition GetMetadata :: "'a ConnectionMetadata_scheme \<Rightarrow> (string \<rightharpoonup> Value) option \<times> 'a ConnectionMetadata_scheme" where
  "GetMetadata meta =
     (let meta' = (if Metadata meta = None then meta\<lparr>Metadata := Some Map.empty\<rparr> else meta)
      in (Metadata meta', meta'))"

definition GetFiles :: "'a ConnectionMetadata_scheme \<Rightarrow> (string \<rightharpoonup> BinaryValue) option \<times> 'a ConnectionMetadata_scheme" where
  "GetFiles meta =
     (let meta' = (if Files meta = None then meta\<lparr>Files := Some Map.empty\<rparr> else meta)
      in (Files meta', meta'))"

definition GetEnvironment :: "'a ConnectionMetadata_scheme \<Rightarrow> (string \<rightharpoonup> Value) option \<times> 'a ConnectionMetadata_scheme" where
  "GetEnvironment meta =
     (let meta' = (if Environment meta = None then meta\<lparr>Environment := Some Map.empty\<rparr> else meta)
      in (Environment meta', meta'))"

definition Merge_connection :: "'a ConnectionMetadata_scheme \<Rightarrow> 'b ConnectionMetadata_scheme \<Rightarrow> 'a ConnectionMetadata_scheme" where
  "Merge_connection meta newMeta =
     (let (m, newMeta) = GetMetadata newMeta;
          meta = (if m \<noteq> None then meta\<lparr>Metadata := m\<rparr> else meta);
          (f, newMeta) = GetFiles newMeta;
          meta = (if f \<noteq> None then meta\<lparr>Files := f\<rparr> else meta);
          (e, newMeta) = GetEnvironment newMeta
      in if e \<noteq> None then meta\<lparr>Environment := e\<rparr> else meta)"

definition Merge :: "ConnectionAuthenticatedMetadata \<Rightarrow> ConnectionAuthenticatedMetadata \<Rightarrow> ConnectionAuthenticatedMetadata" where
  "Merge c newMeta =
     (let c = Merge_connection c newMeta
      in if AuthenticatedUsername newMeta \<noteq> '''' then c\<lparr>AuthenticatedUsername := AuthenticatedUsername newMeta\<rparr>
         else c)"

definition or_empty :: "('k \<rightharpoonup> 'v) option \<Rightarrow> ('k \<rightharpoonup> 'v)" where
  "or_empty m = (case m of None \<Rightarrow> Map.empty | Some f \<Rightarrow> f)"

lemma Merge_connection_eq:
  "Merge_connection meta newMeta =
     meta\<lparr>Metadata := Some (or_empty (Metadata newMeta)), Files := Some (or_empty (Files newMeta)),
          Environment := Some (or_empty (Environment newMeta))\<rparr>"
  by (simp add: Merge_connection_def GetMetadata_def GetFiles_def GetEnvironment_def or_empty_def
      split: option.splits)

lemma AuthFailed_username [simp]: "AuthenticatedUsername (AuthFailed c) = ''''"
  by (simp add: AuthFailed_def ConnectionAuthPendingMetadata.extend_def ConnectionAuthenticatedMetadata.fields_def)

lemma Authenticated_fields [simp]:
  "AuthenticatedUsername (Authenticated c u) = u"
  "Username (Authenticated c u) = Username c"
  "ConnectionID (Authenticated c u) = ConnectionID c"
  "Metadata (Authenticated c u) = Metadata c"
  "Environment (Authenticated c u) = Environment c"
  "Files (Authenticated c u) = Files c"
  by (simp_all add: Authenticated_def ConnectionAuthPendingMetadata.extend_def ConnectionAuthenticatedMetadata.fields_def)

lemma Authenticated_truncate [simp]: "ConnectionAuthPendingMetadata.truncate (Authenticated c u) = c"
  by (simp add: Authenticated_def ConnectionAuthPendingMetadata.defs ConnectionAuthenticatedMetadata.defs)

text \<open>Merging replaces the metadata, the files and the environment of the connection by those of
  the new metadata in every case, an unset map counting as an empty one, so that values set earlier
  are lost when the new metadata sets none. The authenticated user is replaced only when the new
  metadata names one, and nothing else changes.\<close>
theorem merge_overrides:
  "Merge c newMeta =
     c\<lparr>Metadata := Some (or_empty (Metadata newMeta)), Files := Some (or_empty (Files newMeta)),
       Environment := Some (or_empty (Environment newMeta)),
       AuthenticatedUsername := (if AuthenticatedUsername newMeta = '''' then AuthenticatedUsername c
                                 else AuthenticatedUsername newMeta)\<rparr>"
  by (simp add: Merge_def Merge_connection_eq Let_def)

end
