(* ===== verification/Handler_Api.thy ===== *)
theory Handler_Api
  imports Metadata
begin

text \<open>
  The interfaces of \<open>internal/sshserver/handler.go\<close> and the request payloads of
  \<open>internal/ssh\<close>. A Go interface is a record of functions over the state \<open>'s\<close> of the objects behind
  it; a layer that wraps a backend is a function from such a record to such a record. Call-back
  objects handed to a backend (the session channel, the reverse-forwarding handler, a forwarded
  channel) are values naming the object.

  The locale \<open>session_contract\<close> is the contract a layer of session handlers gives its callers: every
  operation keeps an invariant of the state. The recorder wraps any backend and notes the calls that
  reach it, in order; theorems about what reaches a backend are stated over it.
\<close>

section \<open>Request payloads\<close>

datatype payload =
    EnvRequestPayload string string
  | PtyRequestPayload string uint32 uint32 uint32 uint32 bytes
  | ShellRequestPayload
  | ExecRequestPayload string
  | SubsystemRequestPayload string
  | WindowRequestPayload uint32 uint32 uint32 uint32
  | SignalRequestPayload string
  | X11RequestPayload bool string string uint32
  | ForwardTCPIPRequestPayload string uint32
  | StreamLocalForwardRequestPayload string

record ForwardTCPChannelOpenPayload =
  ConnectedAddress :: string
  ConnectedPort :: uint32
  OriginatorAddress :: string
  OriginatorPort :: uint32

record DirectStreamLocalChannelOpenPayload =
  SocketPath :: string
  Reserved1 :: string
  Reserved2 :: uint32

abbreviation (input) RequestTypeEnv :: string where "RequestTypeEnv \<equiv> ''env''"
abbreviation (input) RequestTypePty :: string where "RequestTypePty \<equiv> ''pty-req''"
abbreviation (input) RequestTypeShell :: string where "RequestTypeShell \<equiv> ''shell''"
abbreviation (input) RequestTypeExec :: string where "RequestTypeExec \<equiv> ''exec''"
abbreviation (input) RequestTypeSubsystem :: string where "RequestTypeSubsystem \<equiv> ''subsystem''"
abbreviation (input) RequestTypeWindow :: string where "RequestTypeWindow \<equiv> ''window-change''"
abbreviation (input) RequestTypeSignal :: string where "RequestTypeSignal \<equiv> ''signal''"
abbreviation (input) RequestTypeX11 :: string where "RequestTypeX11 \<equiv> ''x11-req''"
abbreviation (input) RequestTypeReverseForward :: string where
  "RequestTypeReverseForward \<equiv> ''tcpip-forward''"
abbreviation (input) RequestTypeCancelReverseForward :: string where
  "RequestTypeCancelReverseForward \<equiv> ''cancel-tcpip-forward''"
abbreviation (input) RequestTypeStreamLocalForward :: string where
  "RequestTypeStreamLocalForward \<equiv> ''streamlocal-forward@openssh.com''"
abbreviation (input) RequestTypeCancelStreamLocalForward :: string where
  "RequestTypeCancelStreamLocalForward \<equiv> ''cancel-streamlocal-forward@openssh.com''"

section \<open>Rejections and call-back objects\<close>

datatype RejectionReason = Prohibited | ConnectionFailed | UnknownChannelType | ResourceShortage

record ChannelRejection =
  rej_reason :: RejectionReason
  rej_code :: string
  rej_userMessage :: string
  rej_explanation :: string

definition NewChannelRejection :: "RejectionReason \<Rightarrow> string \<Rightarrow> string \<Rightarrow> string \<Rightarrow> ChannelRejection" where
  "NewChannelRejection reason code user explanation =
     \<lparr>rej_reason = reason, rej_code = code, rej_userMessage = user, rej_explanation = explanation\<rparr>"

text \<open>The wrapper of an accepted session channel, by the id of the channel, and the audit layer's
  proxy around a session channel.\<close>

datatype session_channel = ChannelWrapper uint64 | SessionProxy uint64 session_channel

text \<open>A reverse-forwarding handler holds the SSH connection, by its id, and the server pointer,
  which may be \<open>nil\<close>; the audit layer wraps it in a proxy.\<close>

datatype reverse_forward = ReverseForwardHandler string bool | ReverseHandlerProxy string reverse_forward

datatype forward_channel = AgentConnection uint64 | SSHChannel uint64 | ForwardProxy uint64 forward_channel

section \<open>Handler interfaces\<close>

record 's session_channel_handler =
  OnUnsupportedChannelRequest :: "uint64 \<Rightarrow> string \<Rightarrow> bytes \<Rightarrow> 's \<Rightarrow> 's"
  OnFailedDecodeChannelRequest :: "uint64 \<Rightarrow> string \<Rightarrow> bytes \<Rightarrow> go_error \<Rightarrow> 's \<Rightarrow> 's"
  OnEnvRequest :: "uint64 \<Rightarrow> string \<Rightarrow> string \<Rightarrow> 's \<Rightarrow> go_error option \<times> 's"
  OnPtyRequest :: "uint64 \<Rightarrow> string \<Rightarrow> uint32 \<Rightarrow> uint32 \<Rightarrow> uint32 \<Rightarrow> uint32 \<Rightarrow> bytes \<Rightarrow> 's \<Rightarrow> go_error option \<times> 's"
  OnX11Request :: "uint64 \<Rightarrow> bool \<Rightarrow> string \<Rightarrow> string \<Rightarrow> uint32 \<Rightarrow> reverse_forward \<Rightarrow> 's \<Rightarrow> go_error option \<times> 's"
  OnExecRequest :: "uint64 \<Rightarrow> string \<Rightarrow> 's \<Rightarrow> go_error option \<times> 's"
  OnShell :: "uint64 \<Rightarrow> 's \<Rightarrow> go_error option \<times> 's"
  OnSubsystem :: "uint64 \<Rightarrow> string \<Rightarrow> 's \<Rightarrow> go_error option \<times> 's"
  OnSignal :: "uint64 \<Rightarrow> string \<Rightarrow> 's \<Rightarrow> go_error option \<times> 's"
  OnWindow :: "uint64 \<Rightarrow> uint32 \<Rightarrow> uint32 \<Rightarrow> uint32 \<Rightarrow> uint32 \<Rightarrow> 's \<Rightarrow> go_error option \<times> 's"
  OnClose :: "'s \<Rightarrow> 's"
  OnShutdown :: "'s \<Rightarrow> 's"

record 's ssh_connection_handler =
  OnUnsupportedGlobalRequest :: "uint64 \<Rightarrow> string \<Rightarrow> bytes \<Rightarrow> 's \<Rightarrow> 's"
  OnFailedDecodeGlobalRequest :: "uint64 \<Rightarrow> string \<Rightarrow> bytes \<Rightarrow> go_error \<Rightarrow> 's \<Rightarrow> 's"
  OnUnsupportedChannel :: "uint64 \<Rightarrow> string \<Rightarrow> bytes \<Rightarrow> 's \<Rightarrow> 's"
  OnSessionChannel :: "ChannelMetadata \<Rightarrow> bytes \<Rightarrow> session_channel \<Rightarrow> 's \<Rightarrow>
                        (ChannelRejection + 's session_channel_handler) \<times> 's"
  OnTCPForwardChannel :: "uint64 \<Rightarrow> string \<Rightarrow> uint32 \<Rightarrow> string \<Rightarrow> uint32 \<Rightarrow> 's \<Rightarrow>
                        (ChannelRejection + forward_channel) \<times> 's"
  OnRequestTCPReverseForward :: "string \<Rightarrow> uint32 \<Rightarrow> reverse_forward \<Rightarrow> 's \<Rightarrow> go_error option \<times> 's"
  OnRequestCancelTCPReverseForward :: "string \<Rightarrow> uint32 \<Rightarrow> 's \<Rightarrow> go_error option \<times> 's"
  OnDirectStreamLocal :: "uint64 \<Rightarrow> string \<Rightarrow> 's \<Rightarrow> (ChannelRejection + forward_channel) \<times> 's"
  OnRequestStreamLocal :: "string \<Rightarrow> reverse_forward \<Rightarrow> 's \<Rightarrow> go_error option \<times> 's"
  OnRequestCancelStreamLocal :: "string \<Rightarrow> 's \<Rightarrow> go_error option \<times> 's"
  OnConnectionShutdown :: "'s \<Rightarrow> 's"

text \<open>The default implementations of \<open>AbstractSessionChannelHandler\<close>.\<close>

definition AbstractSessionChannelHandler :: "'s session_channel_handler" where
  "AbstractSessionChannelHandler = \<lparr>
     OnUnsupportedChannelRequest = (\<lambda>_ _ _ s. s),
     OnFailedDecodeChannelRequest = (\<lambda>_ _ _ _ s. s),
     OnEnvRequest = (\<lambda>_ _ _ s. (Some (ErrorString ''not supported''), s)),
     OnPtyRequest = (\<lambda>_ _ _ _ _ _ _ s. (Some (ErrorString ''not supported''), s)),
     OnX11Request = (\<lambda>_ _ _ _ _ _ s. (Some (ErrorString ''not supported''), s)),
     OnExecRequest = (\<lambda>_ _ s. (Some (ErrorString ''not supported''), s)),
     OnShell = (\<lambda>_ s. (Some (ErrorString ''not supported''), s)),
     OnSubsystem = (\<lambda>_ _ s. (Some (ErrorString ''not supported''), s)),
     OnSignal = (\<lambda>_ _ s. (Some (ErrorString ''not supported''), s)),
     OnWindow = (\<lambda>_ _ _ _ _ s. (Some (ErrorString ''not supported''), s)),
     OnClose = (\<lambda>s. s),
     OnShutdown = (\<lambda>s. s)\<rparr>"

text \<open>A handler over its own state is one over a larger state of which it touches only its part.\<close>

definition on_snd :: "('s \<Rightarrow> 'r \<times> 's) \<Rightarrow> 'c \<times> 's \<Rightarrow> 'r \<times> ('c \<times> 's)" where
  "on_snd f cs = (case f (snd cs) of (r, s) \<Rightarrow> (r, (fst cs, s)))"

text \<open>An operation that may not return, on a state that may not be reached; \<open>r\<close> stands for its result then.\<close>

definition on_conn :: "'r \<Rightarrow> ('s \<Rightarrow> ('r \<times> 's) go) \<Rightarrow> 's go \<Rightarrow> 'r \<times> 's go" where
  "on_conn r f g = (case go_bind g f of Ret (r, c) \<Rightarrow> (r, Ret c) | Panic m \<Rightarrow> (r, Panic m) | Block \<Rightarrow> (r, Block))"

definition lift_session :: "'s session_channel_handler \<Rightarrow> ('c \<times> 's) session_channel_handler" where
  "lift_session h = \<lparr>
     OnUnsupportedChannelRequest = (\<lambda>r t p. apsnd (OnUnsupportedChannelRequest h r t p)),
     OnFailedDecodeChannelRequest = (\<lambda>r t p e. apsnd (OnFailedDecodeChannelRequest h r t p e)),
     OnEnvRequest = (\<lambda>r n v. on_snd (OnEnvRequest h r n v)),
     OnPtyRequest = (\<lambda>r t c rw w ht m. on_snd (OnPtyRequest h r t c rw w ht m)),
     OnX11Request = (\<lambda>r sc p c scr rf. on_snd (OnX11Request h r sc p c scr rf)),
     OnExecRequest = (\<lambda>r p. on_snd (OnExecRequest h r p)),
     OnShell = (\<lambda>r. on_snd (OnShell h r)),
     OnSubsystem = (\<lambda>r n. on_snd (OnSubsystem h r n)),
     OnSignal = (\<lambda>r n. on_snd (OnSignal h r n)),
     OnWindow = (\<lambda>r c rw w ht. on_snd (OnWindow h r c rw w ht)),
     OnClose = apsnd (OnClose h),
     OnShutdown = apsnd (OnShutdown h)\<rparr>"

definition lift_connection :: "'s ssh_connection_handler \<Rightarrow> ('c \<times> 's) ssh_connection_handler" where
  "lift_connection h = \<lparr>
     OnUnsupportedGlobalRequest = (\<lambda>r t p. apsnd (OnUnsupportedGlobalRequest h r t p)),
     OnFailedDecodeGlobalRequest = (\<lambda>r t p e. apsnd (OnFailedDecodeGlobalRequest h r t p e)),
     OnUnsupportedChannel = (\<lambda>c t x. apsnd (OnUnsupportedChannel h c t x)),
     OnSessionChannel = (\<lambda>m x sc cs. apfst (map_sum id lift_session) (on_snd (OnSessionChannel h m x sc) cs)),
     OnTCPForwardChannel = (\<lambda>c ht p oh op. on_snd (OnTCPForwardChannel h c ht p oh op)),
     OnRequestTCPReverseForward = (\<lambda>ht p rf. on_snd (OnRequestTCPReverseForward h ht p rf)),
     OnRequestCancelTCPReverseForward = (\<lambda>ht p. on_snd (OnRequestCancelTCPReverseForward h ht p)),
     OnDirectStreamLocal = (\<lambda>c p. on_snd (OnDirectStreamLocal h c p)),
     OnRequestStreamLocal = (\<lambda>p rf. on_snd (OnRequestStreamLocal h p rf)),
     OnRequestCancelStreamLocal = (\<lambda>p. on_snd (OnRequestCancelStreamLocal h p)),
     OnConnectionShutdown = apsnd (OnConnectionShutdown h)\<rparr>"

section \<open>The recorder\<close>

datatype session_call =
    CallUnsupported uint64 string bytes
  | CallFailedDecode uint64 string bytes go_error
  | CallEnv uint64 string string
  | CallPty uint64 string uint32 uint32 uint32 uint32 bytes
  | CallX11 uint64 bool string string uint32 reverse_forward
  | CallExec uint64 string
  | CallShell uint64
  | CallSubsystem uint64 string
  | CallSignal uint64 string
  | CallWindow uint64 uint32 uint32 uint32 uint32
  | CallClose
  | CallShutdown

fun call_id :: "session_call \<Rightarrow> uint64 option" where
  "call_id (CallUnsupported r _ _) = Some r"
| "call_id (CallFailedDecode r _ _ _) = Some r"
| "call_id (CallEnv r _ _) = Some r"
| "call_id (CallPty r _ _ _ _ _ _) = Some r"
| "call_id (CallX11 r _ _ _ _ _) = Some r"
| "call_id (CallExec r _) = Some r"
| "call_id (CallShell r) = Some r"
| "call_id (CallSubsystem r _) = Some r"
| "call_id (CallSignal r _) = Some r"
| "call_id (CallWindow r _ _ _ _) = Some r"
| "call_id CallClose = None"
| "call_id CallShutdown = None"

text \<open>Making a recorded call on a handler.\<close>

fun perform :: "'s session_channel_handler \<Rightarrow> session_call \<Rightarrow> 's \<Rightarrow> go_error option \<times> 's" where
  "perform h (CallUnsupported r t p) s = (None, OnUnsupportedChannelRequest h r t p s)"
| "perform h (CallFailedDecode r t p e) s = (None, OnFailedDecodeChannelRequest h r t p e s)"
| "perform h (CallEnv r n v) s = OnEnvRequest h r n v s"
| "perform h (CallPty r t c rw w ht m) s = OnPtyRequest h r t c rw w ht m s"
| "perform h (CallX11 r sc p ck scr rf) s = OnX11Request h r sc p ck scr rf s"
| "perform h (CallExec r n) s = OnExecRequest h r n s"
| "perform h (CallShell r) s = OnShell h r s"
| "perform h (CallSubsystem r n) s = OnSubsystem h r n s"
| "perform h (CallSignal r n) s = OnSignal h r n s"
| "perform h (CallWindow r c rw w ht) s = OnWindow h r c rw w ht s"
| "perform h CallClose s = (None, OnClose h s)"
| "perform h CallShutdown s = (None, OnShutdown h s)"

type_synonym 's traced = "session_call list \<times> 's"

definition noted :: "session_call \<Rightarrow> ('s \<Rightarrow> 'r \<times> 's) \<Rightarrow> 's traced \<Rightarrow> 'r \<times> 's traced" where
  "noted c f ts = (case f (snd ts) of (r, s) \<Rightarrow> (r, (fst ts @ [c], s)))"

definition noted_unit :: "session_call \<Rightarrow> ('s \<Rightarrow> 's) \<Rightarrow> 's traced \<Rightarrow> 's traced" where
  "noted_unit c f ts = (fst ts @ [c], f (snd ts))"

definition recorder :: "'s session_channel_handler \<Rightarrow> 's traced session_channel_handler" where
  "recorder h = \<lparr>
     OnUnsupportedChannelRequest = (\<lambda>r t p. noted_unit (CallUnsupported r t p) (OnUnsupportedChannelRequest h r t p)),
     OnFailedDecodeChannelRequest = (\<lambda>r t p e. noted_unit (CallFailedDecode r t p e) (OnFailedDecodeChannelRequest h r t p e)),
     OnEnvRequest = (\<lambda>r n v. noted (CallEnv r n v) (OnEnvRequest h r n v)),
     OnPtyRequest = (\<lambda>r t c rw w ht m. noted (CallPty r t c rw w ht m) (OnPtyRequest h r t c rw w ht m)),
     OnX11Request = (\<lambda>r sc p c scr rf. noted (CallX11 r sc p c scr rf) (OnX11Request h r sc p c scr rf)),
     OnExecRequest = (\<lambda>r p. noted (CallExec r p) (OnExecRequest h r p)),
     OnShell = (\<lambda>r. noted (CallShell r) (OnShell h r)),
     OnSubsystem = (\<lambda>r n. noted (CallSubsystem r n) (OnSubsystem h r n)),
     OnSignal = (\<lambda>r n. noted (CallSignal r n) (OnSignal h r n)),
     OnWindow = (\<lambda>r c rw w ht. noted (CallWindow r c rw w ht) (OnWindow h r c rw w ht)),
     OnClose = noted_unit CallClose (OnClose h),
     OnShutdown = noted_unit CallShutdown (OnShutdown h)\<rparr>"

lemma fst_noted_unit [simp]: "fst (noted_unit c f ts) = fst ts @ [c]"
  by (simp add: noted_unit_def)

lemma fst_snd_noted [simp]: "fst (snd (noted c f ts)) = fst ts @ [c]"
  by (simp add: noted_def split: prod.splits)

lemma fst_noted [simp]: "fst (noted c f ts) = fst (f (snd ts))"
  by (simp add: noted_def split: prod.splits)

lemma recorder_sel [handler_simps]:
  "OnUnsupportedChannelRequest (recorder h) r t p = noted_unit (CallUnsupported r t p) (OnUnsupportedChannelRequest h r t p)"
  "OnFailedDecodeChannelRequest (recorder h) r t p e = noted_unit (CallFailedDecode r t p e) (OnFailedDecodeChannelRequest h r t p e)"
  "OnEnvRequest (recorder h) r n v = noted (CallEnv r n v) (OnEnvRequest h r n v)"
  "OnPtyRequest (recorder h) r t c rw w ht m = noted (CallPty r t c rw w ht m) (OnPtyRequest h r t c rw w ht m)"
  "OnX11Request (recorder h) r sc pr ck scr rf = noted (CallX11 r sc pr ck scr rf) (OnX11Request h r sc pr ck scr rf)"
  "OnExecRequest (recorder h) r n = noted (CallExec r n) (OnExecRequest h r n)"
  "OnShell (recorder h) r = noted (CallShell r) (OnShell h r)"
  "OnSubsystem (recorder h) r n = noted (CallSubsystem r n) (OnSubsystem h r n)"
  "OnSignal (recorder h) r n = noted (CallSignal r n) (OnSignal h r n)"
  "OnWindow (recorder h) r c rw w ht = noted (CallWindow r c rw w ht) (OnWindow h r c rw w ht)"
  "OnClose (recorder h) = noted_unit CallClose (OnClose h)"
  "OnShutdown (recorder h) = noted_unit CallShutdown (OnShutdown h)"
  by (simp_all add: recorder_def)

lemma perform_lift:
  "perform (lift_session h) c (x, s) = (case perform h c s of (err, s') \<Rightarrow> (err, (x, s')))"
  by (cases c) (simp_all add: lift_session_def on_snd_def)

text \<open>The recorder is transparent, and every call adds itself to the trace.\<close>

lemma perform_recorder:
  "perform (recorder h) c (tr, s) = (case perform h c s of (err, s') \<Rightarrow> (err, (tr @ [c], s')))"
  by (cases c) (simp_all add: handler_simps noted_def noted_unit_def)

section \<open>The contract of a session handler\<close>

locale session_contract =
  fixes h :: "'s session_channel_handler" and P :: "'s \<Rightarrow> bool"
  assumes unsupported: "P s \<Longrightarrow> P (OnUnsupportedChannelRequest h r t p s)"
    and failed_decode: "P s \<Longrightarrow> P (OnFailedDecodeChannelRequest h r t p e s)"
    and env: "P s \<Longrightarrow> P (snd (OnEnvRequest h r n v s))"
    and pty: "P s \<Longrightarrow> P (snd (OnPtyRequest h r t c rw w ht m s))"
    and x11: "P s \<Longrightarrow> P (snd (OnX11Request h r sc pr ck scr rf s))"
    and exec: "P s \<Longrightarrow> P (snd (OnExecRequest h r n s))"
    and shell: "P s \<Longrightarrow> P (snd (OnShell h r s))"
    and subsystem: "P s \<Longrightarrow> P (snd (OnSubsystem h r n s))"
    and signal: "P s \<Longrightarrow> P (snd (OnSignal h r n s))"
    and window: "P s \<Longrightarrow> P (snd (OnWindow h r c rw w ht s))"
    and close: "P s \<Longrightarrow> P (OnClose h s)"
    and shutdown: "P s \<Longrightarrow> P (OnShutdown h s)"
begin

lemma perform_keeps: "P s \<Longrightarrow> P (snd (perform h c s))"
  by (cases c) (simp_all add: unsupported failed_decode env pty x11 exec shell subsystem signal window close shutdown)

end

text \<open>A contract is the invariance of its property under every call.\<close>

lemma session_contractI:
  assumes "\<And>s c. P s \<Longrightarrow> P (snd (perform h c s))"
  shows "session_contract h P"
proof (unfold_locales, goal_cases)
  case (1 s r t p)
  then show ?case using assms [of s "CallUnsupported r t p"] by simp
next
  case (2 s r t p e)
  then show ?case using assms [of s "CallFailedDecode r t p e"] by simp
next
  case (3 s r n v)
  then show ?case using assms [of s "CallEnv r n v"] by simp
next
  case (4 s r t c rw w ht m)
  then show ?case using assms [of s "CallPty r t c rw w ht m"] by simp
next
  case (5 s r sc pr ck scr rf)
  then show ?case using assms [of s "CallX11 r sc pr ck scr rf"] by simp
next
  case (6 s r n)
  then show ?case using assms [of s "CallExec r n"] by simp
next
  case (7 s r)
  then show ?case using assms [of s "CallShell r"] by simp
next
  case (8 s r n)
  then show ?case using assms [of s "CallSubsystem r n"] by simp
next
  case (9 s r n)
  then show ?case using assms [of s "CallSignal r n"] by simp
next
  case (10 s r c rw w ht)
  then show ?case using assms [of s "CallWindow r c rw w ht"] by simp
next
  case (11 s)
  then show ?case using assms [of s CallClose] by simp
next
  case (12 s)
  then show ?case using assms [of s CallShutdown] by simp
qed

text \<open>A handler that acts on its part of a larger state keeps the contract of that part.\<close>

lemma lift_session_contract:
  assumes "session_contract h P"
  shows "session_contract (lift_session h) (\<lambda>s. P (snd s))"
proof (rule session_contractI)
  fix s :: "'c \<times> 'a" and c
  assume "P (snd s)"
  then have "P (snd (perform h c (snd s)))" by (rule session_contract.perform_keeps [OF assms])
  then show "P (snd (snd (perform (lift_session h) c s)))"
    using perform_lift [of h c "fst s" "snd s"] by (simp split: prod.splits)
qed

interpretation abstract_session: session_contract AbstractSessionChannelHandler P for P
  by unfold_locales (simp_all add: AbstractSessionChannelHandler_def)

section \<open>Calls in order\<close>

text \<open>The errors of a sequence of calls, and the state after them.\<close>

fun outcomes :: "'s session_channel_handler \<Rightarrow> session_call list \<Rightarrow> 's \<Rightarrow> go_error option list \<times> 's" where
  "outcomes h [] s = ([], s)"
| "outcomes h (c # cs) s = (case perform h c s of (err, s) \<Rightarrow> apfst (Cons err) (outcomes h cs s))"

lemma length_outcomes [simp]: "length (fst (outcomes h cs s)) = length cs"
  by (induction cs arbitrary: s) (simp_all split: prod.splits)

lemma outcomes_nth:
  assumes "outcomes h cs s = (errs, s')" "i < length cs" and "\<And>t. Q (fst (perform h (cs ! i) t))"
  shows "Q (errs ! i)"
  using assms
proof (induction cs arbitrary: s errs s' i)
  case (Cons c cs)
  obtain err s1 where p: "perform h c s = (err, s1)" by fastforce
  obtain rest s2 where o: "outcomes h cs s1 = (rest, s2)" by fastforce
  have errs: "errs = err # rest" using Cons.prems(1) p o by auto
  show ?case
  proof (cases i)
    case 0
    then show ?thesis using Cons.prems(3) [of s] p errs by simp
  next
    case (Suc j)
    then show ?thesis using Cons.IH [OF o, of j] Cons.prems(2,3) errs by simp
  qed
qed simp

lemma outcomes_keeps:
  assumes "session_contract h P" "P s" "outcomes h cs s = (errs, s')"
  shows "P s'"
  using assms(2,3)
proof (induction cs arbitrary: s errs)
  case (Cons c cs)
  obtain err s1 where p: "perform h c s = (err, s1)" by fastforce
  obtain rest s2 where o: "outcomes h cs s1 = (rest, s2)" by fastforce
  from p have "P s1" using session_contract.perform_keeps [OF assms(1) Cons.prems(1), of c] by simp
  with Cons.IH [of s1 rest] Cons.prems(2) p o show ?case by simp
qed simp

end
