(* ===== verification/SSH_Server.thy ===== *)
theory SSH_Server
  imports Handler_Api "HOL-Library.AList"
begin

text \<open>
  The request handling of \<open>internal/sshserver/serverImpl.go\<close> after the handshake: decoding and
  dispatch of channel and global requests, replies, session and forwarding channels, the channel
  wrapper and the shutdown registry. \<open>ssh.Unmarshal\<close> belongs to \<open>golang.org/x/crypto\<close>: it is the
  parameter \<open>um\<close>, one field for each type it is called on. A channel is given with the result of
  accepting it and the requests the client sends on it until it closes. What the server sends to
  the client is the list of \<open>server_event\<close>s. Logging is left out.
\<close>

section \<open>Requests and their decoding\<close>

record ssh_request =
  req_Type :: string
  req_WantReply :: bool
  req_Payload :: bytes

record unmarshaler =
  um_Env :: "bytes \<Rightarrow> go_error + string \<times> string"
  um_Pty :: "bytes \<Rightarrow> go_error + string \<times> uint32 \<times> uint32 \<times> uint32 \<times> uint32 \<times> bytes"
  um_Shell :: "bytes \<Rightarrow> go_error + unit"
  um_Exec :: "bytes \<Rightarrow> go_error + string"
  um_Subsystem :: "bytes \<Rightarrow> go_error + string"
  um_Window :: "bytes \<Rightarrow> go_error + uint32 \<times> uint32 \<times> uint32 \<times> uint32"
  um_Signal :: "bytes \<Rightarrow> go_error + string"
  um_X11 :: "bytes \<Rightarrow> go_error + bool \<times> string \<times> string \<times> uint32"
  um_TCPIPForward :: "bytes \<Rightarrow> go_error + string \<times> uint32"
  um_StreamLocalForward :: "bytes \<Rightarrow> go_error + string"
  um_ForwardTCPChannelOpen :: "bytes \<Rightarrow> go_error + ForwardTCPChannelOpenPayload"
  um_DirectStreamLocalChannelOpen :: "bytes \<Rightarrow> go_error + DirectStreamLocalChannelOpenPayload"

definition unmarshalEnv :: "unmarshaler \<Rightarrow> ssh_request \<Rightarrow> go_error + payload" where
  "unmarshalEnv um request = map_sum id (\<lambda>(n, v). EnvRequestPayload n v) (um_Env um (req_Payload request))"

definition unmarshalPty :: "unmarshaler \<Rightarrow> ssh_request \<Rightarrow> go_error + payload" where
  "unmarshalPty um request =
     map_sum id (\<lambda>(t, c, r, w, h, m). PtyRequestPayload t c r w h m) (um_Pty um (req_Payload request))"

definition unmarshalShell :: "unmarshaler \<Rightarrow> ssh_request \<Rightarrow> go_error + payload" where
  "unmarshalShell um request =
     (if length (req_Payload request) \<noteq> 0
      then map_sum id (\<lambda>_. ShellRequestPayload) (um_Shell um (req_Payload request))
      else Inr ShellRequestPayload)"

definition unmarshalExec :: "unmarshaler \<Rightarrow> ssh_request \<Rightarrow> go_error + payload" where
  "unmarshalExec um request = map_sum id ExecRequestPayload (um_Exec um (req_Payload request))"

definition unmarshalSubsystem :: "unmarshaler \<Rightarrow> ssh_request \<Rightarrow> go_error + payload" where
  "unmarshalSubsystem um request = map_sum id SubsystemRequestPayload (um_Subsystem um (req_Payload request))"

definition unmarshalWindow :: "unmarshaler \<Rightarrow> ssh_request \<Rightarrow> go_error + payload" where
  "unmarshalWindow um request =
     map_sum id (\<lambda>(c, r, w, h). WindowRequestPayload c r w h) (um_Window um (req_Payload request))"

definition unmarshalSignal :: "unmarshaler \<Rightarrow> ssh_request \<Rightarrow> go_error + payload" where
  "unmarshalSignal um request = map_sum id SignalRequestPayload (um_Signal um (req_Payload request))"

definition unmarshalX11 :: "unmarshaler \<Rightarrow> ssh_request \<Rightarrow> go_error + payload" where
  "unmarshalX11 um request =
     map_sum id (\<lambda>(s, p, c, n). X11RequestPayload s p c n) (um_X11 um (req_Payload request))"

definition unmarshalTCPIPForward :: "unmarshaler \<Rightarrow> ssh_request \<Rightarrow> go_error + payload" where
  "unmarshalTCPIPForward um request =
     map_sum id (\<lambda>(a, p). ForwardTCPIPRequestPayload a p) (um_TCPIPForward um (req_Payload request))"

definition unmarshalStreamLocalForward :: "unmarshaler \<Rightarrow> ssh_request \<Rightarrow> go_error + payload" where
  "unmarshalStreamLocalForward um request =
     map_sum id StreamLocalForwardRequestPayload (um_StreamLocalForward um (req_Payload request))"

text \<open>\<open>None\<close> is the \<open>nil\<close> payload of a request type the server does not know.\<close>

definition unmarshalChannelRequestPayload :: "unmarshaler \<Rightarrow> ssh_request \<Rightarrow> (go_error + payload) option" where
  "unmarshalChannelRequestPayload um request =
     (if req_Type request = RequestTypeEnv then Some (unmarshalEnv um request)
      else if req_Type request = RequestTypePty then Some (unmarshalPty um request)
      else if req_Type request = RequestTypeShell then Some (unmarshalShell um request)
      else if req_Type request = RequestTypeExec then Some (unmarshalExec um request)
      else if req_Type request = RequestTypeSubsystem then Some (unmarshalSubsystem um request)
      else if req_Type request = RequestTypeWindow then Some (unmarshalWindow um request)
      else if req_Type request = RequestTypeSignal then Some (unmarshalSignal um request)
      else if req_Type request = RequestTypeX11 then Some (unmarshalX11 um request)
      else None)"

definition unmarshalGlobalRequestPayload :: "unmarshaler \<Rightarrow> ssh_request \<Rightarrow> (go_error + payload) option" where
  "unmarshalGlobalRequestPayload um request =
     (if req_Type request = RequestTypeReverseForward then Some (unmarshalTCPIPForward um request)
      else if req_Type request = RequestTypeCancelReverseForward then Some (unmarshalTCPIPForward um request)
      else if req_Type request = RequestTypeStreamLocalForward then Some (unmarshalStreamLocalForward um request)
      else if req_Type request = RequestTypeCancelStreamLocalForward then Some (unmarshalStreamLocalForward um request)
      else None)"

section \<open>The shutdown registry\<close>

datatype shutdown_handler = ShutdownSession uint64 | ShutdownCloser forward_channel

type_synonym shutdown_registry = "(string \<times> shutdown_handler) list"

definition Register :: "string \<Rightarrow> shutdown_handler \<Rightarrow> shutdown_registry \<Rightarrow> shutdown_registry" where
  "Register key handler callbacks = AList.update key handler callbacks"

definition Unregister :: "string \<Rightarrow> shutdown_registry \<Rightarrow> shutdown_registry" where
  "Unregister key callbacks = AList.delete key callbacks"

text \<open>The handlers a shutdown calls; each runs in a goroutine of its own, and the call returns when
  all of them have.\<close>

definition Shutdown :: "shutdown_registry \<Rightarrow> shutdown_handler list" where
  "Shutdown callbacks = map snd callbacks"

section \<open>Dispatch of channel requests\<close>

record server =
  nextGlobalRequestID :: uint64
  nextChannelID :: uint64
  connMap :: "string set"
  shutdownHandlers :: shutdown_registry

datatype server_event =
    Reply bool string
  | Reject RejectionReason string
  | Accepted
  | Serve forward_channel
  | CloseForward forward_channel

definition type_assertion :: "'a go" where
  "type_assertion = Panic ''interface conversion''"

definition createReply :: "ssh_request \<Rightarrow> bool \<Rightarrow> string \<Rightarrow> server_event list" where
  "createReply request success message = (if req_WantReply request then [Reply success message] else [])"

definition onEnvRequest :: "uint64 \<Rightarrow> 's session_channel_handler \<Rightarrow> payload \<Rightarrow> 's \<Rightarrow> (go_error option \<times> 's) go" where
  "onEnvRequest requestID sessionChannel p s =
     (case p of EnvRequestPayload name v \<Rightarrow> Ret (OnEnvRequest sessionChannel requestID name v s)
      | _ \<Rightarrow> type_assertion)"

definition onPtyRequest :: "uint64 \<Rightarrow> 's session_channel_handler \<Rightarrow> payload \<Rightarrow> 's \<Rightarrow> (go_error option \<times> 's) go" where
  "onPtyRequest requestID sessionChannel p s =
     (case p of PtyRequestPayload term columns rows width height modeList \<Rightarrow>
        Ret (OnPtyRequest sessionChannel requestID term columns rows width height modeList s)
      | _ \<Rightarrow> type_assertion)"

definition onShell :: "uint64 \<Rightarrow> 's session_channel_handler \<Rightarrow> 's \<Rightarrow> (go_error option \<times> 's) go" where
  "onShell requestID sessionChannel s = Ret (OnShell sessionChannel requestID s)"

definition onExec :: "uint64 \<Rightarrow> 's session_channel_handler \<Rightarrow> payload \<Rightarrow> 's \<Rightarrow> (go_error option \<times> 's) go" where
  "onExec requestID sessionChannel p s =
     (case p of ExecRequestPayload program \<Rightarrow> Ret (OnExecRequest sessionChannel requestID program s)
      | _ \<Rightarrow> type_assertion)"

definition onSignal :: "uint64 \<Rightarrow> 's session_channel_handler \<Rightarrow> payload \<Rightarrow> 's \<Rightarrow> (go_error option \<times> 's) go" where
  "onSignal requestID sessionChannel p s =
     (case p of SignalRequestPayload sig \<Rightarrow> Ret (OnSignal sessionChannel requestID sig s)
      | _ \<Rightarrow> type_assertion)"

definition onSubsystem :: "uint64 \<Rightarrow> 's session_channel_handler \<Rightarrow> payload \<Rightarrow> 's \<Rightarrow> (go_error option \<times> 's) go" where
  "onSubsystem requestID sessionChannel p s =
     (case p of SubsystemRequestPayload name \<Rightarrow> Ret (OnSubsystem sessionChannel requestID name s)
      | _ \<Rightarrow> type_assertion)"

definition onChannel :: "uint64 \<Rightarrow> 's session_channel_handler \<Rightarrow> payload \<Rightarrow> 's \<Rightarrow> (go_error option \<times> 's) go" where
  "onChannel requestID sessionChannel p s =
     (case p of WindowRequestPayload columns rows width height \<Rightarrow>
        Ret (OnWindow sessionChannel requestID columns rows width height s)
      | _ \<Rightarrow> type_assertion)"

definition connection_missing :: go_error where
  "connection_missing = ErrorString ''Couldn't find connection in map, something terrible happened''"

definition onX11 :: "string set \<Rightarrow> string \<Rightarrow> uint64 \<Rightarrow> 's session_channel_handler \<Rightarrow> payload \<Rightarrow> 's \<Rightarrow> (go_error option \<times> 's) go" where
  "onX11 conns connectionID requestID sessionChannel p s =
     (case p of X11RequestPayload single protocol cookie screen \<Rightarrow>
        if connectionID \<notin> conns then Ret (Some connection_missing, s)
        else Ret (OnX11Request sessionChannel requestID single protocol cookie screen
                    (ReverseForwardHandler connectionID False) s)
      | _ \<Rightarrow> type_assertion)"

definition handleDecodedChannelRequest ::
    "string set \<Rightarrow> ChannelMetadata \<Rightarrow> uint64 \<Rightarrow> string \<Rightarrow> payload \<Rightarrow> 's session_channel_handler \<Rightarrow> 's \<Rightarrow>
     (go_error option \<times> 's) go" where
  "handleDecodedChannelRequest conns channelMetadata requestID requestType p sessionChannel s =
     (if requestType = RequestTypeEnv then onEnvRequest requestID sessionChannel p s
      else if requestType = RequestTypePty then onPtyRequest requestID sessionChannel p s
      else if requestType = RequestTypeShell then onShell requestID sessionChannel s
      else if requestType = RequestTypeExec then onExec requestID sessionChannel p s
      else if requestType = RequestTypeSubsystem then onSubsystem requestID sessionChannel p s
      else if requestType = RequestTypeWindow then onChannel requestID sessionChannel p s
      else if requestType = RequestTypeSignal then onSignal requestID sessionChannel p s
      else if requestType = RequestTypeX11 then
        onX11 conns (ConnectionID (Connection channelMetadata)) requestID sessionChannel p s
      else Ret (None, s))"

definition handleChannelRequest ::
    "unmarshaler \<Rightarrow> string set \<Rightarrow> ChannelMetadata \<Rightarrow> uint64 \<Rightarrow> ssh_request \<Rightarrow> 's session_channel_handler \<Rightarrow> 's \<Rightarrow>
     (server_event list \<times> 's) go" where
  "handleChannelRequest um conns channelMetadata requestID request sessionChannel s =
     (case unmarshalChannelRequestPayload um request of
        None \<Rightarrow>
          let s = OnUnsupportedChannelRequest sessionChannel requestID (req_Type request) (req_Payload request) s
          in Ret (createReply request False (''unsupported request type: '' @ req_Type request), s)
      | Some (Inl err) \<Rightarrow>
          let s = OnFailedDecodeChannelRequest sessionChannel requestID (req_Type request) (req_Payload request) err s
          in Ret (createReply request False ''failed to unmarshal payload'', s)
      | Some (Inr p) \<Rightarrow>
          go_bind (handleDecodedChannelRequest conns channelMetadata requestID (req_Type request) p sessionChannel s)
            (\<lambda>(err, s). case err of
                Some e \<Rightarrow> Ret (createReply request False (error_text e), s)
              | None \<Rightarrow> Ret (createReply request True '''', s)))"

section \<open>Session channels\<close>

record new_channel =
  ChannelType :: string
  ExtraData :: bytes
  nc_accept :: "go_error option"
  nc_requests :: "ssh_request list"

text \<open>The loop over the requests of a session channel: the request id counts up from zero at the
  width of \<open>uint64\<close>.\<close>

fun serve_requests ::
    "unmarshaler \<Rightarrow> string set \<Rightarrow> ChannelMetadata \<Rightarrow> 's session_channel_handler \<Rightarrow> uint64 \<Rightarrow> ssh_request list \<Rightarrow> 's \<Rightarrow>
     (server_event list \<times> 's) go" where
  "serve_requests um conns channelMetadata h nextRequestID [] s = Ret ([], s)"
| "serve_requests um conns channelMetadata h nextRequestID (request # requests) s =
     go_bind (handleChannelRequest um conns channelMetadata nextRequestID request h s)
       (\<lambda>(ev, s). go_bind (serve_requests um conns channelMetadata h (nextRequestID + 1) requests s)
         (\<lambda>(evs, s). Ret (ev @ evs, s)))"

definition shutdown_id :: "string \<Rightarrow> ChannelMetadata \<Rightarrow> string" where
  "shutdown_id kind channelMetadata =
     kind @ ''-'' @ ConnectionID (Connection channelMetadata) @ ''-'' @ itoa (uint (ChannelID channelMetadata))"

definition handleSessionChannel ::
    "unmarshaler \<Rightarrow> ChannelMetadata \<Rightarrow> new_channel \<Rightarrow> 's ssh_connection_handler \<Rightarrow> server \<Rightarrow> 's \<Rightarrow>
     (server_event list \<times> server \<times> 's) go" where
  "handleSessionChannel um channelMetadata newChannel conn srv s =
     (case OnSessionChannel conn channelMetadata (ExtraData newChannel) (ChannelWrapper (ChannelID channelMetadata)) s of
        (Inl rejection, s) \<Rightarrow> Ret ([Reject (rej_reason rejection) (rej_userMessage rejection)], srv, s)
      | (Inr handlerChannel, s) \<Rightarrow>
          let hid = shutdown_id ''session'' channelMetadata;
              srv = srv\<lparr>shutdownHandlers :=
                       Register hid (ShutdownSession (ChannelID channelMetadata)) (shutdownHandlers srv)\<rparr>
          in if nc_accept newChannel \<noteq> None
             then Ret ([], srv\<lparr>shutdownHandlers := Unregister hid (shutdownHandlers srv)\<rparr>, s)
             else go_bind (serve_requests um (connMap srv) channelMetadata handlerChannel 0 (nc_requests newChannel) s)
               (\<lambda>(evs, s). Ret (Accepted # evs,
                  srv\<lparr>shutdownHandlers := Unregister hid (shutdownHandlers srv)\<rparr>,
                  OnClose handlerChannel s)))"

section \<open>Forwarding channels\<close>

text \<open>Every request on a forwarding channel is refused.\<close>

fun refuse_requests :: "ssh_request list \<Rightarrow> server_event list" where
  "refuse_requests [] = []"
| "refuse_requests (request # requests) =
     (if req_WantReply request then [Reply False ''''] else []) @ refuse_requests requests"

definition serve_forward ::
    "ChannelMetadata \<Rightarrow> new_channel \<Rightarrow> (ChannelRejection + forward_channel) \<times> 's \<Rightarrow> server \<Rightarrow>
     server_event list \<times> server \<times> 's" where
  "serve_forward channelMetadata newChannel result srv =
     (case result of
        (Inl rejection, s) \<Rightarrow> ([Reject (rej_reason rejection) (rej_userMessage rejection)], srv, s)
      | (Inr handlerChannel, s) \<Rightarrow>
          let hid = shutdown_id ''direct-tcpip'' channelMetadata;
              srv = srv\<lparr>shutdownHandlers := Register hid (ShutdownCloser handlerChannel) (shutdownHandlers srv)\<rparr>
          in if nc_accept newChannel \<noteq> None
             then ([], srv\<lparr>shutdownHandlers := Unregister hid (shutdownHandlers srv)\<rparr>, s)
             else (Accepted # Serve handlerChannel # refuse_requests (nc_requests newChannel) @ [CloseForward handlerChannel],
                   srv\<lparr>shutdownHandlers := Unregister hid (shutdownHandlers srv)\<rparr>, s))"

definition handleDirectForwardingChannel ::
    "unmarshaler \<Rightarrow> ChannelMetadata \<Rightarrow> new_channel \<Rightarrow> 's ssh_connection_handler \<Rightarrow> server \<Rightarrow> 's \<Rightarrow>
     server_event list \<times> server \<times> 's" where
  "handleDirectForwardingChannel um channelMetadata newChannel conn srv s =
     (case um_ForwardTCPChannelOpen um (ExtraData newChannel) of
        Inl err \<Rightarrow> ([], srv, s)
      | Inr p \<Rightarrow> serve_forward channelMetadata newChannel
                   (OnTCPForwardChannel conn (ChannelID channelMetadata) (ConnectedAddress p) (ConnectedPort p)
                      (OriginatorAddress p) (OriginatorPort p) s) srv)"

definition handleDirectStreamLocalChannel ::
    "unmarshaler \<Rightarrow> ChannelMetadata \<Rightarrow> new_channel \<Rightarrow> 's ssh_connection_handler \<Rightarrow> server \<Rightarrow> 's \<Rightarrow>
     server_event list \<times> server \<times> 's" where
  "handleDirectStreamLocalChannel um channelMetadata newChannel conn srv s =
     (case um_DirectStreamLocalChannelOpen um (ExtraData newChannel) of
        Inl err \<Rightarrow> ([], srv, s)
      | Inr p \<Rightarrow> serve_forward channelMetadata newChannel
                   (OnDirectStreamLocal conn (ChannelID channelMetadata) (SocketPath p) s) srv)"

section \<open>New channels\<close>

datatype channel_task =
    HandleSession ChannelMetadata new_channel
  | HandleDirectTCPIP ChannelMetadata new_channel
  | HandleDirectStreamLocal ChannelMetadata new_channel

fun task_id :: "channel_task \<Rightarrow> uint64" where
  "task_id (HandleSession m nc) = ChannelID m"
| "task_id (HandleDirectTCPIP m nc) = ChannelID m"
| "task_id (HandleDirectStreamLocal m nc) = ChannelID m"

text \<open>The loop over the channels a client opens hands out the ids and starts a goroutine for each
  channel of a known type.\<close>

fun handleChannels ::
    "ConnectionAuthenticatedMetadata \<Rightarrow> new_channel list \<Rightarrow> 's ssh_connection_handler \<Rightarrow> server \<Rightarrow> 's \<Rightarrow>
     channel_task list \<times> server_event list \<times> server \<times> 's" where
  "handleChannels meta [] conn srv s = ([], [], srv, s)"
| "handleChannels meta (newChannel # channels) conn srv s =
     (let channelID = nextChannelID srv;
          srv = srv\<lparr>nextChannelID := nextChannelID srv + 1\<rparr>;
          (task, ev, s) =
            (if ChannelType newChannel = ''session''
             then ([HandleSession (Channel meta channelID) newChannel], [], s)
             else if ChannelType newChannel = ''direct-tcpip''
             then ([HandleDirectTCPIP (Channel meta channelID) newChannel], [], s)
             else if ChannelType newChannel = ''direct-streamlocal@openssh.com''
             then ([HandleDirectStreamLocal (Channel meta channelID) newChannel], [], s)
             else ([], [Reject UnknownChannelType ''unsupported channel type''],
                   OnUnsupportedChannel conn channelID (ChannelType newChannel) (ExtraData newChannel) s));
          (tasks, evs, srv, s) = handleChannels meta channels conn srv s
      in (task @ tasks, ev @ evs, srv, s))"

section \<open>Global requests\<close>

definition handleKeepAliveRequest :: "ssh_request \<Rightarrow> server_event list" where
  "handleKeepAliveRequest req = (if req_WantReply req then [Reply False ''''] else [])"

definition onForwardTCPIP ::
    "string set \<Rightarrow> ConnectionAuthenticatedMetadata \<Rightarrow> payload \<Rightarrow> 's ssh_connection_handler \<Rightarrow> 's \<Rightarrow> (go_error option \<times> 's) go" where
  "onForwardTCPIP conns meta p conn s =
     (case p of ForwardTCPIPRequestPayload fwdAddress fwdPort \<Rightarrow>
        if ConnectionID meta \<notin> conns then Ret (Some connection_missing, s)
        else Ret (OnRequestTCPReverseForward conn fwdAddress fwdPort (ReverseForwardHandler (ConnectionID meta) True) s)
      | _ \<Rightarrow> type_assertion)"

definition onForwardStreamLocal ::
    "string set \<Rightarrow> ConnectionAuthenticatedMetadata \<Rightarrow> payload \<Rightarrow> 's ssh_connection_handler \<Rightarrow> 's \<Rightarrow> (go_error option \<times> 's) go" where
  "onForwardStreamLocal conns meta p conn s =
     (case p of StreamLocalForwardRequestPayload path \<Rightarrow>
        if ConnectionID meta \<notin> conns then Ret (Some connection_missing, s)
        else Ret (OnRequestStreamLocal conn path (ReverseForwardHandler (ConnectionID meta) True) s)
      | _ \<Rightarrow> type_assertion)"

definition onCancelForward :: "payload \<Rightarrow> 's ssh_connection_handler \<Rightarrow> 's \<Rightarrow> (go_error option \<times> 's) go" where
  "onCancelForward p conn s =
     (case p of ForwardTCPIPRequestPayload fwdAddress fwdPort \<Rightarrow>
        Ret (OnRequestCancelTCPReverseForward conn fwdAddress fwdPort s)
      | _ \<Rightarrow> type_assertion)"

definition onCancelForwardStreamLocal :: "payload \<Rightarrow> 's ssh_connection_handler \<Rightarrow> 's \<Rightarrow> (go_error option \<times> 's) go" where
  "onCancelForwardStreamLocal p conn s =
     (case p of StreamLocalForwardRequestPayload path \<Rightarrow> Ret (OnRequestCancelStreamLocal conn path s)
      | _ \<Rightarrow> type_assertion)"

definition handleDecodedGlobalRequest ::
    "string set \<Rightarrow> ConnectionAuthenticatedMetadata \<Rightarrow> string \<Rightarrow> payload \<Rightarrow> 's ssh_connection_handler \<Rightarrow> 's \<Rightarrow>
     (go_error option \<times> 's) go" where
  "handleDecodedGlobalRequest conns meta requestType p conn s =
     (if requestType = RequestTypeReverseForward then onForwardTCPIP conns meta p conn s
      else if requestType = RequestTypeCancelReverseForward then onCancelForward p conn s
      else if requestType = RequestTypeStreamLocalForward then onForwardStreamLocal conns meta p conn s
      else if requestType = RequestTypeCancelStreamLocalForward then onCancelForwardStreamLocal p conn s
      else Ret (None, s))"

definition handleGlobalRequest ::
    "unmarshaler \<Rightarrow> string set \<Rightarrow> ConnectionAuthenticatedMetadata \<Rightarrow> uint64 \<Rightarrow> 's ssh_connection_handler \<Rightarrow> ssh_request \<Rightarrow> 's \<Rightarrow>
     (server_event list \<times> 's) go" where
  "handleGlobalRequest um conns meta requestID conn req s =
     (case unmarshalGlobalRequestPayload um req of
        None \<Rightarrow>
          let s = OnUnsupportedGlobalRequest conn requestID (req_Type req) (req_Payload req) s
          in Ret (createReply req False (''unsupported global request type: '' @ req_Type req), s)
      | Some (Inl err) \<Rightarrow>
          let s = OnFailedDecodeGlobalRequest conn requestID (req_Type req) (req_Payload req) err s
          in Ret (createReply req False ''failed to unmarshal payload'', s)
      | Some (Inr p) \<Rightarrow>
          go_bind (handleDecodedGlobalRequest conns meta (req_Type req) p conn s)
            (\<lambda>(err, s). case err of
                Some e \<Rightarrow> Ret (createReply req False (error_text e), s)
              | None \<Rightarrow> Ret (createReply req True '''', s)))"

fun handleGlobalRequests ::
    "unmarshaler \<Rightarrow> ConnectionAuthenticatedMetadata \<Rightarrow> ssh_request list \<Rightarrow> 's ssh_connection_handler \<Rightarrow> server \<Rightarrow> 's \<Rightarrow>
     (server_event list \<times> server \<times> 's) go" where
  "handleGlobalRequests um meta [] conn srv s = Ret ([], srv, s)"
| "handleGlobalRequests um meta (request # requests) conn srv s =
     (let requestID = nextGlobalRequestID srv;
          srv = srv\<lparr>nextGlobalRequestID := nextGlobalRequestID srv + 1\<rparr>
      in go_bind (if req_Type request = ''keepalive@openssh.com'' then Ret (handleKeepAliveRequest request, s)
                  else handleGlobalRequest um (connMap srv) meta requestID conn request s)
           (\<lambda>(ev, s). go_bind (handleGlobalRequests um meta requests conn srv s)
             (\<lambda>(evs, srv, s). Ret (ev @ evs, srv, s))))"

section \<open>Channels opened by the server\<close>

datatype open_payload =
    ForwardedTCP string uint32 string uint32
  | ForwardedStreamLocal string string
  | X11ChanOpen string uint32

text \<open>\<open>ssh.Marshal\<close> and the connection's \<open>OpenChannel\<close> are parameters. A handler without a server
  pointer dereferences \<open>nil\<close> when it reserves the channel id.\<close>

definition openChannel ::
    "(string \<Rightarrow> string \<Rightarrow> bytes \<Rightarrow> go_error + uint64) \<Rightarrow> reverse_forward \<Rightarrow> string \<Rightarrow> bytes \<Rightarrow> server \<Rightarrow>
     ((go_error + forward_channel \<times> uint64) \<times> server) go" where
  "openChannel open_channel rf channelType p srv =
     (case rf of
        ReverseForwardHandler conn has_server \<Rightarrow>
          if \<not> has_server then Panic ''nil pointer dereference''
          else let channelId = nextChannelID srv;
                   srv = srv\<lparr>nextChannelID := nextChannelID srv + 1\<rparr>
               in (case open_channel conn channelType p of
                     Inl err \<Rightarrow> Ret (Inl err, srv)
                   | Inr c \<Rightarrow> Ret (Inr (SSHChannel c, channelId), srv))
      | ReverseHandlerProxy _ _ \<Rightarrow> type_assertion)"

definition NewChannelTCP where
  "NewChannelTCP marshal open_channel rf connectedAddress connectedPort originatorAddress originatorPort srv =
     openChannel open_channel rf ''forwarded-tcpip''
       (marshal (ForwardedTCP connectedAddress connectedPort originatorAddress originatorPort)) srv"

definition NewChannelUnix where
  "NewChannelUnix marshal open_channel rf path srv =
     openChannel open_channel rf ''forwarded-streamlocal@openssh.com'' (marshal (ForwardedStreamLocal path '''')) srv"

definition NewChannelX11 where
  "NewChannelX11 marshal open_channel rf originatorAddress originatorPort srv =
     openChannel open_channel rf ''x11'' (marshal (X11ChanOpen originatorAddress originatorPort)) srv"

section \<open>The channel wrapper\<close>

datatype channel_msg = MsgExitStatus uint32 | MsgExitSignal string bool string string | MsgEOF | MsgClose

text \<open>\<open>channel_open\<close> says that the \<open>channel\<close> pointer is set; \<open>sent\<close> is what went to the client.\<close>

record channel_wrapper =
  channel_open :: bool
  exitSent :: bool
  exitSignalSent :: bool
  closedWrite :: bool
  closed :: bool
  sent :: "channel_msg list"

definition new_channel_wrapper :: channel_wrapper where
  "new_channel_wrapper = \<lparr>channel_open = False, exitSent = False, exitSignalSent = False,
     closedWrite = False, closed = False, sent = []\<rparr>"

definition ExitStatus :: "uint32 \<Rightarrow> channel_wrapper \<Rightarrow> channel_wrapper go" where
  "ExitStatus exitCode c =
     (if \<not> channel_open c then Panic ''BUG: exit status sent before channel is open''
      else if exitSent c \<or> closed c then Ret c
      else Ret (c\<lparr>exitSent := True, sent := sent c @ [MsgExitStatus exitCode]\<rparr>))"

definition ExitSignal :: "string \<Rightarrow> bool \<Rightarrow> string \<Rightarrow> string \<Rightarrow> channel_wrapper \<Rightarrow> channel_wrapper go" where
  "ExitSignal sig coreDumped errorMessage languageTag c =
     (if \<not> channel_open c then Panic ''BUG: exit signal sent before channel is open''
      else if exitSignalSent c \<or> closed c then Ret c
      else Ret (c\<lparr>exitSignalSent := True, sent := sent c @ [MsgExitSignal sig coreDumped errorMessage languageTag]\<rparr>))"

definition CloseWrite :: "channel_wrapper \<Rightarrow> channel_wrapper go" where
  "CloseWrite c =
     (if \<not> channel_open c then Panic ''BUG: channel closed for writing before channel is open''
      else if closed c \<or> closedWrite c then Ret c
      else Ret (c\<lparr>sent := sent c @ [MsgEOF]\<rparr>))"

definition Close_wrapper :: "channel_wrapper \<Rightarrow> channel_wrapper go" where
  "Close_wrapper c =
     (if \<not> channel_open c then Panic ''BUG: channel closed before channel is open''
      else Ret (c\<lparr>closed := True, sent := sent c @ [MsgClose]\<rparr>))"

definition onClose :: "channel_wrapper \<Rightarrow> channel_wrapper go" where
  "onClose c = Ret (c\<lparr>closed := True\<rparr>)"

datatype wrapper_op =
    OpExitStatus uint32
  | OpExitSignal string bool string string
  | OpCloseWrite
  | OpClose
  | OpOnClose

fun wrapper_step :: "wrapper_op \<Rightarrow> channel_wrapper \<Rightarrow> channel_wrapper go" where
  "wrapper_step (OpExitStatus n) = ExitStatus n"
| "wrapper_step (OpExitSignal g d e l) = ExitSignal g d e l"
| "wrapper_step OpCloseWrite = CloseWrite"
| "wrapper_step OpClose = Close_wrapper"
| "wrapper_step OpOnClose = onClose"

fun wrapper_run :: "wrapper_op list \<Rightarrow> channel_wrapper \<Rightarrow> channel_wrapper go" where
  "wrapper_run [] c = Ret c"
| "wrapper_run (op # ops) c = go_bind (wrapper_step op c) (wrapper_run ops)"

section \<open>Specification of the dispatch\<close>

text \<open>The one call a decoded request makes on its handler.\<close>

fun payload_call :: "string \<Rightarrow> uint64 \<Rightarrow> payload \<Rightarrow> session_call" where
  "payload_call cid r (EnvRequestPayload n v) = CallEnv r n v"
| "payload_call cid r (PtyRequestPayload t c rw w ht m) = CallPty r t c rw w ht m"
| "payload_call cid r ShellRequestPayload = CallShell r"
| "payload_call cid r (ExecRequestPayload p) = CallExec r p"
| "payload_call cid r (SubsystemRequestPayload n) = CallSubsystem r n"
| "payload_call cid r (WindowRequestPayload c rw w ht) = CallWindow r c rw w ht"
| "payload_call cid r (SignalRequestPayload n) = CallSignal r n"
| "payload_call cid r (X11RequestPayload sc p ck scr) = CallX11 r sc p ck scr (ReverseForwardHandler cid False)"
| "payload_call cid r (ForwardTCPIPRequestPayload a p) = CallUnsupported r [] []"
| "payload_call cid r (StreamLocalForwardRequestPayload p) = CallUnsupported r [] []"

definition request_call :: "unmarshaler \<Rightarrow> string \<Rightarrow> uint64 \<Rightarrow> ssh_request \<Rightarrow> session_call" where
  "request_call um cid r request =
     (case unmarshalChannelRequestPayload um request of
        None \<Rightarrow> CallUnsupported r (req_Type request) (req_Payload request)
      | Some (Inl err) \<Rightarrow> CallFailedDecode r (req_Type request) (req_Payload request) err
      | Some (Inr p) \<Rightarrow> payload_call cid r p)"

text \<open>A request succeeds when its type is known, its payload decodes and its call returns no error.\<close>

definition decodes :: "unmarshaler \<Rightarrow> ssh_request \<Rightarrow> bool" where
  "decodes um request = (case unmarshalChannelRequestPayload um request of Some (Inr p) \<Rightarrow> True | _ \<Rightarrow> False)"

definition failure_text :: "unmarshaler \<Rightarrow> ssh_request \<Rightarrow> go_error option \<Rightarrow> string" where
  "failure_text um request err =
     (case unmarshalChannelRequestPayload um request of
        None \<Rightarrow> ''unsupported request type: '' @ req_Type request
      | Some (Inl e) \<Rightarrow> ''failed to unmarshal payload''
      | Some (Inr p) \<Rightarrow> (case err of None \<Rightarrow> '''' | Some e \<Rightarrow> error_text e))"

section \<open>Properties of the dispatch\<close>

lemmas unmarshal_defs = unmarshalEnv_def unmarshalPty_def unmarshalShell_def unmarshalExec_def
  unmarshalSubsystem_def unmarshalWindow_def unmarshalSignal_def unmarshalX11_def
  unmarshalTCPIPForward_def unmarshalStreamLocalForward_def

lemmas dispatch_defs = onEnvRequest_def onPtyRequest_def onShell_def onExec_def onSignal_def
  onSubsystem_def onChannel_def onX11_def

lemma map_sum_eq_Inr: "(map_sum f g x = Inr y) = (\<exists>z. x = Inr z \<and> y = g z)"
  by (cases x) auto

lemma decoded_payload_shape:
  assumes "unmarshalChannelRequestPayload um request = Some (Inr p)"
  shows "(req_Type request = RequestTypeEnv \<and> (\<exists>n v. p = EnvRequestPayload n v))
       \<or> (req_Type request = RequestTypePty \<and> (\<exists>t c r w h m. p = PtyRequestPayload t c r w h m))
       \<or> (req_Type request = RequestTypeShell \<and> p = ShellRequestPayload)
       \<or> (req_Type request = RequestTypeExec \<and> (\<exists>n. p = ExecRequestPayload n))
       \<or> (req_Type request = RequestTypeSubsystem \<and> (\<exists>n. p = SubsystemRequestPayload n))
       \<or> (req_Type request = RequestTypeWindow \<and> (\<exists>c r w h. p = WindowRequestPayload c r w h))
       \<or> (req_Type request = RequestTypeSignal \<and> (\<exists>n. p = SignalRequestPayload n))
       \<or> (req_Type request = RequestTypeX11 \<and> (\<exists>sc pr ck n. p = X11RequestPayload sc pr ck n))"
  using assms unfolding unmarshalChannelRequestPayload_def unmarshal_defs
  by (simp add: map_sum_eq_Inr split: if_splits) auto

lemma dispatch_decoded:
  assumes "unmarshalChannelRequestPayload um request = Some (Inr p)"
    and "ConnectionID (Connection meta) \<in> conns"
  shows "handleDecodedChannelRequest conns meta r (req_Type request) p h s =
         Ret (perform h (payload_call (ConnectionID (Connection meta)) r p) s)"
  using decoded_payload_shape [OF assms(1)] assms(2)
  by (elim disjE conjE exE) (simp_all add: handleDecodedChannelRequest_def dispatch_defs)

lemma handleChannelRequest_spec:
  assumes "ConnectionID (Connection meta) \<in> conns"
  shows "handleChannelRequest um conns meta r request h s =
         (let (err, s') = perform h (request_call um (ConnectionID (Connection meta)) r request) s;
              ok = (decodes um request \<and> err = None)
          in Ret (createReply request ok (if ok then '''' else failure_text um request err), s'))"
proof (cases "unmarshalChannelRequestPayload um request")
  case None
  then show ?thesis by (simp add: handleChannelRequest_def request_call_def decodes_def failure_text_def)
next
  case (Some res)
  then show ?thesis
    by (cases res)
      (auto simp: handleChannelRequest_def request_call_def decodes_def failure_text_def
        dispatch_decoded [OF _ assms] split: option.splits prod.splits)
qed

subsection \<open>A channel's requests in order\<close>

fun calls_from :: "unmarshaler \<Rightarrow> string \<Rightarrow> uint64 \<Rightarrow> ssh_request list \<Rightarrow> session_call list" where
  "calls_from um cid r [] = []"
| "calls_from um cid r (request # requests) = request_call um cid r request # calls_from um cid (r + 1) requests"

lemma call_id_payload_call [simp]: "call_id (payload_call cid r p) = Some r"
  by (cases p) simp_all

lemma call_id_request_call [simp]: "call_id (request_call um cid r request) = Some r"
  by (simp add: request_call_def split: option.splits sum.splits)

lemma call_ids_calls_from:
  "map call_id (calls_from um cid r requests) = map (\<lambda>i. Some (r + word_of_nat i)) [0..<length requests]"
proof (induction requests arbitrary: r)
  case (Cons request requests)
  have "[0..<Suc (length requests)] = 0 # map Suc [0..<length requests]"
    by (simp add: map_Suc_upt upt_conv_Cons del: upt_Suc)
  then show ?case
    using Cons.IH [of "r + 1"] by (simp del: upt_Suc add: ac_simps comp_def)
qed simp

lemma nth_calls_from:
  "i < length requests \<Longrightarrow>
   calls_from um cid r requests ! i = request_call um cid (r + word_of_nat i) (requests ! i)"
proof (induction requests arbitrary: r i)
  case (Cons request requests)
  then show ?case by (cases i) (simp_all add: ac_simps)
qed simp

lemma length_calls_from [simp]: "length (calls_from um cid r requests) = length requests"
  by (induction requests arbitrary: r) simp_all

lemma length_createReply: "length (createReply request ok m) = (if req_WantReply request then 1 else 0)"
  by (simp add: createReply_def)

lemma serve_requests_recorder:
  assumes "ConnectionID (Connection meta) \<in> conns"
  shows "\<exists>evs s'. serve_requests um conns meta (recorder h) r requests (tr, s) =
           Ret (evs, tr @ calls_from um (ConnectionID (Connection meta)) r requests, s')
         \<and> length evs = length (filter req_WantReply requests)"
proof (induction requests arbitrary: r tr s)
  case (Cons request requests)
  let ?call = "request_call um (ConnectionID (Connection meta)) r request"
  obtain err s1 where p: "perform h ?call s = (err, s1)" by fastforce
  obtain evs s' where rest: "serve_requests um conns meta (recorder h) (r + 1) requests (tr @ [?call], s1) =
        Ret (evs, (tr @ [?call]) @ calls_from um (ConnectionID (Connection meta)) (r + 1) requests, s')"
    and len: "length evs = length (filter req_WantReply requests)"
    using Cons.IH by blast
  show ?case
    using rest len by (simp add: handleChannelRequest_spec [OF assms] perform_recorder p Let_def length_createReply)
qed simp

definition replies_from :: "unmarshaler \<Rightarrow> ssh_request list \<Rightarrow> go_error option list \<Rightarrow> server_event list" where
  "replies_from um requests errs =
     concat (map2 (\<lambda>request err.
       let ok = (decodes um request \<and> err = None) in createReply request ok (if ok then '''' else failure_text um request err)) requests errs)"

lemma serve_requests_outcomes:
  assumes "ConnectionID (Connection meta) \<in> conns"
  shows "serve_requests um conns meta h r requests s =
     (case outcomes h (calls_from um (ConnectionID (Connection meta)) r requests) s of
        (errs, s') \<Rightarrow> Ret (replies_from um requests errs, s'))"
  by (induction requests arbitrary: r s)
    (simp_all add: replies_from_def handleChannelRequest_spec [OF assms] Let_def split: prod.splits)

section \<open>The registry of shut-down handlers\<close>

interpretation shutdown_registry: registry Register Unregister map_of
  by unfold_locales (auto simp: Register_def Unregister_def update_conv' delete_conv')

lemma distinct_Register: "distinct (map fst r) \<Longrightarrow> distinct (map fst (Register k v r))"
  by (simp add: Register_def distinct_update)

lemma distinct_Unregister: "distinct (map fst r) \<Longrightarrow> distinct (map fst (Unregister k r))"
  by (simp add: Unregister_def distinct_delete)

section \<open>Session handlers behind the server\<close>

context session_contract
begin

lemma handleChannelRequest_keeps:
  assumes "ConnectionID (Connection meta) \<in> conns" "P s"
    and "handleChannelRequest um conns meta r request h s = Ret (ev, s')"
  shows "P s'"
  using assms perform_keeps [OF assms(2)]
  by (auto simp: handleChannelRequest_spec Let_def split: prod.splits) (metis snd_conv)

lemma serve_requests_keeps:
  assumes "ConnectionID (Connection meta) \<in> conns" "P s"
    and "serve_requests um conns meta h r requests s = Ret (evs, s')"
  shows "P s'"
  using assms(2,3)
proof (induction requests arbitrary: r s evs)
  case (Cons request requests)
  from Cons.prems(2) obtain ev s1 evs'
    where one: "handleChannelRequest um conns meta r request h s = Ret (ev, s1)"
      and rest: "serve_requests um conns meta h (r + 1) requests s1 = Ret (evs', s')"
    by (cases "handleChannelRequest um conns meta r request h s")
      (auto elim!: go_bind_RetE)
  show ?case
    using Cons.IH [OF handleChannelRequest_keeps [OF assms(1) Cons.prems(1) one] rest] .
qed simp

end

lemma serve_requests_returns:
  assumes "ConnectionID (Connection meta) \<in> conns"
  shows "\<exists>evs s'. serve_requests um conns meta h r requests s = Ret (evs, s')"
proof (induction requests arbitrary: r s)
  case (Cons request requests)
  obtain ev s1 where "handleChannelRequest um conns meta r request h s = Ret (ev, s1)"
    by (cases "perform h (request_call um (ConnectionID (Connection meta)) r request) s")
      (simp add: handleChannelRequest_spec [OF assms] Let_def)
  moreover obtain evs s' where "serve_requests um conns meta h (r + 1) requests s1 = Ret (evs, s')"
    using Cons.IH by blast
  ultimately show ?case by simp
qed simp

section \<open>Session channels\<close>

context session_contract
begin

lemma handleSessionChannel_keeps:
  assumes "OnSessionChannel conn meta (ExtraData nc) (ChannelWrapper (ChannelID meta)) s = (Inr h, s1)"
    and "ConnectionID (Connection meta) \<in> connMap srv" "P s1"
    and "handleSessionChannel um meta nc conn srv s = Ret (evs, srv', s')"
  shows "P s'"
  using assms
  by (auto simp: handleSessionChannel_def Let_def split: if_splits elim!: go_bind_RetE
      intro: close serve_requests_keeps)

end

lemma handleSessionChannel_returns:
  assumes "ConnectionID (Connection meta) \<in> connMap srv"
  shows "\<exists>evs srv' s'. handleSessionChannel um meta nc conn srv s = Ret (evs, srv', s')"
proof -
  obtain res s1 where opened:
    "OnSessionChannel conn meta (ExtraData nc) (ChannelWrapper (ChannelID meta)) s = (res, s1)" by fastforce
  show ?thesis
  proof (cases res)
    case (Inr h)
    obtain evs s' where "serve_requests um (connMap srv) meta h 0 (nc_requests nc) s1 = Ret (evs, s')"
      using serve_requests_returns [OF assms, of um h 0 "nc_requests nc" s1] by blast
    with opened Inr show ?thesis by (simp add: handleSessionChannel_def Let_def)
  qed (use opened in \<open>simp add: handleSessionChannel_def\<close>)
qed

lemma handleSessionChannel_rejected:
  assumes "OnSessionChannel conn meta (ExtraData nc) (ChannelWrapper (ChannelID meta)) s = (Inl rej, s')"
  shows "handleSessionChannel um meta nc conn srv s =
           Ret ([Reject (rej_reason rej) (rej_userMessage rej)], srv, s')"
  using assms by (simp add: handleSessionChannel_def)

lemma handleSessionChannel_recorder:
  assumes "OnSessionChannel conn meta (ExtraData nc) (ChannelWrapper (ChannelID meta)) s = (Inr (recorder h), (tr, s1))"
    and "ConnectionID (Connection meta) \<in> connMap srv"
    and "nc_accept nc = None"
    and "map_of (shutdownHandlers srv) (shutdown_id ''session'' meta) = None"
  shows "\<exists>evs reg s'.
     handleSessionChannel um meta nc conn srv s =
       Ret (Accepted # evs, srv\<lparr>shutdownHandlers := reg\<rparr>,
            (tr @ calls_from um (ConnectionID (Connection meta)) 0 (nc_requests nc) @ [CallClose], s'))
     \<and> map_of reg = map_of (shutdownHandlers srv)
     \<and> length evs = length (filter req_WantReply (nc_requests nc))"
proof -
  obtain evs s2 where run: "serve_requests um (connMap srv) meta (recorder h) 0 (nc_requests nc) (tr, s1) =
      Ret (evs, tr @ calls_from um (ConnectionID (Connection meta)) 0 (nc_requests nc), s2)"
    and len: "length evs = length (filter req_WantReply (nc_requests nc))"
    using serve_requests_recorder [OF assms(2), of um h 0 "nc_requests nc" tr s1] by blast
  show ?thesis
    using assms(1,3) run len shutdown_registry.register_unregister [OF assms(4)]
    by (simp add: handleSessionChannel_def Let_def handler_simps noted_unit_def) blast
qed

section \<open>Channel ids\<close>

fun ids_from :: "uint64 \<Rightarrow> nat \<Rightarrow> uint64 list" where
  "ids_from b 0 = []"
| "ids_from b (Suc n) = b # ids_from (b + 1) n"

lemma ids_from_eq: "ids_from b n = map (\<lambda>i. b + word_of_nat i) [0..<n]"
proof (induction n arbitrary: b)
  case (Suc n)
  have "[0..<Suc n] = 0 # map Suc [0..<n]" by (simp add: map_Suc_upt upt_conv_Cons del: upt_Suc)
  then show ?case using Suc.IH [of "b + 1"] by (simp del: upt_Suc add: ac_simps comp_def)
qed simp

lemma word_of_nat_inj64: "x < 2 ^ 64 \<Longrightarrow> y < 2 ^ 64 \<Longrightarrow> (word_of_nat x :: uint64) = word_of_nat y \<Longrightarrow> x = y"
  by (simp add: word_of_nat_eq_iff take_bit_nat_eq_self)

lemma distinct_ids_from: "n \<le> 2 ^ 64 \<Longrightarrow> distinct (ids_from b n)"
  unfolding ids_from_eq distinct_map by (auto intro!: inj_onI word_of_nat_inj64)

lemma handleChannels_ids:
  assumes "handleChannels meta chans conn srv s = (tasks, evs, srv', s')"
  shows "subseq (map task_id tasks) (ids_from (nextChannelID srv) (length chans))"
    and "nextChannelID srv' = nextChannelID srv + word_of_nat (length chans)"
  using assms
proof (induction chans arbitrary: srv s tasks evs)
  case (Cons nc chans)
  { case 1
    then show ?case
      by (auto simp: Let_def Channel_def split: prod.splits if_splits dest!: Cons.IH(1))
  next
    case 2
    then show ?case
      by (auto simp: Let_def split: prod.splits if_splits dest!: Cons.IH(2))
  }
qed simp_all

section \<open>The channel wrapper\<close>

definition quiet_after_close :: "channel_msg list \<Rightarrow> bool" where
  "quiet_after_close ms = list_all (\<lambda>m. m = MsgClose) (dropWhile (\<lambda>m. m \<noteq> MsgClose) ms)"

fun is_exit_status :: "channel_msg \<Rightarrow> bool" where
  "is_exit_status (MsgExitStatus n) = True"
| "is_exit_status _ = False"

fun is_exit_signal :: "channel_msg \<Rightarrow> bool" where
  "is_exit_signal (MsgExitSignal g d e l) = True"
| "is_exit_signal _ = False"

definition wrapper_inv :: "channel_wrapper \<Rightarrow> bool" where
  "wrapper_inv c \<longleftrightarrow> channel_open c
     \<and> length (filter is_exit_status (sent c)) = (if exitSent c then 1 else 0)
     \<and> length (filter is_exit_signal (sent c)) = (if exitSignalSent c then 1 else 0)
     \<and> (MsgClose \<in> set (sent c) \<longrightarrow> closed c)
     \<and> quiet_after_close (sent c)"

lemma quiet_close [simp]: "quiet_after_close ms \<Longrightarrow> quiet_after_close (ms @ [MsgClose])"
  by (induction ms) (auto simp: quiet_after_close_def)

lemma quiet_open [simp]: "MsgClose \<notin> set ms \<Longrightarrow> quiet_after_close (ms @ [m])"
  by (induction ms) (auto simp: quiet_after_close_def)

lemma wrapper_step_inv:
  "wrapper_inv c \<Longrightarrow> \<exists>c'. wrapper_step op c = Ret c' \<and> wrapper_inv c'"
  by (cases op)
    (auto simp: wrapper_inv_def ExitStatus_def ExitSignal_def CloseWrite_def Close_wrapper_def onClose_def)

lemma wrapper_run_inv:
  "wrapper_inv c \<Longrightarrow> \<exists>c'. wrapper_run ops c = Ret c' \<and> wrapper_inv c'"
proof (induction ops arbitrary: c)
  case (Cons op ops)
  then show ?case using wrapper_step_inv [OF Cons.prems, of op] by auto
qed simp

section \<open>Correctness of the server's request handling\<close>

lemma dispatch_global_decoded:
  assumes "unmarshalGlobalRequestPayload um req = Some (Inr p)"
  shows "returns (handleDecodedGlobalRequest conns meta (req_Type req) p conn s)"
  using assms unfolding unmarshalGlobalRequestPayload_def
  by (auto simp: handleDecodedGlobalRequest_def unmarshal_defs map_sum_eq_Inr onForwardTCPIP_def
      onForwardStreamLocal_def onCancelForward_def onCancelForwardStreamLocal_def split: if_splits)

lemma handleGlobalRequest_returns:
  "\<exists>ev s'. handleGlobalRequest um conns meta r conn req s = Ret (ev, s')
         \<and> length ev = (if req_WantReply req then 1 else 0)"
proof (cases "unmarshalGlobalRequestPayload um req")
  case None
  then show ?thesis by (simp add: handleGlobalRequest_def length_createReply)
next
  case (Some res)
  show ?thesis
  proof (cases res)
    case (Inl e)
    with Some show ?thesis by (simp add: handleGlobalRequest_def length_createReply)
  next
    case (Inr p)
    with Some dispatch_global_decoded [of um req p conns meta conn s] show ?thesis
      by (auto simp: handleGlobalRequest_def createReply_def returns_iff split: option.splits)
  qed
qed

lemma handleGlobalRequests_returns:
  "\<exists>evs srv' s'. handleGlobalRequests um meta requests conn srv s = Ret (evs, srv', s')
     \<and> length evs = length (filter req_WantReply requests)
     \<and> srv' = srv\<lparr>nextGlobalRequestID := nextGlobalRequestID srv + word_of_nat (length requests)\<rparr>"
proof (induction requests arbitrary: srv s)
  case (Cons req requests)
  let ?srv = "srv\<lparr>nextGlobalRequestID := nextGlobalRequestID srv + 1\<rparr>"
  obtain ev s1 where one: "(if req_Type req = ''keepalive@openssh.com'' then Ret (handleKeepAliveRequest req, s)
        else handleGlobalRequest um (connMap ?srv) meta (nextGlobalRequestID srv) conn req s) = Ret (ev, s1)"
    and len: "length ev = (if req_WantReply req then 1 else 0)"
    using handleGlobalRequest_returns [of um "connMap ?srv" meta "nextGlobalRequestID srv" conn req s]
    by (cases "req_Type req = ''keepalive@openssh.com''") (auto simp: handleKeepAliveRequest_def)
  obtain evs srv' s' where rest: "handleGlobalRequests um meta requests conn ?srv s1 = Ret (evs, srv', s')"
    and "length evs = length (filter req_WantReply requests)"
    and "srv' = ?srv\<lparr>nextGlobalRequestID := nextGlobalRequestID ?srv + word_of_nat (length requests)\<rparr>"
    using Cons.IH [of ?srv s1] by blast
  moreover have "handleGlobalRequests um meta (req # requests) conn srv s = Ret (ev @ evs, srv', s')"
    using one rest by (simp only: handleGlobalRequests.simps Let_def go_bind.simps prod.case)
  ultimately show ?case
    using len by (simp add: ac_simps)
qed simp

lemma serve_forward_registry:
  assumes "map_of (shutdownHandlers srv) (shutdown_id ''direct-tcpip'' meta) = None"
    and "serve_forward meta nc res srv = (evs, srv', s')"
  shows "map_of (shutdownHandlers srv') = map_of (shutdownHandlers srv)"
  using assms(2) shutdown_registry.register_unregister [OF assms(1)]
  by (auto simp: serve_forward_def Let_def split: sum.splits prod.splits if_splits)

lemma x11_payload_call: "payload_call cid r p = CallX11 r' sc pr ck scr rf \<Longrightarrow> rf = ReverseForwardHandler cid False"
  by (cases p) auto

lemma x11_calls_from:
  "CallX11 r' sc pr ck scr rf \<in> set (calls_from um cid r requests) \<Longrightarrow> rf = ReverseForwardHandler cid False"
  by (induction requests arbitrary: r)
    (auto simp: request_call_def dest!: x11_payload_call [OF sym] split: option.splits sum.splits)

text \<open>A concrete client for the witnesses: every payload decodes to the same command.\<close>

definition sample_meta :: ChannelMetadata where
  "sample_meta = Channel (Authenticated (StartAuthentication
     \<lparr>RemoteAddr = \<lparr>IP = [127, 0, 0, 1], Port = 22\<rparr>, ConnectionID = ''c1'', Metadata = None,
      Environment = None, Files = None\<rparr> ''SSH-2.0-Go'' ''foo'') ''foo'') 0"

definition sample_um :: unmarshaler where
  "sample_um = \<lparr>um_Env = (\<lambda>b. Inr (''LANG'', ''C'')), um_Pty = (\<lambda>b. Inl (ErrorString ''short read'')),
     um_Shell = (\<lambda>b. Inr ()), um_Exec = (\<lambda>b. Inr ''ls''), um_Subsystem = (\<lambda>b. Inr ''sftp''),
     um_Window = (\<lambda>b. Inr (80, 25, 0, 0)), um_Signal = (\<lambda>b. Inr ''TERM''),
     um_X11 = (\<lambda>b. Inr (False, ''p'', ''c'', 0)), um_TCPIPForward = (\<lambda>b. Inr (''localhost'', 80)),
     um_StreamLocalForward = (\<lambda>b. Inr ''/tmp/s''),
     um_ForwardTCPChannelOpen = (\<lambda>b. Inl (ErrorString ''short read'')),
     um_DirectStreamLocalChannelOpen = (\<lambda>b. Inl (ErrorString ''short read''))\<rparr>"

definition sample_requests :: "ssh_request list" where
  "sample_requests =
     [\<lparr>req_Type = ''env'', req_WantReply = False, req_Payload = []\<rparr>,
      \<lparr>req_Type = ''x11-req'', req_WantReply = True, req_Payload = []\<rparr>,
      \<lparr>req_Type = ''exec'', req_WantReply = True, req_Payload = []\<rparr>]"

definition sample_srv :: server where
  "sample_srv = \<lparr>nextGlobalRequestID = 0, nextChannelID = 1, connMap = {''c1''}, shutdownHandlers = []\<rparr>"

definition sample_channel :: new_channel where
  "sample_channel = \<lparr>ChannelType = ''session'', ExtraData = [], nc_accept = None, nc_requests = sample_requests\<rparr>"

definition sample_conn :: "'s session_channel_handler \<Rightarrow> 's ssh_connection_handler" where
  "sample_conn h = \<lparr>
     OnUnsupportedGlobalRequest = (\<lambda>_ _ _ s. s), OnFailedDecodeGlobalRequest = (\<lambda>_ _ _ _ s. s),
     OnUnsupportedChannel = (\<lambda>_ _ _ s. s), OnSessionChannel = (\<lambda>_ _ _ s. (Inr h, s)),
     OnTCPForwardChannel = (\<lambda>_ _ _ _ _ s. (Inl (NewChannelRejection Prohibited [] [] []), s)),
     OnRequestTCPReverseForward = (\<lambda>_ _ _ s. (None, s)), OnRequestCancelTCPReverseForward = (\<lambda>_ _ s. (None, s)),
     OnDirectStreamLocal = (\<lambda>_ _ s. (Inl (NewChannelRejection Prohibited [] [] []), s)),
     OnRequestStreamLocal = (\<lambda>_ _ s. (None, s)), OnRequestCancelStreamLocal = (\<lambda>_ s. (None, s)),
     OnConnectionShutdown = (\<lambda>s. s)\<rparr>"

lemma sample_meta_id [simp]: "ConnectionID (Connection sample_meta) = ''c1''"
  by (simp add: sample_meta_def Channel_def StartAuthentication_def ConnectionMetadata.defs
      ConnectionAuthPendingMetadata.defs)

text \<open>C10: A session channel that the handler accepts and the client keeps open for the requests
  \<open>nc_requests\<close> makes one call on the handler for each request, in order, with the request ids
  0, 1, 2, ..., then the one close call; it sends one reply for each request that wants one; and the
  shutdown registry is afterwards what it was before. The server returns in every case, so no type
  assertion on a decoded payload fails.\<close>
theorem session_channel_served:
  assumes "OnSessionChannel conn meta (ExtraData nc) (ChannelWrapper (ChannelID meta)) s = (Inr (recorder h), (tr, s1))"
    and "ConnectionID (Connection meta) \<in> connMap srv"
    and "nc_accept nc = None"
    and "map_of (shutdownHandlers srv) (shutdown_id ''session'' meta) = None"
  shows "\<exists>evs reg calls s'.
     handleSessionChannel um meta nc conn srv s =
       Ret (Accepted # evs, srv\<lparr>shutdownHandlers := reg\<rparr>, (tr @ calls @ [CallClose], s'))
     \<and> map call_id calls = map (\<lambda>i. Some (word_of_nat i)) [0..<length (nc_requests nc)]
     \<and> (\<forall>i < length calls. calls ! i =
          request_call um (ConnectionID (Connection meta)) (word_of_nat i) (nc_requests nc ! i))
     \<and> length evs = length (filter req_WantReply (nc_requests nc))
     \<and> map_of reg = map_of (shutdownHandlers srv)"
proof -
  let ?calls = "calls_from um (ConnectionID (Connection meta)) 0 (nc_requests nc)"
  have "map call_id ?calls = map (\<lambda>i. Some (word_of_nat i)) [0..<length (nc_requests nc)]"
    by (simp add: call_ids_calls_from)
  moreover have "\<forall>i < length ?calls. ?calls ! i =
      request_call um (ConnectionID (Connection meta)) (word_of_nat i) (nc_requests nc ! i)"
    by (simp add: nth_calls_from)
  ultimately show ?thesis
    using handleSessionChannel_recorder [OF assms, of um] by blast
qed

theorem session_channel_served_witness:
  "\<exists>evs reg calls s'.
     handleSessionChannel sample_um sample_meta sample_channel (sample_conn (recorder AbstractSessionChannelHandler))
        sample_srv ([], ()) =
       Ret (Accepted # evs, sample_srv\<lparr>shutdownHandlers := reg\<rparr>, ([] @ calls @ [CallClose], s'))
     \<and> map call_id calls = map (\<lambda>i. Some (word_of_nat i)) [0..<length (nc_requests sample_channel)]
     \<and> (\<forall>i < length calls. calls ! i =
          request_call sample_um (ConnectionID (Connection sample_meta)) (word_of_nat i) (nc_requests sample_channel ! i))
     \<and> length evs = length (filter req_WantReply (nc_requests sample_channel))
     \<and> map_of reg = map_of (shutdownHandlers sample_srv)"
  by (rule session_channel_served) (simp_all add: sample_conn_def sample_srv_def sample_channel_def)

text \<open>C15: Handling one channel request is: make the one call the request stands for on the handler,
  and, if the client wants a reply, send exactly one. The reply is a success exactly when the type
  of the request is known, its payload decodes and the call returns no error; otherwise it carries
  the reason.\<close>
theorem channel_request_reply:
  assumes "ConnectionID (Connection meta) \<in> conns"
  shows "handleChannelRequest um conns meta r request h s =
         (let (err, s') = perform h (request_call um (ConnectionID (Connection meta)) r request) s;
              ok = (decodes um request \<and> err = None)
          in Ret (if req_WantReply request
                  then [Reply ok (if ok then '''' else failure_text um request err)] else [], s'))"
  using handleChannelRequest_spec [OF assms, of um r request h s] by (simp add: createReply_def)

theorem channel_request_reply_witness:
  "handleChannelRequest sample_um {''c1''} sample_meta 0 (sample_requests ! 2) AbstractSessionChannelHandler () =
     Ret ([Reply False ''not supported''], ())"
proof -
  have c1: "ConnectionID (Connection sample_meta) \<in> {''c1''}" by simp
  show ?thesis
    unfolding channel_request_reply [OF c1]
    by (simp add: sample_requests_def request_call_def decodes_def failure_text_def
        unmarshalChannelRequestPayload_def unmarshalExec_def sample_um_def AbstractSessionChannelHandler_def)
qed

text \<open>The goroutines started for the channels of a connection get pairwise different channel
  ids, which are taken in order from the server's counter, and the counter advances by one for every
  channel the client opens, rejected ones included.\<close>
theorem channel_ids_distinct:
  assumes "handleChannels meta chans conn srv s = (tasks, evs, srv', s')"
    and "length chans \<le> 2 ^ 64"
  shows "distinct (map task_id tasks)
       \<and> subseq (map task_id tasks) (map (\<lambda>i. nextChannelID srv + word_of_nat i) [0..<length chans])
       \<and> nextChannelID srv' = nextChannelID srv + word_of_nat (length chans)"
  using handleChannels_ids [OF assms(1)] distinct_ids_from [OF assms(2)]
  by (auto simp: ids_from_eq intro: subseq_distinct)

theorem channel_ids_distinct_witness:
  "distinct (map task_id (fst (handleChannels (Connection sample_meta)
     [sample_channel, sample_channel\<lparr>ChannelType := ''x''\<rparr>, sample_channel]
     (sample_conn AbstractSessionChannelHandler) sample_srv ())))"
proof -
  let ?chans = "[sample_channel, sample_channel\<lparr>ChannelType := ''x''\<rparr>, sample_channel]"
  obtain tasks evs srv' s' where run: "handleChannels (Connection sample_meta) ?chans
      (sample_conn AbstractSessionChannelHandler) sample_srv () = (tasks, evs, srv', s')"
    by (metis prod_cases4)
  have "length ?chans \<le> 2 ^ 64" by simp
  from channel_ids_distinct [OF run this] run show ?thesis by simp
qed

text \<open>Whatever sequence of calls a backend makes on an open session channel, no call panics, at
  most one exit status and at most one exit signal reach the client, and once the channel is closed
  nothing but further close messages is sent.\<close>
theorem wrapper_protocol:
  "\<exists>c. wrapper_run ops (new_channel_wrapper\<lparr>channel_open := True\<rparr>) = Ret c
     \<and> length (filter is_exit_status (sent c)) \<le> 1
     \<and> length (filter is_exit_signal (sent c)) \<le> 1
     \<and> quiet_after_close (sent c)"
proof -
  have "wrapper_inv (new_channel_wrapper\<lparr>channel_open := True\<rparr>)"
    by (simp add: wrapper_inv_def new_channel_wrapper_def quiet_after_close_def)
  then obtain c where "wrapper_run ops (new_channel_wrapper\<lparr>channel_open := True\<rparr>) = Ret c" "wrapper_inv c"
    using wrapper_run_inv by blast
  then show ?thesis
    by (intro exI [of _ c]) (simp add: wrapper_inv_def)
qed

text \<open>Global requests are handled without a panic, each one that wants a reply gets exactly one,
  and the server's counter of global requests advances by their number; nothing else of the server
  changes.\<close>
theorem global_requests_answered:
  "\<exists>evs s'. handleGlobalRequests um meta requests conn srv s =
       Ret (evs, srv\<lparr>nextGlobalRequestID := nextGlobalRequestID srv + word_of_nat (length requests)\<rparr>, s')
     \<and> length evs = length (filter req_WantReply requests)"
  using handleGlobalRequests_returns [of um meta requests conn srv s] by blast

text \<open>The reverse-forwarding handler that a backend receives with an X11 request is built without
  its server pointer: whenever the backend uses it to open an X11 channel, the server panics.\<close>
theorem x11_channel_open_panics:
  assumes "serve_requests um conns meta (recorder h) 0 requests ([], s) = Ret (evs, tr, s')"
    and "ConnectionID (Connection meta) \<in> conns"
    and "CallX11 r sc pr ck scr rf \<in> set tr"
  shows "NewChannelX11 marshal open_channel rf address port srv = Panic ''nil pointer dereference''"
proof -
  have "tr = calls_from um (ConnectionID (Connection meta)) 0 requests"
    using serve_requests_recorder [OF assms(2), of um h 0 requests "[]" s] assms(1) by auto
  with assms(3) have "rf = ReverseForwardHandler (ConnectionID (Connection meta)) False"
    using x11_calls_from by blast
  then show ?thesis by (simp add: NewChannelX11_def openChannel_def)
qed

theorem x11_channel_open_panics_witness:
  "NewChannelX11 (\<lambda>_. []) (\<lambda>_ _ _. Inr 0) (ReverseForwardHandler ''c1'' False) ''::1'' 6000 sample_srv
     = Panic ''nil pointer dereference''"
proof -
  let ?tr = "[CallEnv 0 ''LANG'' ''C'', CallX11 1 False ''p'' ''c'' 0 (ReverseForwardHandler ''c1'' False), CallExec 2 ''ls'']"
  have conn: "ConnectionID (Connection sample_meta) \<in> {''c1''}" by simp
  have "\<exists>evs. serve_requests sample_um {''c1''} sample_meta (recorder AbstractSessionChannelHandler) 0 sample_requests ([], ())
      = Ret (evs, ?tr, ())"
    using serve_requests_recorder [OF conn, of sample_um AbstractSessionChannelHandler 0 sample_requests "[]" "()"]
    by (simp add: sample_requests_def request_call_def unmarshalChannelRequestPayload_def
        unmarshal_defs sample_um_def) blast
  then obtain evs where run: "serve_requests sample_um {''c1''} sample_meta (recorder AbstractSessionChannelHandler) 0
      sample_requests ([], ()) = Ret (evs, ?tr, ())" by blast
  show ?thesis
    by (rule x11_channel_open_panics [OF run conn, of 1 False "''p''" "''c''" 0]) simp
qed

end
