(* ===== verification/Security.thy ===== *)
theory Security
  imports SSH_Server
begin

text \<open>
  The security layer: its configuration (\<open>config/security.go\<close>) and the handlers of
  \<open>internal/security\<close> that sit between the server and a backend. \<open>security_session\<close> wraps a session
  handler, \<open>security_connection\<close> a connection handler together with its counter of sessions.

  The specification is \<open>permitted\<close>, the decision of the configured policy on a request, and
  \<open>forwarded\<close>, the backend calls a permitted request stands for. The theorems say that the layer
  mediates completely (a request that is not permitted never reaches the backend, one that is
  permitted reaches it as specified), that a forced command replaces every other program, that the
  number of sessions is limited, and which configurations are accepted.
\<close>

section \<open>Configuration\<close>

abbreviation (input) ExecutionPolicyUnconfigured :: string where "ExecutionPolicyUnconfigured \<equiv> ''''"
abbreviation (input) ExecutionPolicyEnable :: string where "ExecutionPolicyEnable \<equiv> ''enable''"
abbreviation (input) ExecutionPolicyFilter :: string where "ExecutionPolicyFilter \<equiv> ''filter''"
abbreviation (input) ExecutionPolicyDisable :: string where "ExecutionPolicyDisable \<equiv> ''disable''"

type_synonym SecurityExecutionPolicy = string

record SecurityEnvConfig =
  env_Mode :: SecurityExecutionPolicy
  env_Allow :: "string list"
  env_Deny :: "string list"

record CommandConfig =
  command_Mode :: SecurityExecutionPolicy
  command_Allow :: "string list"

record SecurityShellConfig =
  shell_Mode :: SecurityExecutionPolicy

record SubsystemConfig =
  subsystem_Mode :: SecurityExecutionPolicy
  subsystem_Allow :: "string list"
  subsystem_Deny :: "string list"

record ForwardingConfig =
  ReverseForwardingMode :: SecurityExecutionPolicy
  ForwardingMode :: SecurityExecutionPolicy
  SocketForwardingMode :: SecurityExecutionPolicy
  SocketListenMode :: SecurityExecutionPolicy
  X11ForwardingMode :: SecurityExecutionPolicy

record SecurityTTYConfig =
  tty_Mode :: SecurityExecutionPolicy

record SecuritySignalConfig =
  signal_Mode :: SecurityExecutionPolicy
  signal_Allow :: "string list"
  signal_Deny :: "string list"

record SecurityConfig =
  DefaultMode :: SecurityExecutionPolicy
  ForceCommand :: string
  Env :: SecurityEnvConfig
  Command :: CommandConfig
  Shell :: SecurityShellConfig
  Subsystem :: SubsystemConfig
  Forwarding :: ForwardingConfig
  TTY :: SecurityTTYConfig
  Signal :: SecuritySignalConfig
  MaxSessions :: int

definition Validate_policy :: "SecurityExecutionPolicy \<Rightarrow> go_error option" where
  "Validate_policy e =
     (if e = ExecutionPolicyUnconfigured \<or> e = ExecutionPolicyEnable \<or> e = ExecutionPolicyFilter
         \<or> e = ExecutionPolicyDisable then None
      else Some (ErrorString (''invalid mode: '' @ e)))"

definition Validate_env :: "SecurityEnvConfig \<Rightarrow> go_error option" where
  "Validate_env e = wrap_option (Validate_policy (env_Mode e)) ''mode''"

definition Validate_command :: "CommandConfig \<Rightarrow> go_error option" where
  "Validate_command c = wrap_option (Validate_policy (command_Mode c)) ''mode''"

definition Validate_shell :: "SecurityShellConfig \<Rightarrow> go_error option" where
  "Validate_shell s = wrap_option (Validate_policy (shell_Mode s)) ''mode''"

definition Validate_subsystem :: "SubsystemConfig \<Rightarrow> go_error option" where
  "Validate_subsystem s = wrap_option (Validate_policy (subsystem_Mode s)) ''mode''"

definition Validate_tty :: "SecurityTTYConfig \<Rightarrow> go_error option" where
  "Validate_tty t = wrap_option (Validate_policy (tty_Mode t)) ''mode''"

definition Validate_signal :: "SecuritySignalConfig \<Rightarrow> go_error option" where
  "Validate_signal s = wrap_option (Validate_policy (signal_Mode s)) ''mode''"

text \<open>\<open>fmt.Errorf\<close> with \<open>%w\<close> makes an error of which the model keeps the text.\<close>

definition invalid_mode :: "go_error \<Rightarrow> go_error" where
  "invalid_mode err = ErrorString (''invalid mode ('' @ error_text err @ '')'')"

definition Validate_forwarding :: "ForwardingConfig \<Rightarrow> go_error option" where
  "Validate_forwarding f = first_error
     [map_option invalid_mode (Validate_policy (ReverseForwardingMode f)),
      map_option invalid_mode (Validate_policy (ForwardingMode f)),
      map_option invalid_mode (Validate_policy (SocketForwardingMode f)),
      map_option invalid_mode (Validate_policy (SocketListenMode f)),
      map_option invalid_mode (Validate_policy (X11ForwardingMode f))]"

definition Validate :: "SecurityConfig \<Rightarrow> go_error option" where
  "Validate c = first_error
     [wrap_option (Validate_policy (DefaultMode c)) ''defaultMode'',
      wrap_option (Validate_env (Env c)) ''env'',
      wrap_option (Validate_command (Command c)) ''command'',
      wrap_option (Validate_shell (Shell c)) ''shell'',
      wrap_option (Validate_subsystem (Subsystem c)) ''subsystem'',
      wrap_option (Validate_tty (TTY c)) ''tty'',
      wrap_option (Validate_signal (Signal c)) ''signal'',
      if MaxSessions c < -1
      then Some (newError ''maxSessions'' (''invalid maxSessions setting: '' @ itoa (MaxSessions c)))
      else None]"

section \<open>Session handler\<close>

definition getPolicy :: "SecurityConfig \<Rightarrow> SecurityExecutionPolicy \<Rightarrow> SecurityExecutionPolicy" where
  "getPolicy config primary =
     (if primary \<noteq> ExecutionPolicyUnconfigured then primary
      else if DefaultMode config \<noteq> ExecutionPolicyUnconfigured then DefaultMode config
      else ExecutionPolicyEnable)"

fun contains :: "string list \<Rightarrow> string \<Rightarrow> bool" where
  "contains [] item = False"
| "contains (searchItem # items) item = (if searchItem = item then True else contains items item)"

definition EnvRejected :: "string \<Rightarrow> go_error" where
  "EnvRejected explanation = UserMessage ''SECURITY_ENV_REJECTED'' ''Environment variable setting rejected.'' explanation"

definition sec_OnEnvRequest ::
    "SecurityConfig \<Rightarrow> 's session_channel_handler \<Rightarrow> uint64 \<Rightarrow> string \<Rightarrow> string \<Rightarrow> 's \<Rightarrow> go_error option \<times> 's" where
  "sec_OnEnvRequest config backend requestID name val s =
     (let mode = getPolicy config (env_Mode (Env config))
      in if mode = ExecutionPolicyDisable
         then (Some (EnvRejected ''Setting an environment variable is rejected because it is disabled in the security settings.''), s)
         else if mode = ExecutionPolicyFilter
         then if contains (env_Allow (Env config)) name then OnEnvRequest backend requestID name val s
              else (Some (EnvRejected ''Setting an environment variable is rejected because it does not match the allow list.''), s)
         else if \<not> contains (env_Deny (Env config)) name then OnEnvRequest backend requestID name val s
              else (Some (EnvRejected ''Setting an environment variable is rejected because it matches the deny list.''), s))"

definition sec_OnPtyRequest ::
    "SecurityConfig \<Rightarrow> 's session_channel_handler \<Rightarrow> uint64 \<Rightarrow> string \<Rightarrow> uint32 \<Rightarrow> uint32 \<Rightarrow> uint32 \<Rightarrow> uint32 \<Rightarrow> bytes \<Rightarrow> 's \<Rightarrow>
     go_error option \<times> 's" where
  "sec_OnPtyRequest config backend requestID trm columns rows width height modeList s =
     (let mode = getPolicy config (tty_Mode (TTY config))
      in if mode = ExecutionPolicyDisable \<or> mode = ExecutionPolicyFilter
         then (Some (UserMessage ''SECURITY_TTY_REJECTED'' ''TTY allocation disabled.''
                       ''TTY allocation is disabled in the security settings.''), s)
         else OnPtyRequest backend requestID trm columns rows width height modeList s)"

text \<open>Running the forced command with the client's request in \<open>SSH_ORIGINAL_COMMAND\<close>.\<close>

definition force_with_env ::
    "SecurityConfig \<Rightarrow> 's session_channel_handler \<Rightarrow> uint64 \<Rightarrow> string \<Rightarrow> 's \<Rightarrow> go_error option \<times> 's" where
  "force_with_env config backend requestID original s =
     (case OnEnvRequest backend requestID ''SSH_ORIGINAL_COMMAND'' original s of
        (Some err, s) \<Rightarrow>
          (Some (WrapUser err ''SECURITY_EXEC_FAILED_SETENV'' ''Could not execute program.''
             ''Command execution failed because the security layer could not set the SSH_ORIGINAL_COMMAND variable.''), s)
      | (None, s) \<Rightarrow> OnExecRequest backend requestID (ForceCommand config) s)"

definition ExecRejected :: "string \<Rightarrow> go_error" where
  "ExecRejected explanation = UserMessage ''SECURITY_EXEC_REJECTED'' ''Command execution disabled.'' explanation"

definition sec_OnExecRequest ::
    "SecurityConfig \<Rightarrow> 's session_channel_handler \<Rightarrow> uint64 \<Rightarrow> string \<Rightarrow> 's \<Rightarrow> go_error option \<times> 's" where
  "sec_OnExecRequest config backend requestID program s =
     (let mode = getPolicy config (command_Mode (Command config))
      in if mode = ExecutionPolicyDisable
         then (Some (ExecRejected ''Command execution is disabled in the security settings.''), s)
         else if mode = ExecutionPolicyFilter \<and> \<not> contains (command_Allow (Command config)) program
         then (Some (ExecRejected ''The specified command passed from the client does not match the specified allow list.''), s)
         else if ForceCommand config = '''' then OnExecRequest backend requestID program s
         else force_with_env config backend requestID program s)"

definition sec_OnShell ::
    "SecurityConfig \<Rightarrow> 's session_channel_handler \<Rightarrow> uint64 \<Rightarrow> 's \<Rightarrow> go_error option \<times> 's" where
  "sec_OnShell config backend requestID s =
     (let mode = getPolicy config (shell_Mode (Shell config))
      in if mode = ExecutionPolicyDisable \<or> mode = ExecutionPolicyFilter
         then (Some (UserMessage ''SECURITY_SHELL_REJECTED'' ''Shell execution disabled.''
                       ''Shell execution is disabled in the security settings.''), s)
         else if ForceCommand config = '''' then OnShell backend requestID s
         else OnExecRequest backend requestID (ForceCommand config) s)"

definition SubsystemRejected :: "string \<Rightarrow> go_error" where
  "SubsystemRejected explanation = UserMessage ''SECURITY_SUBSYSTEM_REJECTED'' ''Subsystem execution disabled.'' explanation"

definition sec_OnSubsystem ::
    "SecurityConfig \<Rightarrow> 's session_channel_handler \<Rightarrow> uint64 \<Rightarrow> string \<Rightarrow> 's \<Rightarrow> go_error option \<times> 's" where
  "sec_OnSubsystem config backend requestID subsystem s =
     (let mode = getPolicy config (subsystem_Mode (Subsystem config))
      in if mode = ExecutionPolicyDisable
         then (Some (SubsystemRejected ''Subsystem execution is disabled in the security settings.''), s)
         else if mode = ExecutionPolicyFilter \<and> \<not> contains (subsystem_Allow (Subsystem config)) subsystem
         then (Some (SubsystemRejected ''The specified subsystem does not match the allowed subsystems list.''), s)
         else if mode = ExecutionPolicyEnable \<and> contains (subsystem_Deny (Subsystem config)) subsystem
         then (Some (SubsystemRejected
                ''The subsystem execution is rejected because the specified subsystem matches the deny list.''), s)
         else if ForceCommand config = '''' then OnSubsystem backend requestID subsystem s
         else force_with_env config backend requestID subsystem s)"

definition SignalRejected :: "string \<Rightarrow> go_error" where
  "SignalRejected explanation = UserMessage ''SECURITY_SIGNAL_REJECTED'' ''Sending signals is rejected.'' explanation"

text \<open>The mode is that of the shell configuration, as in the source.\<close>

definition sec_OnSignal ::
    "SecurityConfig \<Rightarrow> 's session_channel_handler \<Rightarrow> uint64 \<Rightarrow> string \<Rightarrow> 's \<Rightarrow> go_error option \<times> 's" where
  "sec_OnSignal config backend requestID sig s =
     (let mode = getPolicy config (shell_Mode (Shell config))
      in if mode = ExecutionPolicyDisable
         then (Some (SignalRejected ''Sending the signal is rejected because signal delivery is disabled.''), s)
         else if mode = ExecutionPolicyFilter
         then if contains (signal_Allow (Signal config)) sig then OnSignal backend requestID sig s
              else (Some (SignalRejected ''Sending the signal is rejected because the specified signal does not match the allow list.''), s)
         else if \<not> contains (signal_Deny (Signal config)) sig then OnSignal backend requestID sig s
              else (Some (SignalRejected ''Sending the signal is rejected because the specified signal matches the deny list.''), s))"

definition X11Rejected :: "string \<Rightarrow> go_error" where
  "X11Rejected explanation = UserMessage ''SECURITY_X11_FORWARDING_REJECTED'' ''X11 forwarding is rejected'' explanation"

definition sec_OnX11Request ::
    "SecurityConfig \<Rightarrow> 's session_channel_handler \<Rightarrow> uint64 \<Rightarrow> bool \<Rightarrow> string \<Rightarrow> string \<Rightarrow> uint32 \<Rightarrow> reverse_forward \<Rightarrow> 's \<Rightarrow>
     go_error option \<times> 's" where
  "sec_OnX11Request config backend requestID singleConnection protocol cookie screen reverseHandler s =
     (let mode = getPolicy config (X11ForwardingMode (Forwarding config))
      in if mode = ExecutionPolicyDisable
         then (Some (X11Rejected ''X11 forwarding is rejected because it is disabled in the config''), s)
         else if mode = ExecutionPolicyFilter
         then (Some (X11Rejected
                ''X11 forwarding is rejected because it is set to filter and filterint X11 requests is not supported''), s)
         else OnX11Request backend requestID singleConnection protocol cookie screen reverseHandler s)"

definition security_session :: "SecurityConfig \<Rightarrow> 's session_channel_handler \<Rightarrow> 's session_channel_handler" where
  "security_session config backend = \<lparr>
     OnUnsupportedChannelRequest = OnUnsupportedChannelRequest backend,
     OnFailedDecodeChannelRequest = OnFailedDecodeChannelRequest backend,
     OnEnvRequest = sec_OnEnvRequest config backend,
     OnPtyRequest = sec_OnPtyRequest config backend,
     OnX11Request = sec_OnX11Request config backend,
     OnExecRequest = sec_OnExecRequest config backend,
     OnShell = sec_OnShell config backend,
     OnSubsystem = sec_OnSubsystem config backend,
     OnSignal = sec_OnSignal config backend,
     OnWindow = OnWindow backend,
     OnClose = OnClose backend,
     OnShutdown = OnShutdown backend\<rparr>"

section \<open>Connection handler\<close>

definition ErrTooManySessions :: ChannelRejection where
  "ErrTooManySessions = \<lparr>rej_reason = ResourceShortage, rej_code = ''SECURITY_MAX_SESSIONS'',
     rej_userMessage = ''Too many sessions.'', rej_explanation = ''The user has opened too many sessions.''\<rparr>"

text \<open>The state is the counter of sessions, a \<open>uint\<close>, beside the state of the backend. The
  comparison converts the limit to \<open>uint\<close>.\<close>

definition sec_OnSessionChannel ::
    "SecurityConfig \<Rightarrow> 's ssh_connection_handler \<Rightarrow> ChannelMetadata \<Rightarrow> bytes \<Rightarrow> session_channel \<Rightarrow> uint64 \<times> 's \<Rightarrow>
     (ChannelRejection + (uint64 \<times> 's) session_channel_handler) \<times> (uint64 \<times> 's)" where
  "sec_OnSessionChannel config backend meta extraData session cs =
     (let (sessionCount, s) = cs
      in if MaxSessions config > -1 \<and> sessionCount \<ge> word_of_int (MaxSessions config)
         then (Inl ErrTooManySessions, (sessionCount, s))
         else (case OnSessionChannel backend meta extraData session s of
                 (Inl err, s) \<Rightarrow> (Inl err, (sessionCount, s))
               | (Inr b, s) \<Rightarrow> (Inr (security_session config (lift_session b)), (sessionCount + 1, s))))"

definition ForwardingRejected :: "string \<Rightarrow> string \<Rightarrow> ChannelRejection" where
  "ForwardingRejected user explanation = NewChannelRejection Prohibited ''SECURITY_FORWARDING_REJECTED'' user explanation"

definition sec_OnTCPForwardChannel where
  "sec_OnTCPForwardChannel config backend channelID hostToConnect portToConnect originatorHost originatorPort s =
     (let mode = getPolicy config (ForwardingMode (Forwarding config))
      in if mode = ExecutionPolicyDisable
         then (Inl (ForwardingRejected ''Forwarding is rejected'' ''Forwarding is rejected because it is disabled''), s)
         else if mode = ExecutionPolicyFilter
         then (Inl (ForwardingRejected ''Forwarding is rejected''
                ''Forwarding is rejected because it is set to filtered and filtering is currently not supported''), s)
         else OnTCPForwardChannel backend channelID hostToConnect portToConnect originatorHost originatorPort s)"

definition ReverseRejected :: "string \<Rightarrow> string \<Rightarrow> go_error" where
  "ReverseRejected user explanation = UserMessage ''SECURITY_REVERSE_FORWARDING_REJECTED'' user explanation"

definition sec_OnRequestTCPReverseForward where
  "sec_OnRequestTCPReverseForward config backend bindHost bindPort reverseHandler s =
     (let mode = getPolicy config (ReverseForwardingMode (Forwarding config))
      in if mode = ExecutionPolicyDisable
         then (Some (ReverseRejected ''Reverse forwarding is rejected''
                ''Reverse forwarding is rejected because it is disabled in the config''), s)
         else if mode = ExecutionPolicyFilter
         then (Some (ReverseRejected ''Reverse forwarding is rejected''
                ''Reverse forwarding is rejected because it is set to filter and filtering reverse forwarding requests is not supported''), s)
         else OnRequestTCPReverseForward backend bindHost bindPort reverseHandler s)"

definition sec_OnDirectStreamLocal where
  "sec_OnDirectStreamLocal config backend channelID path s =
     (let mode = getPolicy config (SocketForwardingMode (Forwarding config))
      in if mode = ExecutionPolicyDisable
         then (Inl (ForwardingRejected ''StreamLocal forwarding is rejected'' ''StreamLocal forwarding is rejected because it is disabled''), s)
         else if mode = ExecutionPolicyFilter
         then (Inl (ForwardingRejected ''StreamLocal forwarding is rejected''
                ''StreamLocal forwarding is rejected because it is set to filtered and filtering is currently not supported''), s)
         else OnDirectStreamLocal backend channelID path s)"

definition sec_OnRequestStreamLocal where
  "sec_OnRequestStreamLocal config backend path reverseHandler s =
     (let mode = getPolicy config (SocketListenMode (Forwarding config))
      in if mode = ExecutionPolicyDisable
         then (Some (ReverseRejected ''Reverse socket forwarding is rejected''
                ''Reverse socket forwarding is rejected because it is disabled in the config''), s)
         else if mode = ExecutionPolicyFilter
         then (Some (ReverseRejected ''Reverse socket forwarding is rejected''
                ''Reverse socket forwarding is rejected because it is set to filter and filtering reverse forwarding requests is not supported''), s)
         else OnRequestStreamLocal backend path reverseHandler s)"

definition security_connection :: "SecurityConfig \<Rightarrow> 's ssh_connection_handler \<Rightarrow> (uint64 \<times> 's) ssh_connection_handler" where
  "security_connection config backend = \<lparr>
     OnUnsupportedGlobalRequest = (\<lambda>r t p. apsnd (OnUnsupportedGlobalRequest backend r t p)),
     OnFailedDecodeGlobalRequest = (\<lambda>r t p e. apsnd (OnFailedDecodeGlobalRequest backend r t p e)),
     OnUnsupportedChannel = (\<lambda>c t x. apsnd (OnUnsupportedChannel backend c t x)),
     OnSessionChannel = sec_OnSessionChannel config backend,
     OnTCPForwardChannel = (\<lambda>c h p oh op. on_snd (sec_OnTCPForwardChannel config backend c h p oh op)),
     OnRequestTCPReverseForward = (\<lambda>h p rf. on_snd (sec_OnRequestTCPReverseForward config backend h p rf)),
     OnRequestCancelTCPReverseForward = (\<lambda>h p. on_snd (OnRequestCancelTCPReverseForward backend h p)),
     OnDirectStreamLocal = (\<lambda>c p. on_snd (sec_OnDirectStreamLocal config backend c p)),
     OnRequestStreamLocal = (\<lambda>p rf. on_snd (sec_OnRequestStreamLocal config backend p rf)),
     OnRequestCancelStreamLocal = (\<lambda>p. on_snd (OnRequestCancelStreamLocal backend p)),
     OnConnectionShutdown = apsnd (OnConnectionShutdown backend)\<rparr>"

section \<open>Specification\<close>

text \<open>The decision of a mode with an allow and a deny list.\<close>

definition admits :: "SecurityExecutionPolicy \<Rightarrow> string list \<Rightarrow> string list \<Rightarrow> string \<Rightarrow> bool" where
  "admits mode allow deny item =
     (if mode = ExecutionPolicyDisable then False
      else if mode = ExecutionPolicyFilter then item \<in> set allow
      else item \<notin> set deny)"

text \<open>What the policy permits a client to ask for. The deny list of subsystems counts only in the
  mode \<open>enable\<close>; signals go by the mode of the shell.\<close>

fun permitted :: "SecurityConfig \<Rightarrow> session_call \<Rightarrow> bool" where
  "permitted cfg (CallEnv r n v) =
     admits (getPolicy cfg (env_Mode (Env cfg))) (env_Allow (Env cfg)) (env_Deny (Env cfg)) n"
| "permitted cfg (CallPty r t c rw w ht m) = admits (getPolicy cfg (tty_Mode (TTY cfg))) [] [] t"
| "permitted cfg (CallX11 r sc p ck scr rf) = admits (getPolicy cfg (X11ForwardingMode (Forwarding cfg))) [] [] p"
| "permitted cfg (CallExec r p) =
     admits (getPolicy cfg (command_Mode (Command cfg))) (command_Allow (Command cfg)) [] p"
| "permitted cfg (CallShell r) = admits (getPolicy cfg (shell_Mode (Shell cfg))) [] [] ''''"
| "permitted cfg (CallSubsystem r n) =
     (let mode = getPolicy cfg (subsystem_Mode (Subsystem cfg))
      in admits mode (subsystem_Allow (Subsystem cfg))
           (if mode = ExecutionPolicyEnable then subsystem_Deny (Subsystem cfg) else []) n)"
| "permitted cfg (CallSignal r n) =
     admits (getPolicy cfg (shell_Mode (Shell cfg))) (signal_Allow (Signal cfg)) (signal_Deny (Signal cfg)) n"
| "permitted cfg _ = True"

text \<open>The calls on the backend that a permitted request stands for.\<close>

fun forwarded :: "SecurityConfig \<Rightarrow> session_call \<Rightarrow> session_call list" where
  "forwarded cfg (CallExec r p) =
     (if ForceCommand cfg = '''' then [CallExec r p]
      else [CallEnv r ''SSH_ORIGINAL_COMMAND'' p, CallExec r (ForceCommand cfg)])"
| "forwarded cfg (CallShell r) =
     (if ForceCommand cfg = '''' then [CallShell r] else [CallExec r (ForceCommand cfg)])"
| "forwarded cfg (CallSubsystem r n) =
     (if ForceCommand cfg = '''' then [CallSubsystem r n]
      else [CallEnv r ''SSH_ORIGINAL_COMMAND'' n, CallExec r (ForceCommand cfg)])"
| "forwarded cfg c = [c]"

text \<open>What may appear in the trace of a backend behind the layer.\<close>

fun mediated :: "SecurityConfig \<Rightarrow> session_call \<Rightarrow> bool" where
  "mediated cfg (CallEnv r n v) =
     (permitted cfg (CallEnv r n v) \<or> (ForceCommand cfg \<noteq> '''' \<and> n = ''SSH_ORIGINAL_COMMAND''))"
| "mediated cfg (CallExec r p) =
     (if ForceCommand cfg = '''' then permitted cfg (CallExec r p) else p = ForceCommand cfg)"
| "mediated cfg (CallShell r) = (ForceCommand cfg = '''' \<and> permitted cfg (CallShell r))"
| "mediated cfg (CallSubsystem r n) = (ForceCommand cfg = '''' \<and> permitted cfg (CallSubsystem r n))"
| "mediated cfg c = permitted cfg c"

text \<open>A history of a connection: opening sessions, and anything that happens to the backend in
  between, such as sessions that end.\<close>

datatype 's connection_event =
    OpenSession ChannelMetadata bytes session_channel
  | Backend "'s \<Rightarrow> 's"

fun connection_run ::
    "SecurityConfig \<Rightarrow> 's ssh_connection_handler \<Rightarrow> 's connection_event list \<Rightarrow> uint64 \<times> 's \<Rightarrow> ChannelRejection option list \<times> (uint64 \<times> 's)" where
  "connection_run cfg backend [] cs = ([], cs)"
| "connection_run cfg backend (OpenSession m x sc # evs) cs =
     (case OnSessionChannel (security_connection cfg backend) m x sc cs of
        (res, cs) \<Rightarrow>
          (case connection_run cfg backend evs cs of
             (rs, cs) \<Rightarrow> ((case res of Inl rej \<Rightarrow> Some rej | Inr h \<Rightarrow> None) # rs, cs)))"
| "connection_run cfg backend (Backend f # evs) cs = connection_run cfg backend evs (apsnd f cs)"

section \<open>Mediation\<close>

lemma contains_iff [simp]: "contains items item \<longleftrightarrow> item \<in> set items"
  by (induction items) auto

lemma security_session_sel [handler_simps]:
  "OnUnsupportedChannelRequest (security_session config backend) = OnUnsupportedChannelRequest backend"
  "OnFailedDecodeChannelRequest (security_session config backend) = OnFailedDecodeChannelRequest backend"
  "OnEnvRequest (security_session config backend) = sec_OnEnvRequest config backend"
  "OnPtyRequest (security_session config backend) = sec_OnPtyRequest config backend"
  "OnX11Request (security_session config backend) = sec_OnX11Request config backend"
  "OnExecRequest (security_session config backend) = sec_OnExecRequest config backend"
  "OnShell (security_session config backend) = sec_OnShell config backend"
  "OnSubsystem (security_session config backend) = sec_OnSubsystem config backend"
  "OnSignal (security_session config backend) = sec_OnSignal config backend"
  "OnWindow (security_session config backend) = OnWindow backend"
  "OnClose (security_session config backend) = OnClose backend"
  "OnShutdown (security_session config backend) = OnShutdown backend"
  by (simp_all add: security_session_def)

lemmas security_ops = sec_OnEnvRequest_def sec_OnPtyRequest_def sec_OnX11Request_def sec_OnExecRequest_def
  sec_OnShell_def sec_OnSubsystem_def sec_OnSignal_def Let_def

lemma security_rejects:
  "\<not> permitted cfg c \<Longrightarrow> \<exists>e. perform (security_session cfg b) c s = (Some e, s)"
  by (cases c) (auto simp: handler_simps security_ops admits_def split: if_splits)

lemma security_transparent:
  "permitted cfg c \<Longrightarrow> ForceCommand cfg = '''' \<Longrightarrow> perform (security_session cfg b) c s = perform b c s"
  by (cases c) (auto simp: handler_simps security_ops admits_def split: if_splits)

text \<open>Making calls one after the other until one fails.\<close>

fun perform_all :: "'s session_channel_handler \<Rightarrow> session_call list \<Rightarrow> 's \<Rightarrow> go_error option \<times> 's" where
  "perform_all h [] s = (None, s)"
| "perform_all h (c # cs) s =
     (case perform h c s of (Some e, s) \<Rightarrow> (Some e, s) | (None, s) \<Rightarrow> perform_all h cs s)"

lemma perform_all_single [simp]: "perform_all h [c] s = perform h c s"
  by (auto split: prod.splits option.splits)

lemma force_with_env_perform:
  "force_with_env cfg b r p s =
     (let (err, s') = perform_all b [CallEnv r ''SSH_ORIGINAL_COMMAND'' p, CallExec r (ForceCommand cfg)] s
      in if fst (OnEnvRequest b r ''SSH_ORIGINAL_COMMAND'' p s) = None then (err, s')
         else (map_option (\<lambda>e. WrapUser e ''SECURITY_EXEC_FAILED_SETENV'' ''Could not execute program.''
             ''Command execution failed because the security layer could not set the SSH_ORIGINAL_COMMAND variable.'') err, s'))"
  by (auto simp: force_with_env_def Let_def split: prod.splits option.splits)

lemma security_forwards:
  assumes "permitted cfg c"
  shows "snd (perform (security_session cfg b) c s) = snd (perform_all b (forwarded cfg c) s)
       \<and> (fst (perform (security_session cfg b) c s) = None \<longleftrightarrow> fst (perform_all b (forwarded cfg c) s) = None)"
proof (cases "ForceCommand cfg = ''''")
  case True
  then have "forwarded cfg c = [c]" by (cases c) auto
  then show ?thesis using security_transparent [OF assms True, of b s] by (simp only: perform_all_single)
next
  case False
  with assms show ?thesis
    by (cases c) (auto simp: handler_simps security_ops admits_def force_with_env_perform Let_def
        split: if_splits prod.splits option.splits)
qed

lemma perform_all_recorder:
  "\<exists>k. snd (perform_all (recorder b) cs (tr, s)) = (tr @ take k cs, snd (perform_all b cs s))
     \<and> fst (perform_all (recorder b) cs (tr, s)) = fst (perform_all b cs s)
     \<and> (fst (perform_all b cs s) = None \<longrightarrow> k = length cs) \<and> (cs \<noteq> [] \<longrightarrow> 0 < k)"
proof (induction cs arbitrary: tr s)
  case (Cons c cs)
  obtain err s1 where p: "perform b c s = (err, s1)" by fastforce
  show ?case
  proof (cases err)
    case None
    obtain k where "snd (perform_all (recorder b) cs (tr @ [c], s1)) = ((tr @ [c]) @ take k cs, snd (perform_all b cs s1))
     \<and> fst (perform_all (recorder b) cs (tr @ [c], s1)) = fst (perform_all b cs s1)
     \<and> (fst (perform_all b cs s1) = None \<longrightarrow> k = length cs)"
      using Cons.IH by blast
    then show ?thesis
      using None p by (intro exI [of _ "Suc k"]) (auto simp: perform_recorder)
  next
    case (Some e)
    then show ?thesis
      using p by (intro exI [of _ 1]) (auto simp: perform_recorder)
  qed
qed simp

lemma forwarded_mediated: "permitted cfg c \<Longrightarrow> list_all (mediated cfg) (forwarded cfg c)"
  by (cases c) (auto simp: Let_def)

lemma security_recorded:
  assumes "perform (security_session cfg (recorder b)) c (tr, s) = (err, (tr', s'))"
  shows "if permitted cfg c
         then \<exists>k > 0. tr' = tr @ take k (forwarded cfg c) \<and> (err = None \<longrightarrow> tr' = tr @ forwarded cfg c)
         else tr' = tr \<and> s' = s \<and> err \<noteq> None"
proof (cases "permitted cfg c")
  case True
  have ne: "forwarded cfg c \<noteq> []" by (cases c) auto
  have "snd (perform_all (recorder b) (forwarded cfg c) (tr, s)) = (tr', s')"
    and "err = None \<longleftrightarrow> fst (perform_all (recorder b) (forwarded cfg c) (tr, s)) = None"
    using security_forwards [OF True, of "recorder b" "(tr, s)"] assms by auto
  with perform_all_recorder [of b "forwarded cfg c" tr s] ne True show ?thesis by auto
next
  case False
  with security_rejects [OF this, of "recorder b" "(tr, s)"] assms show ?thesis by auto
qed

lemma security_keeps_mediated:
  assumes "list_all (mediated cfg) (fst ts)"
  shows "list_all (mediated cfg) (fst (snd (perform (security_session cfg (recorder b)) c ts)))"
proof -
  obtain err tr' s' where run: "perform (security_session cfg (recorder b)) c (fst ts, snd ts) = (err, (tr', s'))"
    by (metis prod_cases3)
  show ?thesis
  proof (cases "permitted cfg c")
    case True
    then obtain k where "tr' = fst ts @ take k (forwarded cfg c)"
      using security_recorded [OF run] by auto
    moreover have "list_all (mediated cfg) (take k (forwarded cfg c))"
      using forwarded_mediated [OF True] by (auto simp: list_all_iff dest: in_set_takeD)
    ultimately show ?thesis using assms run by simp
  next
    case False
    with security_recorded [OF run] assms run show ?thesis by simp
  qed
qed

interpretation mediation: session_contract "security_session cfg (recorder b)" "\<lambda>ts. list_all (mediated cfg) (fst ts)"
  for cfg b
  by (rule session_contractI) (rule security_keeps_mediated)

text \<open>The layer keeps what every mediated call on its backend keeps.\<close>

lemma perform_all_keeps:
  assumes "\<And>c s. mediated cfg c \<Longrightarrow> P s \<Longrightarrow> P (snd (perform b c s))" and "list_all (mediated cfg) cs" and "P s"
  shows "P (snd (perform_all b cs s))"
  using assms(2,3)
proof (induction cs arbitrary: s)
  case (Cons c cs)
  have "P (snd (perform b c s))" using assms(1) Cons.prems by simp
  then show ?case
    using Cons by (cases "perform b c s") (auto split: option.splits)
qed simp

lemma security_keeps:
  assumes "\<And>c s. mediated cfg c \<Longrightarrow> P s \<Longrightarrow> P (snd (perform b c s))" and "P s"
  shows "P (snd (perform (security_session cfg b) c s))"
proof (cases "permitted cfg c")
  case True
  with perform_all_keeps [OF assms(1) forwarded_mediated [OF True] assms(2)] show ?thesis
    using security_forwards [OF True, of b s] by simp
next
  case False
  then show ?thesis using security_rejects [OF False, of b s] assms(2) by auto
qed

text \<open>The layer commutes with the embedding of its backend in a larger state.\<close>

lemma security_lift:
  "perform (security_session cfg (lift_session b)) c (x, s) =
     (case perform (security_session cfg b) c s of (err, s') \<Rightarrow> (err, (x, s')))"
  by (cases c)
    (auto simp: handler_simps security_ops force_with_env_def lift_session_def on_snd_def
      split: prod.splits option.splits)

lemma lifted_mediation:
  fixes b :: "'b session_channel_handler"
  shows "session_contract (security_session cfg (lift_session (recorder b))) (\<lambda>s. list_all (mediated cfg) (fst (snd s)))"
proof (rule session_contractI)
  fix s :: "'c \<times> 'b traced" and c
  assume "list_all (mediated cfg) (fst (snd s))"
  then have "list_all (mediated cfg) (fst (snd (perform (security_session cfg (recorder b)) c (snd s))))"
    by (rule mediation.perform_keeps)
  then show "list_all (mediated cfg) (fst (snd (snd (perform (security_session cfg (lift_session (recorder b))) c s))))"
    using security_lift [of cfg "recorder b" c "fst s" "snd s"]
    by (cases "perform (security_session cfg (recorder b)) c (snd s)") simp
qed

lemma mediated_forced:
  "mediated cfg c \<Longrightarrow> ForceCommand cfg \<noteq> '''' \<Longrightarrow>
   (\<forall>r p. c = CallExec r p \<longrightarrow> p = ForceCommand cfg) \<and> (\<forall>r. c \<noteq> CallShell r) \<and> (\<forall>r n. c \<noteq> CallSubsystem r n)"
  by (cases c) auto

lemma handleSessionChannel_secured:
  assumes "OnSessionChannel backend meta (ExtraData nc) (ChannelWrapper (ChannelID meta)) ([], s) = (Inr (recorder b), ([], s1))"
    and "ConnectionID (Connection meta) \<in> connMap srv"
    and "handleSessionChannel um meta nc (security_connection cfg backend) srv (n, ([], s)) = Ret (evs, srv', (n', (tr, s')))"
  shows "list_all (mediated cfg) tr"
proof (cases "MaxSessions cfg > -1 \<and> n \<ge> word_of_int (MaxSessions cfg)")
  case True
  with assms(3) show ?thesis
    by (simp add: handleSessionChannel_def security_connection_def sec_OnSessionChannel_def)
next
  case False
  with assms(1) have "OnSessionChannel (security_connection cfg backend) meta (ExtraData nc)
      (ChannelWrapper (ChannelID meta)) (n, ([], s)) =
      (Inr (security_session cfg (lift_session (recorder b))), (n + 1, ([], s1)))"
    by (auto simp: security_connection_def sec_OnSessionChannel_def)
  from session_contract.handleSessionChannel_keeps [OF lifted_mediation this assms(2) _ assms(3)]
  show ?thesis by simp
qed

section \<open>Session limit\<close>

definition accepted :: "ChannelRejection option list \<Rightarrow> nat" where
  "accepted rs = length (filter (\<lambda>r. r = None) rs)"

lemma accepted_simps [simp]:
  "accepted [] = 0" "accepted (None # rs) = Suc (accepted rs)" "accepted (Some e # rs) = accepted rs"
  by (simp_all add: accepted_def)

lemma limit_compare:
  assumes "0 \<le> m" "m < 2 ^ 63"
  shows "(word_of_int m \<le> (c :: uint64)) = (nat m \<le> unat c)"
proof -
  have "uint (word_of_int m :: uint64) = m"
    using assms by (simp add: uint_word_of_int_eq take_bit_int_eq_self)
  then show ?thesis by (simp add: word_le_def nat_le_iff)
qed

lemma OnSessionChannel_limit:
  assumes "0 \<le> MaxSessions cfg" "MaxSessions cfg < 2 ^ 63" "nat (MaxSessions cfg) \<le> unat c"
  shows "OnSessionChannel (security_connection cfg backend) m x sc (c, s) = (Inl ErrTooManySessions, (c, s))"
  using assms by (simp add: security_connection_def sec_OnSessionChannel_def limit_compare)

lemma OnSessionChannel_below:
  assumes "0 \<le> MaxSessions cfg" "MaxSessions cfg < 2 ^ 63" "unat c < nat (MaxSessions cfg)"
  shows "OnSessionChannel (security_connection cfg backend) m x sc (c, s) =
     (case OnSessionChannel backend m x sc s of
        (Inl err, s) \<Rightarrow> (Inl err, (c, s))
      | (Inr b, s) \<Rightarrow> (Inr (security_session cfg (lift_session b)), (c + 1, s)))"
  using assms by (simp add: security_connection_def sec_OnSessionChannel_def limit_compare)

lemma unat_succ: "unat c < nat m \<Longrightarrow> m < 2 ^ 63 \<Longrightarrow> unat (c + 1 :: uint64) = Suc (unat c)"
  by (subst unat_word_ariths) (simp add: mod_less)

lemma connection_run_limit:
  assumes "0 \<le> MaxSessions cfg" "MaxSessions cfg < 2 ^ 63"
    and "connection_run cfg backend evs (c, s) = (rs, (c', s'))"
    and "unat c \<le> nat (MaxSessions cfg)"
  shows "unat c' = unat c + accepted rs \<and> unat c' \<le> nat (MaxSessions cfg)"
  using assms(3,4)
proof (induction evs arbitrary: c s rs)
  case (Cons ev evs)
  show ?case
  proof (cases ev)
    case (OpenSession m x sc)
    show ?thesis
    proof (cases "unat c < nat (MaxSessions cfg)")
      case True
      with Cons.prems OpenSession unat_succ [OF True assms(2)] show ?thesis
        by (auto simp: OnSessionChannel_below [OF assms(1,2) True] split: prod.splits sum.splits dest!: Cons.IH)
    next
      case False
      then have "nat (MaxSessions cfg) \<le> unat c" by simp
      with Cons.prems OpenSession show ?thesis
        by (auto simp: OnSessionChannel_limit [OF assms(1,2)] split: prod.splits dest!: Cons.IH)
    qed
  next
    case (Backend f)
    with Cons.prems show ?thesis by (auto dest!: Cons.IH)
  qed
qed simp

section \<open>Correctness of the security layer\<close>

lemma force_with_env_cong:
  "ForceCommand cfg = ForceCommand cfg' \<Longrightarrow> force_with_env cfg b r p s = force_with_env cfg' b r p s"
  by (simp add: force_with_env_def split: prod.splits option.splits)

lemma Validate_policy_None:
  "Validate_policy e = None \<longleftrightarrow> e \<in> {[], ''enable'', ''filter'', ''disable''}"
  by (simp add: Validate_policy_def)

definition open_config :: SecurityConfig where
  "open_config = \<lparr>DefaultMode = '''', ForceCommand = '''',
     Env = \<lparr>env_Mode = ''filter'', env_Allow = [''LANG''], env_Deny = []\<rparr>,
     Command = \<lparr>command_Mode = '''', command_Allow = []\<rparr>, Shell = \<lparr>shell_Mode = ''disable''\<rparr>,
     Subsystem = \<lparr>subsystem_Mode = '''', subsystem_Allow = [], subsystem_Deny = [''sftp'']\<rparr>,
     Forwarding = \<lparr>ReverseForwardingMode = ''disable'', ForwardingMode = ''disable'', SocketForwardingMode = ''disable'',
       SocketListenMode = ''disable'', X11ForwardingMode = ''disable''\<rparr>,
     TTY = \<lparr>tty_Mode = ''''\<rparr>, Signal = \<lparr>signal_Mode = ''disable'', signal_Allow = [], signal_Deny = []\<rparr>,
     MaxSessions = 1\<rparr>"





text \<open>C8: With a forced command, a session of a guarded connection runs no other program: every exec
  call that reaches the backend runs the forced command, and no shell or subsystem is started.\<close>
theorem force_command_only:
  assumes "ForceCommand cfg \<noteq> ''''"
    and "OnSessionChannel backend meta (ExtraData nc) (ChannelWrapper (ChannelID meta)) ([], s) = (Inr (recorder b), ([], s1))"
    and "ConnectionID (Connection meta) \<in> connMap srv"
    and "handleSessionChannel um meta nc (security_connection cfg backend) srv (n, ([], s)) = Ret (evs, srv', (n', (tr, s')))"
  shows "\<forall>c \<in> set tr. (\<forall>r p. c = CallExec r p \<longrightarrow> p = ForceCommand cfg)
           \<and> (\<forall>r. c \<noteq> CallShell r) \<and> (\<forall>r name. c \<noteq> CallSubsystem r name)"
  using handleSessionChannel_secured [OF assms(2,3,4)] mediated_forced [OF _ assms(1)]
  unfolding list_all_iff by blast

theorem force_command_only_witness:
  "ForceCommand (open_config\<lparr>ForceCommand := ''id''\<rparr>) \<noteq> '''' \<and>
   (\<exists>evs srv' n' tr s'.
     handleSessionChannel sample_um sample_meta sample_channel
       (security_connection (open_config\<lparr>ForceCommand := ''id''\<rparr>) (sample_conn (recorder AbstractSessionChannelHandler)))
       sample_srv (0, ([], ())) = Ret (evs, srv', (n', (tr, s')))
     \<and> (\<forall>c \<in> set tr. (\<forall>r p. c = CallExec r p \<longrightarrow> p = ''id'')))"
proof -
  let ?cfg = "open_config\<lparr>ForceCommand := ''id''\<rparr>"
  let ?backend = "sample_conn (recorder AbstractSessionChannelHandler) :: unit traced ssh_connection_handler"
  have force: "ForceCommand ?cfg \<noteq> ''''" by simp
  have open_session: "OnSessionChannel ?backend sample_meta (ExtraData sample_channel)
      (ChannelWrapper (ChannelID sample_meta)) ([], ()) = (Inr (recorder AbstractSessionChannelHandler), ([], ()))"
    by (simp add: sample_conn_def)
  have conn: "ConnectionID (Connection sample_meta) \<in> connMap sample_srv" by (simp add: sample_srv_def)
  obtain evs srv' n' tr s' where run: "handleSessionChannel sample_um sample_meta sample_channel
      (security_connection ?cfg ?backend) sample_srv (0, ([], ())) = Ret (evs, srv', (n', (tr, s')))"
    using handleSessionChannel_returns [OF conn, of sample_um sample_channel "security_connection ?cfg ?backend"
        "(0, ([], ()))"] by (metis prod.collapse)
  from force_command_only [OF force open_session conn run] run force show ?thesis by auto
qed



text \<open>C11: With a limit on sessions, the number of sessions a connection is granted over its whole
  life never exceeds the limit and is what the counter holds. When the limit is reached every further
  session is refused for lack of resources without contact with the backend, whatever happened to
  the earlier sessions in between.\<close>
theorem max_sessions_limit:
  assumes "0 \<le> MaxSessions cfg" "MaxSessions cfg < 2 ^ 63"
    and "connection_run cfg backend evs (0, s) = (rs, (c, s'))"
  shows "accepted rs \<le> nat (MaxSessions cfg) \<and> unat c = accepted rs
       \<and> (accepted rs = nat (MaxSessions cfg) \<longrightarrow>
            OnSessionChannel (security_connection cfg backend) m x sc (c, s') = (Inl ErrTooManySessions, (c, s')))"
  using connection_run_limit [OF assms] OnSessionChannel_limit [OF assms(1,2), of c backend m x sc s'] by simp

theorem max_sessions_limit_witness:
  "\<exists>c s'. connection_run open_config (sample_conn AbstractSessionChannelHandler)
       [OpenSession sample_meta [] (ChannelWrapper 0), Backend (\<lambda>_. ()), OpenSession sample_meta [] (ChannelWrapper 1)] (0, ()) =
     ([None, Some ErrTooManySessions], (c, s'))
     \<and> OnSessionChannel (security_connection open_config (sample_conn AbstractSessionChannelHandler)) sample_meta [] (ChannelWrapper 2) (c, s')
       = (Inl ErrTooManySessions, (c, s'))"
proof -
  have bounds: "0 \<le> MaxSessions open_config" "MaxSessions open_config < 2 ^ 63" by (simp_all add: open_config_def)
  have run: "connection_run open_config (sample_conn AbstractSessionChannelHandler)
       [OpenSession sample_meta [] (ChannelWrapper 0), Backend (\<lambda>_. ()), OpenSession sample_meta [] (ChannelWrapper 1)] (0, ()) =
     ([None, Some ErrTooManySessions], (1, ()))"
    by (simp add: security_connection_def sec_OnSessionChannel_def sample_conn_def open_config_def)
  from max_sessions_limit [OF bounds run, of sample_meta "[]" "ChannelWrapper 2"] run show ?thesis
    by (auto simp: open_config_def)
qed

text \<open>A configuration validates exactly when the default mode and the modes for environment,
  commands, shell, subsystems, terminals and signals are each unset, enable, filter or disable, and
  the session limit is at least -1.\<close>
theorem security_validate_iff:
  "Validate cfg = None \<longleftrightarrow>
     set [DefaultMode cfg, env_Mode (Env cfg), command_Mode (Command cfg), shell_Mode (Shell cfg),
          subsystem_Mode (Subsystem cfg), tty_Mode (TTY cfg), signal_Mode (Signal cfg)]
       \<subseteq> {'''', ''enable'', ''filter'', ''disable''}
     \<and> -1 \<le> MaxSessions cfg"
  by (simp add: Validate_def Validate_env_def Validate_command_def Validate_shell_def Validate_subsystem_def
      Validate_tty_def Validate_signal_def Validate_policy_None not_less del: insert_iff)

text \<open>The forwarding modes are not validated, and a mode that is not one of the known ones is
  treated as permission: with a misspelt mode the configuration validates and direct forwarding
  reaches the backend.\<close>
theorem forwarding_mode_fails_open:
  assumes "Validate cfg = None"
    and "mode \<notin> {'''', ''enable'', ''filter'', ''disable''}"
  shows "Validate (cfg\<lparr>Forwarding := (Forwarding cfg)\<lparr>ForwardingMode := mode\<rparr>\<rparr>) = None
       \<and> Validate_forwarding ((Forwarding cfg)\<lparr>ForwardingMode := mode\<rparr>) \<noteq> None
       \<and> sec_OnTCPForwardChannel (cfg\<lparr>Forwarding := (Forwarding cfg)\<lparr>ForwardingMode := mode\<rparr>\<rparr>) backend ch h p oh op s
         = OnTCPForwardChannel backend ch h p oh op s"
proof (intro conjI)
  show "Validate (cfg\<lparr>Forwarding := (Forwarding cfg)\<lparr>ForwardingMode := mode\<rparr>\<rparr>) = None"
    using assms(1) by (simp add: Validate_def split: if_splits)
  show "Validate_forwarding ((Forwarding cfg)\<lparr>ForwardingMode := mode\<rparr>) \<noteq> None"
    using assms(2) by (simp add: Validate_forwarding_def Validate_policy_None)
  show "sec_OnTCPForwardChannel (cfg\<lparr>Forwarding := (Forwarding cfg)\<lparr>ForwardingMode := mode\<rparr>\<rparr>) backend ch h p oh op s
      = OnTCPForwardChannel backend ch h p oh op s"
    using assms(2) by (simp add: sec_OnTCPForwardChannel_def getPolicy_def)
qed

theorem forwarding_mode_fails_open_witness:
  "Validate (open_config\<lparr>Forwarding := (Forwarding open_config)\<lparr>ForwardingMode := ''disabled''\<rparr>\<rparr>) = None \<and>
   sec_OnTCPForwardChannel (open_config\<lparr>Forwarding := (Forwarding open_config)\<lparr>ForwardingMode := ''disabled''\<rparr>\<rparr>)
     (sample_conn AbstractSessionChannelHandler) 0 ''localhost'' 80 ''client'' 1234 () =
   OnTCPForwardChannel (sample_conn AbstractSessionChannelHandler) 0 ''localhost'' 80 ''client'' 1234 ()"
proof -
  have valid: "Validate open_config = None"
    by (simp add: open_config_def Validate_def Validate_policy_def Validate_env_def Validate_command_def
        Validate_shell_def Validate_subsystem_def Validate_tty_def Validate_signal_def)
  have "''disabled'' \<notin> {'''', ''enable'', ''filter'', ''disable''}" by simp
  from forwarding_mode_fails_open [OF valid this, of "sample_conn AbstractSessionChannelHandler" 0 "''localhost''" 80 "''client''" 1234 "()"]
  show ?thesis by simp
qed

text \<open>The mode configured for signals has no influence on any request: the layer behaves the same
  whatever it is set to.\<close>
theorem signal_mode_ignored:
  "perform (security_session (cfg\<lparr>Signal := (Signal cfg)\<lparr>signal_Mode := mode\<rparr>\<rparr>) b) c s = perform (security_session cfg b) c s"
  by (cases c) (simp_all add: handler_simps security_ops getPolicy_def force_with_env_cong [of "cfg\<lparr>Signal := _\<rparr>" cfg])

end
