(* ===== verification/Agent_Protocol.thy ===== *)
theory Agent_Protocol
  imports Messages
begin

text \<open>
  The protocol between the server and the agent in a container (\<open>agentprotocol\<close>): connections
  multiplexed over one stream of packets. \<open>ForwardCtx\<close> is one end of the stream, with the table of
  its connections; the operations on a \<open>Connection\<close> and the handlers of received packets are
  translated one by one. The packets an end has written are kept in \<open>encoder\<close>, in order; a broken
  stream is \<open>encoder_error\<close>. The CBOR codec of the payloads is the parameter \<open>cd\<close>. A mutex that is
  left locked is a flag of the state, and an operation that needs it then blocks.
\<close>

section \<open>Packets\<close>

abbreviation (input) PACKET_SETUP :: int where "PACKET_SETUP \<equiv> 0"
abbreviation (input) PACKET_SUCCESS :: int where "PACKET_SUCCESS \<equiv> 1"
abbreviation (input) PACKET_ERROR :: int where "PACKET_ERROR \<equiv> 2"
abbreviation (input) PACKET_DATA :: int where "PACKET_DATA \<equiv> 3"
abbreviation (input) PACKET_NEW_CONNECTION :: int where "PACKET_NEW_CONNECTION \<equiv> 4"
abbreviation (input) PACKET_CLOSE_CONNECTION :: int where "PACKET_CLOSE_CONNECTION \<equiv> 5"
abbreviation (input) PACKET_NO_MORE_CONNECTIONS :: int where "PACKET_NO_MORE_CONNECTIONS \<equiv> 6"

record SetupPacket =
  ConnectionType :: uint32
  BindHost :: string
  BindPort :: uint32
  setup_Protocol :: string
  Screen :: string
  SingleConnection :: bool
  AuthProtocol :: string
  AuthCookie :: string

record NewConnectionPayload =
  Protocol :: string
  conn_ConnectedAddress :: string
  conn_ConnectedPort :: uint32
  conn_OriginatorAddress :: string
  conn_OriginatorPort :: uint32

record Packet =
  Type :: int
  ConnectionId :: uint64
  Payload :: bytes

record codec =
  marshalSetup :: "SetupPacket \<Rightarrow> go_error + bytes"
  unmarshalSetup :: "bytes \<Rightarrow> go_error + SetupPacket"
  marshalNewConnection :: "NewConnectionPayload \<Rightarrow> go_error + bytes"
  unmarshalNewConnection :: "bytes \<Rightarrow> go_error + NewConnectionPayload"

section \<open>Connections\<close>

datatype connection_state = WAITINIT | STARTED | WAITCLOSE | CLOSED

fun state_number :: "connection_state \<Rightarrow> int" where
  "state_number WAITINIT = 0"
| "state_number STARTED = 1"
| "state_number WAITCLOSE = 2"
| "state_number CLOSED = 3"

text \<open>\<open>buffer\<close> is what was written to the pipe towards the local reader; \<open>closeCallback\<close> says that a
  close callback is set.\<close>

record connection =
  state :: connection_state
  initiator :: bool
  conn_id :: uint64
  details :: NewConnectionPayload
  buffer :: bytes
  writer_closed :: bool
  reader_closed :: bool
  closeCallback :: bool

text \<open>\<open>connectionChannel\<close> lists the connections handed to the application, \<open>callbacks\<close> the connections
  whose close callback was called; \<open>connMapMu\<close> says that the lock of the table is held for good.\<close>

record ForwardCtx =
  connectionChannel :: "uint64 list"
  channel_closed :: bool
  stopped :: bool
  connectionId :: uint64
  connMapMu :: bool
  connMap :: "(uint64 \<times> connection) list"
  encoder :: "Packet list"
  encoder_error :: "go_error option"
  waitGroup :: int
  callbacks :: "uint64 list"

definition init :: ForwardCtx where
  "init = \<lparr>connectionChannel = [], channel_closed = False, stopped = False, connectionId = 0,
     connMapMu = False, connMap = [], encoder = [], encoder_error = None, waitGroup = 0, callbacks = []\<rparr>"

definition store :: "uint64 \<Rightarrow> connection \<Rightarrow> ForwardCtx \<Rightarrow> ForwardCtx" where
  "store i c ctx = ctx\<lparr>connMap := AList.update i c (connMap ctx)\<rparr>"

definition packet :: "int \<Rightarrow> uint64 \<Rightarrow> bytes \<Rightarrow> Packet" where
  "packet t i p = \<lparr>Type = t, ConnectionId = i, Payload = p\<rparr>"

definition writePacket :: "Packet \<Rightarrow> ForwardCtx \<Rightarrow> go_error option \<times> ForwardCtx" where
  "writePacket p ctx =
     (case encoder_error ctx of
        None \<Rightarrow> (None, ctx\<lparr>encoder := encoder ctx @ [p]\<rparr>)
      | Some e \<Rightarrow> (Some e, ctx))"

text \<open>\<open>Connection.Write\<close> waits while the connection is not initialised.\<close>

definition Write :: "connection \<Rightarrow> bytes \<Rightarrow> ForwardCtx \<Rightarrow> ((nat \<times> go_error option) \<times> connection \<times> ForwardCtx) go" where
  "Write c data ctx =
     (case state c of
        WAITINIT \<Rightarrow> Block
      | STARTED \<Rightarrow>
          (case writePacket (packet PACKET_DATA (conn_id c) data) ctx of
             (Some e, ctx) \<Rightarrow> Ret ((0, Some e), c, ctx)
           | (None, ctx) \<Rightarrow> Ret ((length data, None), c, ctx))
      | _ \<Rightarrow> Ret ((0, Some (ErrorString ''connection closed'')), c\<lparr>writer_closed := True\<rparr>, ctx))"

definition Close :: "connection \<Rightarrow> ForwardCtx \<Rightarrow> go_error option \<times> connection \<times> ForwardCtx" where
  "Close c ctx =
     (if state c = WAITINIT \<or> state c = STARTED
      then let c = c\<lparr>state := WAITCLOSE\<rparr>;
               (err, ctx) = writePacket (packet PACKET_CLOSE_CONNECTION (conn_id c) []) ctx
           in (err, c, ctx)
      else (None, c, ctx))"

definition CloseImm :: "connection \<Rightarrow> ForwardCtx \<Rightarrow> go_error option \<times> connection \<times> ForwardCtx" where
  "CloseImm c ctx =
     (if state c \<noteq> WAITINIT \<and> state c \<noteq> STARTED \<and> state c \<noteq> WAITCLOSE
      then (Some (ErrorString ''unclosable state''), c, ctx)
      else (None, c\<lparr>state := CLOSED, writer_closed := True, reader_closed := True\<rparr>,
            ctx\<lparr>callbacks := callbacks ctx @ (if closeCallback c then [conn_id c] else []),
                waitGroup := waitGroup ctx - 1\<rparr>))"

definition cannot_accept :: "connection_state \<Rightarrow> go_error" where
  "cannot_accept s = ErrorString (''invalid state, cannot accept connection in state '' @ itoa (state_number s))"

definition Accept :: "connection \<Rightarrow> ForwardCtx \<Rightarrow> go_error option \<times> connection \<times> ForwardCtx" where
  "Accept c ctx =
     (if initiator c then (Some (ErrorString ''cannot accept connection that was initiated locally''), c, ctx)
      else if state c \<noteq> WAITINIT then (Some (cannot_accept (state c)), c, ctx)
      else let c = c\<lparr>state := STARTED\<rparr>;
               (err, ctx) = writePacket (packet PACKET_SUCCESS (conn_id c) []) ctx
           in (err, c, ctx))"

definition Reject :: "connection \<Rightarrow> ForwardCtx \<Rightarrow> go_error option \<times> connection \<times> ForwardCtx" where
  "Reject c ctx =
     (if initiator c then (Some (ErrorString ''cannot reject a connection that was initiated locally''), c, ctx)
      else if state c \<noteq> WAITINIT then (Some (cannot_accept (state c)), c, ctx)
      else let c = c\<lparr>state := CLOSED\<rparr>;
               (err, ctx) = writePacket (packet PACKET_ERROR (conn_id c) []) ctx
           in (err, c, ctx))"

definition setState :: "connection_state \<Rightarrow> connection \<Rightarrow> connection" where
  "setState s c = c\<lparr>state := s\<rparr>"

section \<open>Handling of packets\<close>

definition handleData :: "Packet \<Rightarrow> ForwardCtx \<Rightarrow> ForwardCtx go" where
  "handleData p ctx =
     (if connMapMu ctx then Block
      else case map_of (connMap ctx) (ConnectionId p) of
             None \<Rightarrow> Ret ctx
           | Some conn \<Rightarrow>
               if state conn \<noteq> STARTED then Ret ctx
               else if writer_closed conn then Ret ctx
               else Ret (store (ConnectionId p) (conn\<lparr>buffer := buffer conn @ Payload p\<rparr>) ctx))"

text \<open>For an unknown connection the lock of the table is not released.\<close>

definition handleClose :: "Packet \<Rightarrow> ForwardCtx \<Rightarrow> ForwardCtx go" where
  "handleClose p ctx =
     (if connMapMu ctx then Block
      else case map_of (connMap ctx) (ConnectionId p) of
             None \<Rightarrow> Ret (ctx\<lparr>connMapMu := True\<rparr>)
           | Some conn \<Rightarrow>
               let (err, conn, ctx) = CloseImm conn ctx;
                   ctx = store (ConnectionId p) conn ctx;
                   (_, ctx) = writePacket
                     (packet (if err = None then PACKET_SUCCESS else PACKET_ERROR) (conn_id conn) []) ctx
               in Ret ctx)"

definition handleSuccess :: "Packet \<Rightarrow> ForwardCtx \<Rightarrow> ForwardCtx go" where
  "handleSuccess p ctx =
     (if connMapMu ctx then Block
      else case map_of (connMap ctx) (ConnectionId p) of
             None \<Rightarrow> Ret ctx
           | Some conn \<Rightarrow>
               (case state conn of
                  WAITINIT \<Rightarrow> Ret (store (ConnectionId p) (setState STARTED conn) ctx)
                | WAITCLOSE \<Rightarrow>
                    let (_, conn, ctx) = CloseImm conn ctx in Ret (store (ConnectionId p) conn ctx)
                | _ \<Rightarrow> Ret ctx))"

definition handleError :: "Packet \<Rightarrow> ForwardCtx \<Rightarrow> ForwardCtx go" where
  "handleError p ctx =
     (if connMapMu ctx then Block
      else case map_of (connMap ctx) (ConnectionId p) of
             None \<Rightarrow> Ret ctx
           | Some conn \<Rightarrow>
               let (_, conn, ctx) = CloseImm conn ctx in Ret (store (ConnectionId p) conn ctx))"

definition handleNewConnection :: "codec \<Rightarrow> Packet \<Rightarrow> ForwardCtx \<Rightarrow> ForwardCtx go" where
  "handleNewConnection cd p ctx =
     (case unmarshalNewConnection cd (Payload p) of
        Inl err \<Rightarrow> Ret ctx
      | Inr newConnectionPacket \<Rightarrow>
          if connMapMu ctx then Block
          else if map_of (connMap ctx) (ConnectionId p) \<noteq> None then Ret ctx
          else if ConnectionId p \<le> connectionId ctx then Ret ctx
          else let conn = \<lparr>state = WAITINIT, initiator = False, conn_id = ConnectionId p,
                     details = newConnectionPacket, buffer = [], writer_closed = False,
                     reader_closed = False, closeCallback = False\<rparr>;
                   ctx = store (ConnectionId p) conn
                           (ctx\<lparr>connectionId := ConnectionId p, waitGroup := waitGroup ctx + 1\<rparr>)
               in if stopped ctx
                  then let (_, conn, ctx) = Reject conn ctx in Ret (store (ConnectionId p) conn ctx)
                  else if channel_closed ctx then Panic ''send on closed channel''
                  else Ret (ctx\<lparr>connectionChannel := connectionChannel ctx @ [ConnectionId p]\<rparr>))"

definition handlePacket :: "codec \<Rightarrow> Packet \<Rightarrow> ForwardCtx \<Rightarrow> ForwardCtx go" where
  "handlePacket cd p ctx =
     (if Type p = PACKET_DATA then handleData p ctx
      else if Type p = PACKET_CLOSE_CONNECTION then handleClose p ctx
      else if Type p = PACKET_SUCCESS then handleSuccess p ctx
      else if Type p = PACKET_ERROR then handleError p ctx
      else if Type p = PACKET_NEW_CONNECTION then handleNewConnection cd p ctx
      else if Type p = PACKET_NO_MORE_CONNECTIONS
      then if \<not> stopped ctx
           then if channel_closed ctx then Panic ''close of closed channel''
                else Ret (ctx\<lparr>stopped := True, channel_closed := True\<rparr>)
           else Ret ctx
      else Ret ctx)"

text \<open>The loop over the received packets, up to the one that does not decode.\<close>

fun handleBackend :: "codec \<Rightarrow> (go_error + Packet) list \<Rightarrow> ForwardCtx \<Rightarrow> ForwardCtx go" where
  "handleBackend cd [] ctx = Ret ctx"
| "handleBackend cd (Inl err # ps) ctx = Ret ctx"
| "handleBackend cd (Inr p # ps) ctx = go_bind (handlePacket cd p ctx) (handleBackend cd ps)"

section \<open>Opening connections and shutting down\<close>

definition newConnection ::
    "codec \<Rightarrow> string \<Rightarrow> string \<Rightarrow> uint32 \<Rightarrow> string \<Rightarrow> uint32 \<Rightarrow> bool \<Rightarrow> ForwardCtx \<Rightarrow> ((go_error + uint64) \<times> ForwardCtx) go" where
  "newConnection cd protocol connectedAddress connectedPort origAddress origPort closeFunc ctx =
     (let connInfo = \<lparr>Protocol = protocol, conn_ConnectedAddress = connectedAddress, conn_ConnectedPort = connectedPort,
            conn_OriginatorAddress = origAddress, conn_OriginatorPort = origPort\<rparr>
      in case marshalNewConnection cd connInfo of
           Inl err \<Rightarrow> Ret (Inl err, ctx)
         | Inr marInfo \<Rightarrow>
             if connMapMu ctx then Block
             else let i = connectionId ctx + 1;
                      ctx = ctx\<lparr>connectionId := i\<rparr>
                  in if map_of (connMap ctx) i \<noteq> None
                     then Ret (Inl (ErrorString ''Connection id already exists, something went terribly wrong''),
                               ctx\<lparr>connMapMu := True\<rparr>)
                     else let conn = \<lparr>state = WAITINIT, initiator = True, conn_id = i,
                                details = \<lparr>Protocol = '''', conn_ConnectedAddress = '''', conn_ConnectedPort = 0,
                                  conn_OriginatorAddress = '''', conn_OriginatorPort = 0\<rparr>,
                                buffer = [], writer_closed = False, reader_closed = False, closeCallback = closeFunc\<rparr>;
                              ctx = store i conn (ctx\<lparr>waitGroup := waitGroup ctx + 1\<rparr>)
                          in (case writePacket (packet PACKET_NEW_CONNECTION i marInfo) ctx of
                                (Some err, ctx) \<Rightarrow> Ret (Inl err, ctx)
                              | (None, ctx) \<Rightarrow> Ret (Inr i, ctx)))"

definition NewConnectionTCP where
  "NewConnectionTCP cd connectedAddress connectedPort origAddress origPort closeFunc ctx =
     newConnection cd ''tcp'' connectedAddress connectedPort origAddress origPort closeFunc ctx"

definition NewConnectionUnix where
  "NewConnectionUnix cd path closeFunc ctx = newConnection cd ''unix'' path 0 '''' 0 closeFunc ctx"

definition NoMoreConnections :: "ForwardCtx \<Rightarrow> (go_error option \<times> ForwardCtx) go" where
  "NoMoreConnections ctx =
     (if channel_closed ctx then Panic ''close of closed channel''
      else Ret (writePacket (packet PACKET_NO_MORE_CONNECTIONS 0 []) (ctx\<lparr>stopped := True, channel_closed := True\<rparr>)))"

definition WaitFinish :: "ForwardCtx \<Rightarrow> ForwardCtx go" where
  "WaitFinish ctx = (if waitGroup ctx = 0 then Ret ctx else Block)"

definition on_connection :: "(connection \<Rightarrow> ForwardCtx \<Rightarrow> go_error option \<times> connection \<times> ForwardCtx) \<Rightarrow> uint64 \<Rightarrow> ForwardCtx \<Rightarrow> ForwardCtx" where
  "on_connection f i ctx =
     (case map_of (connMap ctx) i of
        None \<Rightarrow> ctx
      | Some c \<Rightarrow> let (_, c, ctx) = f c ctx in store i c ctx)"

text \<open>\<open>Kill\<close> closes every connection, and after five seconds closes those that are left at once; it
  returns when the wait group is done.\<close>

definition Kill_close :: "ForwardCtx \<Rightarrow> ForwardCtx go" where
  "Kill_close ctx =
     go_bind (if \<not> stopped ctx then go_bind (NoMoreConnections ctx) (\<lambda>(_, ctx). Ret ctx) else Ret ctx)
       (\<lambda>ctx. Ret (fold (on_connection Close) (map fst (connMap ctx)) ctx))"

definition Kill_timeout :: "ForwardCtx \<Rightarrow> ForwardCtx" where
  "Kill_timeout ctx = fold (on_connection CloseImm) (map fst (connMap ctx)) ctx"

section \<open>Setting up the stream\<close>

text \<open>\<open>resp\<close> is the result of decoding the first packet from the other end.\<close>

definition StartClient :: "codec \<Rightarrow> go_error + Packet \<Rightarrow> ForwardCtx \<Rightarrow> (go_error + SetupPacket) \<times> ForwardCtx" where
  "StartClient cd resp ctx =
     (case resp of
        Inl err \<Rightarrow> (Inl err, ctx)
      | Inr p \<Rightarrow>
          if Type p \<noteq> PACKET_SETUP then (Inl (ErrorString ''invalid packet type, expecting PACKET_SETUP''), ctx)
          else (case unmarshalSetup cd (Payload p) of
                  Inl err \<Rightarrow> (Inl err, ctx)
                | Inr setup \<Rightarrow>
                    (case writePacket (packet PACKET_SUCCESS 0 []) ctx of
                       (Some err, ctx) \<Rightarrow> (Inl err, ctx)
                     | (None, ctx) \<Rightarrow> (Inr setup, ctx))))"

definition check_response :: "go_error + Packet \<Rightarrow> go_error option" where
  "check_response resp =
     (case resp of
        Inl err \<Rightarrow> Some err
      | Inr p \<Rightarrow>
          if Type p = PACKET_ERROR then Some (ErrorString ''received error packet from client'')
          else if Type p \<noteq> PACKET_SUCCESS then Some (ErrorString ''received invalid packet from client'')
          else None)"

definition startReverseForwardingClient :: "codec \<Rightarrow> SetupPacket \<Rightarrow> go_error + Packet \<Rightarrow> ForwardCtx \<Rightarrow> go_error option \<times> ForwardCtx" where
  "startReverseForwardingClient cd setupPacket resp ctx =
     (case marshalSetup cd setupPacket of
        Inl err \<Rightarrow> (Some err, ctx)
      | Inr mar \<Rightarrow>
          (case writePacket (packet PACKET_SETUP 0 mar) ctx of
             (Some err, ctx) \<Rightarrow> (Some err, ctx)
           | (None, ctx) \<Rightarrow> (check_response resp, ctx)))"

definition empty_setup :: SetupPacket where
  "empty_setup = \<lparr>ConnectionType = 0, BindHost = '''', BindPort = 0, setup_Protocol = '''', Screen = '''',
     SingleConnection = False, AuthProtocol = '''', AuthCookie = ''''\<rparr>"

definition StartServerForward where
  "StartServerForward cd resp ctx = startReverseForwardingClient cd (empty_setup\<lparr>ConnectionType := 2\<rparr>) resp ctx"

definition StartX11ForwardClient where
  "StartX11ForwardClient cd singleConnection screen authProtocol authCookie resp ctx =
     startReverseForwardingClient cd (empty_setup\<lparr>ConnectionType := 0, setup_Protocol := ''tcp'',
       SingleConnection := singleConnection, Screen := screen, AuthProtocol := authProtocol,
       AuthCookie := authCookie\<rparr>) resp ctx"

definition StartReverseForwardClient where
  "StartReverseForwardClient cd bindHost bindPort singleConnection resp ctx =
     startReverseForwardingClient cd (empty_setup\<lparr>ConnectionType := 1, BindHost := bindHost, BindPort := bindPort,
       setup_Protocol := ''tcp'', SingleConnection := singleConnection\<rparr>) resp ctx"

definition StartReverseForwardClientUnix where
  "StartReverseForwardClientUnix cd path singleConnection resp ctx =
     startReverseForwardingClient cd (empty_setup\<lparr>ConnectionType := 1, BindHost := path,
       setup_Protocol := ''unix'', SingleConnection := singleConnection\<rparr>) resp ctx"

section \<open>Local operations and the two ends of a stream\<close>

datatype action =
    ActNew string string uint32 string uint32 bool
  | ActWrite uint64 bytes
  | ActClose uint64
  | ActCloseImm uint64
  | ActAccept uint64
  | ActReject uint64
  | ActNoMore

fun local_act :: "codec \<Rightarrow> action \<Rightarrow> ForwardCtx \<Rightarrow> ForwardCtx go" where
  "local_act cd (ActNew p a n oa on f) ctx = go_bind (newConnection cd p a n oa on f ctx) (\<lambda>(_, ctx). Ret ctx)"
| "local_act cd (ActWrite i d) ctx =
     (case map_of (connMap ctx) i of
        None \<Rightarrow> Ret ctx
      | Some c \<Rightarrow> go_bind (Write c d ctx) (\<lambda>(_, c, ctx). Ret (store i c ctx)))"
| "local_act cd (ActClose i) ctx = Ret (on_connection Close i ctx)"
| "local_act cd (ActCloseImm i) ctx = Ret (on_connection CloseImm i ctx)"
| "local_act cd (ActAccept i) ctx = Ret (on_connection Accept i ctx)"
| "local_act cd (ActReject i) ctx = Ret (on_connection Reject i ctx)"
| "local_act cd ActNoMore ctx = go_bind (NoMoreConnections ctx) (\<lambda>(_, ctx). Ret ctx)"

fun opens :: "action \<Rightarrow> bool" where
  "opens (ActNew p a n oa on f) = True"
| "opens _ = False"

text \<open>Two ends joined by the stream: \<open>peerA\<close> opens the connections, \<open>readB\<close> counts the packets of
  \<open>peerA\<close> that \<open>peerB\<close> has handled and \<open>readA\<close> those of \<open>peerB\<close> that \<open>peerA\<close> has.\<close>

record net =
  peerA :: ForwardCtx
  peerB :: ForwardCtx
  readA :: nat
  readB :: nat

definition net_init :: "net \<Rightarrow> bool" where
  "net_init n \<longleftrightarrow> n = \<lparr>peerA = init, peerB = init, readA = 0, readB = 0\<rparr>"

inductive net_step :: "codec \<Rightarrow> net \<Rightarrow> net \<Rightarrow> bool" for cd where
  local_A: "local_act cd a (peerA n) = Ret ctx \<Longrightarrow> net_step cd n (n\<lparr>peerA := ctx\<rparr>)"
| local_B: "local_act cd a (peerB n) = Ret ctx \<Longrightarrow> \<not> opens a \<Longrightarrow> net_step cd n (n\<lparr>peerB := ctx\<rparr>)"
| deliver_B: "readB n < length (encoder (peerA n)) \<Longrightarrow>
              handlePacket cd (encoder (peerA n) ! readB n) (peerB n) = Ret ctx \<Longrightarrow>
              net_step cd n (n\<lparr>peerB := ctx, readB := Suc (readB n)\<rparr>)"
| deliver_A: "readA n < length (encoder (peerB n)) \<Longrightarrow>
              handlePacket cd (encoder (peerB n) ! readA n) (peerA n) = Ret ctx \<Longrightarrow>
              net_step cd n (n\<lparr>peerA := ctx, readA := Suc (readA n)\<rparr>)"

section \<open>One end of the stream\<close>

abbreviation look :: "ForwardCtx \<Rightarrow> uint64 \<Rightarrow> connection option" where
  "look ctx \<equiv> map_of (connMap ctx)"

lemma store_sel [simp]:
  "map_of (connMap (store i c ctx)) = (map_of (connMap ctx))(i \<mapsto> c)"
  "encoder (store i c ctx) = encoder ctx" "encoder_error (store i c ctx) = encoder_error ctx"
  "waitGroup (store i c ctx) = waitGroup ctx" "stopped (store i c ctx) = stopped ctx"
  "channel_closed (store i c ctx) = channel_closed ctx" "connMapMu (store i c ctx) = connMapMu ctx"
  "connectionId (store i c ctx) = connectionId ctx" "callbacks (store i c ctx) = callbacks ctx"
  "connectionChannel (store i c ctx) = connectionChannel ctx"
  by (simp_all add: store_def update_conv')

text \<open>What holds of every connection in a table: it is stored under its id, its reader is closed only
  when it is, and its writer only when it is closing.\<close>

definition conn_ok :: "uint64 \<Rightarrow> connection \<Rightarrow> bool" where
  "conn_ok i c \<longleftrightarrow> conn_id c = i \<and> (reader_closed c \<longrightarrow> state c = CLOSED)
     \<and> (writer_closed c \<longrightarrow> state c = WAITCLOSE \<or> state c = CLOSED)"

abbreviation unfinished :: "connection \<Rightarrow> bool" where
  "unfinished c \<equiv> \<not> reader_closed c"

text \<open>The wait group counts the connections whose pipes are not closed yet, and close callbacks were
  called at most once and only for connections that are.\<close>

definition ctx_inv :: "ForwardCtx \<Rightarrow> bool" where
  "ctx_inv ctx \<longleftrightarrow>
     (\<forall>i c. look ctx i = Some c \<longrightarrow> conn_ok i c)
     \<and> waitGroup ctx = int (count_vals unfinished (connMap ctx))
     \<and> (channel_closed ctx \<longleftrightarrow> stopped ctx)
     \<and> distinct (callbacks ctx)
     \<and> (\<forall>i \<in> set (callbacks ctx). \<exists>c. look ctx i = Some c \<and> reader_closed c)"

lemma ctx_inv_init: "ctx_inv init"
  by (simp add: ctx_inv_def init_def)

lemma ctx_inv_writePacket [inv_intros]: "ctx_inv ctx \<Longrightarrow> ctx_inv (snd (writePacket p ctx))"
  by (simp add: ctx_inv_def writePacket_def split: option.splits)

lemma ctx_inv_store_same:
  assumes "ctx_inv ctx" "look ctx i = Some c" "conn_ok i c'" "reader_closed c' = reader_closed c"
  shows "ctx_inv (store i c' ctx)"
  using assms count_vals_update_old [OF assms(2), of unfinished c']
  by (auto simp: ctx_inv_def store_def update_conv')

lemma writePacket_sel [simp]:
  "connMap (snd (writePacket p ctx)) = connMap ctx"
  "encoder_error (snd (writePacket p ctx)) = encoder_error ctx"
  by (simp_all add: writePacket_def split: option.splits)

lemma ctx_inv_CloseImm:
  assumes "ctx_inv ctx" "look ctx i = Some c" "CloseImm c ctx = (err, c', ctx')"
  shows "ctx_inv (store i c' ctx')"
proof (cases "state c = CLOSED")
  case True
  with assms(3) have "c' = c" "ctx' = ctx" by (auto simp: CloseImm_def)
  moreover have "conn_ok i c" using assms(1,2) by (simp add: ctx_inv_def)
  ultimately show ?thesis using ctx_inv_store_same [OF assms(1,2)] by simp
next
  case False
  with assms(3) have c': "c' = c\<lparr>state := CLOSED, writer_closed := True, reader_closed := True\<rparr>"
    and ctx': "ctx' = ctx\<lparr>callbacks := callbacks ctx @ (if closeCallback c then [conn_id c] else []),
                waitGroup := waitGroup ctx - 1\<rparr>"
    by (cases "state c"; simp add: CloseImm_def)+
  have open_c: "conn_id c = i" "\<not> reader_closed c"
    using assms(1,2) False by (auto simp: ctx_inv_def conn_ok_def)
  then have "i \<notin> set (callbacks ctx)"
    using assms(1,2) by (auto simp: ctx_inv_def)
  with assms(1,2) open_c count_vals_update_old [OF assms(2), of unfinished c'] show ?thesis
    by (auto simp: ctx_inv_def conn_ok_def c' ctx' store_def update_conv')
qed

lemma ctx_inv_store_write:
  assumes "ctx_inv ctx" "look ctx i = Some c" "conn_ok i c'" "reader_closed c' = reader_closed c"
  shows "ctx_inv (store i c' (snd (writePacket p ctx)))"
  by (rule ctx_inv_store_same [OF ctx_inv_writePacket [OF assms(1)] _ assms(3,4)]) (simp add: assms(2))

lemma conn_ok_look: "ctx_inv ctx \<Longrightarrow> look ctx i = Some c \<Longrightarrow> conn_ok i c"
  by (simp add: ctx_inv_def)

lemma Close_cases:
  "Close c ctx = (if state c = WAITINIT \<or> state c = STARTED
     then (fst (writePacket (packet PACKET_CLOSE_CONNECTION (conn_id c) []) ctx), c\<lparr>state := WAITCLOSE\<rparr>,
           snd (writePacket (packet PACKET_CLOSE_CONNECTION (conn_id c) []) ctx))
     else (None, c, ctx))"
  by (simp add: Close_def Let_def split: prod.splits)

lemma Accept_cases:
  "\<exists>err. Accept c ctx = (if \<not> initiator c \<and> state c = WAITINIT
     then (err, c\<lparr>state := STARTED\<rparr>, snd (writePacket (packet PACKET_SUCCESS (conn_id c) []) ctx))
     else (err, c, ctx))"
  by (simp add: Accept_def Let_def split: prod.splits)

lemma Reject_cases:
  "\<exists>err. Reject c ctx = (if \<not> initiator c \<and> state c = WAITINIT
     then (err, c\<lparr>state := CLOSED\<rparr>, snd (writePacket (packet PACKET_ERROR (conn_id c) []) ctx))
     else (err, c, ctx))"
  by (simp add: Reject_def Let_def split: prod.splits)

lemma ctx_inv_Close:
  assumes "ctx_inv ctx" "look ctx i = Some c"
  shows "ctx_inv (store i (fst (snd (Close c ctx))) (snd (snd (Close c ctx))))"
  using conn_ok_look [OF assms] ctx_inv_store_same [OF assms] ctx_inv_store_write [OF assms]
  by (auto simp: Close_cases conn_ok_def)

lemma ctx_inv_Accept:
  assumes "ctx_inv ctx" "look ctx i = Some c"
  shows "ctx_inv (store i (fst (snd (Accept c ctx))) (snd (snd (Accept c ctx))))"
proof -
  obtain err where "Accept c ctx = (if \<not> initiator c \<and> state c = WAITINIT
     then (err, c\<lparr>state := STARTED\<rparr>, snd (writePacket (packet PACKET_SUCCESS (conn_id c) []) ctx))
     else (err, c, ctx))" using Accept_cases by blast
  with conn_ok_look [OF assms] ctx_inv_store_same [OF assms] ctx_inv_store_write [OF assms]
  show ?thesis by (auto simp: conn_ok_def)
qed

lemma ctx_inv_Reject:
  assumes "ctx_inv ctx" "look ctx i = Some c"
  shows "ctx_inv (store i (fst (snd (Reject c ctx))) (snd (snd (Reject c ctx))))"
proof -
  obtain err where "Reject c ctx = (if \<not> initiator c \<and> state c = WAITINIT
     then (err, c\<lparr>state := CLOSED\<rparr>, snd (writePacket (packet PACKET_ERROR (conn_id c) []) ctx))
     else (err, c, ctx))" using Reject_cases by blast
  with conn_ok_look [OF assms] ctx_inv_store_same [OF assms] ctx_inv_store_write [OF assms]
  show ?thesis by (auto simp: conn_ok_def)
qed

lemma on_connection_inv:
  assumes "ctx_inv ctx"
    and "\<And>c. look ctx i = Some c \<Longrightarrow> ctx_inv (store i (fst (snd (f c ctx))) (snd (snd (f c ctx))))"
  shows "ctx_inv (on_connection f i ctx)"
  using assms by (auto simp: on_connection_def Let_def split: option.splits prod.splits)

lemma ctx_inv_CloseImm':
  assumes "ctx_inv ctx" "look ctx i = Some c"
  shows "ctx_inv (store i (fst (snd (CloseImm c ctx))) (snd (snd (CloseImm c ctx))))"
  using ctx_inv_CloseImm [OF assms] by (metis prod.collapse)

lemma ctx_inv_store_new:
  assumes "ctx_inv ctx" "look ctx i = None" "conn_ok i c" "\<not> reader_closed c"
  shows "ctx_inv (store i c (ctx\<lparr>connectionId := n, waitGroup := waitGroup ctx + 1\<rparr>))"
  using assms count_vals_update_new [OF assms(2), of unfinished c]
  by (auto simp: ctx_inv_def store_def update_conv')

lemma ctx_inv_flags:
  "ctx_inv ctx \<Longrightarrow> ctx_inv (ctx\<lparr>connMapMu := b\<rparr>)"
  "ctx_inv ctx \<Longrightarrow> ctx_inv (ctx\<lparr>connectionId := n\<rparr>)"
  "ctx_inv ctx \<Longrightarrow> ctx_inv (ctx\<lparr>connectionChannel := l\<rparr>)"
  "ctx_inv ctx \<Longrightarrow> ctx_inv (ctx\<lparr>stopped := True, channel_closed := True\<rparr>)"
  by (simp_all add: ctx_inv_def)

lemma handleData_inv:
  assumes "ctx_inv ctx" "handleData p ctx = Ret ctx'"
  shows "ctx_inv ctx'"
proof (cases "look ctx (ConnectionId p)")
  case None
  with assms show ?thesis by (auto simp: handleData_def split: if_splits)
next
  case (Some c)
  have "conn_ok (ConnectionId p) (c\<lparr>buffer := buffer c @ Payload p\<rparr>)"
    using conn_ok_look [OF assms(1) Some] by (simp add: conn_ok_def)
  with assms Some ctx_inv_store_same [OF assms(1) Some] show ?thesis
    by (auto simp: handleData_def split: if_splits)
qed

lemma handleClose_inv:
  assumes "ctx_inv ctx" "handleClose p ctx = Ret ctx'"
  shows "ctx_inv ctx'"
proof (cases "look ctx (ConnectionId p)")
  case None
  with assms show ?thesis by (auto simp: handleClose_def ctx_inv_flags split: if_splits)
next
  case (Some c)
  obtain err c' ctx1 where closed: "CloseImm c ctx = (err, c', ctx1)" by (metis prod_cases3)
  obtain q where "ctx' = snd (writePacket q (store (ConnectionId p) c' ctx1))"
    using assms(2) Some closed by (auto simp: handleClose_def Let_def case_prod_beta split: if_splits)
  then show ?thesis using ctx_inv_writePacket [OF ctx_inv_CloseImm [OF assms(1) Some closed]] by simp
qed

lemma handleSuccess_inv:
  assumes "ctx_inv ctx" "handleSuccess p ctx = Ret ctx'"
  shows "ctx_inv ctx'"
proof (cases "look ctx (ConnectionId p)")
  case None
  with assms show ?thesis by (auto simp: handleSuccess_def split: if_splits)
next
  case (Some c)
  with assms ctx_inv_CloseImm [OF assms(1) Some] conn_ok_look [OF assms(1) Some]
    ctx_inv_store_same [OF assms(1) Some, of "setState STARTED c"]
  show ?thesis
    by (auto simp: handleSuccess_def Let_def conn_ok_def setState_def
        split: if_splits connection_state.splits prod.splits)
qed

lemma handleError_inv:
  assumes "ctx_inv ctx" "handleError p ctx = Ret ctx'"
  shows "ctx_inv ctx'"
  using assms(2) ctx_inv_CloseImm [OF assms(1)] assms(1)
  by (auto simp: handleError_def Let_def split: if_splits option.splits prod.splits)

lemma handleNewConnection_inv:
  assumes "ctx_inv ctx" "handleNewConnection cd p ctx = Ret ctx'"
  shows "ctx_inv ctx'"
proof (cases "unmarshalNewConnection cd (Payload p)")
  case (Inl e)
  with assms show ?thesis by (simp add: handleNewConnection_def)
next
  case (Inr d)
  let ?i = "ConnectionId p"
  let ?c = "\<lparr>state = WAITINIT, initiator = False, conn_id = ?i, details = d, buffer = [],
    writer_closed = False, reader_closed = False, closeCallback = False\<rparr>"
  let ?ctx = "store ?i ?c (ctx\<lparr>connectionId := ?i, waitGroup := waitGroup ctx + 1\<rparr>)"
  show ?thesis
  proof (cases "look ctx ?i = None \<and> \<not> ?i \<le> connectionId ctx \<and> \<not> connMapMu ctx")
    case True
    have new: "ctx_inv ?ctx"
      using True by (intro ctx_inv_store_new [OF assms(1)]) (simp_all add: conn_ok_def)
    have rej: "ctx_inv (store ?i (fst (snd (Reject ?c ?ctx))) (snd (snd (Reject ?c ?ctx))))"
      by (rule ctx_inv_Reject [OF new]) simp
    show ?thesis
      using assms(2) Inr True new rej
      by (auto simp: handleNewConnection_def Let_def ctx_inv_flags split: if_splits prod.splits)
  next
    case False
    with assms Inr show ?thesis by (auto simp: handleNewConnection_def split: if_splits)
  qed
qed

lemma handlePacket_inv:
  assumes "ctx_inv ctx" "handlePacket cd p ctx = Ret ctx'"
  shows "ctx_inv ctx'"
  using assms
  by (auto simp: handlePacket_def ctx_inv_flags split: if_splits
      intro: handleData_inv handleClose_inv handleSuccess_inv handleError_inv handleNewConnection_inv)

lemma newConnection_inv:
  assumes "ctx_inv ctx" "newConnection cd pr a n oa on f ctx = Ret (r, ctx')"
  shows "ctx_inv ctx'"
proof (cases "marshalNewConnection cd \<lparr>Protocol = pr, conn_ConnectedAddress = a, conn_ConnectedPort = n,
    conn_OriginatorAddress = oa, conn_OriginatorPort = on\<rparr>")
  case (Inl e)
  with assms show ?thesis by (simp add: newConnection_def)
next
  case (Inr m)
  let ?i = "connectionId ctx + 1"
  show ?thesis
  proof (cases "look ctx ?i")
    case None
    let ?c = "\<lparr>state = WAITINIT, initiator = True, conn_id = ?i,
       details = \<lparr>Protocol = '''', conn_ConnectedAddress = '''', conn_ConnectedPort = 0,
         conn_OriginatorAddress = '''', conn_OriginatorPort = 0\<rparr>,
       buffer = [], writer_closed = False, reader_closed = False, closeCallback = f\<rparr>"
    have "ctx' = snd (writePacket (packet PACKET_NEW_CONNECTION ?i m)
        (store ?i ?c (ctx\<lparr>connectionId := ?i, waitGroup := waitGroup ctx + 1\<rparr>)))"
      using assms(2) Inr None
      by (auto simp: newConnection_def Let_def split: if_splits prod.splits option.splits)
    moreover have "conn_ok ?i ?c" "\<not> reader_closed ?c" by (simp_all add: conn_ok_def)
    ultimately show ?thesis
      using ctx_inv_writePacket [OF ctx_inv_store_new [OF assms(1) None]] by metis
  next
    case (Some c)
    with assms Inr show ?thesis by (auto simp: newConnection_def Let_def ctx_inv_flags split: if_splits)
  qed
qed

lemma Write_inv:
  assumes "ctx_inv ctx" "look ctx i = Some c" "Write c d ctx = Ret (r, c', ctx')"
  shows "ctx_inv (store i c' ctx')"
proof (cases "state c = STARTED")
  case True
  with assms(3) have "c' = c" "ctx' = snd (writePacket (packet PACKET_DATA (conn_id c) d) ctx)"
    by (auto simp: Write_def split: prod.splits option.splits)
  then show ?thesis using ctx_inv_store_write [OF assms(1,2) conn_ok_look [OF assms(1,2)]] by simp
next
  case False
  with assms(3) have "c' = c\<lparr>writer_closed := True\<rparr>" "ctx' = ctx" "state c = WAITCLOSE \<or> state c = CLOSED"
    by (auto simp: Write_def split: connection_state.splits)
  then show ?thesis
    using ctx_inv_store_same [OF assms(1,2)] conn_ok_look [OF assms(1,2)] by (simp add: conn_ok_def)
qed

lemma NoMoreConnections_inv:
  assumes "ctx_inv ctx" "NoMoreConnections ctx = Ret (r, ctx')"
  shows "ctx_inv ctx'"
  using assms(2) ctx_inv_writePacket [OF ctx_inv_flags(4) [OF assms(1)], of "packet PACKET_NO_MORE_CONNECTIONS 0 []"]
  by (auto simp: NoMoreConnections_def split: if_splits)

lemma local_act_inv:
  assumes "ctx_inv ctx" "local_act cd a ctx = Ret ctx'"
  shows "ctx_inv ctx'"
proof (cases a)
  case (ActNew p s n oa on f)
  with assms show ?thesis by (auto elim!: go_bind_RetE intro: newConnection_inv)
next
  case (ActWrite i d)
  with assms show ?thesis by (auto elim!: go_bind_RetE intro: Write_inv split: option.splits)
next
  case ActNoMore
  with assms show ?thesis by (auto elim!: go_bind_RetE intro: NoMoreConnections_inv)
qed (use assms in \<open>auto intro!: on_connection_inv ctx_inv_Close ctx_inv_CloseImm' ctx_inv_Accept ctx_inv_Reject\<close>)

end
