(* ===== verification/Agent_Stream.thy ===== *)
theory Agent_Stream
  imports Agent_Protocol
begin

text \<open>
  What the agent protocol guarantees. Each operation of an end moves one connection by a step of a small
  specification (\<open>endpoint_step\<close>); the two ends of one connection keep an invariant (\<open>pair_inv\<close>), from
  which the integrity of the data follows for every interleaving of the two ends; and one end alone keeps
  its wait group and its table consistent under any peer.
\<close>

section \<open>The specification of one end of a connection\<close>

definition closed_conn :: "connection \<Rightarrow> connection" where
  "closed_conn c = c\<lparr>state := CLOSED, writer_closed := True, reader_closed := True\<rparr>"

text \<open>What an end does with a packet for a connection it knows, and what it sends back.\<close>

definition endpoint_recv :: "Packet \<Rightarrow> connection \<Rightarrow> connection \<times> Packet list" where
  "endpoint_recv p c =
     (if Type p = PACKET_DATA
      then (if state c = STARTED then c\<lparr>buffer := buffer c @ Payload p\<rparr> else c, [])
      else if Type p = PACKET_CLOSE_CONNECTION
      then if state c = CLOSED then (c, [packet PACKET_ERROR (conn_id c) []])
           else (closed_conn c, [packet PACKET_SUCCESS (conn_id c) []])
      else if Type p = PACKET_SUCCESS
      then (case state c of WAITINIT \<Rightarrow> c\<lparr>state := STARTED\<rparr> | WAITCLOSE \<Rightarrow> closed_conn c | _ \<Rightarrow> c, [])
      else if Type p = PACKET_ERROR then (if state c = CLOSED then c else closed_conn c, [])
      else (c, []))"

text \<open>The moves of one end of the connection \<open>i\<close>: on its own, or on a packet it receives.\<close>

inductive endpoint_step :: "uint64 \<Rightarrow> Packet option \<Rightarrow> connection option \<Rightarrow> connection option \<Rightarrow> Packet list \<Rightarrow> bool" for i where
  idle: "endpoint_step i None co co []"
| no_more: "i = 0 \<Longrightarrow> endpoint_step i None co co [packet PACKET_NO_MORE_CONNECTIONS 0 []]"
| opened: "state c = WAITINIT \<Longrightarrow> initiator c \<Longrightarrow> buffer c = [] \<Longrightarrow>
           endpoint_step i None None (Some c) [packet PACKET_NEW_CONNECTION i d]"
| wrote: "state c = STARTED \<Longrightarrow> endpoint_step i None (Some c) (Some c) [packet PACKET_DATA i d]"
| wrote_late: "state c = WAITCLOSE \<or> state c = CLOSED \<Longrightarrow>
               endpoint_step i None (Some c) (Some (c\<lparr>writer_closed := True\<rparr>)) []"
| closing: "state c = WAITINIT \<or> state c = STARTED \<Longrightarrow>
            endpoint_step i None (Some c) (Some (c\<lparr>state := WAITCLOSE\<rparr>)) [packet PACKET_CLOSE_CONNECTION i []]"
| closed: "state c \<noteq> CLOSED \<Longrightarrow> endpoint_step i None (Some c) (Some (closed_conn c)) []"
| accepted: "\<not> initiator c \<Longrightarrow> state c = WAITINIT \<Longrightarrow>
             endpoint_step i None (Some c) (Some (c\<lparr>state := STARTED\<rparr>)) [packet PACKET_SUCCESS i []]"
| rejected: "\<not> initiator c \<Longrightarrow> state c = WAITINIT \<Longrightarrow>
             endpoint_step i None (Some c) (Some (c\<lparr>state := CLOSED\<rparr>)) [packet PACKET_ERROR i []]"
| recv: "endpoint_recv p c = (c', ps) \<Longrightarrow> endpoint_step i (Some p) (Some c) (Some c') ps"
| recv_unknown: "endpoint_step i (Some p) None None []"
| recv_new: "Type p = PACKET_NEW_CONNECTION \<Longrightarrow> \<not> initiator c \<Longrightarrow> state c = WAITINIT \<Longrightarrow> buffer c = [] \<Longrightarrow>
             endpoint_step i (Some p) None (Some c) []"
| recv_refused: "Type p = PACKET_NEW_CONNECTION \<Longrightarrow> \<not> initiator c \<Longrightarrow> state c = CLOSED \<Longrightarrow> buffer c = [] \<Longrightarrow>
             endpoint_step i (Some p) None (Some c) [packet PACKET_ERROR i []]"

inductive_cases endpoint_localE: "endpoint_step i None co co' ps"
inductive_cases endpoint_recvE: "endpoint_step i (Some p) co co' ps"

text \<open>A whole end moves when one of its connections does and the others stay as they are.\<close>

definition moves :: "uint64 \<Rightarrow> Packet option \<Rightarrow> ForwardCtx \<Rightarrow> ForwardCtx \<Rightarrow> Packet list \<Rightarrow> bool" where
  "moves i inp ctx ctx' ps \<longleftrightarrow>
     endpoint_step i inp (look ctx i) (look ctx' i) ps
     \<and> (\<forall>j. j \<noteq> i \<longrightarrow> look ctx' j = look ctx j)
     \<and> encoder ctx' = encoder ctx @ ps
     \<and> (\<forall>p \<in> set ps. ConnectionId p = i)
     \<and> encoder_error ctx' = encoder_error ctx"

lemma packet_sel [simp]: "Type (packet t i d) = t" "ConnectionId (packet t i d) = i" "Payload (packet t i d) = d"
  by (simp_all add: packet_def)

lemma closed_conn_sel [simp]:
  "state (closed_conn c) = CLOSED" "conn_id (closed_conn c) = conn_id c" "buffer (closed_conn c) = buffer c"
  "initiator (closed_conn c) = initiator c" "reader_closed (closed_conn c)"
  by (simp_all add: closed_conn_def)

lemma writePacket_up: "encoder_error ctx = None \<Longrightarrow> writePacket p ctx = (None, ctx\<lparr>encoder := encoder ctx @ [p]\<rparr>)"
  by (simp add: writePacket_def)

lemma moves_idle:
  "\<lbrakk>look ctx' = look ctx; encoder ctx' = encoder ctx; encoder_error ctx' = encoder_error ctx\<rbrakk> \<Longrightarrow> moves i None ctx ctx' []"
  by (simp add: moves_def endpoint_step.idle)

lemma CloseImm_eq:
  "CloseImm c ctx =
     (if state c = CLOSED then (Some (ErrorString ''unclosable state''), c, ctx)
      else (None, closed_conn c,
            ctx\<lparr>callbacks := callbacks ctx @ (if closeCallback c then [conn_id c] else []), waitGroup := waitGroup ctx - 1\<rparr>))"
  by (cases "state c") (simp_all add: CloseImm_def closed_conn_def)

lemma handlePacket_moves:
  assumes "ctx_inv ctx" "encoder_error ctx = None" "handlePacket cd p ctx = Ret ctx'"
  shows "\<exists>ps. moves (ConnectionId p) (Some p) ctx ctx' ps"
proof (cases "look ctx (ConnectionId p)")
  case None
  show ?thesis
  proof (cases "Type p = PACKET_NEW_CONNECTION")
    case True
    with assms None show ?thesis
      by (auto simp: handlePacket_def handleNewConnection_def Reject_def Let_def writePacket_up moves_def
          split: sum.splits if_splits intro!: exI endpoint_step.recv_unknown endpoint_step.recv_new endpoint_step.recv_refused)
  next
    case False
    with assms None show ?thesis
      by (auto simp: handlePacket_def handleData_def handleClose_def handleSuccess_def handleError_def moves_def
          split: if_splits intro!: exI endpoint_step.recv_unknown)
  qed
next
  case (Some c)
  have ok: "conn_id c = ConnectionId p" "state c = STARTED \<Longrightarrow> \<not> writer_closed c"
    using conn_ok_look [OF assms(1) Some] by (auto simp: conn_ok_def)
  obtain c' ps where r: "endpoint_recv p c = (c', ps)" by fastforce
  have "look ctx' = (look ctx)(ConnectionId p \<mapsto> c') \<and> encoder ctx' = encoder ctx @ ps
      \<and> encoder_error ctx' = None \<and> (\<forall>q \<in> set ps. ConnectionId q = ConnectionId p)"
    using assms(2,3) Some ok r
    by (cases "state c")
      (auto simp: handlePacket_def handleData_def handleClose_def handleSuccess_def handleError_def
        handleNewConnection_def setState_def endpoint_recv_def CloseImm_eq writePacket_up Let_def
        split: if_splits sum.splits)
  then show ?thesis using Some r assms(2) by (auto simp: moves_def intro!: exI [of _ ps] endpoint_step.recv)
qed

lemma on_connection_moves:
  assumes "look ctx i = Some c"
    and "look (snd (snd (f c ctx))) = look ctx" "encoder (snd (snd (f c ctx))) = encoder ctx @ ps"
    and "encoder_error (snd (snd (f c ctx))) = encoder_error ctx" "\<forall>p \<in> set ps. ConnectionId p = i"
    and "endpoint_step i None (Some c) (Some (fst (snd (f c ctx)))) ps"
  shows "\<exists>ps. moves i None ctx (on_connection f i ctx) ps"
  using assms by (auto simp: on_connection_def moves_def case_prod_beta intro!: exI [of _ ps])

lemma moves_refl: "\<exists>ps. moves i None ctx ctx ps"
  by (auto intro!: exI [of _ "[]"] moves_idle)

lemma on_connection_none: "look ctx i = None \<Longrightarrow> on_connection f i ctx = ctx"
  by (simp add: on_connection_def)

lemma Close_moves:
  assumes "ctx_inv ctx" "encoder_error ctx = None"
  shows "\<exists>ps. moves i None ctx (on_connection Close i ctx) ps"
proof (cases "look ctx i")
  case None
  then show ?thesis using moves_refl by (simp add: on_connection_none)
next
  case (Some c)
  have [simp]: "conn_id c = i" using conn_ok_look [OF assms(1) Some] by (simp add: conn_ok_def)
  show ?thesis
  proof (cases "state c = WAITINIT \<or> state c = STARTED")
    case True
    with assms Some show ?thesis
      by (intro on_connection_moves [OF Some, where ps = "[packet PACKET_CLOSE_CONNECTION i []]"])
        (auto simp: Close_cases writePacket_up intro: endpoint_step.closing)
  next
    case False
    with Some show ?thesis
      by (intro on_connection_moves [OF Some, where ps = "[]"])
        (auto simp: Close_cases intro: endpoint_step.idle)
  qed
qed

lemma CloseImm_moves:
  assumes "ctx_inv ctx"
  shows "\<exists>ps. moves i None ctx (on_connection CloseImm i ctx) ps"
proof (cases "look ctx i")
  case None
  then show ?thesis using moves_refl by (simp add: on_connection_none)
next
  case (Some c)
  show ?thesis
  proof (cases "state c = CLOSED")
    case True
    then show ?thesis
      by (intro on_connection_moves [OF Some, where ps = "[]"])
        (auto simp: CloseImm_eq intro: endpoint_step.idle)
  next
    case False
    then show ?thesis
      by (intro on_connection_moves [OF Some, where ps = "[]"])
        (auto simp: CloseImm_eq intro: endpoint_step.closed)
  qed
qed

lemma Accept_moves:
  assumes "ctx_inv ctx" "encoder_error ctx = None"
  shows "\<exists>ps. moves i None ctx (on_connection Accept i ctx) ps"
proof (cases "look ctx i")
  case None
  then show ?thesis using moves_refl by (simp add: on_connection_none)
next
  case (Some c)
  have [simp]: "conn_id c = i" using conn_ok_look [OF assms(1) Some] by (simp add: conn_ok_def)
  show ?thesis
  proof (cases "\<not> initiator c \<and> state c = WAITINIT")
    case True
    with assms Some show ?thesis
      by (intro on_connection_moves [OF Some, where ps = "[packet PACKET_SUCCESS i []]"])
        (auto simp: Accept_def writePacket_up intro: endpoint_step.accepted)
  next
    case False
    with Some show ?thesis
      by (cases "initiator c"; intro on_connection_moves [OF Some, where ps = "[]"])
        (auto simp: Accept_def intro: endpoint_step.idle)
  qed
qed

lemma Reject_moves:
  assumes "ctx_inv ctx" "encoder_error ctx = None"
  shows "\<exists>ps. moves i None ctx (on_connection Reject i ctx) ps"
proof (cases "look ctx i")
  case None
  then show ?thesis using moves_refl by (simp add: on_connection_none)
next
  case (Some c)
  have [simp]: "conn_id c = i" using conn_ok_look [OF assms(1) Some] by (simp add: conn_ok_def)
  show ?thesis
  proof (cases "\<not> initiator c \<and> state c = WAITINIT")
    case True
    with assms Some show ?thesis
      by (intro on_connection_moves [OF Some, where ps = "[packet PACKET_ERROR i []]"])
        (auto simp: Reject_def writePacket_up intro: endpoint_step.rejected)
  next
    case False
    with Some show ?thesis
      by (cases "initiator c"; intro on_connection_moves [OF Some, where ps = "[]"])
        (auto simp: Reject_def intro: endpoint_step.idle)
  qed
qed

lemma newConnection_moves:
  assumes "encoder_error ctx = None" "newConnection cd pr a n oa on f ctx = Ret (r, ctx')"
  shows "\<exists>i ps. moves i None ctx ctx' ps"
proof (cases "marshalNewConnection cd \<lparr>Protocol = pr, conn_ConnectedAddress = a, conn_ConnectedPort = n,
    conn_OriginatorAddress = oa, conn_OriginatorPort = on\<rparr>")
  case (Inl e)
  with assms show ?thesis using moves_refl by (auto simp: newConnection_def)
next
  case (Inr m)
  show ?thesis
  proof (cases "look ctx (connectionId ctx + 1)")
    case None
    with assms Inr show ?thesis
      by (intro exI [of _ "connectionId ctx + 1"])
        (auto simp: newConnection_def Let_def writePacket_up moves_def split: if_splits intro!: exI endpoint_step.opened)
  next
    case (Some c)
    with assms Inr show ?thesis
      by (auto simp: newConnection_def Let_def split: if_splits intro!: exI moves_idle)
  qed
qed

lemma Write_moves:
  assumes "ctx_inv ctx" "encoder_error ctx = None" "look ctx i = Some c" "Write c d ctx = Ret (r, c', ctx')"
  shows "\<exists>ps. moves i None ctx (store i c' ctx') ps"
proof -
  have "conn_id c = i" using conn_ok_look [OF assms(1,3)] by (simp add: conn_ok_def)
  with assms show ?thesis
    by (auto simp: Write_def moves_def writePacket_up split: connection_state.splits
        intro!: exI endpoint_step.wrote endpoint_step.wrote_late)
qed

lemma local_act_moves:
  assumes "ctx_inv ctx" "encoder_error ctx = None" "local_act cd a ctx = Ret ctx'"
  shows "\<exists>i ps. moves i None ctx ctx' ps"
proof (cases a)
  case (ActNew p s n oa on f)
  with assms show ?thesis by (auto elim!: go_bind_RetE intro: newConnection_moves)
next
  case (ActWrite i d)
  show ?thesis
  proof (cases "look ctx i")
    case None
    with ActWrite assms show ?thesis using moves_refl by auto
  next
    case (Some c)
    with ActWrite assms show ?thesis by (auto elim!: go_bind_RetE dest!: Write_moves [OF assms(1,2) Some])
  qed
next
  case ActNoMore
  with assms show ?thesis
    by (auto elim!: go_bind_RetE simp: NoMoreConnections_def writePacket_up moves_def
        intro!: exI [of _ 0] endpoint_step.no_more split: if_splits)
qed (use assms(3) Close_moves [OF assms(1,2)] CloseImm_moves [OF assms(1)] Accept_moves [OF assms(1,2)]
      Reject_moves [OF assms(1,2)] in \<open>simp, blast\<close>)+

section \<open>The two ends of one connection\<close>

definition has :: "int \<Rightarrow> Packet list \<Rightarrow> bool" where
  "has t ps \<longleftrightarrow> (\<exists>p \<in> set ps. Type p = t)"

definition data_of :: "Packet list \<Rightarrow> bytes" where
  "data_of ps = concat (map Payload (filter (\<lambda>p. Type p = PACKET_DATA) ps))"

text \<open>Data is sent only after a success packet.\<close>

definition ordered :: "Packet list \<Rightarrow> bool" where
  "ordered ps \<longleftrightarrow> \<not> has PACKET_DATA (takeWhile (\<lambda>p. Type p \<noteq> PACKET_SUCCESS) ps)"

text \<open>How far an end has come: 0 when it does not know the connection.\<close>

fun stage :: "connection option \<Rightarrow> nat" where
  "stage None = 0"
| "stage (Some c) = (case state c of WAITINIT \<Rightarrow> 1 | STARTED \<Rightarrow> 2 | WAITCLOSE \<Rightarrow> 3 | CLOSED \<Rightarrow> 4)"

text \<open>What was delivered to the reader of an end, compared with the data it has been sent.\<close>

definition buf_ok :: "connection option \<Rightarrow> bytes \<Rightarrow> bool" where
  "buf_ok co d \<longleftrightarrow>
     (case co of
        None \<Rightarrow> d = []
      | Some c \<Rightarrow> (case state c of WAITINIT \<Rightarrow> buffer c = [] \<and> d = [] | STARTED \<Rightarrow> buffer c = d
                  | _ \<Rightarrow> prefix (buffer c) d))"

text \<open>The invariant of a connection: \<open>ca\<close> and \<open>cb\<close> are its ends, \<open>sa\<close> and \<open>sb\<close> the packets of each end the
  other has handled, \<open>qa\<close> and \<open>qb\<close> those still under way.\<close>

definition pair_inv :: "connection option \<Rightarrow> Packet list \<Rightarrow> Packet list \<Rightarrow> connection option \<Rightarrow> Packet list \<Rightarrow> Packet list \<Rightarrow> bool" where
  "pair_inv ca sa qa cb sb qb \<longleftrightarrow>
     pred_option initiator ca \<and> pred_option (\<lambda>c. \<not> initiator c) cb
     \<and> (0 < stage cb \<longrightarrow> 0 < stage ca)
     \<and> (has PACKET_NEW_CONNECTION (sa @ qa) \<longrightarrow> 0 < stage ca)
     \<and> \<not> has PACKET_NEW_CONNECTION (sb @ qb)
     \<and> (has PACKET_DATA (sa @ qa) \<longrightarrow> 2 \<le> stage cb)
     \<and> (stage ca = 2 \<longrightarrow> 2 \<le> stage cb)
     \<and> (has PACKET_SUCCESS (sb @ qb) \<longrightarrow> 2 \<le> stage cb)
     \<and> (has PACKET_CLOSE_CONNECTION (sb @ qb) \<longrightarrow> 3 \<le> stage cb)
     \<and> (has PACKET_SUCCESS (sa @ qa) \<longrightarrow> 3 \<le> stage cb)
     \<and> (stage cb = 2 \<longrightarrow> has PACKET_SUCCESS (sb @ qb))
     \<and> ordered (sb @ qb)
     \<and> (has PACKET_SUCCESS sb \<longrightarrow> 2 \<le> stage ca)
     \<and> buf_ok cb (data_of sa) \<and> buf_ok ca (data_of sb)"

lemma pair_invI:
  assumes "pred_option initiator ca" "pred_option (\<lambda>c. \<not> initiator c) cb"
    and "0 < stage cb \<Longrightarrow> 0 < stage ca"
    and "has PACKET_NEW_CONNECTION (sa @ qa) \<Longrightarrow> 0 < stage ca"
    and "\<not> has PACKET_NEW_CONNECTION (sb @ qb)"
    and "has PACKET_DATA (sa @ qa) \<Longrightarrow> 2 \<le> stage cb"
    and "stage ca = 2 \<Longrightarrow> 2 \<le> stage cb"
    and "has PACKET_SUCCESS (sb @ qb) \<Longrightarrow> 2 \<le> stage cb"
    and "has PACKET_CLOSE_CONNECTION (sb @ qb) \<Longrightarrow> 3 \<le> stage cb"
    and "has PACKET_SUCCESS (sa @ qa) \<Longrightarrow> 3 \<le> stage cb"
    and "stage cb = 2 \<Longrightarrow> has PACKET_SUCCESS (sb @ qb)"
    and "ordered (sb @ qb)"
    and "has PACKET_SUCCESS sb \<Longrightarrow> 2 \<le> stage ca"
    and "buf_ok cb (data_of sa)" "buf_ok ca (data_of sb)"
  shows "pair_inv ca sa qa cb sb qb"
  using assms unfolding pair_inv_def by blast

lemma pair_invD:
  assumes "pair_inv ca sa qa cb sb qb"
  shows "pred_option initiator ca" "pred_option (\<lambda>c. \<not> initiator c) cb"
    and "0 < stage cb \<Longrightarrow> 0 < stage ca"
    and "has PACKET_NEW_CONNECTION (sa @ qa) \<Longrightarrow> 0 < stage ca"
    and "\<not> has PACKET_NEW_CONNECTION (sb @ qb)"
    and "has PACKET_DATA (sa @ qa) \<Longrightarrow> 2 \<le> stage cb"
    and "stage ca = 2 \<Longrightarrow> 2 \<le> stage cb"
    and "has PACKET_SUCCESS (sb @ qb) \<Longrightarrow> 2 \<le> stage cb"
    and "has PACKET_CLOSE_CONNECTION (sb @ qb) \<Longrightarrow> 3 \<le> stage cb"
    and "has PACKET_SUCCESS (sa @ qa) \<Longrightarrow> 3 \<le> stage cb"
    and "stage cb = 2 \<Longrightarrow> has PACKET_SUCCESS (sb @ qb)"
    and "ordered (sb @ qb)"
    and "has PACKET_SUCCESS sb \<Longrightarrow> 2 \<le> stage ca"
    and "buf_ok cb (data_of sa)" "buf_ok ca (data_of sb)"
  using assms unfolding pair_inv_def by simp_all

lemma has_simps [simp]:
  "\<not> has t []" "has t (p # ps) \<longleftrightarrow> Type p = t \<or> has t ps" "has t (ps @ qs) \<longleftrightarrow> has t ps \<or> has t qs"
  by (auto simp: has_def)

lemma data_of_simps [simp]:
  "data_of [] = []" "data_of (ps @ qs) = data_of ps @ data_of qs"
  "data_of (p # ps) = (if Type p = PACKET_DATA then Payload p else []) @ data_of ps"
  by (simp_all add: data_of_def)

lemma takeWhile_no_success: "\<not> has PACKET_SUCCESS ps \<Longrightarrow> takeWhile (\<lambda>p. Type p \<noteq> PACKET_SUCCESS) ps = ps"
  by (simp add: has_def)

lemma takeWhile_success: "has PACKET_SUCCESS ps \<Longrightarrow> takeWhile (\<lambda>p. Type p \<noteq> PACKET_SUCCESS) (ps @ qs) = takeWhile (\<lambda>p. Type p \<noteq> PACKET_SUCCESS) ps"
  by (auto simp: has_def takeWhile_append1)

lemma ordered_snoc: "ordered ps \<Longrightarrow> Type p \<noteq> PACKET_DATA \<or> has PACKET_SUCCESS ps \<Longrightarrow> ordered (ps @ [p])"
  by (cases "has PACKET_SUCCESS ps") (auto simp: ordered_def takeWhile_success takeWhile_no_success takeWhile_append2 has_def)

lemma ordered_snoc2:
  "ordered (ps @ qs) \<Longrightarrow> Type p \<noteq> PACKET_DATA \<or> has PACKET_SUCCESS (ps @ qs) \<Longrightarrow> ordered (ps @ qs @ [p])"
  using ordered_snoc [of "ps @ qs" p] by simp

lemma ordered_no_success: "ordered (ps @ qs) \<Longrightarrow> \<not> has PACKET_SUCCESS ps \<Longrightarrow> \<not> has PACKET_DATA ps"
  by (auto simp: ordered_def has_def takeWhile_append2)

lemma ordered_has_success: "ordered ps \<Longrightarrow> has PACKET_DATA ps \<Longrightarrow> has PACKET_SUCCESS ps"
  using ordered_no_success [of ps "[]"] by auto

lemma endpoint_recv_buffer:
  assumes "buf_ok (Some c) d" "endpoint_recv p c = (c', ps)"
    and "Type p = PACKET_DATA \<Longrightarrow> state c \<noteq> WAITINIT"
  shows "buf_ok (Some c') (d @ data_of [p])"
  using assms
  by (cases "state c") (auto simp: buf_ok_def endpoint_recv_def split: if_splits intro: prefix_order.trans)

lemma endpoint_step_buffer:
  assumes "endpoint_step i (Some p) co co' ps" "buf_ok co d" "Type p = PACKET_DATA \<Longrightarrow> 2 \<le> stage co"
  shows "buf_ok co' (d @ data_of [p])"
  using assms
proof (cases rule: endpoint_step.cases)
  case (recv c c')
  have "buf_ok (Some c) d" "Type p = PACKET_DATA \<Longrightarrow> state c \<noteq> WAITINIT"
    using assms(2,3) recv(1) by auto
  with recv show ?thesis using endpoint_recv_buffer by metis
qed (auto simp: buf_ok_def)

lemma endpoint_step_recv:
  assumes "endpoint_step i (Some p) co co' ps"
  shows "stage co \<le> stage co'"
    and "stage co' = 2 \<Longrightarrow> stage co = 2 \<or> stage co = 1 \<and> Type p = PACKET_SUCCESS"
    and "0 < stage co' \<Longrightarrow> 0 < stage co \<or> Type p = PACKET_NEW_CONNECTION"
    and "Type p = PACKET_SUCCESS \<Longrightarrow> 0 < stage co \<Longrightarrow> 2 \<le> stage co'"
    and "\<not> has PACKET_DATA ps" "\<not> has PACKET_NEW_CONNECTION ps" "\<not> has PACKET_CLOSE_CONNECTION ps"
    and "has PACKET_SUCCESS ps \<Longrightarrow> Type p = PACKET_CLOSE_CONNECTION \<and> 3 \<le> stage co'"
  using assms
  by (cases rule: endpoint_step.cases;
      auto simp: endpoint_recv_def split: if_splits connection_state.splits)+

lemma endpoint_step_initiator:
  assumes "endpoint_step i (Some p) co co' ps"
  shows "pred_option (\<lambda>c. \<not> initiator c) co \<Longrightarrow> pred_option (\<lambda>c. \<not> initiator c) co'"
    and "pred_option initiator co \<Longrightarrow> Type p \<noteq> PACKET_NEW_CONNECTION \<Longrightarrow> pred_option initiator co'"
  using assms
  by (cases rule: endpoint_step.cases;
      auto simp: endpoint_recv_def split: if_splits connection_state.splits)+

lemma ordered_no_data: "ordered ps \<Longrightarrow> \<not> has PACKET_DATA qs \<Longrightarrow> ordered (ps @ qs)"
proof (induction qs rule: rev_induct)
  case (snoc q qs)
  then have "ordered ((ps @ qs) @ [q])" by (intro ordered_snoc) auto
  then show ?case by simp
qed simp

lemma endpoint_step_local:
  assumes "endpoint_step i None co co' ps" "pred_option initiator co"
  shows "stage co \<le> stage co' \<and> (stage co' = 2 \<longrightarrow> stage co = 2)"
    and "pred_option initiator co'"
    and "buf_ok co d \<longrightarrow> buf_ok co' d"
    and "has PACKET_DATA ps \<longrightarrow> stage co = 2"
    and "\<not> has PACKET_SUCCESS ps \<and> (has PACKET_NEW_CONNECTION ps \<longrightarrow> 0 < stage co')"
  using assms
  by (cases rule: endpoint_step.cases; auto simp: buf_ok_def split: connection_state.splits)+

lemma pair_inv_local_A:
  assumes inv: "pair_inv ca sa qa cb sb qb" and step: "endpoint_step i None ca ca' ps"
  shows "pair_inv ca' sa (qa @ ps) cb sb qb"
proof -
  note D = pair_invD [OF inv]
  note S = endpoint_step_local [OF step D(1)]
  have mono: "k \<le> stage ca \<Longrightarrow> k \<le> stage ca'" for k using S(1) by simp
  have split: "has t (sa @ qa @ ps) \<longleftrightarrow> has t (sa @ qa) \<or> has t ps" for t by simp
  have known: "0 < stage ca \<Longrightarrow> 0 < stage ca'" using S(1) by simp
  have new: "0 < stage ca'" if "has PACKET_NEW_CONNECTION (sa @ qa @ ps)"
    using that S(5) known [OF D(4)] unfolding split by blast
  have data: "2 \<le> stage cb" if "has PACKET_DATA (sa @ qa @ ps)"
    using that S(4) D(6,7) unfolding split by blast
  have succ: "3 \<le> stage cb" if "has PACKET_SUCCESS (sa @ qa @ ps)"
    using that S(5) D(10) unfolding split by blast
  have started: "2 \<le> stage cb" if "stage ca' = 2" using that S(1) D(7) by blast
  show ?thesis
    by (rule pair_invI [OF S(2) D(2) known [OF D(3)] new D(5) data started D(8,9) succ D(11,12)
          mono [OF D(13)] D(14) S(3) [rule_format, OF D(15)]])
qed

lemma endpoint_step_local_known:
  assumes "endpoint_step i None co co' ps" "\<not> has PACKET_NEW_CONNECTION ps"
  shows "stage co \<le> stage co' \<and> (0 < stage co' \<longrightarrow> 0 < stage co)"
    and "pred_option (\<lambda>c. \<not> initiator c) co \<longrightarrow> pred_option (\<lambda>c. \<not> initiator c) co'"
    and "buf_ok co d \<longrightarrow> buf_ok co' d"
    and "(has PACKET_SUCCESS ps \<longrightarrow> 2 \<le> stage co') \<and> (has PACKET_CLOSE_CONNECTION ps \<longrightarrow> 3 \<le> stage co')"
    and "stage co' = 2 \<longrightarrow> stage co = 2 \<or> has PACKET_SUCCESS ps"
    and "has PACKET_DATA ps \<longrightarrow> stage co = 2 \<and> length ps = 1"
  using assms
  by (cases rule: endpoint_step.cases; auto simp: buf_ok_def split: connection_state.splits)+

lemma pair_inv_local_B:
  assumes inv: "pair_inv ca sa qa cb sb qb" and step: "endpoint_step i None cb cb' ps"
    and known: "\<not> has PACKET_NEW_CONNECTION ps"
  shows "pair_inv ca sa qa cb' sb (qb @ ps)"
proof -
  note D = pair_invD [OF inv] and S = endpoint_step_local_known [OF step known]
  have ord: "ordered (sb @ qb @ ps)"
  proof (cases "has PACKET_DATA ps")
    case True
    then obtain p where p: "ps = [p]" using S(6) by (auto simp: length_Suc_conv)
    have "has PACKET_SUCCESS (sb @ qb)" using True S(6) D(11) by blast
    then show ?thesis unfolding p by (intro ordered_snoc2 D(12)) simp
  next
    case False
    then show ?thesis using ordered_no_data [OF D(12)] by simp
  qed
  have mono: "k \<le> stage cb \<Longrightarrow> k \<le> stage cb'" for k using S(1) by simp
  have split: "has t (sb @ qb @ ps) \<longleftrightarrow> has t (sb @ qb) \<or> has t ps" for t by simp
  have succ: "2 \<le> stage cb'" if "has PACKET_SUCCESS (sb @ qb @ ps)"
    using that S(4) mono [OF D(8)] unfolding split by blast
  have clos: "3 \<le> stage cb'" if "has PACKET_CLOSE_CONNECTION (sb @ qb @ ps)"
    using that S(4) mono [OF D(9)] unfolding split by blast
  have started: "has PACKET_SUCCESS (sb @ qb @ ps)" if "stage cb' = 2"
    using that S(5) D(11) unfolding split by blast
  have new: "\<not> has PACKET_NEW_CONNECTION (sb @ qb @ ps)"
    unfolding split using D(5) known by blast
  have up: "0 < stage ca" if "0 < stage cb'" using that S(1) D(3) by blast
  show ?thesis
    by (rule pair_invI [OF D(1) S(2) [rule_format, OF D(2)] up D(4) new mono [OF D(6)] mono [OF D(7)]
          succ clos mono [OF D(10)] started ord D(13) S(3) [rule_format, OF D(14)] D(15)])
qed

lemma pair_inv_deliver_B:
  assumes inv: "pair_inv ca sa (p # qa) cb sb qb" and step: "endpoint_step i (Some p) cb cb' ps"
  shows "pair_inv ca (sa @ [p]) qa cb' sb (qb @ ps)"
proof -
  note D = pair_invD [OF inv] and S = endpoint_step_recv [OF step]
  have "buf_ok cb' (data_of (sa @ [p]))"
    using D(6) endpoint_step_buffer [OF step D(14)] by simp
  moreover have "ordered (sb @ qb @ ps)"
    using ordered_no_data [OF D(12) S(5)] by simp
  moreover have "stage cb' = 2 \<Longrightarrow> stage cb = 2" using S(2) D(10) by auto
  moreover have "0 < stage cb' \<Longrightarrow> 0 < stage ca" using S(3) D(3,4) by auto
  moreover have "has PACKET_SUCCESS (sb @ qb @ ps) \<Longrightarrow> 2 \<le> stage cb'"
    using D(8) S(1,8) by fastforce
  moreover have "has PACKET_CLOSE_CONNECTION (sb @ qb @ ps) \<Longrightarrow> 3 \<le> stage cb'"
    using D(9) S(1,7) by fastforce
  moreover have "\<not> has PACKET_NEW_CONNECTION (sb @ qb @ ps)" using D(5) S(6) by simp
  moreover have "k \<le> stage cb \<Longrightarrow> k \<le> stage cb'" for k using S(1) by simp
  moreover have "has t ((sa @ [p]) @ qa) \<Longrightarrow> has t (sa @ p # qa)" for t by simp
  moreover have "has t (sb @ qb) \<Longrightarrow> has t (sb @ qb @ ps)" for t by auto
  ultimately show ?thesis
    by (intro pair_invI D(1,13,15) endpoint_step_initiator(1) [OF step D(2)])
      (blast intro: D(4,6,7,10,11))+
qed

lemma pair_inv_deliver_A:
  assumes inv: "pair_inv ca sa qa cb sb (p # qb)" and step: "endpoint_step i (Some p) ca ca' ps"
  shows "pair_inv ca' sa (qa @ ps) cb (sb @ [p]) qb"
proof -
  note D = pair_invD [OF inv] and S = endpoint_step_recv [OF step]
  have data: "2 \<le> stage ca" if "Type p = PACKET_DATA"
  proof (rule ccontr)
    assume "\<not> 2 \<le> stage ca"
    with D(13) that have "\<not> has PACKET_SUCCESS (sb @ [p])" by auto
    moreover have "ordered ((sb @ [p]) @ qb)" using D(12) by simp
    ultimately have "\<not> has PACKET_DATA (sb @ [p])" using ordered_no_success by blast
    with that show False by simp
  qed
  have new: "Type p \<noteq> PACKET_NEW_CONNECTION" using D(5) by simp
  have buf: "buf_ok ca' (data_of (sb @ [p]))"
    using data endpoint_step_buffer [OF step D(15)] by simp
  have started: "stage ca' = 2 \<Longrightarrow> 2 \<le> stage cb" using S(2) D(7,8) by auto
  have success: "has PACKET_SUCCESS (sb @ [p]) \<Longrightarrow> 2 \<le> stage ca'" using S(1,4) D(3,8,13) by fastforce
  have known: "0 < stage ca \<Longrightarrow> 0 < stage ca'" using S(1) by simp
  have closing: "has PACKET_SUCCESS (sa @ qa @ ps) \<Longrightarrow> 3 \<le> stage cb" using S(8) D(9,10) by auto
  have other: "has PACKET_NEW_CONNECTION (sa @ qa @ ps) \<Longrightarrow> has PACKET_NEW_CONNECTION (sa @ qa)"
    "has PACKET_DATA (sa @ qa @ ps) \<Longrightarrow> has PACKET_DATA (sa @ qa)" using S(5,6) by auto
  have same: "(sb @ [p]) @ qb = sb @ p # qb" by simp
  show ?thesis
    by (intro pair_invI endpoint_step_initiator(2) [OF step D(1) new] D(2,14) D(5,12) [folded same] buf)
      (unfold same, (blast intro: started success known closing other D(3,4,6,8,9,11))+)
qed

section \<open>The two ends of a stream\<close>

lemma f_keeps_table [simp]:
  "connMap (snd (snd (Close c ctx))) = connMap ctx" "connMap (snd (snd (CloseImm c ctx))) = connMap ctx"
  "connMap (snd (snd (Accept c ctx))) = connMap ctx" "connMap (snd (snd (Reject c ctx))) = connMap ctx"
  by (simp_all add: Close_cases CloseImm_eq Accept_def Reject_def case_prod_beta Let_def)

lemma on_connection_unknown:
  assumes "connMap (snd (snd (f c ctx))) = connMap ctx" "look ctx i = Some c" "look ctx j = None"
  shows "look (on_connection f i ctx) j = None"
  using assms by (auto simp: on_connection_def case_prod_beta)

lemma local_act_unknown:
  assumes "local_act cd a ctx = Ret ctx'" "\<not> opens a" "look ctx j = None"
  shows "look ctx' j = None"
proof (cases a)
  case (ActWrite i d)
  with assms show ?thesis
    by (auto elim!: go_bind_RetE simp: Write_def writePacket_def split: option.splits connection_state.splits prod.splits)
next
  case ActNoMore
  with assms show ?thesis
    by (auto elim!: go_bind_RetE simp: NoMoreConnections_def writePacket_def split: if_splits option.splits)
qed (use assms in \<open>auto simp: on_connection_def case_prod_beta split: option.splits\<close>)

lemma unknown_opens_nothing:
  assumes "endpoint_step i None co co' ps" "co = None \<Longrightarrow> co' = None"
  shows "\<not> has PACKET_NEW_CONNECTION ps"
  using assms by (cases rule: endpoint_step.cases) auto

definition for_conn :: "uint64 \<Rightarrow> Packet list \<Rightarrow> Packet list" where
  "for_conn i ps = filter (\<lambda>p. ConnectionId p = i) ps"

lemma for_conn_simps [simp]:
  "for_conn i [] = []" "for_conn i (ps @ qs) = for_conn i ps @ for_conn i qs"
  "for_conn i (p # ps) = (if ConnectionId p = i then p # for_conn i ps else for_conn i ps)"
  by (simp_all add: for_conn_def)

lemma for_conn_all: "\<forall>p \<in> set ps. ConnectionId p = i \<Longrightarrow> for_conn j ps = (if j = i then ps else [])"
  by (induction ps) auto

text \<open>The connection \<open>i\<close> of two joined ends: what each has of it, and the packets about it that were
  handled and that are under way.\<close>

definition conn_inv :: "net \<Rightarrow> uint64 \<Rightarrow> bool" where
  "conn_inv n i \<longleftrightarrow>
     pair_inv (look (peerA n) i)
       (for_conn i (take (readB n) (encoder (peerA n)))) (for_conn i (drop (readB n) (encoder (peerA n))))
       (look (peerB n) i)
       (for_conn i (take (readA n) (encoder (peerB n)))) (for_conn i (drop (readA n) (encoder (peerB n))))"

definition net_inv :: "net \<Rightarrow> bool" where
  "net_inv n \<longleftrightarrow> ctx_inv (peerA n) \<and> ctx_inv (peerB n)
     \<and> encoder_error (peerA n) = None \<and> encoder_error (peerB n) = None
     \<and> readB n \<le> length (encoder (peerA n)) \<and> readA n \<le> length (encoder (peerB n))
     \<and> (\<forall>i. conn_inv n i)"

lemma net_inv_init: "net_init n \<Longrightarrow> net_inv n"
  by (simp add: net_init_def net_inv_def conn_inv_def ctx_inv_init pair_inv_def ordered_def buf_ok_def)
    (simp add: init_def)

lemma net_inv_local_A:
  assumes inv: "net_inv n" and act: "local_act cd a (peerA n) = Ret ctx"
  shows "net_inv (n\<lparr>peerA := ctx\<rparr>)"
proof -
  obtain i ps where m: "moves i None (peerA n) ctx ps"
    using inv act local_act_moves unfolding net_inv_def by metis
  have "conn_inv (n\<lparr>peerA := ctx\<rparr>) j" for j
  proof -
    have "conn_inv n j" using inv by (simp add: net_inv_def)
    moreover have "readB n \<le> length (encoder (peerA n))" using inv by (simp add: net_inv_def)
    moreover have "for_conn j ps = (if j = i then ps else [])"
      using m by (intro for_conn_all) (simp add: moves_def)
    ultimately show ?thesis
      using m pair_inv_local_A by (cases "j = i") (auto simp: conn_inv_def moves_def)
  qed
  with inv act m show ?thesis
    by (auto simp: net_inv_def moves_def intro: local_act_inv)
qed

lemma net_inv_local_B:
  assumes inv: "net_inv n" and act: "local_act cd a (peerB n) = Ret ctx" and "\<not> opens a"
  shows "net_inv (n\<lparr>peerB := ctx\<rparr>)"
proof -
  obtain i ps where m: "moves i None (peerB n) ctx ps"
    using inv act local_act_moves unfolding net_inv_def by metis
  have new: "\<not> has PACKET_NEW_CONNECTION ps"
    using m local_act_unknown [OF act \<open>\<not> opens a\<close>] unknown_opens_nothing unfolding moves_def by metis
  have "conn_inv (n\<lparr>peerB := ctx\<rparr>) j" for j
  proof -
    have "conn_inv n j" using inv by (simp add: net_inv_def)
    moreover have "readA n \<le> length (encoder (peerB n))" using inv by (simp add: net_inv_def)
    moreover have "for_conn j ps = (if j = i then ps else [])"
      using m by (intro for_conn_all) (simp add: moves_def)
    ultimately show ?thesis
      using m pair_inv_local_B new by (cases "j = i") (auto simp: conn_inv_def moves_def)
  qed
  with inv act m show ?thesis
    by (auto simp: net_inv_def moves_def intro: local_act_inv)
qed

lemma handled_next:
  assumes "k < length ps"
  shows "for_conn i (take (Suc k) ps) = for_conn i (take k ps) @ for_conn i [ps ! k]"
    and "for_conn i (drop k ps) = for_conn i [ps ! k] @ for_conn i (drop (Suc k) ps)"
  using assms by (simp_all add: take_Suc_conv_app_nth Cons_nth_drop_Suc [symmetric])

lemma net_inv_deliver_B:
  assumes inv: "net_inv n" and more: "readB n < length (encoder (peerA n))"
    and act: "handlePacket cd (encoder (peerA n) ! readB n) (peerB n) = Ret ctx"
  shows "net_inv (n\<lparr>peerB := ctx, readB := Suc (readB n)\<rparr>)"
proof -
  let ?p = "encoder (peerA n) ! readB n"
  obtain ps where m: "moves (ConnectionId ?p) (Some ?p) (peerB n) ctx ps"
    using inv act handlePacket_moves unfolding net_inv_def by metis
  have "conn_inv (n\<lparr>peerB := ctx, readB := Suc (readB n)\<rparr>) j" for j
  proof -
    have "conn_inv n j" using inv by (simp add: net_inv_def)
    moreover have "readA n \<le> length (encoder (peerB n))" using inv by (simp add: net_inv_def)
    moreover have "for_conn j ps = (if j = ConnectionId ?p then ps else [])"
      using m by (intro for_conn_all) (simp add: moves_def)
    ultimately show ?thesis
      using m pair_inv_deliver_B
      by (cases "j = ConnectionId ?p") (auto simp: conn_inv_def moves_def handled_next [OF more])
  qed
  with inv act m more show ?thesis
    by (auto simp: net_inv_def moves_def intro: handlePacket_inv)
qed

lemma net_inv_deliver_A:
  assumes inv: "net_inv n" and more: "readA n < length (encoder (peerB n))"
    and act: "handlePacket cd (encoder (peerB n) ! readA n) (peerA n) = Ret ctx"
  shows "net_inv (n\<lparr>peerA := ctx, readA := Suc (readA n)\<rparr>)"
proof -
  let ?p = "encoder (peerB n) ! readA n"
  obtain ps where m: "moves (ConnectionId ?p) (Some ?p) (peerA n) ctx ps"
    using inv act handlePacket_moves unfolding net_inv_def by metis
  have "conn_inv (n\<lparr>peerA := ctx, readA := Suc (readA n)\<rparr>) j" for j
  proof -
    have "conn_inv n j" using inv by (simp add: net_inv_def)
    moreover have "readB n \<le> length (encoder (peerA n))" using inv by (simp add: net_inv_def)
    moreover have "for_conn j ps = (if j = ConnectionId ?p then ps else [])"
      using m by (intro for_conn_all) (simp add: moves_def)
    ultimately show ?thesis
      using m pair_inv_deliver_A
      by (cases "j = ConnectionId ?p") (auto simp: conn_inv_def moves_def handled_next [OF more])
  qed
  with inv act m more show ?thesis
    by (auto simp: net_inv_def moves_def intro: handlePacket_inv)
qed

interpretation streams: inductive_invariant net_init "net_step cd" net_inv for cd
proof unfold_locales
  show "net_inv n" if "net_init n" for n using that by (rule net_inv_init)
  show "net_inv m" if "net_inv n" "net_step cd n m" for n m
    using that(2,1)
    by (cases rule: net_step.cases)
      (auto intro: net_inv_local_A net_inv_local_B net_inv_deliver_A net_inv_deliver_B)
qed

section \<open>One end under any peer\<close>

text \<open>An end may be driven by the application, receive any packet, and lose its stream.\<close>

inductive ctx_step :: "codec \<Rightarrow> ForwardCtx \<Rightarrow> ForwardCtx \<Rightarrow> bool" for cd where
  act: "local_act cd a ctx = Ret ctx' \<Longrightarrow> ctx_step cd ctx ctx'"
| receive: "handlePacket cd p ctx = Ret ctx' \<Longrightarrow> ctx_step cd ctx ctx'"
| broken: "ctx_step cd ctx (ctx\<lparr>encoder_error := Some e\<rparr>)"

definition table_ok :: "ForwardCtx \<Rightarrow> bool" where
  "table_ok ctx \<longleftrightarrow> distinct (map fst (connMap ctx))"

lemma table_ok_store [intro]: "table_ok ctx \<Longrightarrow> table_ok (store i c ctx)"
  by (simp add: table_ok_def store_def distinct_update)

lemma table_ok_cong: "connMap ctx' = connMap ctx \<Longrightarrow> table_ok ctx' = table_ok ctx"
  by (simp add: table_ok_def)

lemma table_ok_on_connection:
  assumes "table_ok ctx" "\<And>c. connMap (snd (snd (f c ctx))) = connMap ctx"
  shows "table_ok (on_connection f i ctx)"
proof (cases "look ctx i")
  case (Some c)
  have "table_ok (snd (snd (f c ctx)))" using assms(1) by (simp add: table_ok_cong [OF assms(2)])
  with Some show ?thesis by (auto simp: on_connection_def case_prod_beta)
qed (use assms(1) in \<open>simp add: on_connection_none\<close>)

lemma table_ok_more [simp]:
  "table_ok (ctx\<lparr>encoder := e\<rparr>) = table_ok ctx" "table_ok (ctx\<lparr>encoder_error := r\<rparr>) = table_ok ctx"
  "table_ok (ctx\<lparr>connMapMu := b\<rparr>) = table_ok ctx" "table_ok (ctx\<lparr>connectionId := n\<rparr>) = table_ok ctx"
  "table_ok (ctx\<lparr>waitGroup := w\<rparr>) = table_ok ctx" "table_ok (ctx\<lparr>callbacks := l\<rparr>) = table_ok ctx"
  "table_ok (ctx\<lparr>connectionChannel := ch\<rparr>) = table_ok ctx" "table_ok (ctx\<lparr>stopped := s\<rparr>) = table_ok ctx"
  "table_ok (ctx\<lparr>channel_closed := cl\<rparr>) = table_ok ctx" "table_ok (snd (writePacket p ctx)) = table_ok ctx"
  by (simp_all add: table_ok_def)

lemma CloseImm_table: "table_ok ctx \<Longrightarrow> table_ok (snd (snd (CloseImm c ctx)))"
  by (simp add: table_ok_def)

lemma Reject_table: "table_ok ctx \<Longrightarrow> table_ok (snd (snd (Reject c ctx)))"
  by (simp add: table_ok_def)

lemmas table_intros = table_ok_store CloseImm_table Reject_table

lemma handlePacket_table:
  assumes "table_ok ctx" "handlePacket cd p ctx = Ret ctx'"
  shows "table_ok ctx'"
proof -
  have "handleData p ctx = Ret ctx' \<Longrightarrow> table_ok ctx'"
    using assms(1) by (auto simp: handleData_def split: if_splits option.splits)
  moreover have "handleClose p ctx = Ret ctx' \<Longrightarrow> table_ok ctx'"
    using assms(1) by (auto simp: handleClose_def case_prod_beta intro!: table_intros split: if_splits option.splits)
  moreover have "handleSuccess p ctx = Ret ctx' \<Longrightarrow> table_ok ctx'"
    using assms(1) by (auto simp: handleSuccess_def case_prod_beta intro!: table_intros
        split: if_splits option.splits connection_state.splits)
  moreover have "handleError p ctx = Ret ctx' \<Longrightarrow> table_ok ctx'"
    using assms(1) by (auto simp: handleError_def case_prod_beta intro!: table_intros split: if_splits option.splits)
  moreover have "handleNewConnection cd p ctx = Ret ctx' \<Longrightarrow> table_ok ctx'"
    using assms(1) by (auto simp: handleNewConnection_def case_prod_beta Let_def intro!: table_intros
        split: if_splits sum.splits)
  ultimately show ?thesis
    using assms by (auto simp: handlePacket_def split: if_splits)
qed

lemma local_act_table:
  assumes "table_ok ctx" "local_act cd a ctx = Ret ctx'"
  shows "table_ok ctx'"
proof (cases a)
  case (ActNew p s n oa on f)
  with assms show ?thesis
    by (auto elim!: go_bind_RetE simp: newConnection_def Let_def writePacket_def intro!: table_ok_store
        split: if_splits option.splits sum.splits)
next
  case (ActWrite i d)
  with assms show ?thesis
    by (auto elim!: go_bind_RetE simp: Write_def writePacket_def
        split: option.splits connection_state.splits)
next
  case ActNoMore
  with assms show ?thesis
    by (auto elim!: go_bind_RetE simp: NoMoreConnections_def writePacket_def
        split: if_splits option.splits)
qed (use assms in \<open>auto simp: table_ok_on_connection\<close>)

lemma ctx_inv_broken: "ctx_inv ctx \<Longrightarrow> ctx_inv (ctx\<lparr>encoder_error := e\<rparr>)"
  by (simp add: ctx_inv_def)

interpretation ends: inductive_invariant "\<lambda>ctx. ctx = init" "ctx_step cd" "\<lambda>ctx. ctx_inv ctx \<and> table_ok ctx" for cd
proof unfold_locales
  show "ctx_inv ctx \<and> table_ok ctx" if "ctx = init" for ctx
    using that ctx_inv_init by (simp add: table_ok_def init_def)
  show "ctx_inv ctx' \<and> table_ok ctx'" if "ctx_inv ctx \<and> table_ok ctx" "ctx_step cd ctx ctx'" for ctx ctx'
    using that(2,1)
    by (cases rule: ctx_step.cases)
      (auto intro: local_act_inv handlePacket_inv local_act_table handlePacket_table ctx_inv_broken)
qed

text \<open>A connection that was rejected is closed, but its pipes are not.\<close>

definition rejected :: "connection \<Rightarrow> bool" where
  "rejected c \<longleftrightarrow> state c = CLOSED \<and> \<not> reader_closed c"

abbreviation was_rejected :: "uint64 \<Rightarrow> ForwardCtx \<Rightarrow> bool" where
  "was_rejected i ctx \<equiv> pred_option rejected (look ctx i) \<and> look ctx i \<noteq> None"

lemma rejected_inert:
  assumes "rejected c"
  shows "CloseImm c ctx = (Some (ErrorString ''unclosable state''), c, ctx)" "Close c ctx = (None, c, ctx)"
    "\<exists>e. Accept c ctx = (e, c, ctx)" "\<exists>e. Reject c ctx = (e, c, ctx)"
  using assms by (simp_all add: rejected_def CloseImm_eq Close_cases Accept_def Reject_def)

lemma handlePacket_rejected:
  assumes "look ctx i = Some c" "rejected c" "handlePacket cd p ctx = Ret ctx'"
  shows "look ctx' i = Some c"
proof (cases "ConnectionId p = i")
  case True
  have "state c = CLOSED" using assms(2) by (simp add: rejected_def)
  with True assms show ?thesis
    by (auto simp: handlePacket_def handleData_def handleClose_def handleSuccess_def handleError_def
        handleNewConnection_def rejected_inert case_prod_beta split: if_splits sum.splits)
next
  case False
  have "handleData p ctx = Ret ctx' \<Longrightarrow> ?thesis"
    using assms(1) False by (auto simp: handleData_def split: if_splits option.splits)
  moreover have "handleClose p ctx = Ret ctx' \<Longrightarrow> ?thesis"
    using assms(1) False by (auto simp: handleClose_def case_prod_beta split: if_splits option.splits)
  moreover have "handleSuccess p ctx = Ret ctx' \<Longrightarrow> ?thesis"
    using assms(1) False by (auto simp: handleSuccess_def case_prod_beta
        split: if_splits option.splits connection_state.splits)
  moreover have "handleError p ctx = Ret ctx' \<Longrightarrow> ?thesis"
    using assms(1) False by (auto simp: handleError_def case_prod_beta split: if_splits option.splits)
  moreover have "handleNewConnection cd p ctx = Ret ctx' \<Longrightarrow> ?thesis"
    using assms(1) False by (auto simp: handleNewConnection_def case_prod_beta Let_def split: if_splits sum.splits)
  ultimately show ?thesis
    using assms by (auto simp: handlePacket_def split: if_splits)
qed

lemma on_connection_rejected:
  assumes "look ctx i = Some c" "\<And>c. connMap (snd (snd (f c ctx))) = connMap ctx"
    and "\<exists>e. f c ctx = (e, c, ctx)"
  shows "look (on_connection f j ctx) i = Some c"
proof (cases "j = i")
  case True
  with assms(1,3) show ?thesis by (auto simp: on_connection_def)
next
  case False
  with assms(1,2) show ?thesis by (simp add: on_connection_def case_prod_beta split: option.split)
qed

lemma local_act_rejected:
  assumes "look ctx i = Some c" "rejected c" "local_act cd a ctx = Ret ctx'"
  shows "\<exists>c'. look ctx' i = Some c' \<and> rejected c'"
proof (cases a)
  case (ActNew p s n oa on f)
  with assms show ?thesis
    by (auto elim!: go_bind_RetE simp: newConnection_def Let_def writePacket_def
        split: if_splits option.splits sum.splits)
next
  case (ActWrite j d)
  with assms show ?thesis
    by (cases "i = j") (auto elim!: go_bind_RetE simp: Write_def writePacket_def rejected_def
        split: option.splits connection_state.splits)
next
  case ActNoMore
  with assms show ?thesis
    by (auto elim!: go_bind_RetE simp: NoMoreConnections_def writePacket_def split: if_splits option.splits)
next
  case (ActClose j)
  have "look (on_connection Close j ctx) i = Some c"
    by (rule on_connection_rejected [OF assms(1)]) (simp_all add: rejected_inert [OF assms(2)])
  with ActClose assms(2,3) show ?thesis by simp
next
  case (ActCloseImm j)
  have "look (on_connection CloseImm j ctx) i = Some c"
    by (rule on_connection_rejected [OF assms(1)]) (simp_all add: rejected_inert [OF assms(2)])
  with ActCloseImm assms(2,3) show ?thesis by simp
next
  case (ActAccept j)
  have "look (on_connection Accept j ctx) i = Some c"
    by (rule on_connection_rejected [OF assms(1)]) (simp_all add: rejected_inert [OF assms(2)])
  with ActAccept assms(2,3) show ?thesis by simp
next
  case (ActReject j)
  have "look (on_connection Reject j ctx) i = Some c"
    by (rule on_connection_rejected [OF assms(1)]) (simp_all add: rejected_inert [OF assms(2)])
  with ActReject assms(2,3) show ?thesis by simp
qed

lemma rejected_stays:
  assumes "(ctx_step cd)\<^sup>*\<^sup>* ctx ctx'" "look ctx i = Some c" "rejected c"
  shows "\<exists>c'. look ctx' i = Some c' \<and> rejected c'"
  using assms(1)
proof (induction rule: rtranclp_induct)
  case (step y z)
  then obtain c where c: "look y i = Some c" "rejected c" by blast
  show ?case using step(2)
  proof (cases rule: ctx_step.cases)
    case (act a)
    show ?thesis by (rule local_act_rejected [OF c act])
  next
    case (receive p)
    from handlePacket_rejected [OF c receive] c show ?thesis by blast
  next
    case (broken e)
    with c show ?thesis by simp
  qed
qed (use assms in blast)

section \<open>Shutting an end down\<close>

lemma on_connection_rejected_count:
  assumes "look ctx i = Some c" "connMap (snd (snd (f c ctx))) = connMap ctx"
    and "rejected (fst (snd (f c ctx))) = rejected c"
  shows "count_vals rejected (connMap (on_connection f i ctx)) = count_vals rejected (connMap ctx)"
  using assms count_vals_update_old [OF assms(1), of rejected "fst (snd (f c ctx))"]
  by (simp add: on_connection_def case_prod_beta store_def split: if_splits)

lemma Close_rejected_count:
  assumes "ctx_inv ctx"
  shows "count_vals rejected (connMap (on_connection Close i ctx)) = count_vals rejected (connMap ctx)"
proof (cases "look ctx i")
  case (Some c)
  then show ?thesis
    by (intro on_connection_rejected_count) (auto simp: Close_cases rejected_def)
qed (simp add: on_connection_none)

lemma CloseImm_rejected_count:
  assumes "ctx_inv ctx"
  shows "count_vals rejected (connMap (on_connection CloseImm i ctx)) = count_vals rejected (connMap ctx)"
proof (cases "look ctx i")
  case (Some c)
  then show ?thesis
    by (intro on_connection_rejected_count) (auto simp: CloseImm_eq rejected_def closed_conn_def)
qed (simp add: on_connection_none)

lemma fold_Close:
  assumes "ctx_inv ctx" "table_ok ctx"
  shows "ctx_inv (fold (on_connection Close) ks ctx) \<and> table_ok (fold (on_connection Close) ks ctx)
    \<and> count_vals rejected (connMap (fold (on_connection Close) ks ctx)) = count_vals rejected (connMap ctx)"
  using assms
proof (induction ks arbitrary: ctx)
  case (Cons k ks)
  then show ?case
    using Cons.IH [of "on_connection Close k ctx"]
    by (simp add: on_connection_inv ctx_inv_Close table_ok_on_connection Close_rejected_count)
qed simp

definition all_closed :: "uint64 set \<Rightarrow> ForwardCtx \<Rightarrow> bool" where
  "all_closed K ctx \<longleftrightarrow> (\<forall>i \<in> K. \<forall>c. look ctx i = Some c \<longrightarrow> state c = CLOSED)"

lemma on_connection_CloseImm_closes:
  "all_closed K ctx \<Longrightarrow> all_closed (insert k K) (on_connection CloseImm k ctx)"
  by (auto simp: all_closed_def on_connection_def CloseImm_eq case_prod_beta split: option.splits if_splits)

lemma on_connection_CloseImm_dom: "dom (look (on_connection CloseImm k ctx)) = dom (look ctx)"
  by (auto simp: on_connection_def case_prod_beta split: option.splits)

lemma fold_CloseImm:
  assumes "ctx_inv ctx" "table_ok ctx" "all_closed K ctx"
  shows "let ctx' = fold (on_connection CloseImm) ks ctx in
    ctx_inv ctx' \<and> table_ok ctx' \<and> all_closed (K \<union> set ks) ctx' \<and> dom (look ctx') = dom (look ctx)
    \<and> count_vals rejected (connMap ctx') = count_vals rejected (connMap ctx)"
  using assms
proof (induction ks arbitrary: ctx K)
  case (Cons k ks)
  then show ?case
    using Cons.IH [of "on_connection CloseImm k ctx" "insert k K"]
    by (simp add: on_connection_inv ctx_inv_CloseImm' table_ok_on_connection CloseImm_rejected_count
        on_connection_CloseImm_closes on_connection_CloseImm_dom Let_def)
qed (simp add: Let_def)

lemma count_vals_cong: "(\<And>k v. (k, v) \<in> set al \<Longrightarrow> P v = Q v) \<Longrightarrow> count_vals P al = count_vals Q al"
  unfolding count_vals_def by (intro arg_cong [where f = length] filter_cong) auto

lemma Kill_timeout_closes:
  assumes "ctx_inv ctx" "table_ok ctx"
  shows "(\<forall>i c. look (Kill_timeout ctx) i = Some c \<longrightarrow> state c = CLOSED)
    \<and> waitGroup (Kill_timeout ctx) = int (count_vals rejected (connMap ctx))"
proof -
  let ?ctx = "Kill_timeout ctx"
  have K: "ctx_inv ?ctx" "table_ok ?ctx" "all_closed (fst ` set (connMap ctx)) ?ctx" "dom (look ?ctx) = dom (look ctx)"
    "count_vals rejected (connMap ?ctx) = count_vals rejected (connMap ctx)"
    using fold_CloseImm [OF assms, of "{}" "map fst (connMap ctx)"] by (simp_all add: all_closed_def Kill_timeout_def Let_def)
  have closed: "state c = CLOSED" if "look ?ctx i = Some c" for i c
  proof -
    have "i \<in> fst ` set (connMap ctx)"
      using that K(4) by (metis dom_map_of_conv_image_fst domI)
    with that K(3) show ?thesis unfolding all_closed_def by blast
  qed
  have "count_vals unfinished (connMap ?ctx) = count_vals rejected (connMap ?ctx)"
  proof (rule count_vals_cong)
    fix k c assume "(k, c) \<in> set (connMap ?ctx)"
    then have "look ?ctx k = Some c" using K(2) by (simp add: table_ok_def)
    then show "unfinished c = rejected c" using closed by (simp add: rejected_def)
  qed
  then show ?thesis using closed K(1,5) by (simp add: ctx_inv_def)
qed

lemma Kill_close_returns:
  assumes "ctx_inv ctx" "table_ok ctx"
  shows "\<exists>ctx'. Kill_close ctx = Ret ctx' \<and> ctx_inv ctx' \<and> table_ok ctx'
    \<and> count_vals rejected (connMap ctx') = count_vals rejected (connMap ctx)"
proof -
  let ?stop = "snd (writePacket (packet PACKET_NO_MORE_CONNECTIONS 0 []) (ctx\<lparr>stopped := True, channel_closed := True\<rparr>))"
  define ctx1 where "ctx1 = (if stopped ctx then ctx else ?stop)"
  have "Kill_close ctx = Ret (fold (on_connection Close) (map fst (connMap ctx1)) ctx1)"
    using assms(1) by (simp add: Kill_close_def NoMoreConnections_def ctx1_def ctx_inv_def case_prod_beta)
  moreover have "ctx_inv ctx1" "table_ok ctx1" "connMap ctx1 = connMap ctx"
    using assms by (simp_all add: ctx1_def ctx_inv_writePacket ctx_inv_flags)
  ultimately show ?thesis using fold_Close by metis
qed

section \<open>Runs of two ends\<close>

datatype move = MoveA action | MoveB action | ToB | ToA

fun net_move :: "codec \<Rightarrow> move \<Rightarrow> net \<Rightarrow> net go" where
  "net_move cd (MoveA a) n = go_bind (local_act cd a (peerA n)) (\<lambda>ctx. Ret (n\<lparr>peerA := ctx\<rparr>))"
| "net_move cd (MoveB a) n =
     (if opens a then Block else go_bind (local_act cd a (peerB n)) (\<lambda>ctx. Ret (n\<lparr>peerB := ctx\<rparr>)))"
| "net_move cd ToB n =
     (if readB n < length (encoder (peerA n))
      then go_bind (handlePacket cd (encoder (peerA n) ! readB n) (peerB n))
             (\<lambda>ctx. Ret (n\<lparr>peerB := ctx, readB := Suc (readB n)\<rparr>))
      else Block)"
| "net_move cd ToA n =
     (if readA n < length (encoder (peerB n))
      then go_bind (handlePacket cd (encoder (peerB n) ! readA n) (peerA n))
             (\<lambda>ctx. Ret (n\<lparr>peerA := ctx, readA := Suc (readA n)\<rparr>))
      else Block)"

fun net_run :: "codec \<Rightarrow> move list \<Rightarrow> net \<Rightarrow> net go" where
  "net_run cd [] n = Ret n"
| "net_run cd (m # ms) n = go_bind (net_move cd m n) (net_run cd ms)"

lemma net_move_step: "net_move cd m n = Ret n' \<Longrightarrow> net_step cd n n'"
  by (cases m) (auto elim!: go_bind_RetE intro: net_step.intros split: if_splits)

lemma net_run_reach: "net_run cd ms n = Ret n' \<Longrightarrow> reach net_init (net_step cd) n \<Longrightarrow> reach net_init (net_step cd) n'"
proof (induction ms arbitrary: n)
  case (Cons m ms)
  from Cons.prems(1) obtain n1 where "net_move cd m n = Ret n1" "net_run cd ms n1 = Ret n'"
    by (auto elim!: go_bind_RetE)
  with Cons show ?case by (blast intro: reach.reach_step net_move_step)
qed simp

definition net0 :: net where
  "net0 = \<lparr>peerA = init, peerB = init, readA = 0, readB = 0\<rparr>"

lemma reach_net_run: "net_run cd ms net0 = Ret n \<Longrightarrow> reach net_init (net_step cd) n"
  by (erule net_run_reach, rule reach.reach_init) (simp add: net_init_def net0_def)

definition sample_payload :: NewConnectionPayload where
  "sample_payload = \<lparr>Protocol = ''tcp'', conn_ConnectedAddress = ''10.0.0.1'', conn_ConnectedPort = 80,
     conn_OriginatorAddress = ''10.0.0.2'', conn_OriginatorPort = 4711\<rparr>"

definition sample_codec :: codec where
  "sample_codec = \<lparr>marshalSetup = (\<lambda>s. Inr []), unmarshalSetup = (\<lambda>b. Inr (empty_setup\<lparr>ConnectionType := 2\<rparr>)),
     marshalNewConnection = (\<lambda>p. if p = sample_payload then Inr [] else Inl (ErrorString ''cannot encode'')),
     unmarshalNewConnection = (\<lambda>b. Inr sample_payload)\<rparr>"

definition sample_moves :: "move list" where
  "sample_moves = [MoveA (ActNew ''tcp'' ''10.0.0.1'' 80 ''10.0.0.2'' 4711 True), ToB, MoveB (ActAccept 1), ToA,
     MoveA (ActWrite 1 [104, 105]), ToB]"

definition sample_net :: net where
  "sample_net = (case net_run sample_codec sample_moves net0 of Ret n \<Rightarrow> n | _ \<Rightarrow> net0)"

lemma sample_run: "net_run sample_codec sample_moves net0 = Ret sample_net
   \<and> map_option buffer (look (peerB sample_net) 1) = Some [104, 105]
   \<and> map_option state (look (peerB sample_net) 1) = Some STARTED
   \<and> map_option state (look (peerA sample_net) 1) = Some STARTED"
  by code_simp

section \<open>Properties\<close>

lemma conn_inv_delivered:
  assumes "conn_inv n i"
  shows "look (peerB n) i = Some c \<Longrightarrow> buf_ok (Some c) (data_of (for_conn i (take (readB n) (encoder (peerA n)))))"
    and "look (peerA n) i = Some c \<Longrightarrow> buf_ok (Some c) (data_of (for_conn i (take (readA n) (encoder (peerB n)))))"
  using assms unfolding conn_inv_def by (auto dest: pair_invD(14,15))

lemma buf_ok_prefix:
  "buf_ok (Some c) (data_of (for_conn i (take k ps))) \<Longrightarrow> prefix (buffer c) (data_of (for_conn i ps))"
proof -
  assume ok: "buf_ok (Some c) (data_of (for_conn i (take k ps)))"
  have "data_of (for_conn i ps) = data_of (for_conn i (take k ps)) @ data_of (for_conn i (drop k ps))"
    by (metis append_take_drop_id data_of_simps(2) for_conn_simps(2))
  moreover have "prefix (buffer c) (data_of (for_conn i (take k ps)))"
    using ok by (cases "state c") (auto simp: buf_ok_def)
  ultimately show ?thesis by simp
qed

text \<open>C9: Whatever the interleaving of the two ends of a stream, what the reader of a connection has
  received is a prefix of what the other end wrote to it, in order and without loss, duplication or data
  of another connection; while the connection is started it is all of what has been handled so far. This
  holds in both directions.\<close>
theorem stream_integrity:
  assumes "reach net_init (net_step cd) n"
  shows "\<forall>i c. (look (peerB n) i = Some c \<longrightarrow>
             prefix (buffer c) (data_of (for_conn i (encoder (peerA n))))
             \<and> (state c = STARTED \<longrightarrow> buffer c = data_of (for_conn i (take (readB n) (encoder (peerA n))))))
          \<and> (look (peerA n) i = Some c \<longrightarrow>
             prefix (buffer c) (data_of (for_conn i (encoder (peerB n))))
             \<and> (state c = STARTED \<longrightarrow> buffer c = data_of (for_conn i (take (readA n) (encoder (peerB n))))))"
proof -
  have inv: "conn_inv n i" for i using streams.holds [OF assms] by (simp add: net_inv_def)
  have started: "state c = STARTED \<Longrightarrow> buf_ok (Some c) d \<Longrightarrow> buffer c = d" for c d
    by (simp add: buf_ok_def)
  show ?thesis
    using conn_inv_delivered [OF inv] buf_ok_prefix started by blast
qed

theorem stream_integrity_witness:
  "reach net_init (net_step sample_codec) sample_net
   \<and> (\<exists>c. look (peerB sample_net) 1 = Some c \<and> buffer c = [104, 105]
        \<and> prefix (buffer c) (data_of (for_conn 1 (encoder (peerA sample_net)))))"
proof -
  have r: "reach net_init (net_step sample_codec) sample_net"
    using sample_run by (intro reach_net_run) blast
  with sample_run stream_integrity [OF r] show ?thesis by blast
qed

text \<open>C31: At one end, whatever the application does, whatever packets arrive and even if the stream breaks, the
  wait group is the number of connections whose pipes are still open (so it never goes negative), every
  connection is in the table once, and a close callback runs at most once, for a closed connection.\<close>
theorem wait_group_exact:
  assumes "reach (\<lambda>ctx. ctx = init) (ctx_step cd) ctx"
  shows "waitGroup ctx = int (count_vals unfinished (connMap ctx))
    \<and> distinct (map fst (connMap ctx))
    \<and> distinct (callbacks ctx)
    \<and> (\<forall>i \<in> set (callbacks ctx). \<exists>c. look ctx i = Some c \<and> state c = CLOSED)"
proof -
  have inv: "ctx_inv ctx" "table_ok ctx" using ends.holds [OF assms] by blast+
  have "\<exists>c. look ctx i = Some c \<and> state c = CLOSED" if "i \<in> set (callbacks ctx)" for i
    using that inv(1) by (fastforce simp: ctx_inv_def conn_ok_def)
  with inv show ?thesis by (simp add: ctx_inv_def table_ok_def)
qed

definition sample_new :: Packet where
  "sample_new = packet PACKET_NEW_CONNECTION 1 []"

definition sample_waiting :: ForwardCtx where
  "sample_waiting = (case handlePacket sample_codec sample_new init of Ret ctx \<Rightarrow> ctx | _ \<Rightarrow> init)"

lemma sample_waiting_step: "handlePacket sample_codec sample_new init = Ret sample_waiting"
  by code_simp

lemma sample_waiting_reach: "reach (\<lambda>ctx. ctx = init) (ctx_step sample_codec) sample_waiting"
  using sample_waiting_step by (blast intro: reach.intros ctx_step.receive)

theorem wait_group_exact_witness:
  "reach (\<lambda>ctx. ctx = init) (ctx_step sample_codec) sample_waiting
   \<and> waitGroup sample_waiting = int (count_vals unfinished (connMap sample_waiting))
   \<and> waitGroup sample_waiting = 1"
proof -
  have "waitGroup sample_waiting = 1" by code_simp
  with sample_waiting_reach wait_group_exact [OF sample_waiting_reach] show ?thesis by blast
qed

text \<open>\<open>Kill\<close> never fails: its first phase returns, and once its second phase has run every connection of
  the end is closed and the wait group counts exactly the connections that had been rejected. If there was
  none, the wait for the connections ends.\<close>
theorem kill_finishes:
  assumes "reach (\<lambda>ctx. ctx = init) (ctx_step cd) ctx"
  shows "\<exists>ctx'. Kill_close ctx = Ret ctx'
    \<and> (\<forall>i c. look (Kill_timeout ctx') i = Some c \<longrightarrow> state c = CLOSED)
    \<and> waitGroup (Kill_timeout ctx') = int (count_vals rejected (connMap ctx))
    \<and> (count_vals rejected (connMap ctx) = 0 \<longrightarrow> WaitFinish (Kill_timeout ctx') = Ret (Kill_timeout ctx'))"
proof -
  have inv: "ctx_inv ctx" "table_ok ctx" using ends.holds [OF assms] by blast+
  obtain ctx' where k: "Kill_close ctx = Ret ctx'" "ctx_inv ctx'" "table_ok ctx'"
    "count_vals rejected (connMap ctx') = count_vals rejected (connMap ctx)"
    using Kill_close_returns [OF inv] by blast
  with Kill_timeout_closes [OF k(2,3)] show ?thesis by (auto simp: WaitFinish_def)
qed

theorem kill_finishes_witness:
  "count_vals rejected (connMap sample_waiting) = 0
   \<and> (\<exists>ctx'. Kill_close sample_waiting = Ret ctx' \<and> WaitFinish (Kill_timeout ctx') = Ret (Kill_timeout ctx'))"
proof -
  have "count_vals rejected (connMap sample_waiting) = 0" by code_simp
  with kill_finishes [OF sample_waiting_reach] show ?thesis by blast
qed

text \<open>\<open>Reject\<close> marks a connection as closed without releasing the wait group, and nothing closes it
  afterwards: from then on \<open>WaitFinish\<close> blocks for ever, whatever the end does or receives, even after \<open>Kill\<close>.\<close>
theorem rejected_never_finishes:
  assumes "reach (\<lambda>ctx. ctx = init) (ctx_step cd) ctx"
    and "look ctx i = Some c" "\<not> initiator c" "state c = WAITINIT"
    and "(ctx_step cd)\<^sup>*\<^sup>* (on_connection Reject i ctx) ctx'"
  shows "WaitFinish ctx' = Block"
proof -
  let ?ctx = "on_connection Reject i ctx"
  have "local_act cd (ActReject i) ctx = Ret ?ctx" by simp
  then have step: "ctx_step cd ctx ?ctx" by (rule ctx_step.act)
  have inv: "ctx_inv ?ctx \<and> table_ok ?ctx"
    using ends.holds [OF reach.reach_step [OF assms(1) step]] .
  have "\<not> reader_closed c"
    using ends.holds [OF assms(1)] conn_ok_look [of ctx i c] assms(2,4) by (auto simp: conn_ok_def)
  then have "look ?ctx i = Some (c\<lparr>state := CLOSED\<rparr>)" "rejected (c\<lparr>state := CLOSED\<rparr>)"
    using assms(2-4) by (simp_all add: on_connection_def Reject_def case_prod_beta rejected_def)
  then obtain c' where c': "look ctx' i = Some c'" "rejected c'"
    using rejected_stays [OF assms(5)] by blast
  have "ctx_inv ctx'" using ends.kept_by_run [OF assms(5) inv] by blast
  moreover have "0 < count_vals unfinished (connMap ctx')"
    using c' by (intro count_vals_pos [OF c'(1)]) (simp add: rejected_def)
  ultimately show ?thesis by (simp add: ctx_inv_def WaitFinish_def)
qed

theorem rejected_never_finishes_witness: "WaitFinish (on_connection Reject 1 sample_waiting) = Block"
proof -
  have "map_option (\<lambda>c. (initiator c, state c)) (look sample_waiting 1) = Some (False, WAITINIT)" by code_simp
  then have "\<exists>c. look sample_waiting 1 = Some c \<and> \<not> initiator c \<and> state c = WAITINIT" by auto
  then show ?thesis using rejected_never_finishes [OF sample_waiting_reach _ _ _ rtranclp.rtrancl_refl] by blast
qed

lemma ctx_step_locked:
  assumes "ctx_step cd ctx ctx'" "connMapMu ctx"
  shows "connMapMu ctx'"
  using assms(1)
proof (cases rule: ctx_step.cases)
  case (act a)
  with assms(2) show ?thesis
    by (cases a) (auto elim!: go_bind_RetE simp: newConnection_def Write_def NoMoreConnections_def on_connection_def
        Close_cases CloseImm_eq Accept_def Reject_def writePacket_def Let_def case_prod_beta
        split: option.splits connection_state.splits if_splits sum.splits)
next
  case (receive p)
  with assms(2) show ?thesis
    by (auto simp: handlePacket_def handleData_def handleClose_def handleSuccess_def handleError_def
        handleNewConnection_def split: if_splits sum.splits)
qed (use assms(2) in simp)

text \<open>A close packet for a connection the end does not know leaves the lock of the connection table held:
  afterwards every data, close, success or error packet blocks the loop that handles the stream, for ever.\<close>
theorem unknown_close_deadlocks:
  assumes "look ctx (ConnectionId p) = None" "Type p = PACKET_CLOSE_CONNECTION" "\<not> connMapMu ctx"
  shows "\<exists>ctx'. handlePacket cd p ctx = Ret ctx'
    \<and> (\<forall>ctx'' q. (ctx_step cd)\<^sup>*\<^sup>* ctx' ctx''
         \<and> Type q \<in> {PACKET_DATA, PACKET_CLOSE_CONNECTION, PACKET_SUCCESS, PACKET_ERROR}
         \<longrightarrow> handlePacket cd q ctx'' = Block)"
proof -
  have "handlePacket cd p ctx = Ret (ctx\<lparr>connMapMu := True\<rparr>)"
    using assms by (simp add: handlePacket_def handleClose_def)
  moreover have "connMapMu ctx''" if "(ctx_step cd)\<^sup>*\<^sup>* (ctx\<lparr>connMapMu := True\<rparr>) ctx''" for ctx''
    using that by (induction rule: rtranclp_induct) (auto intro: ctx_step_locked)
  ultimately show ?thesis
    by (auto simp: handlePacket_def handleData_def handleClose_def handleSuccess_def handleError_def)
qed

theorem unknown_close_deadlocks_witness:
  "\<exists>ctx'. handlePacket sample_codec (packet PACKET_CLOSE_CONNECTION 7 []) sample_waiting = Ret ctx'
    \<and> handlePacket sample_codec (packet PACKET_DATA 1 []) ctx' = Block"
proof -
  have "look sample_waiting 7 = None" "\<not> connMapMu sample_waiting" by code_simp+
  then have "\<exists>ctx'. handlePacket sample_codec (packet PACKET_CLOSE_CONNECTION 7 []) sample_waiting = Ret ctx'
    \<and> (\<forall>ctx'' q. (ctx_step sample_codec)\<^sup>*\<^sup>* ctx' ctx''
         \<and> Type q \<in> {PACKET_DATA, PACKET_CLOSE_CONNECTION, PACKET_SUCCESS, PACKET_ERROR}
         \<longrightarrow> handlePacket sample_codec q ctx'' = Block)"
    by (intro unknown_close_deadlocks) simp_all
  then show ?thesis by fastforce
qed

text \<open>The set-up of a stream is a round trip: when the codec decodes what it encoded, the setup packet the
  server sends makes the agent's \<open>StartClient\<close> return the same setup, and the packet the agent answers with
  makes the server's call return without an error. Both write exactly one packet.\<close>
theorem setup_handshake:
  assumes "marshalSetup cd s = Inr b" "unmarshalSetup cd b = Inr s"
    and "encoder_error server = None" "encoder_error agent = None"
  shows "\<exists>server' agent' p q.
     startReverseForwardingClient cd s (Inr q) server = (None, server') \<and> encoder server' = encoder server @ [p]
     \<and> StartClient cd (Inr p) agent = (Inr s, agent') \<and> encoder agent' = encoder agent @ [q]"
  using assms
  by (auto simp: startReverseForwardingClient_def StartClient_def writePacket_up check_response_def
      intro!: exI [of _ "packet PACKET_SETUP 0 b"] exI [of _ "packet PACKET_SUCCESS 0 []"])

theorem setup_handshake_witness:
  "\<exists>server' agent' p q.
     startReverseForwardingClient sample_codec (empty_setup\<lparr>ConnectionType := 2\<rparr>) (Inr q) init = (None, server')
     \<and> StartClient sample_codec (Inr p) init = (Inr (empty_setup\<lparr>ConnectionType := 2\<rparr>), agent')"
proof -
  have "marshalSetup sample_codec (empty_setup\<lparr>ConnectionType := 2\<rparr>) = Inr []"
    "unmarshalSetup sample_codec [] = Inr (empty_setup\<lparr>ConnectionType := 2\<rparr>)" "encoder_error init = None"
    by (simp_all add: sample_codec_def init_def)
  from setup_handshake [OF this this(3)] show ?thesis by blast
qed

text \<open>A connection opened at one end is offered to the other with the addresses it was opened with, and when
  the other end accepts it both ends are started. The codec must decode the payload it encoded, the id must be
  new to the other end, and that end must not be stopped or locked.\<close>
theorem open_accept_started:
  assumes "newConnection cd protocol ca cp oa op f A = Ret (Inr i, A1)" "encoder_error A = None"
    and codec: "\<And>d b. marshalNewConnection cd d = Inr b \<Longrightarrow> unmarshalNewConnection cd b = Inr d"
    and "look B i = None" "connectionId B < i" "encoder_error B = None" "\<not> connMapMu B" "\<not> stopped B" "\<not> channel_closed B"
  shows "\<exists>B1 B2 A2 a b.
     handlePacket cd (last (encoder A1)) B = Ret B1 \<and> connectionChannel B1 = connectionChannel B @ [i]
     \<and> local_act cd (ActAccept i) B1 = Ret B2 \<and> handlePacket cd (last (encoder B2)) A1 = Ret A2
     \<and> look A2 i = Some a \<and> look B2 i = Some b \<and> state a = STARTED \<and> state b = STARTED
     \<and> details b = \<lparr>Protocol = protocol, conn_ConnectedAddress = ca, conn_ConnectedPort = cp,
                    conn_OriginatorAddress = oa, conn_OriginatorPort = op\<rparr>"
proof -
  let ?d = "\<lparr>Protocol = protocol, conn_ConnectedAddress = ca, conn_ConnectedPort = cp,
     conn_OriginatorAddress = oa, conn_OriginatorPort = op\<rparr>"
  obtain m where m: "marshalNewConnection cd ?d = Inr m"
    using assms(1) by (cases "marshalNewConnection cd ?d") (auto simp: newConnection_def)
  have A1: "last (encoder A1) = packet PACKET_NEW_CONNECTION i m" "\<not> connMapMu A1"
    "map_option state (look A1 i) = Some WAITINIT"
    using assms(1,2) m by (auto simp: newConnection_def Let_def writePacket_up split: if_splits)
  let ?b = "\<lparr>state = WAITINIT, initiator = False, conn_id = i, details = ?d, buffer = [],
     writer_closed = False, reader_closed = False, closeCallback = False\<rparr>"
  let ?B1 = "(store i ?b (B\<lparr>connectionId := i, waitGroup := waitGroup B + 1\<rparr>))\<lparr>connectionChannel := connectionChannel B @ [i]\<rparr>"
  let ?q = "packet PACKET_SUCCESS i []"
  let ?B2 = "store i (?b\<lparr>state := STARTED\<rparr>) (?B1\<lparr>encoder := encoder B @ [?q]\<rparr>)"
  have B1: "handlePacket cd (last (encoder A1)) B = Ret ?B1"
    using assms(4-) codec [OF m] A1(1) by (simp add: handlePacket_def handleNewConnection_def)
  moreover have "local_act cd (ActAccept i) ?B1 = Ret ?B2"
    using assms(6) by (simp add: on_connection_def Accept_def writePacket_up)
  moreover obtain a where a: "look A1 i = Some a" "state a = WAITINIT" using A1(3) by auto
  moreover have "handlePacket cd (last (encoder ?B2)) A1 = Ret (store i (setState STARTED a) A1)"
    using a A1(2) by (simp add: handlePacket_def handleSuccess_def)
  ultimately show ?thesis by (auto simp: setState_def)
qed

definition sample_opened :: ForwardCtx where
  "sample_opened = (case newConnection sample_codec ''tcp'' ''10.0.0.1'' 80 ''10.0.0.2'' 4711 True init of
     Ret (r, ctx) \<Rightarrow> ctx | _ \<Rightarrow> init)"

theorem open_accept_started_witness:
  "\<exists>B1 B2 A2 a b.
     handlePacket sample_codec (last (encoder sample_opened)) init = Ret B1
     \<and> local_act sample_codec (ActAccept 1) B1 = Ret B2
     \<and> handlePacket sample_codec (last (encoder B2)) sample_opened = Ret A2
     \<and> look A2 1 = Some a \<and> look B2 1 = Some b \<and> state a = STARTED \<and> state b = STARTED"
proof -
  have run: "newConnection sample_codec ''tcp'' ''10.0.0.1'' 80 ''10.0.0.2'' 4711 True init = Ret (Inr 1, sample_opened)"
    by code_simp
  have codec: "marshalNewConnection sample_codec d = Inr b \<Longrightarrow> unmarshalNewConnection sample_codec b = Inr d" for d b
    by (simp add: sample_codec_def split: if_splits)
  have init: "encoder_error init = None" "look init 1 = None" "connectionId init < 1" "\<not> connMapMu init"
    "\<not> stopped init" "\<not> channel_closed init"
    by (simp_all add: init_def)
  from open_accept_started [OF run init(1) codec init(2,3,1,4-6)] show ?thesis by blast
qed

end
