(* ===== verification/Service.thy ===== *)
theory Service
  imports Messages
begin

text \<open>
  The services of the program (\<open>service\<close>): the life cycle of one service and the pool that runs several
  of them. A mutex that is left locked is a flag of the life cycle, and an operation that needs it
  blocks. The hooks an operation calls are recorded in \<open>calls\<close>. The pool runs every service and its own
  loop in goroutines; the model takes one step per atomic action, so that a run of the pool is an
  interleaving of \<open>event\<close>s.
\<close>

section \<open>Life cycles\<close>

datatype State = StateStopped | StateStarting | StateRunning | StateStopping | StateCrashed

datatype deadline = Background | Deadline nat

datatype hook_call =
    CallStateChange nat State
  | CallStarting nat
  | CallRunning nat
  | CallStopping nat deadline
  | CallStopped nat
  | CallCrashed nat go_error

text \<open>\<open>cancelled\<close> says that the running context is done; \<open>waitContext\<close> is \<open>None\<close> before the first run, and
  otherwise says whether the run is over.\<close>

record lifecycle =
  lc_state :: State
  mutex :: bool
  cancelled :: bool
  shutdownContext :: "deadline option"
  lastError :: "go_error option"
  waitContext :: "bool option"
  onStateChange :: "nat list"
  onStarting :: "nat list"
  onRunning :: "nat list"
  onStopping :: "nat list"
  onStopped :: "nat list"
  onCrashed :: "nat list"
  calls :: "hook_call list"

definition NewLifecycle :: lifecycle where
  "NewLifecycle = \<lparr>lc_state = StateStopped, mutex = False, cancelled = False, shutdownContext = Some Background,
     lastError = None, waitContext = None, onStateChange = [], onStarting = [], onRunning = [], onStopping = [],
     onStopped = [], onCrashed = [], calls = []\<rparr>"

definition ShouldStop :: "lifecycle \<Rightarrow> (bool \<times> lifecycle) go" where
  "ShouldStop l = (if mutex l then Block else Ret (cancelled l, l))"

text \<open>In the states \<open>StateCrashed\<close> and \<open>StateStopped\<close> the lock is not released.\<close>

definition Wait :: "lifecycle \<Rightarrow> (go_error option \<times> lifecycle) go" where
  "Wait l =
     (if mutex l then Block
      else if lc_state l = StateCrashed then Ret (lastError l, l\<lparr>mutex := True\<rparr>)
      else if lc_state l = StateStopped then Ret (None, l\<lparr>mutex := True\<rparr>)
      else if waitContext l = Some False then Block
      else Ret (lastError l, l))"

text \<open>The first part of \<open>Stop\<close>: whether there is something to wait for.\<close>

definition Stop_begin :: "deadline \<Rightarrow> lifecycle \<Rightarrow> bool \<times> lifecycle" where
  "Stop_begin ctx l =
     (if lc_state l = StateStopping \<or> lc_state l = StateStopped \<or> lc_state l = StateCrashed then (False, l)
      else (True, l\<lparr>shutdownContext := Some ctx, cancelled := True\<rparr>))"

definition Stop :: "deadline \<Rightarrow> lifecycle \<Rightarrow> lifecycle go" where
  "Stop ctx l =
     (if mutex l then Block
      else case Stop_begin ctx l of
             (False, l) \<Rightarrow> Ret l
           | (True, l) \<Rightarrow> go_bind (Wait l) (\<lambda>(_, l). Ret l))"

definition stateChange :: "State \<Rightarrow> lifecycle \<Rightarrow> lifecycle" where
  "stateChange s l = l\<lparr>calls := calls l @ map (\<lambda>h. CallStateChange h s) (onStateChange l)\<rparr>"

definition callSimpleHook :: "(nat \<Rightarrow> hook_call) \<Rightarrow> nat list \<Rightarrow> lifecycle \<Rightarrow> lifecycle" where
  "callSimpleHook call hooks l = l\<lparr>calls := calls l @ map call hooks\<rparr>"

definition starting :: "lifecycle \<Rightarrow> lifecycle go" where
  "starting l =
     (if mutex l then Block
      else Ret (callSimpleHook CallStarting (onStarting l) (stateChange StateStarting (l\<lparr>lc_state := StateStarting\<rparr>))))"

definition Running :: "lifecycle \<Rightarrow> lifecycle go" where
  "Running l =
     (if mutex l then Block
      else Ret (callSimpleHook CallRunning (onRunning l) (stateChange StateRunning (l\<lparr>lc_state := StateRunning\<rparr>))))"

definition Stopping :: "lifecycle \<Rightarrow> (deadline \<times> lifecycle) go" where
  "Stopping l =
     (if mutex l then Block
      else let ctx = (case shutdownContext l of None \<Rightarrow> Background | Some c \<Rightarrow> c);
               l = l\<lparr>shutdownContext := Some ctx, lc_state := StateStopping\<rparr>
           in Ret (ctx, callSimpleHook (\<lambda>h. CallStopping h ctx) (onStopping l) (stateChange StateStopping l)))"

definition stopped :: "lifecycle \<Rightarrow> lifecycle go" where
  "stopped l =
     (if mutex l then Block
      else Ret (callSimpleHook CallStopped (onStopped l) (stateChange StateStopped (l\<lparr>lc_state := StateStopped\<rparr>))))"

definition crashed :: "go_error \<Rightarrow> lifecycle \<Rightarrow> lifecycle go" where
  "crashed err l =
     (if mutex l then Block
      else Ret (callSimpleHook (\<lambda>h. CallCrashed h err) (onCrashed l)
                  (stateChange StateCrashed (l\<lparr>lastError := Some err, lc_state := StateCrashed\<rparr>))))"

text \<open>How \<open>RunWithLifecycle\<close> of a service ends. A panic is recovered and counts as a crash, but \<open>Run\<close> then
  returns no error.\<close>

datatype outcome = Returned "go_error option" | Panicked string

definition paniced :: "string \<Rightarrow> go_error" where
  "paniced m = ErrorString (''service paniced ('' @ m @ '')'')"

definition Run_begin :: "lifecycle \<Rightarrow> lifecycle go" where
  "Run_begin l = starting (l\<lparr>lastError := None, waitContext := Some False\<rparr>)"

definition Run_end :: "outcome \<Rightarrow> lifecycle \<Rightarrow> (go_error option \<times> lifecycle) go" where
  "Run_end out l =
     (case out of
        Returned None \<Rightarrow> go_bind (stopped l) (\<lambda>l. Ret (None, l))
      | Returned (Some err) \<Rightarrow> go_bind (crashed err l) (\<lambda>l. Ret (Some err, l))
      | Panicked m \<Rightarrow> go_bind (crashed (paniced m) l) (\<lambda>l. Ret (None, l)))"

definition cancelWaitContext :: "lifecycle \<Rightarrow> lifecycle" where
  "cancelWaitContext l = l\<lparr>waitContext := Some True\<rparr>"

text \<open>\<open>Run\<close> for a service given as what it does with its life cycle.\<close>

definition Run :: "(lifecycle \<Rightarrow> (outcome \<times> lifecycle) go) \<Rightarrow> lifecycle \<Rightarrow> (go_error option \<times> lifecycle) go" where
  "Run service l =
     go_bind (Run_begin l) (\<lambda>l.
       go_bind (service l) (\<lambda>(out, l).
         go_bind (Run_end out l) (\<lambda>(err, l). Ret (err, cancelWaitContext l))))"

definition OnStateChange :: "nat \<Rightarrow> lifecycle \<Rightarrow> lifecycle go" where
  "OnStateChange h l = (if mutex l then Block else Ret (l\<lparr>onStateChange := onStateChange l @ [h]\<rparr>))"

definition OnStarting :: "nat \<Rightarrow> lifecycle \<Rightarrow> lifecycle go" where
  "OnStarting h l = (if mutex l then Block else Ret (l\<lparr>onStarting := onStarting l @ [h]\<rparr>))"

definition OnRunning :: "nat \<Rightarrow> lifecycle \<Rightarrow> lifecycle go" where
  "OnRunning h l = (if mutex l then Block else Ret (l\<lparr>onRunning := onRunning l @ [h]\<rparr>))"

definition OnStopping :: "nat \<Rightarrow> lifecycle \<Rightarrow> lifecycle go" where
  "OnStopping h l = (if mutex l then Block else Ret (l\<lparr>onStopping := onStopping l @ [h]\<rparr>))"

definition OnStopped :: "nat \<Rightarrow> lifecycle \<Rightarrow> lifecycle go" where
  "OnStopped h l = (if mutex l then Block else Ret (l\<lparr>onStopped := onStopped l @ [h]\<rparr>))"

definition OnCrashed :: "nat \<Rightarrow> lifecycle \<Rightarrow> lifecycle go" where
  "OnCrashed h l = (if mutex l then Block else Ret (l\<lparr>onCrashed := onCrashed l @ [h]\<rparr>))"

section \<open>The pool\<close>

text \<open>Where the goroutine of a service is: not started yet, in the service, in the pool's hook waiting for
  the listed services (after which the service goes on, or is done when the flag is set), or done.\<close>

datatype phase = NotStarted | Active | Hooked "nat list" bool | Finished

text \<open>Where the pool's own goroutine is: waiting for the services to start, serving, waiting in
  \<open>triggerStop\<close>, counting the services that are still to stop, or returned.\<close>

datatype main_pc = Collect nat | Serve | Trigger "nat list" nat | Drain nat | Done

text \<open>Services are numbered. \<open>startupComplete\<close> and \<open>stopComplete\<close> are the values in the two channels, \<open>own\<close> is the
  life cycle of the pool itself.\<close>

record pool =
  services :: "nat list"
  lifecycles :: "nat \<Rightarrow> lifecycle"
  serviceStates :: "nat \<Rightarrow> State"
  pool_running :: bool
  startupComplete :: nat
  stopComplete :: nat
  pool_lastError :: "go_error option"
  stopping :: bool
  own :: lifecycle
  phase :: "nat \<Rightarrow> phase"
  main :: main_pc

definition NewPool :: pool where
  "NewPool = \<lparr>services = [], lifecycles = (\<lambda>_. NewLifecycle), serviceStates = (\<lambda>_. StateStopped), pool_running = False,
     startupComplete = 0, stopComplete = 0, pool_lastError = None, stopping = False, own = NewLifecycle,
     phase = (\<lambda>_. NotStarted), main = Done\<rparr>"

text \<open>The hook registered with each service is \<open>onServiceStateChange\<close>, number 0.\<close>

definition Add :: "nat \<Rightarrow> pool \<Rightarrow> pool go" where
  "Add s p =
     (if pool_running p then Panic ''bug: pool already running, cannot add service''
      else go_bind (OnStateChange 0 NewLifecycle) (\<lambda>l.
             Ret (p\<lparr>serviceStates := (serviceStates p)(s := StateStopped), services := services p @ [s],
                    lifecycles := (lifecycles p)(s := l)\<rparr>)))"

definition RunWithLifecycle_begin :: "lifecycle \<Rightarrow> pool \<Rightarrow> pool go" where
  "RunWithLifecycle_begin lc p =
     (if pool_running p then Panic ''bug: pool already running, cannot run again''
      else Ret (p\<lparr>stopComplete := 0, pool_running := True, stopping := False, own := lc,
                  phase := (\<lambda>_. NotStarted), main := Collect 0\<rparr>))"

text \<open>\<open>triggerStop\<close> up to its wait: the services whose \<open>Stop\<close> it waits for.\<close>

definition triggerStop :: "deadline \<Rightarrow> pool \<Rightarrow> nat list \<times> pool" where
  "triggerStop ctx p =
     (if stopping p then ([], p)
      else (filter (\<lambda>s. fst (Stop_begin ctx (lifecycles p s))) (services p),
            p\<lparr>stopping := True,
              lifecycles := (\<lambda>s. if s \<in> set (services p) then snd (Stop_begin ctx (lifecycles p s)) else lifecycles p s)\<rparr>))"

text \<open>\<open>onServiceStateChange\<close> up to its wait.\<close>

definition onServiceStateChange :: "nat \<Rightarrow> State \<Rightarrow> pool \<Rightarrow> nat list \<times> pool" where
  "onServiceStateChange s newState p =
     (let oldState = serviceStates p s;
          p = p\<lparr>serviceStates := (serviceStates p)(s := newState)\<rparr>
      in if oldState = newState then ([], p)
         else case newState of
                StateStarting \<Rightarrow> ([], p)
              | StateRunning \<Rightarrow> ([], p\<lparr>startupComplete := min 1 (Suc (startupComplete p))\<rparr>)
              | StateStopping \<Rightarrow> triggerStop Background p
              | StateStopped \<Rightarrow> triggerStop Background p
              | StateCrashed \<Rightarrow> triggerStop Background (p\<lparr>pool_lastError := lastError (lifecycles p s)\<rparr>))"

definition set_lifecycle :: "nat \<Rightarrow> lifecycle \<Rightarrow> pool \<Rightarrow> pool" where
  "set_lifecycle s l p = p\<lparr>lifecycles := (lifecycles p)(s := l)\<rparr>"

definition set_phase :: "nat \<Rightarrow> phase \<Rightarrow> pool \<Rightarrow> pool" where
  "set_phase s ph p = p\<lparr>phase := (phase p)(s := ph)\<rparr>"

definition all_over :: "nat list \<Rightarrow> pool \<Rightarrow> bool" where
  "all_over W p \<longleftrightarrow> (\<forall>w \<in> set W. lc_state (lifecycles p w) = StateStopped \<or> lc_state (lifecycles p w) = StateCrashed)"

text \<open>\<open>processRunning\<close> when the pool stops: the services that are left to stop, and what it waits for first.\<close>

definition processRunning_stop :: "deadline \<Rightarrow> nat \<Rightarrow> pool \<Rightarrow> pool option" where
  "processRunning_stop ctx startedServices p =
     (case Stopping (own p) of
        Ret (_, l) \<Rightarrow>
          (case triggerStop ctx (p\<lparr>own := l\<rparr>) of (W, p) \<Rightarrow> Some (p\<lparr>main := Trigger W startedServices\<rparr>))
      | _ \<Rightarrow> None)"

datatype event =
    Launch nat
  | Ready nat
  | Halt nat
  | Finish nat outcome
  | HookDone nat
  | CollectStart
  | CollectStop
  | Announce
  | ServeStop
  | ServeCancel
  | Triggered
  | DrainOne
  | CancelPool deadline

text \<open>One atomic step of the pool: the first five events are those of the goroutine of a service, which
  calls \<open>Running\<close> when it is ready and \<open>Stopping\<close> before it stops; the others are those of the pool's own
  goroutine, and \<open>CancelPool\<close> is a \<open>Stop\<close> of the pool itself.\<close>

fun pool_next :: "event \<Rightarrow> pool \<Rightarrow> pool option" where
  "pool_next (Launch s) p =
     (if s \<in> set (services p) \<and> phase p s = NotStarted \<and> pool_running p
      then case Run_begin (lifecycles p s) of
             Ret l \<Rightarrow> Some (set_phase s Active (snd (onServiceStateChange s StateStarting (set_lifecycle s l p))))
           | _ \<Rightarrow> None
      else None)"
| "pool_next (Ready s) p =
     (if phase p s = Active \<and> lc_state (lifecycles p s) = StateStarting
      then case Running (lifecycles p s) of
             Ret l \<Rightarrow> Some (snd (onServiceStateChange s StateRunning (set_lifecycle s l p)))
           | _ \<Rightarrow> None
      else None)"
| "pool_next (Halt s) p =
     (if phase p s = Active \<and> lc_state (lifecycles p s) \<noteq> StateStopping
      then case Stopping (lifecycles p s) of
             Ret (_, l) \<Rightarrow>
               (case onServiceStateChange s StateStopping (set_lifecycle s l p) of
                  (W, p) \<Rightarrow> Some (set_phase s (Hooked W False) p))
           | _ \<Rightarrow> None
      else None)"
| "pool_next (Finish s out) p =
     (if phase p s = Active
      then case Run_end out (lifecycles p s) of
             Ret (_, l) \<Rightarrow>
               (case onServiceStateChange s (lc_state l) (set_lifecycle s l p) of
                  (W, p) \<Rightarrow> Some (set_phase s (Hooked W True) p))
           | _ \<Rightarrow> None
      else None)"
| "pool_next (HookDone s) p =
     (case phase p s of
        Hooked W False \<Rightarrow> if all_over W p then Some (set_phase s Active p) else None
      | Hooked W True \<Rightarrow>
          if all_over W p
          then Some (set_phase s Finished
                 (set_lifecycle s (cancelWaitContext (lifecycles p s)) (p\<lparr>stopComplete := Suc (stopComplete p)\<rparr>)))
          else None
      | _ \<Rightarrow> None)"
| "pool_next CollectStart p =
     (case main p of
        Collect k \<Rightarrow>
          if k < length (services p) \<and> 0 < startupComplete p
          then Some (p\<lparr>startupComplete := startupComplete p - 1, main := Collect (Suc k)\<rparr>)
          else None
      | _ \<Rightarrow> None)"
| "pool_next CollectStop p =
     (case main p of
        Collect k \<Rightarrow>
          if k < length (services p) \<and> 0 < stopComplete p
          then processRunning_stop Background (length (services p) - 1) (p\<lparr>stopComplete := stopComplete p - 1\<rparr>)
          else None
      | _ \<Rightarrow> None)"
| "pool_next Announce p =
     (case main p of
        Collect k \<Rightarrow>
          if k = length (services p)
          then case Running (own p) of Ret l \<Rightarrow> Some (p\<lparr>own := l, main := Serve\<rparr>) | _ \<Rightarrow> None
          else None
      | _ \<Rightarrow> None)"
| "pool_next ServeStop p =
     (if main p = Serve \<and> 0 < stopComplete p
      then Some (p\<lparr>stopComplete := stopComplete p - 1, main := Drain (length (services p) - 1)\<rparr>)
      else None)"
| "pool_next ServeCancel p =
     (if main p = Serve \<and> cancelled (own p)
      then processRunning_stop (case shutdownContext (own p) of None \<Rightarrow> Background | Some c \<Rightarrow> c)
             (length (services p)) p
      else None)"
| "pool_next Triggered p =
     (case main p of
        Trigger W k \<Rightarrow> if all_over W p then Some (p\<lparr>main := Drain k\<rparr>) else None
      | _ \<Rightarrow> None)"
| "pool_next DrainOne p =
     (case main p of
        Drain k \<Rightarrow>
          (case k of
             0 \<Rightarrow> Some (p\<lparr>main := Done, pool_running := False\<rparr>)
           | Suc j \<Rightarrow>
               if 0 < stopComplete p then Some (p\<lparr>stopComplete := stopComplete p - 1, main := Drain j\<rparr>) else None)
      | _ \<Rightarrow> None)"
| "pool_next (CancelPool ctx) p = Some (p\<lparr>own := snd (Stop_begin ctx (own p))\<rparr>)"

definition pool_step :: "pool \<Rightarrow> pool \<Rightarrow> bool" where
  "pool_step p p' \<longleftrightarrow> (\<exists>e. pool_next e p = Some p')"

fun add_all :: "nat list \<Rightarrow> pool \<Rightarrow> pool go" where
  "add_all [] p = Ret p"
| "add_all (s # ss) p = go_bind (Add s p) (add_all ss)"

text \<open>A pool of distinct services that starts to run.\<close>

definition pool_init :: "pool \<Rightarrow> bool" where
  "pool_init p \<longleftrightarrow>
     (\<exists>ss. distinct ss
        \<and> go_bind (add_all ss NewPool) (\<lambda>p. go_bind (Run_begin NewLifecycle) (\<lambda>lc. RunWithLifecycle_begin lc p)) = Ret p)"

section \<open>The life cycle\<close>

lemmas lifecycle_defs = starting_def Running_def Stopping_def stopped_def crashed_def stateChange_def callSimpleHook_def

lemma Stop_begin_sel [simp]:
  "lc_state (snd (Stop_begin ctx l)) = lc_state l" "lastError (snd (Stop_begin ctx l)) = lastError l"
  "waitContext (snd (Stop_begin ctx l)) = waitContext l" "mutex (snd (Stop_begin ctx l)) = mutex l"
  by (simp_all add: Stop_begin_def)

lemma Run_begin_RetD:
  "Run_begin l = Ret l' \<Longrightarrow> lc_state l' = StateStarting \<and> lastError l' = None \<and> waitContext l' = Some False"
  by (auto simp: Run_begin_def lifecycle_defs split: if_splits)

lemma Running_RetD:
  "Running l = Ret l' \<Longrightarrow> lc_state l' = StateRunning \<and> lastError l' = lastError l \<and> waitContext l' = waitContext l"
  by (auto simp: lifecycle_defs split: if_splits)

lemma Stopping_RetD:
  "Stopping l = Ret (ctx, l') \<Longrightarrow> lc_state l' = StateStopping \<and> lastError l' = lastError l \<and> waitContext l' = waitContext l"
  by (auto simp: lifecycle_defs Let_def split: if_splits)

lemma Run_end_RetD:
  "Run_end out l = Ret (e, l') \<Longrightarrow>
   (lc_state l' = StateStopped \<and> lastError l' = lastError l
    \<or> lc_state l' = StateCrashed \<and> lastError l' \<noteq> None) \<and> waitContext l' = waitContext l"
  by (auto simp: Run_end_def lifecycle_defs elim!: go_bind_RetE split: outcome.splits option.splits if_splits)

section \<open>The invariant of the pool\<close>

lemma triggerStop_sel [simp]:
  "services (snd (triggerStop ctx p)) = services p" "serviceStates (snd (triggerStop ctx p)) = serviceStates p"
  "startupComplete (snd (triggerStop ctx p)) = startupComplete p" "stopComplete (snd (triggerStop ctx p)) = stopComplete p"
  "pool_lastError (snd (triggerStop ctx p)) = pool_lastError p" "phase (snd (triggerStop ctx p)) = phase p"
  "main (snd (triggerStop ctx p)) = main p" "pool_running (snd (triggerStop ctx p)) = pool_running p"
  "own (snd (triggerStop ctx p)) = own p"
  "lc_state (lifecycles (snd (triggerStop ctx p)) s) = lc_state (lifecycles p s)"
  "lastError (lifecycles (snd (triggerStop ctx p)) s) = lastError (lifecycles p s)"
  "waitContext (lifecycles (snd (triggerStop ctx p)) s) = waitContext (lifecycles p s)"
  by (simp_all add: triggerStop_def)

lemma onServiceStateChange_sel [simp]:
  "services (snd (onServiceStateChange s st p)) = services p"
  "serviceStates (snd (onServiceStateChange s st p)) = (serviceStates p)(s := st)"
  "stopComplete (snd (onServiceStateChange s st p)) = stopComplete p"
  "phase (snd (onServiceStateChange s st p)) = phase p"
  "main (snd (onServiceStateChange s st p)) = main p"
  "pool_running (snd (onServiceStateChange s st p)) = pool_running p"
  "lc_state (lifecycles (snd (onServiceStateChange s st p)) s') = lc_state (lifecycles p s')"
  "lastError (lifecycles (snd (onServiceStateChange s st p)) s') = lastError (lifecycles p s')"
  "waitContext (lifecycles (snd (onServiceStateChange s st p)) s') = waitContext (lifecycles p s')"
  "pool_lastError (snd (onServiceStateChange s st p)) =
     (if st = StateCrashed \<and> serviceStates p s \<noteq> StateCrashed then lastError (lifecycles p s) else pool_lastError p)"
  "startupComplete p \<le> 1 \<Longrightarrow> startupComplete (snd (onServiceStateChange s st p)) \<le> 1"
  by (cases st; simp add: onServiceStateChange_def Let_def)+

lemma set_sel [simp]:
  "services (set_phase s ph p) = services p" "phase (set_phase s ph p) = (phase p)(s := ph)"
  "lifecycles (set_phase s ph p) = lifecycles p" "serviceStates (set_phase s ph p) = serviceStates p"
  "stopComplete (set_phase s ph p) = stopComplete p" "pool_lastError (set_phase s ph p) = pool_lastError p"
  "main (set_phase s ph p) = main p" "startupComplete (set_phase s ph p) = startupComplete p"
  "pool_running (set_phase s ph p) = pool_running p" "own (set_phase s ph p) = own p" "stopping (set_phase s ph p) = stopping p"
  "services (set_lifecycle s l p) = services p" "phase (set_lifecycle s l p) = phase p"
  "lifecycles (set_lifecycle s l p) = (lifecycles p)(s := l)" "serviceStates (set_lifecycle s l p) = serviceStates p"
  "stopComplete (set_lifecycle s l p) = stopComplete p" "pool_lastError (set_lifecycle s l p) = pool_lastError p"
  "main (set_lifecycle s l p) = main p" "startupComplete (set_lifecycle s l p) = startupComplete p"
  "pool_running (set_lifecycle s l p) = pool_running p" "own (set_lifecycle s l p) = own p" "stopping (set_lifecycle s l p) = stopping p"
  by (simp_all add: set_phase_def set_lifecycle_def)

text \<open>Whether a service is in a state that fits where its goroutine is.\<close>

definition over :: "lifecycle \<Rightarrow> bool" where
  "over l \<longleftrightarrow> lc_state l = StateStopped \<or> lc_state l = StateCrashed"

definition service_ok :: "pool \<Rightarrow> nat \<Rightarrow> bool" where
  "service_ok p s \<longleftrightarrow>
     (lc_state (lifecycles p s) = serviceStates p s)
     \<and> (case phase p s of
          NotStarted \<Rightarrow> lc_state (lifecycles p s) = StateStopped
        | Active \<Rightarrow> \<not> over (lifecycles p s)
        | Hooked W False \<Rightarrow> lc_state (lifecycles p s) = StateStopping
        | Hooked W True \<Rightarrow> over (lifecycles p s)
        | Finished \<Rightarrow> over (lifecycles p s) \<and> waitContext (lifecycles p s) = Some True)"

definition consumed :: "pool \<Rightarrow> nat" where
  "consumed p =
     (case main p of
        Trigger W k \<Rightarrow> length (services p) - k
      | Drain k \<Rightarrow> length (services p) - k
      | Done \<Rightarrow> length (services p)
      | _ \<Rightarrow> 0)"

definition left_ok :: "pool \<Rightarrow> bool" where
  "left_ok p \<longleftrightarrow> (case main p of Trigger W k \<Rightarrow> k \<le> length (services p) | Drain k \<Rightarrow> k \<le> length (services p) | _ \<Rightarrow> True)"

definition errors_ok :: "pool \<Rightarrow> bool" where
  "errors_ok p \<longleftrightarrow>
     (pool_lastError p = None \<longleftrightarrow> (\<forall>s \<in> set (services p). lc_state (lifecycles p s) \<noteq> StateCrashed))
     \<and> (\<forall>e. pool_lastError p = Some e \<longrightarrow>
          (\<exists>s \<in> set (services p). lc_state (lifecycles p s) = StateCrashed \<and> lastError (lifecycles p s) = Some e))
     \<and> (\<forall>s \<in> set (services p). lc_state (lifecycles p s) = StateCrashed \<longrightarrow> lastError (lifecycles p s) \<noteq> None)"

definition finished_services :: "pool \<Rightarrow> nat set" where
  "finished_services p = {s \<in> set (services p). phase p s = Finished}"

definition pool_inv :: "pool \<Rightarrow> bool" where
  "pool_inv p \<longleftrightarrow> distinct (services p)
     \<and> (\<forall>s. s \<notin> set (services p) \<longrightarrow> phase p s = NotStarted)
     \<and> (\<forall>s \<in> set (services p). service_ok p s)
     \<and> stopComplete p + consumed p = card (finished_services p)
     \<and> left_ok p \<and> errors_ok p \<and> startupComplete p \<le> 1"

lemma onServiceStateChange_startup [simp]:
  "startupComplete p \<le> Suc 0 \<Longrightarrow> startupComplete (snd (onServiceStateChange s st p)) \<le> Suc 0"
  using onServiceStateChange_sel(11) [of p s st] by simp

text \<open>A step of the goroutine of one service keeps the invariant when it keeps that service in order, counts
  it when it is done, and accounts for its crash.\<close>

lemma errors_ok_service:
  assumes "errors_ok p" "s \<in> set (services p)" "services p' = services p"
    and other: "\<And>s'. s' \<noteq> s \<Longrightarrow> lc_state (lifecycles p' s') = lc_state (lifecycles p s')
        \<and> lastError (lifecycles p' s') = lastError (lifecycles p s')"
    and "(if lc_state (lifecycles p' s) = StateCrashed \<and> lc_state (lifecycles p s) \<noteq> StateCrashed
          then pool_lastError p' = lastError (lifecycles p' s) \<and> lastError (lifecycles p' s) \<noteq> None
          else pool_lastError p' = pool_lastError p
            \<and> (lc_state (lifecycles p' s) = StateCrashed \<longleftrightarrow> lc_state (lifecycles p s) = StateCrashed)
            \<and> (lc_state (lifecycles p s) = StateCrashed \<longrightarrow> lastError (lifecycles p' s) = lastError (lifecycles p s)))"
  shows "errors_ok p'"
proof (cases "lc_state (lifecycles p' s) = StateCrashed \<and> lc_state (lifecycles p s) \<noteq> StateCrashed")
  case True
  with assms(5) obtain x where e: "pool_lastError p' = Some x" "lastError (lifecycles p' s) = Some x" by auto
  have "lastError (lifecycles p' s') \<noteq> None" if "s' \<in> set (services p)" "lc_state (lifecycles p' s') = StateCrashed" for s'
    using that assms(1) e other [of s'] by (cases "s' = s") (auto simp: errors_ok_def)
  with True e assms(2,3) show ?thesis by (auto simp: errors_ok_def)
next
  case False
  with assms(5) have e: "pool_lastError p' = pool_lastError p"
    "lc_state (lifecycles p' s) = StateCrashed \<longleftrightarrow> lc_state (lifecycles p s) = StateCrashed"
    "lc_state (lifecycles p s) = StateCrashed \<longrightarrow> lastError (lifecycles p' s) = lastError (lifecycles p s)" by auto
  have same: "(lc_state (lifecycles p' s') = StateCrashed) = (lc_state (lifecycles p s') = StateCrashed)"
    "lc_state (lifecycles p s') = StateCrashed \<Longrightarrow> lastError (lifecycles p' s') = lastError (lifecycles p s')" for s'
    using e(2,3) other [of s'] by (cases "s' = s"; simp)+
  from assms(1) show ?thesis
    unfolding errors_ok_def assms(3) e(1) same(1) using same(2) by auto
qed

lemma service_ok_cong:
  assumes "phase p' s = phase p s" "serviceStates p' s = serviceStates p s"
    and "lc_state (lifecycles p' s) = lc_state (lifecycles p s)" "waitContext (lifecycles p' s) = waitContext (lifecycles p s)"
  shows "service_ok p' s = service_ok p s"
  unfolding service_ok_def over_def assms ..

lemma pool_inv_service:
  assumes inv: "pool_inv p" and s: "s \<in> set (services p)" and "services p' = services p" "main p' = main p"
    and phase: "phase p' = (phase p)(s := ph)" "phase p s \<noteq> Finished"
    and "serviceStates p' = (serviceStates p)(s := st)"
    and other: "\<And>s'. s' \<noteq> s \<Longrightarrow> lc_state (lifecycles p' s') = lc_state (lifecycles p s')
        \<and> lastError (lifecycles p' s') = lastError (lifecycles p s')
        \<and> waitContext (lifecycles p' s') = waitContext (lifecycles p s')"
    and "service_ok p' s"
    and "stopComplete p' = stopComplete p + (if ph = Finished then 1 else 0)"
    and "(if lc_state (lifecycles p' s) = StateCrashed \<and> lc_state (lifecycles p s) \<noteq> StateCrashed
          then pool_lastError p' = lastError (lifecycles p' s) \<and> lastError (lifecycles p' s) \<noteq> None
          else pool_lastError p' = pool_lastError p
            \<and> (lc_state (lifecycles p' s) = StateCrashed \<longleftrightarrow> lc_state (lifecycles p s) = StateCrashed)
            \<and> (lc_state (lifecycles p s) = StateCrashed \<longrightarrow> lastError (lifecycles p' s) = lastError (lifecycles p s)))"
    and "startupComplete p' \<le> 1"
  shows "pool_inv p'"
proof -
  have ok: "service_ok p' s'" if "s' \<in> set (services p)" for s'
  proof (cases "s' = s")
    case False
    then have "service_ok p' s' = service_ok p s'"
      using other [OF False] phase(1) assms(7) by (intro service_ok_cong) simp_all
    with that inv show ?thesis by (simp add: pool_inv_def)
  qed (use assms(9) in simp)
  have fin: "finished_services p' = (if ph = Finished then insert s (finished_services p) else finished_services p)"
    using s phase assms(3) by (auto simp: finished_services_def)
  have "s \<notin> finished_services p" "finite (finished_services p)"
    using phase(2) by (simp_all add: finished_services_def)
  then have card: "card (finished_services p') = card (finished_services p) + (if ph = Finished then 1 else 0)"
    by (simp add: fin)
  have "errors_ok p'"
    using inv s other by (intro errors_ok_service [OF _ s assms(3) _ assms(11)]) (simp_all add: pool_inv_def)
  moreover have "consumed p' = consumed p" "left_ok p' = left_ok p"
    unfolding consumed_def left_ok_def assms(3,4) by (rule refl)+
  ultimately show ?thesis
    using inv ok card assms(3,10,12) phase(1) s by (auto simp: pool_inv_def)
qed

text \<open>A step of the pool's own goroutine keeps it when it keeps the count of the services to stop.\<close>

lemma pool_inv_main:
  assumes inv: "pool_inv p" and "services p' = services p" "phase p' = phase p" "serviceStates p' = serviceStates p"
    and "\<And>s. lc_state (lifecycles p' s) = lc_state (lifecycles p s)
        \<and> lastError (lifecycles p' s) = lastError (lifecycles p s)
        \<and> waitContext (lifecycles p' s) = waitContext (lifecycles p s)"
    and "stopComplete p' + consumed p' = stopComplete p + consumed p" "left_ok p'"
    and "pool_lastError p' = pool_lastError p" "startupComplete p' \<le> 1"
  shows "pool_inv p'"
proof -
  have "service_ok p' s = service_ok p s" for s
    using assms(3-5) by (intro service_ok_cong) simp_all
  moreover have "finished_services p' = finished_services p" using assms(2,3) by (simp add: finished_services_def)
  moreover have "errors_ok p' = errors_ok p" using assms(2,5,8) by (simp add: errors_ok_def)
  ultimately show ?thesis using inv assms(2,3,6,7,9) by (simp add: pool_inv_def)
qed

lemma processRunning_stop_SomeD:
  assumes "processRunning_stop ctx k p = Some p'"
  shows "services p' = services p \<and> phase p' = phase p \<and> serviceStates p' = serviceStates p
    \<and> (\<forall>s. lc_state (lifecycles p' s) = lc_state (lifecycles p s)
        \<and> lastError (lifecycles p' s) = lastError (lifecycles p s)
        \<and> waitContext (lifecycles p' s) = waitContext (lifecycles p s))
    \<and> stopComplete p' = stopComplete p \<and> pool_lastError p' = pool_lastError p \<and> startupComplete p' = startupComplete p
    \<and> (\<exists>W. main p' = Trigger W k)"
proof -
  obtain c l where l: "Stopping (own p) = Ret (c, l)"
    using assms by (auto simp: processRunning_stop_def split: go.splits)
  then have "p' = (snd (triggerStop ctx (p\<lparr>own := l\<rparr>)))\<lparr>main := Trigger (fst (triggerStop ctx (p\<lparr>own := l\<rparr>))) k\<rparr>"
    using assms by (simp add: processRunning_stop_def case_prod_beta)
  then show ?thesis by simp
qed

lemma pool_inv_service_ok: "pool_inv p \<Longrightarrow> phase p s \<noteq> NotStarted \<Longrightarrow> s \<in> set (services p) \<and> service_ok p s"
  by (auto simp: pool_inv_def)

lemma pool_inv_Launch:
  assumes inv: "pool_inv p" and step: "pool_next (Launch s) p = Some p'"
  shows "pool_inv p'"
proof -
  obtain l where s: "s \<in> set (services p)" "phase p s = NotStarted" and l: "Run_begin (lifecycles p s) = Ret l"
    and p': "p' = set_phase s Active (snd (onServiceStateChange s StateStarting (set_lifecycle s l p)))"
    using step by (auto split: if_splits go.splits)
  have "service_ok p s" "startupComplete p \<le> 1" using inv s(1) by (simp_all add: pool_inv_def)
  with s Run_begin_RetD [OF l] show ?thesis unfolding p'
    by (intro pool_inv_service [OF inv s(1), where ph = Active and st = StateStarting])
      (auto simp: service_ok_def over_def)
qed

lemma pool_inv_Ready:
  assumes inv: "pool_inv p" and step: "pool_next (Ready s) p = Some p'"
  shows "pool_inv p'"
proof -
  obtain l where ph: "phase p s = Active" and l: "Running (lifecycles p s) = Ret l"
    and p': "p' = snd (onServiceStateChange s StateRunning (set_lifecycle s l p))"
    using step by (auto split: if_splits go.splits)
  have s: "s \<in> set (services p)" "service_ok p s" using pool_inv_service_ok [OF inv] ph by simp_all
  moreover have "startupComplete p \<le> 1" using inv by (simp add: pool_inv_def)
  ultimately show ?thesis unfolding p' using ph Running_RetD [OF l]
    by (intro pool_inv_service [OF inv s(1), where ph = Active and st = StateRunning])
      (auto simp: service_ok_def over_def fun_upd_idem)
qed

lemma pool_inv_Halt:
  assumes inv: "pool_inv p" and step: "pool_next (Halt s) p = Some p'"
  shows "pool_inv p'"
proof -
  obtain c l W where ph: "phase p s = Active" and l: "Stopping (lifecycles p s) = Ret (c, l)"
    and p': "p' = set_phase s (Hooked W False) (snd (onServiceStateChange s StateStopping (set_lifecycle s l p)))"
    using step by (auto simp: case_prod_beta split: if_splits go.splits)
  have s: "s \<in> set (services p)" "service_ok p s" using pool_inv_service_ok [OF inv] ph by simp_all
  moreover have "startupComplete p \<le> 1" using inv by (simp add: pool_inv_def)
  ultimately show ?thesis unfolding p' using ph Stopping_RetD [OF l]
    by (intro pool_inv_service [OF inv s(1), where ph = "Hooked W False" and st = StateStopping])
      (auto simp: service_ok_def over_def)
qed

lemma pool_inv_Finish:
  assumes inv: "pool_inv p" and step: "pool_next (Finish s out) p = Some p'"
  shows "pool_inv p'"
proof -
  obtain e l W where ph: "phase p s = Active" and l: "Run_end out (lifecycles p s) = Ret (e, l)"
    and p': "p' = set_phase s (Hooked W True) (snd (onServiceStateChange s (lc_state l) (set_lifecycle s l p)))"
    using step by (auto simp: case_prod_beta split: if_splits go.splits)
  have s: "s \<in> set (services p)" "service_ok p s" using pool_inv_service_ok [OF inv] ph by simp_all
  moreover have "startupComplete p \<le> 1" using inv by (simp add: pool_inv_def)
  ultimately show ?thesis unfolding p' using ph Run_end_RetD [OF l]
    by (intro pool_inv_service [OF inv s(1), where ph = "Hooked W True" and st = "lc_state l"])
      (auto simp: service_ok_def over_def)
qed

lemma pool_inv_HookDone:
  assumes inv: "pool_inv p" and step: "pool_next (HookDone s) p = Some p'"
  shows "pool_inv p'"
proof -
  obtain W b where ph: "phase p s = Hooked W b"
    and p': "p' = (if b then set_phase s Finished
        (set_lifecycle s (cancelWaitContext (lifecycles p s)) (p\<lparr>stopComplete := Suc (stopComplete p)\<rparr>))
      else set_phase s Active p)"
    using step by (auto split: if_splits phase.splits bool.splits)
  have s: "s \<in> set (services p)" "service_ok p s" using pool_inv_service_ok [OF inv] ph by simp_all
  moreover have "startupComplete p \<le> 1" using inv by (simp add: pool_inv_def)
  ultimately show ?thesis unfolding p' using ph
    by (intro pool_inv_service [OF inv s(1), where ph = "if b then Finished else Active" and st = "serviceStates p s"])
      (auto simp: service_ok_def over_def cancelWaitContext_def)
qed

lemma pool_inv_step:
  assumes inv: "pool_inv p" and step: "pool_step p p'"
  shows "pool_inv p'"
proof -
  obtain e where e: "pool_next e p = Some p'" using step by (auto simp: pool_step_def)
  have st: "startupComplete p \<le> 1" "left_ok p" using inv by (simp_all add: pool_inv_def)
  show ?thesis
  proof (cases e)
    case CollectStart
    with e st show ?thesis
      by (intro pool_inv_main [OF inv]) (auto simp: consumed_def left_ok_def split: main_pc.splits if_splits)
  next
    case CollectStop
    with e obtain k where k: "main p = Collect k" "k < length (services p)" "0 < stopComplete p"
      and r: "processRunning_stop Background (length (services p) - 1) (p\<lparr>stopComplete := stopComplete p - 1\<rparr>) = Some p'"
      by (auto split: main_pc.splits if_splits)
    from processRunning_stop_SomeD [OF r] k st show ?thesis
      by (intro pool_inv_main [OF inv]) (auto simp: consumed_def left_ok_def)
  next
    case Announce
    with e st show ?thesis
      by (intro pool_inv_main [OF inv]) (auto simp: consumed_def left_ok_def split: main_pc.splits if_splits go.splits)
  next
    case ServeStop
    have "0 < length (services p) \<or> stopComplete p = 0" if "main p = Serve"
      using inv that by (auto simp: pool_inv_def consumed_def finished_services_def)
    with ServeStop e st show ?thesis
      by (intro pool_inv_main [OF inv]) (auto simp: consumed_def left_ok_def split: if_splits)
  next
    case ServeCancel
    with e obtain ctx where m: "main p = Serve" and r: "processRunning_stop ctx (length (services p)) p = Some p'"
      by (auto split: if_splits)
    from processRunning_stop_SomeD [OF r] m st show ?thesis
      by (intro pool_inv_main [OF inv]) (auto simp: consumed_def left_ok_def)
  next
    case Triggered
    with e st show ?thesis
      by (intro pool_inv_main [OF inv]) (auto simp: consumed_def left_ok_def split: main_pc.splits if_splits)
  next
    case DrainOne
    with e st show ?thesis
      by (intro pool_inv_main [OF inv]) (auto simp: consumed_def left_ok_def split: main_pc.splits nat.splits if_splits)
  next
    case (CancelPool ctx)
    with e st show ?thesis
      by (intro pool_inv_main [OF inv]) (auto simp: consumed_def left_ok_def split: main_pc.splits)
  qed (use e inv pool_inv_Launch pool_inv_Ready pool_inv_Halt pool_inv_Finish pool_inv_HookDone in \<open>metis\<close>)+
qed

lemma add_all_RetD:
  assumes "add_all ss p = Ret p'"
    and "\<forall>s. lc_state (lifecycles p s) = StateStopped \<and> serviceStates p s = StateStopped \<and> \<not> cancelled (lifecycles p s)"
  shows "services p' = services p @ ss \<and> pool_lastError p' = pool_lastError p \<and> startupComplete p' = startupComplete p
    \<and> (\<forall>s. lc_state (lifecycles p' s) = StateStopped \<and> serviceStates p' s = StateStopped \<and> \<not> cancelled (lifecycles p' s))"
  using assms
proof (induction ss arbitrary: p)
  case (Cons s ss)
  from Cons.prems(1) obtain p1 where p1: "Add s p = Ret p1" "add_all ss p1 = Ret p'"
    by (auto elim!: go_bind_RetE)
  then have "services p1 = services p @ [s]" "pool_lastError p1 = pool_lastError p" "startupComplete p1 = startupComplete p"
    "\<forall>s. lc_state (lifecycles p1 s) = StateStopped \<and> serviceStates p1 s = StateStopped \<and> \<not> cancelled (lifecycles p1 s)"
    using Cons.prems(2) by (auto simp: Add_def OnStateChange_def NewLifecycle_def split: if_splits)
  with Cons.IH [OF p1(2)] show ?case by simp
qed simp

lemma pool_initD:
  assumes "pool_init p"
  shows "distinct (services p) \<and> pool_lastError p = None \<and> startupComplete p = 0 \<and> stopComplete p = 0
    \<and> main p = Collect 0 \<and> \<not> stopping p
    \<and> (\<forall>s. phase p s = NotStarted \<and> lc_state (lifecycles p s) = StateStopped \<and> serviceStates p s = StateStopped
          \<and> \<not> cancelled (lifecycles p s))"
proof -
  obtain ss p1 lc where d: "distinct ss" and p1: "add_all ss NewPool = Ret p1" and r: "RunWithLifecycle_begin lc p1 = Ret p"
    using assms unfolding pool_init_def by (auto elim!: go_bind_RetE)
  have "services p1 = ss \<and> pool_lastError p1 = None \<and> startupComplete p1 = 0
    \<and> (\<forall>s. lc_state (lifecycles p1 s) = StateStopped \<and> serviceStates p1 s = StateStopped \<and> \<not> cancelled (lifecycles p1 s))"
    using add_all_RetD [OF p1] by (simp add: NewPool_def NewLifecycle_def)
  with d r show ?thesis by (auto simp: RunWithLifecycle_begin_def split: if_splits)
qed

lemma pool_inv_init: "pool_init p \<Longrightarrow> pool_inv p"
  using pool_initD [of p]
  by (auto simp: pool_inv_def service_ok_def consumed_def left_ok_def errors_ok_def finished_services_def)

interpretation pools: inductive_invariant pool_init pool_step pool_inv
  using pool_inv_init pool_inv_step by unfold_locales

text \<open>A service that has not been started has not been told to stop.\<close>

definition waiting_fresh :: "pool \<Rightarrow> bool" where
  "waiting_fresh p \<longleftrightarrow> pool_inv p \<and> (\<forall>s \<in> set (services p). phase p s = NotStarted \<longrightarrow> \<not> cancelled (lifecycles p s))"

text \<open>The running context of a service is cancelled by \<open>triggerStop\<close> only, and not while the service is stopped.\<close>

lemma cancelled_sel [simp]:
  "Run_begin l = Ret l' \<Longrightarrow> cancelled l' = cancelled l" "Running l = Ret l' \<Longrightarrow> cancelled l' = cancelled l"
  "Stopping l = Ret (c, l') \<Longrightarrow> cancelled l' = cancelled l" "Run_end out l = Ret (e, l') \<Longrightarrow> cancelled l' = cancelled l"
  "cancelled (cancelWaitContext l) = cancelled l"
  by (auto simp: Run_begin_def Run_end_def lifecycle_defs cancelWaitContext_def Let_def
      elim!: go_bind_RetE split: outcome.splits option.splits if_splits)

definition settled :: "lifecycle \<Rightarrow> bool" where
  "settled l \<longleftrightarrow> lc_state l = StateStopping \<or> over l"

lemma triggerStop_cancelled:
  assumes "settled (lifecycles p s) \<or> stopping p"
  shows "cancelled (lifecycles (snd (triggerStop ctx p)) s) = cancelled (lifecycles p s)"
  using assms by (auto simp: triggerStop_def Stop_begin_def settled_def over_def)

lemma onServiceStateChange_cancelled:
  assumes "settled (lifecycles p s) \<or> stopping p"
  shows "cancelled (lifecycles (snd (onServiceStateChange t st p)) s) = cancelled (lifecycles p s)"
  using assms
  by (cases st) (simp_all add: onServiceStateChange_def Let_def triggerStop_cancelled)

lemma processRunning_stop_cancelled:
  assumes "processRunning_stop ctx k p = Some p'" "settled (lifecycles p s) \<or> stopping p"
  shows "cancelled (lifecycles p' s) = cancelled (lifecycles p s)"
  using assms(1) triggerStop_cancelled [of "p\<lparr>own := l\<rparr>" s ctx for l] assms(2)
  by (auto simp: processRunning_stop_def case_prod_beta split: go.splits)

lemma pool_next_cancelled:
  assumes "pool_next e p = Some p'" "settled (lifecycles p s) \<or> stopping p"
  shows "cancelled (lifecycles p' s) = cancelled (lifecycles p s)"
proof (cases e)
  case (Launch t)
  then show ?thesis using assms
    by (cases "t = s")
      (auto simp: onServiceStateChange_def set_phase_def set_lifecycle_def Let_def split: if_splits go.splits)
next
  case (Ready t)
  then show ?thesis using assms
    by (cases "t = s")
      (auto simp: onServiceStateChange_def set_phase_def set_lifecycle_def Let_def split: if_splits go.splits)
next
  case (Halt t)
  then obtain c l W where l: "Stopping (lifecycles p t) = Ret (c, l)"
    and p': "p' = set_phase t (Hooked W False) (snd (onServiceStateChange t StateStopping (set_lifecycle t l p)))"
    using assms(1) by (auto simp: case_prod_beta split: if_splits go.splits)
  have "settled l" using Stopping_RetD [OF l] by (simp add: settled_def)
  with assms(2) l show ?thesis by (auto simp: p' onServiceStateChange_cancelled)
next
  case (Finish t out)
  then obtain err l W where l: "Run_end out (lifecycles p t) = Ret (err, l)"
    and p': "p' = set_phase t (Hooked W True) (snd (onServiceStateChange t (lc_state l) (set_lifecycle t l p)))"
    using assms(1) by (auto simp: case_prod_beta split: if_splits go.splits)
  have "settled l" using Run_end_RetD [OF l] by (auto simp: settled_def over_def)
  with assms(2) l show ?thesis by (auto simp: p' onServiceStateChange_cancelled)
next
  case (HookDone t)
  then show ?thesis using assms(1) by (auto split: phase.splits bool.splits if_splits)
next
  case CollectStop
  then show ?thesis using assms(1,2) processRunning_stop_cancelled by (auto split: main_pc.splits if_splits)
next
  case ServeCancel
  then show ?thesis using assms(1,2) processRunning_stop_cancelled by (auto split: if_splits)
qed (use assms(1) in \<open>auto split: main_pc.splits if_splits go.splits nat.splits\<close>)

lemma triggerStop_stopping: "stopping p \<Longrightarrow> triggerStop ctx p = ([], p)"
  by (simp add: triggerStop_def)

lemma onServiceStateChange_stopping: "stopping p \<Longrightarrow> stopping (snd (onServiceStateChange s st p))"
  by (cases st) (simp_all add: onServiceStateChange_def Let_def triggerStop_stopping)

lemma processRunning_stop_stopping: "processRunning_stop ctx k p = Some p' \<Longrightarrow> stopping p \<Longrightarrow> stopping p'"
  by (auto simp: processRunning_stop_def triggerStop_stopping split: go.splits)

lemma pool_next_stopping: "pool_next e p = Some p' \<Longrightarrow> stopping p \<Longrightarrow> stopping p'"
  by (cases e)
    (auto simp: case_prod_beta onServiceStateChange_stopping dest: processRunning_stop_stopping
      split: main_pc.splits phase.splits bool.splits if_splits go.splits nat.splits)

lemma pool_next_services: "pool_next e p = Some p' \<Longrightarrow> services p' = services p"
  by (cases e)
    (auto simp: case_prod_beta dest: processRunning_stop_SomeD
      split: main_pc.splits phase.splits bool.splits if_splits go.splits nat.splits)

lemma pool_next_started: "pool_next e p = Some p' \<Longrightarrow> phase p' s = NotStarted \<Longrightarrow> phase p s = NotStarted"
  by (cases e)
    (auto simp: case_prod_beta dest: processRunning_stop_SomeD
      split: main_pc.splits phase.splits bool.splits if_splits go.splits nat.splits)

interpretation fresh: inductive_invariant pool_init pool_step waiting_fresh
proof unfold_locales
  show "waiting_fresh p" if "pool_init p" for p
    using that pool_inv_init pool_initD by (simp add: waiting_fresh_def)
  show "waiting_fresh p'" if inv: "waiting_fresh p" and step: "pool_step p p'" for p p'
  proof -
    from step obtain e where e: "pool_next e p = Some p'" by (auto simp: pool_step_def)
    have "\<not> cancelled (lifecycles p' s)" if s: "s \<in> set (services p')" "phase p' s = NotStarted" for s
    proof -
      have "s \<in> set (services p)" "phase p s = NotStarted"
        using s pool_next_services [OF e] pool_next_started [OF e] by simp_all
      moreover from this have "settled (lifecycles p s)"
        using inv by (auto simp: waiting_fresh_def pool_inv_def service_ok_def settled_def over_def)
      ultimately show ?thesis using inv pool_next_cancelled [OF e] by (simp add: waiting_fresh_def)
    qed
    with inv step show ?thesis by (auto simp: waiting_fresh_def intro: pool_inv_step)
  qed
qed

fun pool_run :: "event list \<Rightarrow> pool \<Rightarrow> pool option" where
  "pool_run [] p = Some p"
| "pool_run (e # es) p = Option.bind (pool_next e p) (pool_run es)"

lemma pool_run_steps: "pool_run es p = Some p' \<Longrightarrow> pool_step\<^sup>*\<^sup>* p p'"
proof (induction es arbitrary: p)
  case (Cons e es)
  then obtain q where q: "pool_next e p = Some q" "pool_run es q = Some p'" by (auto simp: bind_eq_Some_conv)
  then have "pool_step p q" by (auto simp: pool_step_def)
  then show ?case using Cons.IH [OF q(2)] by (rule converse_rtranclp_into_rtranclp)
qed simp

lemma reach_run: "reach I step p \<Longrightarrow> step\<^sup>*\<^sup>* p p' \<Longrightarrow> reach I step p'"
  by (rotate_tac, induction rule: rtranclp_induct) (auto intro: reach.reach_step)

text \<open>Events in which a service ends or announces that it will.\<close>

fun ending :: "event \<Rightarrow> bool" where
  "ending (Halt s) = True"
| "ending (Finish s out) = True"
| "ending _ = False"

definition all_serving :: "pool \<Rightarrow> bool" where
  "all_serving p \<longleftrightarrow> (\<forall>s. s \<in> set (services p) \<longrightarrow> phase p s = Active \<and> lc_state (lifecycles p s) = StateRunning)"

definition missed_start :: "pool \<Rightarrow> nat \<Rightarrow> bool" where
  "missed_start p k \<longleftrightarrow> pool_inv p \<and> all_serving p \<and> main p = Collect k \<and> k < length (services p) \<and> startupComplete p = 0"

lemma missed_start_step:
  assumes "missed_start p k" "pool_next e p = Some p'" "\<not> ending e"
  shows "missed_start p' k"
proof -
  have inv: "pool_inv p'" using assms(1,2) pool_inv_step by (auto simp: missed_start_def pool_step_def)
  have none: "finished_services p = {}" "stopComplete p = 0"
    using assms(1) by (auto simp: missed_start_def all_serving_def finished_services_def pool_inv_def consumed_def)
  have "\<forall>s. s \<notin> set (services p) \<longrightarrow> phase p s = NotStarted"
    using assms(1) by (simp add: missed_start_def pool_inv_def)
  then have "phase p s = Active \<and> lc_state (lifecycles p s) = StateRunning \<or> phase p s = NotStarted \<and> s \<notin> set (services p)" for s
    using assms(1) unfolding missed_start_def all_serving_def by blast
  then have ph: "phase p s = Active \<Longrightarrow> lc_state (lifecycles p s) = StateRunning"
    "phase p s = NotStarted \<Longrightarrow> s \<notin> set (services p)" "phase p s \<noteq> Hooked W b" for s W b
    by (metis phase.distinct)+
  show ?thesis
    using assms inv none ph
    by (cases e) (auto simp: missed_start_def all_serving_def split: if_splits phase.splits bool.splits)
qed

lemma finished_count:
  assumes "pool_inv p"
  shows "card (finished_services p) \<le> length (services p)"
    and "main p = Done \<Longrightarrow> s \<in> set (services p) \<Longrightarrow> phase p s = Finished"
proof -
  have sub: "finished_services p \<subseteq> set (services p)" by (auto simp: finished_services_def)
  have count: "stopComplete p + consumed p = card (finished_services p)" "card (set (services p)) = length (services p)"
    using assms by (simp_all add: pool_inv_def distinct_card)
  show le: "card (finished_services p) \<le> length (services p)"
    using card_mono [OF _ sub] count(2) by simp
  show "phase p s = Finished" if "main p = Done" "s \<in> set (services p)"
  proof -
    have "finished_services p = set (services p)"
      using that(1) count le sub by (intro card_subset_eq) (auto simp: consumed_def)
    with that(2) show ?thesis unfolding finished_services_def by blast
  qed
qed

section \<open>Properties\<close>


definition sample_pool :: "nat list \<Rightarrow> pool" where
  "sample_pool ss =
     (case go_bind (add_all ss NewPool) (\<lambda>p. go_bind (Run_begin NewLifecycle) (\<lambda>lc. RunWithLifecycle_begin lc p)) of
        Ret p \<Rightarrow> p | _ \<Rightarrow> NewPool)"

lemma add_all_returns: "\<not> pool_running p \<Longrightarrow> \<exists>p'. add_all ss p = Ret p' \<and> \<not> pool_running p'"
proof (induction ss arbitrary: p)
  case (Cons s ss)
  obtain p1 where "Add s p = Ret p1" "\<not> pool_running p1"
    using Cons.prems by (auto simp: Add_def OnStateChange_def NewLifecycle_def)
  with Cons.IH show ?case by simp
qed simp

lemma sample_pool_init: "distinct ss \<Longrightarrow> reach pool_init pool_step (sample_pool ss)"
proof -
  assume d: "distinct ss"
  obtain p where p: "add_all ss NewPool = Ret p" "\<not> pool_running p"
    using add_all_returns [of NewPool ss] by (auto simp: NewPool_def)
  then have "pool_init (sample_pool ss)"
    using d by (auto simp: pool_init_def sample_pool_def Run_begin_def starting_def NewLifecycle_def
        RunWithLifecycle_begin_def intro!: exI [of _ ss])
  then show ?thesis by (rule reach.reach_init)
qed

lemma sample_pool_run:
  "distinct ss \<Longrightarrow> pool_run es (sample_pool ss) = Some p \<Longrightarrow> reach pool_init pool_step p"
  using reach_run [OF sample_pool_init pool_run_steps] .

definition sample_full_run :: "event list" where
  "sample_full_run = [Launch 1, Ready 1, CollectStart, Announce, Finish 1 (Returned (Some (ErrorString ''bind''))),
     HookDone 1, ServeStop, DrainOne]"


text \<open>A service whose goroutine has not started when the pool is told to stop is never told to stop: its
  \<open>Stop\<close> finds it in the stopped state and does nothing, and no later step cancels its context. The pool then
  returns only if that service ends of its own accord.\<close>
theorem late_service_never_stopped:
  assumes "reach pool_init pool_step p" "stopping p" "s \<in> set (services p)" "phase p s = NotStarted"
    and "pool_step\<^sup>*\<^sup>* p p'"
  shows "\<not> cancelled (lifecycles p' s) \<and> (main p' = Done \<longrightarrow> phase p' s = Finished)"
proof -
  have "stopping p' \<and> \<not> cancelled (lifecycles p' s) \<and> services p' = services p"
    using assms(5)
  proof (induction rule: rtranclp_induct)
    case base
    show ?case using fresh.holds [OF assms(1)] assms(2-4) by (simp add: waiting_fresh_def)
  next
    case (step y z)
    then obtain e where "pool_next e y = Some z" by (auto simp: pool_step_def)
    with step(3) show ?case using pool_next_stopping pool_next_cancelled pool_next_services by metis
  qed
  moreover have "pool_inv p'" by (rule pools.kept_by_run [OF assms(5) pools.holds [OF assms(1)]])
  ultimately show ?thesis using finished_count(2) assms(3) by metis
qed

theorem late_service_never_stopped_witness:
  "\<exists>p. pool_run [Launch 1, Finish 1 (Returned None)] (sample_pool [1, 2]) = Some p
     \<and> stopping p \<and> phase p 2 = NotStarted \<and> \<not> cancelled (lifecycles p 2)"
proof -
  have "map_option (\<lambda>p. (stopping p, services p, phase p 2)) (pool_run [Launch 1, Finish 1 (Returned None)] (sample_pool [1, 2]))
      = Some (True, [1, 2], NotStarted)" by code_simp
  then obtain p where p: "pool_run [Launch 1, Finish 1 (Returned None)] (sample_pool [1, 2]) = Some p" "stopping p"
    "services p = [1, 2]" "phase p 2 = NotStarted" by auto
  have "reach pool_init pool_step p" by (rule sample_pool_run [OF _ p(1)]) simp
  with p late_service_never_stopped [of p 2 p] show ?thesis by simp
qed

text \<open>The pool learns of started services through a channel that holds one value, and a service that finds
  it full drops its signal. When all services run and the channel is empty but the pool still waits for a
  start, it waits for ever: it never announces that it is running, and does not react to being stopped,
  unless a service ends of its own accord.\<close>
theorem startup_signal_lost:
  assumes "reach pool_init pool_step p" "all_serving p" "main p = Collect k" "k < length (services p)"
    and "startupComplete p = 0" "pool_run es p = Some p'" "\<forall>e \<in> set es. \<not> ending e"
  shows "main p' = Collect k \<and> all_serving p'"
proof -
  have "missed_start p k" using assms(1-5) pools.holds by (simp add: missed_start_def)
  then have "missed_start p' k"
    using assms(6,7)
  proof (induction es arbitrary: p)
    case (Cons e es)
    from Cons.prems(2) obtain q where "pool_next e p = Some q" "pool_run es q = Some p'" by (auto simp: bind_eq_Some_conv)
    moreover have "missed_start q k" using missed_start_step [OF Cons.prems(1)] Cons.prems(3) calculation(1) by simp
    ultimately show ?case using Cons.IH Cons.prems(3) by simp
  qed simp
  then show ?thesis by (simp add: missed_start_def)
qed

definition sample_lost :: "event list" where
  "sample_lost = [Launch 1, Ready 1, Launch 2, Ready 2, CollectStart]"

theorem startup_signal_lost_witness:
  "\<exists>p p'. pool_run sample_lost (sample_pool [1, 2]) = Some p \<and> all_serving p
     \<and> pool_run [CancelPool Background] p = Some p' \<and> main p' = Collect 1"
proof -
  have "map_option (\<lambda>p. (main p, startupComplete p, services p, map (phase p) [1, 2], map (\<lambda>s. lc_state (lifecycles p s)) [1, 2]))
      (pool_run sample_lost (sample_pool [1, 2]))
      = Some (Collect 1, 0, [1, 2], [Active, Active], [StateRunning, StateRunning])" by code_simp
  then obtain p where p: "pool_run sample_lost (sample_pool [1, 2]) = Some p" "main p = Collect 1" "startupComplete p = 0"
    "services p = [1, 2]" "all_serving p" by (auto simp: all_serving_def)
  have r: "reach pool_init pool_step p" by (rule sample_pool_run [OF _ p(1)]) simp
  obtain p' where p': "pool_run [CancelPool Background] p = Some p'" by simp
  from startup_signal_lost [OF r p(5,2) _ p(3) p'] p p' show ?thesis by auto
qed

text \<open>Waiting for a service that has stopped or crashed leaves its life cycle locked: every later call that
  needs the lock, another \<open>Wait\<close>, a \<open>Stop\<close>, \<open>ShouldStop\<close> or a new \<open>Run\<close>, blocks for ever.\<close>
theorem wait_leaves_lock:
  assumes "over l" "\<not> mutex l"
  shows "\<exists>err l'. Wait l = Ret (err, l') \<and> Wait l' = Block \<and> ShouldStop l' = Block
    \<and> (\<forall>ctx. Stop ctx l' = Block) \<and> (\<forall>service. Run service l' = Block)"
  using assms
  by (auto simp: Wait_def over_def ShouldStop_def Stop_def Run_def Run_begin_def starting_def)

theorem wait_leaves_lock_witness:
  "\<exists>err l'. Wait NewLifecycle = Ret (err, l') \<and> ShouldStop l' = Block"
  using wait_leaves_lock [of NewLifecycle] by (auto simp: over_def NewLifecycle_def)

end
