(* ===== verification/Authentication.thy ===== *)
theory Authentication
  imports Handler_Api
begin

text \<open>
  Authentication: the network connection interface of \<open>internal/sshserver/handler.go\<close>, the layer that puts
  authentication and authorization in front of a backend (\<open>internal/authintegration\<close>), and the callbacks the
  server gives to the SSH library and the set-up of a connection (\<open>internal/sshserver/serverImpl.go\<close>).

  The world outside (the client, the authentication servers) is the state \<open>'s\<close>. The SSH library, the
  Kerberos library and the HTTP client are parameters.
\<close>

section \<open>Interfaces\<close>

datatype AuthResponse = AuthResponseSuccess | AuthResponseFailure | AuthResponseUnavailable | AuthResponseOther uint8

record 's AuthenticationContext =
  ctx_Success :: bool
  ctx_Error :: "go_error option"
  ctx_Metadata :: ConnectionAuthenticatedMetadata
  ctx_OnDisconnect :: "'s \<Rightarrow> 's"

record KeyboardInteractiveQuestion =
  q_ID :: string
  Question :: string
  EchoResponse :: bool

definition getID :: "KeyboardInteractiveQuestion \<Rightarrow> string" where
  "getID k = (if q_ID k \<noteq> '''' then q_ID k else Question k)"

type_synonym auth_result = "AuthResponse \<times> ConnectionAuthenticatedMetadata \<times> go_error option"

text \<open>A challenge asks the user: the answers by the id of the question, or an error.\<close>

type_synonym 's challenge =
  "string \<Rightarrow> KeyboardInteractiveQuestion list \<Rightarrow> 's \<Rightarrow> ((go_error option \<times> (string \<rightharpoonup> string)) \<times> 's) go"

text \<open>A call on a server that is \<open>nil\<close> panics.\<close>

record 's gssapi_server =
  gss_Success :: "'s \<Rightarrow> bool go"
  gss_Error :: "'s \<Rightarrow> go_error option go"
  AcceptSecContext :: "bytes \<Rightarrow> 's \<Rightarrow> ((go_error + bytes \<times> string \<times> bool) \<times> 's) go"
  VerifyMIC :: "bytes \<Rightarrow> bytes \<Rightarrow> 's \<Rightarrow> (go_error option \<times> 's) go"
  DeleteSecContext :: "'s \<Rightarrow> (go_error option \<times> 's) go"
  AllowLogin :: "string \<Rightarrow> ConnectionAuthPendingMetadata \<Rightarrow> 's \<Rightarrow>
                  ((ConnectionAuthenticatedMetadata \<times> go_error option) \<times> 's) go"

record 's network_handler =
  OnAuthPassword :: "ConnectionAuthPendingMetadata \<Rightarrow> bytes \<Rightarrow> 's \<Rightarrow> auth_result \<times> 's"
  OnAuthPubKey :: "ConnectionAuthPendingMetadata \<Rightarrow> string \<Rightarrow> 's \<Rightarrow> auth_result \<times> 's"
  OnAuthKeyboardInteractive :: "ConnectionAuthPendingMetadata \<Rightarrow> 's challenge \<Rightarrow> 's \<Rightarrow> (auth_result \<times> 's) go"
  OnAuthGSSAPI :: "ConnectionMetadata \<Rightarrow> 's gssapi_server option"
  OnHandshakeFailed :: "ConnectionMetadata \<Rightarrow> go_error option \<Rightarrow> 's \<Rightarrow> 's"
  OnHandshakeSuccess :: "ConnectionAuthenticatedMetadata \<Rightarrow> 's \<Rightarrow> go_error option \<times> 's"
  OnDisconnect :: "'s \<Rightarrow> 's"
  OnNetworkShutdown :: "'s \<Rightarrow> 's"

definition AbstractNetworkConnectionHandler :: "'s network_handler" where
  "AbstractNetworkConnectionHandler = \<lparr>
     OnAuthPassword = (\<lambda>meta _ s. ((AuthResponseUnavailable, AuthFailed meta, None), s)),
     OnAuthPubKey = (\<lambda>meta _ s. ((AuthResponseUnavailable, AuthFailed meta, None), s)),
     OnAuthKeyboardInteractive = (\<lambda>meta _ s. Ret ((AuthResponseUnavailable, AuthFailed meta, None), s)),
     OnAuthGSSAPI = (\<lambda>_. None),
     OnHandshakeFailed = (\<lambda>_ _ s. s),
     OnHandshakeSuccess = (\<lambda>_ s. (Some (ErrorString ''not implemented''), s)),
     OnDisconnect = (\<lambda>s. s),
     OnNetworkShutdown = (\<lambda>s. s)\<rparr>"

section \<open>The authentication layer\<close>

datatype Behavior =
    BehaviorNoPassthrough
  | BehaviorPassthroughOnFailure
  | BehaviorPassthroughOnSuccess
  | BehaviorPassthroughOnUnavailable
  | BehaviorOther int

fun validate :: "Behavior \<Rightarrow> bool" where
  "validate BehaviorNoPassthrough = True"
| "validate BehaviorPassthroughOnFailure = True"
| "validate BehaviorPassthroughOnSuccess = True"
| "validate BehaviorPassthroughOnUnavailable = True"
| "validate (BehaviorOther n) = False"

text \<open>The authenticators of the handler; one that is not configured is \<open>nil\<close>.\<close>

record 's auth_handler =
  passwordAuthenticator ::
    "(ConnectionAuthPendingMetadata \<Rightarrow> bytes \<Rightarrow> 's \<Rightarrow> 's AuthenticationContext \<times> 's) option"
  publicKeyAuthenticator ::
    "(ConnectionAuthPendingMetadata \<Rightarrow> string \<Rightarrow> 's \<Rightarrow> 's AuthenticationContext \<times> 's) option"
  keyboardInteractiveAuthenticator ::
    "(ConnectionAuthPendingMetadata \<Rightarrow> 's challenge \<Rightarrow> 's \<Rightarrow> ('s AuthenticationContext \<times> 's) go) option"
  gssapiAuthenticator :: "(ConnectionMetadata \<Rightarrow> 's gssapi_server) option"
  authorizationProvider ::
    "(ConnectionAuthenticatedMetadata \<Rightarrow> 's \<Rightarrow> 's AuthenticationContext \<times> 's) option"
  behavior :: Behavior

text \<open>What the two handlers of a connection remember: the context of the last authentication and the
  response of the last authorization over GSSAPI.\<close>

record 's auth_state =
  authContext :: "'s AuthenticationContext option"
  authzResponse :: "'s AuthenticationContext option"

definition no_auth_yet :: "'s auth_state" where
  "no_auth_yet = \<lparr>authContext = None, authzResponse = None\<rparr>"

definition disconnect_context :: "'s auth_state \<Rightarrow> 's \<Rightarrow> 's" where
  "disconnect_context a s = (case authContext a of None \<Rightarrow> s | Some c \<Rightarrow> ctx_OnDisconnect c s)"

definition auth_disabled :: "string \<Rightarrow> go_error" where
  "auth_disabled text = UserMessage ''SSH_AUTH_UNAVAILABLE'' ''This authentication method is currently unavailable.'' text"

definition auth_OnAuthPassword ::
    "'s auth_handler \<Rightarrow> 's network_handler \<Rightarrow> ConnectionAuthPendingMetadata \<Rightarrow> bytes \<Rightarrow> 's auth_state \<times> 's \<Rightarrow>
     auth_result \<times> 's auth_state \<times> 's" where
  "auth_OnAuthPassword h backend meta password as =
     (let (a, s) = as;
          s = disconnect_context a s
      in case passwordAuthenticator h of
           None \<Rightarrow> ((AuthResponseUnavailable, AuthFailed meta, Some (auth_disabled ''Password authentication is disabled.'')), a, s)
         | Some password_auth \<Rightarrow>
             let (c, s) = password_auth meta password s;
                 a = a\<lparr>authContext := Some c\<rparr>
             in if \<not> ctx_Success c
                then if ctx_Error c \<noteq> None
                     then if behavior h = BehaviorPassthroughOnUnavailable
                          then on_snd (OnAuthPassword backend meta password) (a, s)
                          else ((AuthResponseUnavailable, AuthFailed meta, ctx_Error c), a, s)
                     else if behavior h = BehaviorPassthroughOnFailure
                     then on_snd (OnAuthPassword backend meta password) (a, s)
                     else ((AuthResponseFailure, AuthFailed meta, None), a, s)
                else if behavior h = BehaviorPassthroughOnSuccess
                then on_snd (OnAuthPassword backend meta password) (a, s)
                else ((AuthResponseSuccess, ctx_Metadata c, None), a, s))"

definition auth_OnAuthPubKey ::
    "'s auth_handler \<Rightarrow> 's network_handler \<Rightarrow> ConnectionAuthPendingMetadata \<Rightarrow> string \<Rightarrow> 's auth_state \<times> 's \<Rightarrow>
     auth_result \<times> 's auth_state \<times> 's" where
  "auth_OnAuthPubKey h backend meta pubKey as =
     (let (a, s) = as;
          s = disconnect_context a s
      in case publicKeyAuthenticator h of
           None \<Rightarrow> ((AuthResponseUnavailable, AuthFailed meta, Some (auth_disabled ''Public key authentication is disabled.'')), a, s)
         | Some pubkey_auth \<Rightarrow>
             let (c, s) = pubkey_auth meta pubKey s;
                 a = a\<lparr>authContext := Some c\<rparr>
             in if \<not> ctx_Success c
                then if ctx_Error c \<noteq> None
                     then if behavior h = BehaviorPassthroughOnUnavailable
                          then on_snd (OnAuthPubKey backend meta pubKey) (a, s)
                          else ((AuthResponseUnavailable, ctx_Metadata c, ctx_Error c), a, s)
                     else if behavior h = BehaviorPassthroughOnFailure
                     then on_snd (OnAuthPubKey backend meta pubKey) (a, s)
                     else ((AuthResponseFailure, ctx_Metadata c, ctx_Error c), a, s)
                else if behavior h = BehaviorPassthroughOnSuccess
                then on_snd (OnAuthPubKey backend meta pubKey) (a, s)
                else ((AuthResponseSuccess, ctx_Metadata c, ctx_Error c), a, s))"

text \<open>Questions are passed on, and answers are renamed from the ids the server uses to those the
  authenticator gave; a missing answer is empty.\<close>

definition wrap_challenge :: "'s challenge \<Rightarrow> 's challenge" where
  "wrap_challenge challenge instruction questions s =
     go_bind (challenge instruction questions s) (\<lambda>((err, answers), s).
       if err \<noteq> None then Ret ((err, Map.empty), s)
       else Ret ((None, fold (\<lambda>q m. m(q_ID q \<mapsto> (case answers (getID q) of None \<Rightarrow> '''' | Some a \<Rightarrow> a))) questions Map.empty), s))"

text \<open>A challenge or backend of the inner state, seen from the pair of states.\<close>

definition inner_challenge :: "('a \<times> 's) challenge \<Rightarrow> 'a \<Rightarrow> 's challenge" where
  "inner_challenge challenge a instruction questions s =
     go_bind (challenge instruction questions (a, s)) (\<lambda>(r, as). Ret (r, snd as))"

definition auth_OnAuthKeyboardInteractive ::
    "'s auth_handler \<Rightarrow> 's network_handler \<Rightarrow> ConnectionAuthPendingMetadata \<Rightarrow> ('s auth_state \<times> 's) challenge \<Rightarrow>
     's auth_state \<times> 's \<Rightarrow> (auth_result \<times> 's auth_state \<times> 's) go" where
  "auth_OnAuthKeyboardInteractive h backend meta challenge as =
     (let (a, s) = as;
          s = disconnect_context a s
      in case keyboardInteractiveAuthenticator h of
           None \<Rightarrow> Ret ((AuthResponseUnavailable, AuthFailed meta,
                       Some (auth_disabled ''Keyboard-interactive authentication is disabled.'')), a, s)
         | Some ki_auth \<Rightarrow>
             go_bind (ki_auth meta (wrap_challenge (inner_challenge challenge a)) s) (\<lambda>(c, s).
               let a' = a\<lparr>authContext := Some c\<rparr>;
                   passthrough = go_bind (OnAuthKeyboardInteractive backend meta (inner_challenge challenge a') s)
                                   (\<lambda>(r, s). Ret (r, a', s))
               in if \<not> ctx_Success c
                  then if ctx_Error c \<noteq> None
                       then if behavior h = BehaviorPassthroughOnUnavailable then passthrough
                            else Ret ((AuthResponseUnavailable, ctx_Metadata c, ctx_Error c), a', s)
                       else if behavior h = BehaviorPassthroughOnFailure then passthrough
                       else Ret ((AuthResponseFailure, ctx_Metadata c, ctx_Error c), a', s)
                  else if behavior h = BehaviorPassthroughOnSuccess then passthrough
                  else Ret ((AuthResponseSuccess, ctx_Metadata c, ctx_Error c), a', s)))"

definition auth_OnDisconnect :: "'s network_handler \<Rightarrow> 's auth_state \<times> 's \<Rightarrow> 's auth_state \<times> 's" where
  "auth_OnDisconnect backend as = (let (a, s) = as in (a, OnDisconnect backend (disconnect_context a s)))"

text \<open>A GSSAPI server of the inner state over the pair of states.\<close>

definition go_snd :: "('s \<Rightarrow> ('r \<times> 's) go) \<Rightarrow> 'a \<times> 's \<Rightarrow> ('r \<times> 'a \<times> 's) go" where
  "go_snd f as = go_bind (f (snd as)) (\<lambda>(r, s). Ret (r, fst as, s))"

definition lift_gssapi :: "'s gssapi_server \<Rightarrow> ('a \<times> 's) gssapi_server" where
  "lift_gssapi g = \<lparr>
     gss_Success = (\<lambda>as. gss_Success g (snd as)),
     gss_Error = (\<lambda>as. gss_Error g (snd as)),
     AcceptSecContext = (\<lambda>t. go_snd (AcceptSecContext g t)),
     VerifyMIC = (\<lambda>f t. go_snd (VerifyMIC g f t)),
     DeleteSecContext = go_snd (DeleteSecContext g),
     AllowLogin = (\<lambda>u m. go_snd (AllowLogin g u m))\<rparr>"

definition auth_network :: "'s auth_handler \<Rightarrow> 's network_handler \<Rightarrow> ('s auth_state \<times> 's) network_handler" where
  "auth_network h backend = \<lparr>
     OnAuthPassword = auth_OnAuthPassword h backend,
     OnAuthPubKey = auth_OnAuthPubKey h backend,
     OnAuthKeyboardInteractive = auth_OnAuthKeyboardInteractive h backend,
     OnAuthGSSAPI = (\<lambda>meta. map_option (\<lambda>f. lift_gssapi (f meta)) (gssapiAuthenticator h)),
     OnHandshakeFailed = (\<lambda>meta reason. apsnd (OnHandshakeFailed backend meta reason)),
     OnHandshakeSuccess = (\<lambda>meta. on_snd (OnHandshakeSuccess backend meta)),
     OnDisconnect = auth_OnDisconnect backend,
     OnNetworkShutdown = apsnd (OnNetworkShutdown backend)\<rparr>"

section \<open>The authorization layer\<close>

definition genericAuthorization ::
    "(ConnectionAuthenticatedMetadata \<Rightarrow> 's \<Rightarrow> 's AuthenticationContext \<times> 's) \<Rightarrow> auth_result \<Rightarrow>
     's auth_state \<times> 's \<Rightarrow> auth_result \<times> 's auth_state \<times> 's" where
  "genericAuthorization provider res as =
     (let (authResponse, authenticatedMeta, err) = res;
          (a, s) = as
      in if authResponse \<noteq> AuthResponseSuccess then (res, as)
         else let (authz, s) = provider authenticatedMeta s
              in if ctx_Success authz then ((AuthResponseSuccess, ctx_Metadata authz, err), a, s)
                 else ((AuthResponseFailure, ctx_Metadata authz, ctx_Error authz), a, s))"

definition nil_pointer :: string where
  "nil_pointer = ''invalid memory address or nil pointer dereference''"

text \<open>The GSSAPI server of the authorization layer. Neither its backend nor its authorization provider need be
  set, and \<open>OnAuthGSSAPI\<close> below never sets the provider.\<close>

definition authzGssApiServer ::
    "('s auth_state \<times> 's) gssapi_server option \<Rightarrow>
     (ConnectionAuthenticatedMetadata \<Rightarrow> 's \<Rightarrow> 's AuthenticationContext \<times> 's) option \<Rightarrow>
     ('s auth_state \<times> 's) gssapi_server" where
  "authzGssApiServer backend provider = \<lparr>
     gss_Success = (\<lambda>as.
       case backend of
         None \<Rightarrow> Panic nil_pointer
       | Some g \<Rightarrow> go_bind (gss_Success g as) (\<lambda>ok.
           case authzResponse (fst as) of
             None \<Rightarrow> Ret False
           | Some r \<Rightarrow> Ret (ok \<and> ctx_Success r))),
     gss_Error = (\<lambda>as.
       case backend of
         None \<Rightarrow> Panic nil_pointer
       | Some g \<Rightarrow> go_bind (gss_Error g as) (\<lambda>err.
           if err \<noteq> None then Ret err
           else case authzResponse (fst as) of None \<Rightarrow> Ret err | Some r \<Rightarrow> Ret (ctx_Error r))),
     AcceptSecContext = (\<lambda>t as. case backend of None \<Rightarrow> Panic nil_pointer | Some g \<Rightarrow> AcceptSecContext g t as),
     VerifyMIC = (\<lambda>f t as. case backend of None \<Rightarrow> Panic nil_pointer | Some g \<Rightarrow> VerifyMIC g f t as),
     DeleteSecContext = (\<lambda>as. case backend of None \<Rightarrow> Panic nil_pointer | Some g \<Rightarrow> DeleteSecContext g as),
     AllowLogin = (\<lambda>u m as.
       case backend of
         None \<Rightarrow> Panic nil_pointer
       | Some g \<Rightarrow> go_bind (AllowLogin g u m as) (\<lambda>((authenticatedMetadata, err), as).
           if err \<noteq> None then Ret ((authenticatedMetadata, err), as)
           else case provider of
                  None \<Rightarrow> Panic nil_pointer
                | Some authorize \<Rightarrow>
                    let (r, s) = authorize authenticatedMetadata (snd as)
                    in Ret ((ctx_Metadata r, ctx_Error r), (fst as)\<lparr>authzResponse := Some r\<rparr>, s)))\<rparr>"

definition authz_network ::
    "(ConnectionAuthenticatedMetadata \<Rightarrow> 's \<Rightarrow> 's AuthenticationContext \<times> 's) \<Rightarrow>
     ('s auth_state \<times> 's) network_handler \<Rightarrow> ('s auth_state \<times> 's) network_handler" where
  "authz_network provider backend = \<lparr>
     OnAuthPassword = (\<lambda>meta password as. (case OnAuthPassword backend meta password as of (r, as) \<Rightarrow> genericAuthorization provider r as)),
     OnAuthPubKey = (\<lambda>meta pubKey as. (case OnAuthPubKey backend meta pubKey as of (r, as) \<Rightarrow> genericAuthorization provider r as)),
     OnAuthKeyboardInteractive = (\<lambda>meta challenge as.
       go_bind (OnAuthKeyboardInteractive backend meta challenge as) (\<lambda>(r, as). Ret (genericAuthorization provider r as))),
     OnAuthGSSAPI = (\<lambda>meta. Some (authzGssApiServer (OnAuthGSSAPI backend meta) None)),
     OnHandshakeFailed = OnHandshakeFailed backend,
     OnHandshakeSuccess = OnHandshakeSuccess backend,
     OnDisconnect = OnDisconnect backend,
     OnNetworkShutdown = OnNetworkShutdown backend\<rparr>"

text \<open>The handler a network connection gets: the authentication layer in front of the backend, and the
  authorization layer in front of that when there is a provider.\<close>

definition auth_OnNetworkConnection ::
    "'s auth_handler \<Rightarrow>
     (ConnectionMetadata \<Rightarrow> 's \<Rightarrow> (go_error + 's network_handler \<times> ConnectionMetadata) \<times> 's) \<Rightarrow>
     ConnectionMetadata \<Rightarrow> 's auth_state \<times> 's \<Rightarrow>
     (go_error + ('s auth_state \<times> 's) network_handler \<times> ConnectionMetadata) \<times> 's auth_state \<times> 's" where
  "auth_OnNetworkConnection h backend meta as =
     (case backend meta (snd as) of
        (Inl err, s) \<Rightarrow> (Inl err, fst as, s)
      | (Inr (network, meta), s) \<Rightarrow>
          (Inr (case authorizationProvider h of
                  None \<Rightarrow> auth_network h network
                | Some provider \<Rightarrow> authz_network provider (auth_network h network), meta),
           no_auth_yet, s))"

section \<open>The callbacks of the server\<close>

text \<open>What the SSH library knows of the client that authenticates.\<close>

record ssh_conn =
  conn_User :: string
  conn_ClientVersion :: string

definition wrapAndLogAuthUnavailable :: "ConnectionAuthPendingMetadata \<Rightarrow> string \<Rightarrow> go_error option \<Rightarrow> go_error go" where
  "wrapAndLogAuthUnavailable conn authMethod err =
     (case err of
        None \<Rightarrow> Panic nil_pointer
      | Some e \<Rightarrow>
          Ret (WrapUser e ''SSH_AUTH_UNAVAILABLE''
            ''Authentication is currently unavailable, please try a different authentication method or try again later.''
            (authMethod @ '' authentication for user '' @ Username conn @ '' currently unavailable.'')))"

definition wrapAndLogAuthFailure :: "ConnectionAuthPendingMetadata \<Rightarrow> string \<Rightarrow> go_error option \<Rightarrow> go_error" where
  "wrapAndLogAuthFailure conn authMethod err =
     (case err of
        None \<Rightarrow> UserMessage ''SSH_AUTH_FAILED'' ''Authentication failed.''
                  (authMethod @ '' authentication for user '' @ Username conn @ '' failed.'')
      | Some e \<Rightarrow> WrapUser e ''SSH_AUTH_FAILED'' ''Authentication failed.''
                  (authMethod @ '' authentication for user '' @ Username conn @ '' failed.''))"

text \<open>The part the three authenticators share: the response of the handler as the metadata of the user, or
  an error.\<close>

definition auth_outcome ::
    "string \<Rightarrow> ConnectionAuthPendingMetadata \<Rightarrow> auth_result \<Rightarrow> (go_error + ConnectionAuthenticatedMetadata) go" where
  "auth_outcome authMethod authenticatingMetadata res =
     (case res of (authResponse, authenticatedMetadata, err) \<Rightarrow>
        (case authResponse of
           AuthResponseSuccess \<Rightarrow> Ret (Inr authenticatedMetadata)
         | AuthResponseFailure \<Rightarrow> Ret (Inl (wrapAndLogAuthFailure authenticatingMetadata authMethod err))
         | AuthResponseUnavailable \<Rightarrow>
             go_bind (wrapAndLogAuthUnavailable authenticatingMetadata authMethod err) (\<lambda>e. Ret (Inl e))
         | AuthResponseOther n \<Rightarrow> Ret (Inl (ErrorString ''authentication currently unavailable''))))"

definition createPasswordAuthenticator ::
    "ConnectionMetadata \<Rightarrow> 's network_handler \<Rightarrow> ssh_conn \<Rightarrow> bytes \<Rightarrow> 's \<Rightarrow>
     ((go_error + ConnectionAuthenticatedMetadata) \<times> 's) go" where
  "createPasswordAuthenticator connectionMetadata handler conn password s =
     (let pending = StartAuthentication connectionMetadata (conn_ClientVersion conn) (conn_User conn);
          (res, s) = OnAuthPassword handler pending password s
      in go_bind (auth_outcome ''Password'' pending res) (\<lambda>r. Ret (r, s)))"

text \<open>\<open>pubKey\<close> is the key in the format of an authorized keys file, without surrounding white space.\<close>

definition createPubKeyAuthenticator ::
    "ConnectionMetadata \<Rightarrow> 's network_handler \<Rightarrow> ssh_conn \<Rightarrow> string \<Rightarrow> 's \<Rightarrow>
     ((go_error + ConnectionAuthenticatedMetadata) \<times> 's) go" where
  "createPubKeyAuthenticator connectionMetadata handler conn pubKey s =
     (let pending = StartAuthentication connectionMetadata (conn_ClientVersion conn) (conn_User conn);
          (res, s) = OnAuthPubKey handler pending pubKey s
      in go_bind (auth_outcome ''Public key'' pending res) (\<lambda>r. Ret (r, s)))"

text \<open>The SSH library's challenge takes the texts of the questions and returns a list of answers; an answer
  for which there is no question is an index out of range.\<close>

type_synonym 's library_challenge = "string \<Rightarrow> string \<Rightarrow> string list \<Rightarrow> bool list \<Rightarrow> 's \<Rightarrow> (string list \<times> go_error option) \<times> 's"

fun collect_answers :: "KeyboardInteractiveQuestion list \<Rightarrow> string list \<Rightarrow> (string \<rightharpoonup> string) \<Rightarrow> (string \<rightharpoonup> string) go" where
  "collect_answers qs [] m = Ret m"
| "collect_answers [] (a # as) m = Panic ''index out of range''"
| "collect_answers (q # qs) (a # as) m = collect_answers qs as (m(getID q \<mapsto> a))"

definition challengeWrapper :: "ssh_conn \<Rightarrow> 's library_challenge \<Rightarrow> 's challenge" where
  "challengeWrapper conn challenge instruction questions s =
     (let ((answerList, err), s) =
            challenge (conn_User conn) instruction (map Question questions) (map EchoResponse questions) s
      in go_bind (collect_answers questions answerList Map.empty) (\<lambda>m. Ret ((err, m), s)))"

definition createKeyboardInteractiveHandler ::
    "ConnectionMetadata \<Rightarrow> 's network_handler \<Rightarrow> ssh_conn \<Rightarrow> 's library_challenge \<Rightarrow> 's \<Rightarrow>
     ((go_error + ConnectionAuthenticatedMetadata) \<times> 's) go" where
  "createKeyboardInteractiveHandler connectionMetadata handler conn challenge s =
     (let pending = StartAuthentication connectionMetadata (conn_ClientVersion conn) (conn_User conn)
      in go_bind (OnAuthKeyboardInteractive handler pending (challengeWrapper conn challenge) s) (\<lambda>(res, s).
           go_bind (auth_outcome ''Keyboard-interactive'' pending res) (\<lambda>r. Ret (r, s))))"

text \<open>The metadata travels through the SSH library as JSON text in an extension of the permissions. A
  permission holds the metadata that was marshalled; reading it back loses empty maps (\<open>omitempty\<close>), gives
  the address in its 16 byte form and refuses a port out of range. Strings are taken to be valid UTF-8.\<close>

definition to16 :: "bytes \<Rightarrow> bytes" where
  "to16 ip = (if length ip = 4 then [0, 0, 0, 0, 0, 0, 0, 0, 0, 0, 255, 255] @ ip else if length ip = 16 then ip else [])"

definition omit_empty :: "('k \<rightharpoonup> 'v) option \<Rightarrow> ('k \<rightharpoonup> 'v) option" where
  "omit_empty m = (case m of None \<Rightarrow> None | Some f \<Rightarrow> if dom f = {} then None else Some f)"

definition json_reload :: "ConnectionAuthenticatedMetadata \<Rightarrow> go_error + ConnectionAuthenticatedMetadata" where
  "json_reload m =
     (if Port (RemoteAddr m) < 0 \<or> 65535 < Port (RemoteAddr m)
      then Inl (ErrorString (''invalid port number: '' @ itoa (Port (RemoteAddr m))))
      else Inr (m\<lparr>RemoteAddr := (RemoteAddr m)\<lparr>IP := to16 (IP (RemoteAddr m))\<rparr>,
                 Metadata := omit_empty (Metadata m), Environment := omit_empty (Environment m),
                 Files := omit_empty (Files m)\<rparr>))"

record Permissions =
  containerssh_metadata :: "ConnectionAuthenticatedMetadata option"

definition permit :: "(go_error + ConnectionAuthenticatedMetadata) \<times> 's \<Rightarrow> ((go_error + Permissions) \<times> 's) go" where
  "permit rs =
     (case rs of
        (Inl err, s) \<Rightarrow> Ret (Inl err, s)
      | (Inr authenticatedMetadata, s) \<Rightarrow> Ret (Inr \<lparr>containerssh_metadata = Some authenticatedMetadata\<rparr>, s))"

definition createPasswordCallback ::
    "ConnectionMetadata \<Rightarrow> 's network_handler \<Rightarrow> ssh_conn \<Rightarrow> bytes \<Rightarrow> 's \<Rightarrow> ((go_error + Permissions) \<times> 's) go" where
  "createPasswordCallback meta handler conn password s =
     go_bind (createPasswordAuthenticator meta handler conn password s) permit"

definition createPubKeyCallback ::
    "ConnectionMetadata \<Rightarrow> 's network_handler \<Rightarrow> ssh_conn \<Rightarrow> string \<Rightarrow> 's \<Rightarrow> ((go_error + Permissions) \<times> 's) go" where
  "createPubKeyCallback meta handler conn key s =
     go_bind (createPubKeyAuthenticator meta handler conn key s) permit"

definition createKeyboardInteractiveCallback ::
    "ConnectionMetadata \<Rightarrow> 's network_handler \<Rightarrow> ssh_conn \<Rightarrow> 's library_challenge \<Rightarrow> 's \<Rightarrow>
     ((go_error + Permissions) \<times> 's) go" where
  "createKeyboardInteractiveCallback meta handler conn challenge s =
     go_bind (createKeyboardInteractiveHandler meta handler conn challenge s) permit"

text \<open>\<open>AllowLogin\<close> of the GSSAPI configuration; there is none when the handler has no GSSAPI server.\<close>

definition gss_AllowLogin ::
    "ConnectionMetadata \<Rightarrow> 's gssapi_server \<Rightarrow> ssh_conn \<Rightarrow> 's \<Rightarrow> ((go_error + Permissions) \<times> 's) go" where
  "gss_AllowLogin connectionMetadata gssServer conn s =
     go_bind (gss_Success gssServer s) (\<lambda>ok.
       if \<not> ok
       then go_bind (gss_Error gssServer s) (\<lambda>err.
              case err of
                None \<Rightarrow> Ret (Inl (NewMessage ''SSH_AUTH_FAILED'' ''Authentication failed''), s)
              | Some e \<Rightarrow> Ret (Inl e, s))
       else let authenticating = StartAuthentication connectionMetadata (conn_ClientVersion conn) (conn_User conn)
            in go_bind (AllowLogin gssServer (conn_User conn) authenticating s) (\<lambda>((authenticated, err), s).
                 if err \<noteq> None then Ret (Inl (wrapAndLogAuthFailure authenticating ''GSSAPI'' err), s)
                 else Ret (Inr \<lparr>containerssh_metadata = Some authenticated\<rparr>, s)))"

record 's server_config =
  PasswordCallback :: "ssh_conn \<Rightarrow> bytes \<Rightarrow> 's \<Rightarrow> ((go_error + Permissions) \<times> 's) go"
  PublicKeyCallback :: "ssh_conn \<Rightarrow> string \<Rightarrow> 's \<Rightarrow> ((go_error + Permissions) \<times> 's) go"
  KeyboardInteractiveCallback :: "ssh_conn \<Rightarrow> 's library_challenge \<Rightarrow> 's \<Rightarrow> ((go_error + Permissions) \<times> 's) go"
  gss_Server :: "'s gssapi_server option"
  GSSAPI_AllowLogin :: "(ssh_conn \<Rightarrow> 's \<Rightarrow> ((go_error + Permissions) \<times> 's) go) option"
  NoClientAuth :: bool
  MaxAuthTries :: int

definition createConfiguration :: "ConnectionMetadata \<Rightarrow> 's network_handler \<Rightarrow> 's server_config" where
  "createConfiguration meta handler = \<lparr>
     PasswordCallback = createPasswordCallback meta handler,
     PublicKeyCallback = createPubKeyCallback meta handler,
     KeyboardInteractiveCallback = createKeyboardInteractiveCallback meta handler,
     gss_Server = OnAuthGSSAPI handler meta,
     GSSAPI_AllowLogin = map_option (gss_AllowLogin meta) (OnAuthGSSAPI handler meta),
     NoClientAuth = False,
     MaxAuthTries = 6\<rparr>"

section \<open>A connection\<close>

text \<open>How the set-up of a connection ends. \<open>newServerConn\<close> is the handshake of the SSH library, \<open>serve\<close> what
  runs on an established connection.\<close>

datatype connection_outcome =
    NetworkRejected go_error
  | HandshakeAborted "go_error option"
  | Established ConnectionAuthenticatedMetadata

text \<open>What the server keeps of its connections: the wait group of the handlers, the keys of the shutdown
  registry, the sockets and the map of connections, the last two by connection id.\<close>

record conn_table =
  conn_wg :: int
  shutdown_keys :: "string set"
  clientSockets :: "string set"
  conn_ids :: "string set"

definition Done :: "conn_table \<Rightarrow> conn_table go" where
  "Done tbl = (if conn_wg tbl \<le> 0 then Panic ''sync: negative WaitGroup counter'' else Ret (tbl\<lparr>conn_wg := conn_wg tbl - 1\<rparr>))"

definition network_key :: "string \<Rightarrow> string" where
  "network_key connectionID = ''network-'' @ connectionID"

definition ssh_key :: "string \<Rightarrow> string" where
  "ssh_key connectionID = ''ssh-'' @ connectionID"

definition abortCleanup ::
    "'s network_handler \<Rightarrow> ConnectionMetadata \<Rightarrow> string \<Rightarrow> go_error option \<Rightarrow> conn_table \<Rightarrow> 's \<Rightarrow>
     (connection_outcome \<times> conn_table \<times> 's) go" where
  "abortCleanup handler connectionMeta connectionID err tbl s =
     (let s = OnHandshakeFailed handler connectionMeta err s;
          tbl = tbl\<lparr>shutdown_keys := shutdown_keys tbl - {network_key connectionID}\<rparr>;
          s = OnDisconnect handler s
      in go_bind (Done tbl) (\<lambda>tbl. Ret (HandshakeAborted err, tbl, s)))"

text \<open>The set-up of an accepted connection, up to the point where its channels are served.\<close>

definition handleConnection ::
    "(ConnectionMetadata \<Rightarrow> 's \<Rightarrow> (go_error + 's network_handler \<times> ConnectionMetadata) \<times> 's) \<Rightarrow>
     ('s server_config \<Rightarrow> 's \<Rightarrow> ((go_error + Permissions) \<times> 's) go) \<Rightarrow>
     RemoteAddress \<Rightarrow> string \<Rightarrow> conn_table \<Rightarrow> 's \<Rightarrow> (connection_outcome \<times> conn_table \<times> 's) go" where
  "handleConnection onNetworkConnection newServerConn addr connectionID tbl s =
     (let connectionMeta = \<lparr>RemoteAddr = addr, ConnectionID = connectionID, Metadata = Some Map.empty,
            Environment = Some Map.empty, Files = Some Map.empty\<rparr>
      in case onNetworkConnection connectionMeta s of
           (Inl err, s) \<Rightarrow> go_bind (Done tbl) (\<lambda>tbl. Ret (NetworkRejected err, tbl, s))
         | (Inr (handler, connectionMeta), s) \<Rightarrow>
             let tbl = tbl\<lparr>shutdown_keys := insert (network_key connectionID) (shutdown_keys tbl)\<rparr>
             in go_bind (newServerConn (createConfiguration connectionMeta handler) s) (\<lambda>(res, s).
                  case res of
                    Inl err \<Rightarrow> abortCleanup handler connectionMeta connectionID (Some err) tbl s
                  | Inr perms \<Rightarrow>
                      (case containerssh_metadata perms of
                         None \<Rightarrow> abortCleanup handler connectionMeta connectionID None tbl s
                       | Some marshaledMetadata \<Rightarrow>
                           (case json_reload marshaledMetadata of
                              Inl err \<Rightarrow> abortCleanup handler connectionMeta connectionID (Some err) tbl s
                            | Inr authenticatedMetadata \<Rightarrow>
                                (case OnHandshakeSuccess handler authenticatedMetadata s of
                                   (Some err, s) \<Rightarrow>
                                     abortCleanup handler connectionMeta connectionID
                                       (Some (WrapUser err ''SSH_BACKEND_REJECTED_HANDSHAKE''
                                          ''Authentication currently unavailable, please try again later.''
                                          ''The backend has rejected the user after successful authentication.'')) tbl s
                                 | (None, s) \<Rightarrow>
                                     Ret (Established authenticatedMetadata,
                                       tbl\<lparr>clientSockets := insert connectionID (clientSockets tbl),
                                           conn_ids := insert connectionID (conn_ids tbl)\<rparr>, s))))))"

text \<open>Two goroutines follow: the one that goes on registers the connection, the other waits for the connection
  to end and cleans up. Nothing orders them.\<close>

definition register_connection :: "string \<Rightarrow> conn_table \<Rightarrow> conn_table" where
  "register_connection connectionID tbl = tbl\<lparr>shutdown_keys := insert (ssh_key connectionID) (shutdown_keys tbl)\<rparr>"

definition connection_ended ::
    "'s network_handler \<Rightarrow> string \<Rightarrow> conn_table \<Rightarrow> 's \<Rightarrow> (conn_table \<times> 's) go" where
  "connection_ended handler connectionID tbl s =
     go_bind (Done (tbl\<lparr>shutdown_keys := shutdown_keys tbl - {network_key connectionID, ssh_key connectionID}\<rparr>))
       (\<lambda>tbl. Ret (tbl, OnDisconnect handler s))"

text \<open>The keep-alive loop, over the results of the requests it sends (\<open>True\<close> is an error): how many requests
  were sent when it closes the connection.\<close>

fun keepalive :: "int \<Rightarrow> int \<Rightarrow> bool list \<Rightarrow> nat option" where
  "keepalive ClientAliveCountMax missedAlives [] = None"
| "keepalive ClientAliveCountMax missedAlives (err # rest) =
     (if err
      then if missedAlives + 1 \<ge> ClientAliveCountMax then Some 1
           else map_option Suc (keepalive ClientAliveCountMax (missedAlives + 1) rest)
      else map_option Suc (keepalive ClientAliveCountMax 0 rest))"

section \<open>Who gets in\<close>

text \<open>What an authenticator has to say for a user to be let in with the metadata \<open>m\<close>. Over the authorization
  layer only the first three methods can give a permission.\<close>

definition interactive_login :: "'s auth_handler \<Rightarrow> ConnectionMetadata \<Rightarrow> ConnectionAuthenticatedMetadata \<Rightarrow> bool" where
  "interactive_login h meta m = (\<exists>(conn :: ssh_conn) s c s'.
     let pending = StartAuthentication meta (conn_ClientVersion conn) (conn_User conn)
     in ((\<exists>f pw. passwordAuthenticator h = Some f \<and> f pending pw s = (c, s')) \<or>
         (\<exists>f key. publicKeyAuthenticator h = Some f \<and> f pending key s = (c, s')) \<or>
         (\<exists>f challenge. keyboardInteractiveAuthenticator h = Some f \<and> f pending challenge s = Ret (c, s'))) \<and>
        ctx_Success c \<and> ctx_Metadata c = m)"

definition gssapi_login :: "'s auth_handler \<Rightarrow> ConnectionMetadata \<Rightarrow> ConnectionAuthenticatedMetadata \<Rightarrow> bool" where
  "gssapi_login h meta m = (\<exists>f (conn :: ssh_conn) s s'.
     gssapiAuthenticator h = Some f \<and> gss_Success (f meta) s = Ret True \<and>
     AllowLogin (f meta) (conn_User conn) (StartAuthentication meta (conn_ClientVersion conn) (conn_User conn)) s =
       Ret ((m, None), s'))"

definition may_log_in :: "'s auth_handler \<Rightarrow> ConnectionMetadata \<Rightarrow> ConnectionAuthenticatedMetadata \<Rightarrow> bool" where
  "may_log_in h meta m =
     (case authorizationProvider h of
        None \<Rightarrow> interactive_login h meta m \<or> gssapi_login h meta m
      | Some provider \<Rightarrow> (\<exists>m0 s z s'. interactive_login h meta m0 \<and> provider m0 s = (z, s') \<and>
                                  ctx_Success z \<and> ctx_Metadata z = m))"

text \<open>The SSH library returns the permissions a callback returned without error, since the configuration
  does not allow clients without authentication.\<close>

definition permissions_from_callback :: "('s server_config \<Rightarrow> 's \<Rightarrow> ((go_error + Permissions) \<times> 's) go) \<Rightarrow> bool" where
  "permissions_from_callback newServerConn = (\<forall>cfg s perms s'.
     newServerConn cfg s = Ret (Inr perms, s') \<longrightarrow> \<not> NoClientAuth cfg \<longrightarrow>
     (\<exists>conn t t'.
        (\<exists>pw. PasswordCallback cfg conn pw t = Ret (Inr perms, t')) \<or>
        (\<exists>key. PublicKeyCallback cfg conn key t = Ret (Inr perms, t')) \<or>
        (\<exists>challenge. KeyboardInteractiveCallback cfg conn challenge t = Ret (Inr perms, t')) \<or>
        (\<exists>f. GSSAPI_AllowLogin cfg = Some f \<and> f conn t = Ret (Inr perms, t'))))"

lemma auth_outcome_success:
  assumes "auth_outcome n p r = Ret (Inr m)"
  shows "\<exists>e. r = (AuthResponseSuccess, m, e)"
  using assms
  by (cases r) (auto simp: auth_outcome_def wrapAndLogAuthUnavailable_def split: AuthResponse.splits option.splits)

lemma permit_success:
  assumes "go_bind x permit = Ret (Inr perms, t)"
  shows "\<exists>m. x = Ret (Inr m, t) \<and> containerssh_metadata perms = Some m"
  using assms
  by (auto elim!: go_bind_RetE simp: permit_def split: sum.splits)

lemma auth_password_success:
  assumes "behavior h = BehaviorNoPassthrough"
    and "auth_OnAuthPassword h backend p pw as = ((AuthResponseSuccess, m, e), as')"
  shows "\<exists>f s c s'. passwordAuthenticator h = Some f \<and> f p pw s = (c, s') \<and> ctx_Success c \<and> ctx_Metadata c = m"
  using assms
  by (cases as) (fastforce simp: auth_OnAuthPassword_def Let_def split: option.splits prod.splits if_splits)

lemma auth_pubkey_success:
  assumes "behavior h = BehaviorNoPassthrough"
    and "auth_OnAuthPubKey h backend p key as = ((AuthResponseSuccess, m, e), as')"
  shows "\<exists>f s c s'. publicKeyAuthenticator h = Some f \<and> f p key s = (c, s') \<and> ctx_Success c \<and> ctx_Metadata c = m"
  using assms
  by (cases as) (fastforce simp: auth_OnAuthPubKey_def Let_def split: option.splits prod.splits if_splits)

lemma auth_keyboard_success:
  assumes "behavior h = BehaviorNoPassthrough"
    and "auth_OnAuthKeyboardInteractive h backend p ch as = Ret ((AuthResponseSuccess, m, e), as')"
  shows "\<exists>f challenge s c s'. keyboardInteractiveAuthenticator h = Some f \<and> f p challenge s = Ret (c, s') \<and>
           ctx_Success c \<and> ctx_Metadata c = m"
  using assms
  by (cases as) (auto simp: auth_OnAuthKeyboardInteractive_def Let_def elim!: go_bind_RetE split: option.splits if_splits, blast)

text \<open>The handler of a connection, with and without the authorization layer.\<close>

definition layered :: "'s auth_handler \<Rightarrow> 's network_handler \<Rightarrow> ('s auth_state \<times> 's) network_handler" where
  "layered h network =
     (case authorizationProvider h of
        None \<Rightarrow> auth_network h network
      | Some provider \<Rightarrow> authz_network provider (auth_network h network))"

lemma genericAuthorization_success:
  assumes "genericAuthorization provider r as = ((AuthResponseSuccess, m, e), as')"
  shows "\<exists>m0 e0 s z s'. r = (AuthResponseSuccess, m0, e0) \<and> provider m0 s = (z, s') \<and> ctx_Success z \<and> ctx_Metadata z = m"
  using assms
  by (cases r; cases as) (fastforce simp: genericAuthorization_def Let_def split: prod.splits if_splits)

lemma may_log_in_direct:
  "authorizationProvider h = None \<Longrightarrow> interactive_login h meta m \<Longrightarrow> may_log_in h meta m"
  by (simp add: may_log_in_def)

lemma may_log_in_authorized:
  assumes "authorizationProvider h = Some provider"
    and "genericAuthorization provider r as = ((AuthResponseSuccess, m, e), as')"
    and "\<And>m0 e0. r = (AuthResponseSuccess, m0, e0) \<Longrightarrow> interactive_login h meta m0"
  shows "may_log_in h meta m"
  using genericAuthorization_success [OF assms(2)] assms(1,3) by (auto simp: may_log_in_def)

lemma authenticator_success:
  "createPasswordAuthenticator meta handler conn pw t = Ret (Inr m, t') \<Longrightarrow>
     \<exists>e. OnAuthPassword handler (StartAuthentication meta (conn_ClientVersion conn) (conn_User conn)) pw t =
           ((AuthResponseSuccess, m, e), t')"
  "createPubKeyAuthenticator meta handler conn key t = Ret (Inr m, t') \<Longrightarrow>
     \<exists>e. OnAuthPubKey handler (StartAuthentication meta (conn_ClientVersion conn) (conn_User conn)) key t =
           ((AuthResponseSuccess, m, e), t')"
  "createKeyboardInteractiveHandler meta handler conn ch t = Ret (Inr m, t') \<Longrightarrow>
     \<exists>e. OnAuthKeyboardInteractive handler (StartAuthentication meta (conn_ClientVersion conn) (conn_User conn))
           (challengeWrapper conn ch) t = Ret ((AuthResponseSuccess, m, e), t')"
  by (auto simp: createPasswordAuthenticator_def createPubKeyAuthenticator_def createKeyboardInteractiveHandler_def
      Let_def elim!: go_bind_RetE dest!: auth_outcome_success split: prod.splits)

lemma password_login:
  assumes "behavior h = BehaviorNoPassthrough"
    and "createPasswordAuthenticator meta (layered h network) conn pw t = Ret (Inr m, t')"
  shows "may_log_in h meta m"
proof -
  let ?p = "StartAuthentication meta (conn_ClientVersion conn) (conn_User conn)"
  have inner: "interactive_login h meta m0" if "fst (auth_OnAuthPassword h network ?p pw t) = (AuthResponseSuccess, m0, e0)" for m0 e0
    using auth_password_success [OF assms(1), of network ?p pw t m0 e0] that
    by (cases "auth_OnAuthPassword h network ?p pw t") (auto simp: interactive_login_def Let_def, blast)
  show ?thesis
    using authenticator_success(1) [OF assms(2)] inner
    by (cases "authorizationProvider h"; cases "auth_OnAuthPassword h network ?p pw t")
      (auto simp: layered_def auth_network_def authz_network_def intro: may_log_in_direct may_log_in_authorized)
qed

lemma pubkey_login:
  assumes "behavior h = BehaviorNoPassthrough"
    and "createPubKeyAuthenticator meta (layered h network) conn key t = Ret (Inr m, t')"
  shows "may_log_in h meta m"
proof -
  let ?p = "StartAuthentication meta (conn_ClientVersion conn) (conn_User conn)"
  have inner: "interactive_login h meta m0" if "fst (auth_OnAuthPubKey h network ?p key t) = (AuthResponseSuccess, m0, e0)" for m0 e0
    using auth_pubkey_success [OF assms(1), of network ?p key t m0 e0] that
    by (cases "auth_OnAuthPubKey h network ?p key t") (auto simp: interactive_login_def Let_def, blast)
  show ?thesis
    using authenticator_success(2) [OF assms(2)] inner
    by (cases "authorizationProvider h"; cases "auth_OnAuthPubKey h network ?p key t")
      (auto simp: layered_def auth_network_def authz_network_def intro: may_log_in_direct may_log_in_authorized)
qed

lemma keyboard_login:
  assumes "behavior h = BehaviorNoPassthrough"
    and "createKeyboardInteractiveHandler meta (layered h network) conn ch t = Ret (Inr m, t')"
  shows "may_log_in h meta m"
proof -
  let ?p = "StartAuthentication meta (conn_ClientVersion conn) (conn_User conn)"
  let ?r = "auth_OnAuthKeyboardInteractive h network ?p (challengeWrapper conn ch) t"
  have inner: "interactive_login h meta m0" if "?r = Ret ((AuthResponseSuccess, m0, e0), t0)" for m0 e0 t0
    using auth_keyboard_success [OF assms(1) that] by (auto simp: interactive_login_def Let_def, blast)
  obtain e where res: "OnAuthKeyboardInteractive (layered h network) ?p (challengeWrapper conn ch) t =
      Ret ((AuthResponseSuccess, m, e), t')"
    using authenticator_success(3) [OF assms(2)] by blast
  show ?thesis
  proof (cases "authorizationProvider h")
    case None
    then have "?r = Ret ((AuthResponseSuccess, m, e), t')"
      using res by (simp add: layered_def auth_network_def)
    then show ?thesis by (intro may_log_in_direct [OF None] inner)
  next
    case (Some provider)
    then obtain r as where r: "?r = Ret (r, as)" "genericAuthorization provider r as = ((AuthResponseSuccess, m, e), t')"
      using res by (auto simp: layered_def auth_network_def authz_network_def elim!: go_bind_RetE)
    show ?thesis
      using inner r(1) by (intro may_log_in_authorized [OF Some r(2)]) simp
  qed
qed

text \<open>GSSAPI gives a permission only without the authorization layer.\<close>

lemma gssapi_no_permission_behind_authz:
  "gss_AllowLogin meta (authzGssApiServer g None) conn t \<noteq> Ret (Inr perms, t')"
  by (auto simp: gss_AllowLogin_def authzGssApiServer_def Let_def elim!: go_bind_RetE split: option.splits if_splits)

lemma gss_AllowLogin_success:
  assumes "gss_AllowLogin meta g conn t = Ret (Inr perms, t')"
  shows "\<exists>m. containerssh_metadata perms = Some m \<and> gss_Success g t = Ret True \<and>
    AllowLogin g (conn_User conn) (StartAuthentication meta (conn_ClientVersion conn) (conn_User conn)) t = Ret ((m, None), t')"
  using assms by (auto simp: gss_AllowLogin_def Let_def elim!: go_bind_RetE split: option.splits if_splits)

lemma gssapi_permission_login:
  assumes "GSSAPI_AllowLogin (createConfiguration meta (layered h network)) = Some f" and "f conn t = Ret (Inr perms, t')"
  shows "\<exists>m. containerssh_metadata perms = Some m \<and> may_log_in h meta m"
proof (cases "authorizationProvider h")
  case None
  then obtain g where g: "gssapiAuthenticator h = Some g" and f: "f = gss_AllowLogin meta (lift_gssapi (g meta))"
    using assms(1) by (auto simp: createConfiguration_def layered_def auth_network_def)
  obtain m where m: "containerssh_metadata perms = Some m"
    and "gss_Success (lift_gssapi (g meta)) t = Ret True"
    and "AllowLogin (lift_gssapi (g meta)) (conn_User conn)
      (StartAuthentication meta (conn_ClientVersion conn) (conn_User conn)) t = Ret ((m, None), t')"
    using gss_AllowLogin_success [of meta "lift_gssapi (g meta)" conn t perms t'] assms(2) f by auto
  then have "gssapi_login h meta m"
    using g by (auto simp: gssapi_login_def lift_gssapi_def go_snd_def elim!: go_bind_RetE)
  then show ?thesis using m None by (auto simp: may_log_in_def)
next
  case (Some provider)
  then show ?thesis
    using assms
    by (auto simp: createConfiguration_def layered_def authz_network_def gssapi_no_permission_behind_authz)
qed

lemma permission_login:
  assumes "permissions_from_callback newServerConn" and "behavior h = BehaviorNoPassthrough"
    and "newServerConn (createConfiguration meta (layered h network)) s = Ret (Inr perms, s')"
  shows "\<exists>m. containerssh_metadata perms = Some m \<and> may_log_in h meta m"
proof -
  let ?cfg = "createConfiguration meta (layered h network)"
  have "\<not> NoClientAuth ?cfg" by (simp add: createConfiguration_def)
  from assms(1) [unfolded permissions_from_callback_def, rule_format, OF assms(3) this]
  consider (pw) conn pw t t' where "PasswordCallback ?cfg conn pw t = Ret (Inr perms, t')"
    | (key) conn key t t' where "PublicKeyCallback ?cfg conn key t = Ret (Inr perms, t')"
    | (ki) conn ch t t' where "KeyboardInteractiveCallback ?cfg conn ch t = Ret (Inr perms, t')"
    | (gss) f conn t t' where "GSSAPI_AllowLogin ?cfg = Some f" "f conn t = Ret (Inr perms, t')"
    by (elim exE disjE conjE)
  then show ?thesis
  proof cases
    case pw
    then have "go_bind (createPasswordAuthenticator meta (layered h network) conn pw t) permit = Ret (Inr perms, t')"
      by (simp add: createConfiguration_def createPasswordCallback_def)
    from permit_success [OF this] show ?thesis
      using password_login [OF assms(2)] by blast
  next
    case key
    then have "go_bind (createPubKeyAuthenticator meta (layered h network) conn key t) permit = Ret (Inr perms, t')"
      by (simp add: createConfiguration_def createPubKeyCallback_def)
    from permit_success [OF this] show ?thesis
      using pubkey_login [OF assms(2)] by blast
  next
    case ki
    then have "go_bind (createKeyboardInteractiveHandler meta (layered h network) conn ch t) permit = Ret (Inr perms, t')"
      by (simp add: createConfiguration_def createKeyboardInteractiveCallback_def)
    from permit_success [OF this] show ?thesis
      using keyboard_login [OF assms(2)] by blast
  next
    case gss
    then show ?thesis by (rule gssapi_permission_login)
  qed
qed

lemma auth_OnNetworkConnection_eq:
  "auth_OnNetworkConnection h backend meta as = (Inr (handler, meta'), as') \<longleftrightarrow>
     (\<exists>network s'. backend meta (snd as) = (Inr (network, meta'), s') \<and> handler = layered h network \<and> as' = (no_auth_yet, s'))"
  by (auto simp: auth_OnNetworkConnection_def layered_def split: prod.splits sum.splits)

lemma handleConnection_Established:
  assumes "handleConnection onc newServerConn addr cid tbl s = Ret (Established m, tbl', s')"
  shows "\<exists>handler meta s1 perms s2 m0.
    onc \<lparr>RemoteAddr = addr, ConnectionID = cid, Metadata = Some Map.empty, Environment = Some Map.empty, Files = Some Map.empty\<rparr> s =
      (Inr (handler, meta), s1) \<and>
    newServerConn (createConfiguration meta handler) s1 = Ret (Inr perms, s2) \<and>
    containerssh_metadata perms = Some m0 \<and> json_reload m0 = Inr m \<and>
    OnHandshakeSuccess handler m s2 = (None, s')"
  using assms
  by (auto simp: handleConnection_def abortCleanup_def Let_def elim!: go_bind_RetE split: prod.splits sum.splits option.splits)

section \<open>Samples\<close>

text \<open>A user \<open>alice\<close> whose password is one zero byte, a backend that takes everyone, and a client that logs
  in with that password.\<close>

definition sample_backend :: "ConnectionMetadata \<Rightarrow> unit \<Rightarrow> (go_error + unit network_handler \<times> ConnectionMetadata) \<times> unit" where
  "sample_backend meta s = (Inr (AbstractNetworkConnectionHandler\<lparr>OnHandshakeSuccess := (\<lambda>m s. (None, s))\<rparr>, meta), s)"

definition sample_context :: "ConnectionAuthPendingMetadata \<Rightarrow> bool \<Rightarrow> unit AuthenticationContext" where
  "sample_context pending ok =
     \<lparr>ctx_Success = ok, ctx_Error = None, ctx_Metadata = (if ok then Authenticated pending (Username pending) else AuthFailed pending),
      ctx_OnDisconnect = (\<lambda>s. s)\<rparr>"

definition sample_auth :: "unit auth_handler" where
  "sample_auth =
     \<lparr>passwordAuthenticator = Some (\<lambda>pending pw s. (sample_context pending (Username pending = ''alice'' \<and> pw = [0]), s)),
      publicKeyAuthenticator = None, keyboardInteractiveAuthenticator = None, gssapiAuthenticator = None,
      authorizationProvider = None, behavior = BehaviorNoPassthrough\<rparr>"

definition sample_client :: ssh_conn where
  "sample_client = \<lparr>conn_User = ''alice'', conn_ClientVersion = ''SSH-2.0-Test''\<rparr>"

text \<open>A library that tries the password \<open>pw\<close> and nothing else.\<close>

definition password_client :: "bytes \<Rightarrow> 's server_config \<Rightarrow> 's \<Rightarrow> ((go_error + Permissions) \<times> 's) go" where
  "password_client pw cfg s = PasswordCallback cfg sample_client pw s"

lemma password_client_permissions: "permissions_from_callback (password_client pw)"
  unfolding permissions_from_callback_def password_client_def by (intro allI impI) (rule exI, rule exI, rule exI, rule disjI1, rule exI)

definition sample_addr :: RemoteAddress where
  "sample_addr = \<lparr>IP = [127, 0, 0, 1], Port = 40000\<rparr>"

definition sample_table :: conn_table where
  "sample_table = \<lparr>conn_wg = 1, shutdown_keys = {}, clientSockets = {}, conn_ids = {}\<rparr>"

lemmas sample_auth_defs = sample_backend_def sample_context_def sample_auth_def sample_client_def password_client_def
  sample_addr_def sample_table_def handleConnection_def auth_OnNetworkConnection_def createConfiguration_def
  createPasswordCallback_def createPasswordAuthenticator_def auth_network_def auth_OnAuthPassword_def no_auth_yet_def
  disconnect_context_def auth_outcome_def permit_def json_reload_def abortCleanup_def Done_def on_snd_def
  AbstractNetworkConnectionHandler_def Let_def

definition sample_metadata :: ConnectionAuthenticatedMetadata where
  "sample_metadata =
     \<lparr>RemoteAddr = \<lparr>IP = [0, 0, 0, 0, 0, 0, 0, 0, 0, 0, 255, 255, 127, 0, 0, 1], Port = 40000\<rparr>,
      ConnectionID = ''0a'', Metadata = None, Environment = None, Files = None,
      ClientVersion = ''SSH-2.0-Test'', Username = ''alice'', AuthenticatedUsername = ''alice''\<rparr>"

lemma sample_login:
  "\<exists>tbl' s'. handleConnection (auth_OnNetworkConnection sample_auth sample_backend) (password_client [0]) sample_addr ''0a''
     sample_table (no_auth_yet, ()) = Ret (Established sample_metadata, tbl', s')"
  by (simp add: sample_auth_defs sample_metadata_def StartAuthentication_def Authenticated_def AuthFailed_def
      ConnectionMetadata.defs ConnectionAuthPendingMetadata.defs ConnectionAuthenticatedMetadata.defs to16_def omit_empty_def)

text \<open>C2: A connection is established only for a user an authenticator accepted. With a handler that passes nothing
  through to its backend, an established connection has the metadata, as it comes back from its JSON form, that a
  configured authenticator returned with success for this very connection; and when an authorization provider
  is set, it is the metadata with which the provider approved the authenticated user. GSSAPI is one of the ways
  in only when there is no provider.\<close>
theorem login_requires_authentication:
  assumes "permissions_from_callback newServerConn"
    and "behavior h = BehaviorNoPassthrough"
    and "handleConnection (auth_OnNetworkConnection h backend) newServerConn addr cid tbl as = Ret (Established m, tbl', as')"
  shows "\<exists>network meta s s' m0.
    backend \<lparr>RemoteAddr = addr, ConnectionID = cid, Metadata = Some Map.empty, Environment = Some Map.empty, Files = Some Map.empty\<rparr> s =
      (Inr (network, meta), s') \<and>
    may_log_in h meta m0 \<and> json_reload m0 = Inr m"
proof -
  obtain network meta s1 perms s2 m0
    where net: "backend \<lparr>RemoteAddr = addr, ConnectionID = cid, Metadata = Some Map.empty, Environment = Some Map.empty, Files = Some Map.empty\<rparr> (snd as) =
        (Inr (network, meta), s1)"
      and lib: "newServerConn (createConfiguration meta (layered h network)) (no_auth_yet, s1) = Ret (Inr perms, s2)"
      and m0: "containerssh_metadata perms = Some m0" "json_reload m0 = Inr m"
    using handleConnection_Established [OF assms(3)] by (auto simp: auth_OnNetworkConnection_eq)
  from permission_login [OF assms(1,2) lib] m0 have "may_log_in h meta m0" by auto
  with net m0 show ?thesis by blast
qed

theorem login_requires_authentication_witness:
  "\<exists>network meta s s' m0.
     sample_backend \<lparr>RemoteAddr = sample_addr, ConnectionID = ''0a'', Metadata = Some Map.empty, Environment = Some Map.empty, Files = Some Map.empty\<rparr> s =
       (Inr (network, meta), s') \<and>
     may_log_in sample_auth meta m0 \<and> json_reload m0 = Inr sample_metadata"
proof -
  obtain tbl' as' where "handleConnection (auth_OnNetworkConnection sample_auth sample_backend) (password_client [0]) sample_addr ''0a''
      sample_table (no_auth_yet, ()) = Ret (Established sample_metadata, tbl', as')"
    using sample_login by blast
  moreover have "behavior sample_auth = BehaviorNoPassthrough" by (simp add: sample_auth_def)
  ultimately show ?thesis
    using login_requires_authentication [OF password_client_permissions] by blast
qed

section \<open>What is left of a connection\<close>

lemma keys_differ [simp]: "network_key c \<noteq> ssh_key d"
  by (simp add: network_key_def ssh_key_def)

lemma handleConnection_table:
  assumes "0 < conn_wg tbl" and "network_key cid \<notin> shutdown_keys tbl"
    and "handleConnection onc newServerConn addr cid tbl s = Ret (out, tbl', s')"
  shows "tbl' = (case out of
      Established m \<Rightarrow> tbl\<lparr>shutdown_keys := insert (network_key cid) (shutdown_keys tbl),
        clientSockets := insert cid (clientSockets tbl), conn_ids := insert cid (conn_ids tbl)\<rparr>
    | _ \<Rightarrow> tbl\<lparr>conn_wg := conn_wg tbl - 1\<rparr>)"
  using assms
  by (auto simp: handleConnection_def abortCleanup_def Done_def Let_def elim!: go_bind_RetE
      split: prod.splits sum.splits option.splits)

section \<open>Keep-alive\<close>

definition unanswered :: "nat \<Rightarrow> bool list \<Rightarrow> nat \<Rightarrow> bool" where
  "unanswered n errs k \<longleftrightarrow> n \<le> k \<and> k \<le> length errs \<and> (\<forall>i. k - n \<le> i \<and> i < k \<longrightarrow> errs ! i)"

lemma unanswered_append:
  "k \<le> length xs \<Longrightarrow> unanswered n (xs @ ys) k = unanswered n xs k"
  by (auto simp: unanswered_def nth_append)

text \<open>The counter of missed answers is the length of the run of errors at the end of what was sent.\<close>

definition missed :: "nat \<Rightarrow> bool list \<Rightarrow> bool" where
  "missed m pre \<longleftrightarrow> m \<le> length pre \<and> (\<forall>i. length pre - m \<le> i \<and> i < length pre \<longrightarrow> pre ! i) \<and>
     (m < length pre \<longrightarrow> \<not> pre ! (length pre - m - 1))"

lemma missed_error: "missed m pre \<Longrightarrow> missed (Suc m) (pre @ [True])"
  by (auto simp: missed_def nth_append)

lemma missed_answer: "missed 0 (pre @ [False])"
  by (auto simp: missed_def)

lemma missed_unanswered:
  assumes "missed m pre" and "0 < n"
  shows "unanswered n pre (length pre) \<longleftrightarrow> n \<le> m"
proof
  assume u: "unanswered n pre (length pre)"
  show "n \<le> m"
  proof (rule ccontr)
    assume "\<not> n \<le> m"
    with u assms have "m < length pre" "length pre - n \<le> length pre - m - 1" "length pre - m - 1 < length pre"
      by (auto simp: unanswered_def)
    then show False
      using u assms(1) by (auto simp: unanswered_def missed_def)
  qed
next
  assume "n \<le> m"
  then show "unanswered n pre (length pre)"
    using assms(1) by (auto simp: missed_def unanswered_def)
qed

definition closes_at :: "nat \<Rightarrow> bool list \<Rightarrow> nat option \<Rightarrow> bool" where
  "closes_at n errs r =
     (case r of
        None \<Rightarrow> \<forall>k. \<not> unanswered n errs k
      | Some k \<Rightarrow> unanswered n errs k \<and> (\<forall>j<k. \<not> unanswered n errs j))"

lemma quiet_extend:
  assumes "\<forall>j\<le>length pre. \<not> unanswered n pre j" and "\<not> unanswered n (pre @ [y]) (Suc (length pre))"
  shows "\<forall>j\<le>length (pre @ [y]). \<not> unanswered n (pre @ [y]) j"
  using assms by (auto simp: le_Suc_eq unanswered_append)

lemma keepalive_closes_from:
  assumes "0 < n" and "missed m pre" and "\<forall>j\<le>length pre. \<not> unanswered n pre j" and "m < n"
  shows "closes_at n (pre @ errs) (map_option (\<lambda>k. length pre + k) (keepalive (int n) (int m) errs))"
  using assms(2-)
proof (induction errs arbitrary: m pre)
  case Nil
  then show ?case
    by (auto simp: closes_at_def) (meson linorder_le_less_linear not_le unanswered_def)
next
  case (Cons err errs)
  have shift: "map_option (\<lambda>k. length pre + k) (map_option Suc r) = map_option (\<lambda>k. length (pre @ [err]) + k) r" for r
    by (cases r) auto
  show ?case
  proof (cases "err \<and> n \<le> Suc m")
    case True
    have "unanswered n (pre @ [True]) (length (pre @ [True]))"
      using missed_unanswered [OF missed_error [OF Cons.prems(1)] assms(1)] True by simp
    then have "unanswered n ((pre @ [True]) @ errs) (Suc (length pre))"
      by (subst unanswered_append) auto
    moreover have "\<not> unanswered n (pre @ True # errs) j" if "j < Suc (length pre)" for j
      using Cons.prems(2) that by (simp add: unanswered_append less_Suc_eq_le)
    ultimately show ?thesis
      using True by (simp add: closes_at_def)
  next
    case False
    let ?m = "if err then Suc m else 0"
    have m: "missed ?m (pre @ [err])" "?m < n"
      using Cons.prems(1) False assms(1) by (auto simp: missed_error missed_answer)
    have "\<not> unanswered n (pre @ [err]) (Suc (length pre))"
      using missed_unanswered [OF m(1) assms(1)] m(2) by simp
    from Cons.IH [OF m(1) quiet_extend [OF Cons.prems(2) this] m(2)]
    have "closes_at n (pre @ err # errs) (map_option (\<lambda>k. length (pre @ [err]) + k) (keepalive (int n) (int ?m) errs))"
      by simp
    moreover have "keepalive (int n) (int m) (err # errs) = map_option Suc (keepalive (int n) (int ?m) errs)"
      using False by (auto simp: add.commute)
    ultimately show ?thesis by (simp only: shift)
  qed
qed

text \<open>The keep-alive loop closes a connection after exactly \<open>ClientAliveCountMax\<close> unanswered requests in a
  row: it closes at the first request that ends such a run, and never if there is none.\<close>
theorem keepalive_closes:
  assumes "0 < n"
  shows "keepalive (int n) 0 errs =
    (if \<exists>k. unanswered n errs k then Some (LEAST k. unanswered n errs k) else None)"
proof -
  have "closes_at n errs (keepalive (int n) 0 errs)"
    using keepalive_closes_from [of n 0 "[]" errs] assms
    by (simp add: missed_def unanswered_def option.map_id [unfolded id_def])
  then show ?thesis
    by (cases "keepalive (int n) 0 errs")
      (auto simp: closes_at_def intro!: Least_equality [symmetric] leI)
qed

theorem keepalive_closes_witness:
  "keepalive (int 2) 0 [True, False, True, True, False] =
     (if \<exists>k. unanswered 2 [True, False, True, True, False] k
      then Some (LEAST k. unanswered 2 [True, False, True, True, False] k) else None) \<and>
   keepalive 2 0 [True, False, True, True, False] = Some 4"
proof
  show "keepalive (int 2) 0 [True, False, True, True, False] =
     (if \<exists>k. unanswered 2 [True, False, True, True, False] k
      then Some (LEAST k. unanswered 2 [True, False, True, True, False] k) else None)"
    by (rule keepalive_closes) simp
  show "keepalive 2 0 [True, False, True, True, False] = Some 4" by simp
qed

text \<open>C38: A connection that is rejected or whose handshake fails leaves nothing behind in the server. One that was
  established leaves, once it has ended, the shutdown registry as it was, provided it was registered before
  the end was noticed; in the other order its SSH handler stays registered. In both orders its socket and its entry
  in the map of connections stay: nothing removes them.\<close>
theorem connection_cleanup:
  assumes "0 < conn_wg tbl" and "network_key cid \<notin> shutdown_keys tbl" and "ssh_key cid \<notin> shutdown_keys tbl"
    and "handleConnection onc newServerConn addr cid tbl s = Ret (out, tbl', s')"
  shows "case out of
      NetworkRejected err \<Rightarrow> tbl' = tbl\<lparr>conn_wg := conn_wg tbl - 1\<rparr>
    | HandshakeAborted err \<Rightarrow> tbl' = tbl\<lparr>conn_wg := conn_wg tbl - 1\<rparr>
    | Established m \<Rightarrow>
        let ended = tbl\<lparr>conn_wg := conn_wg tbl - 1, clientSockets := insert cid (clientSockets tbl),
              conn_ids := insert cid (conn_ids tbl)\<rparr>
        in connection_ended handler cid (register_connection cid tbl') s' = Ret (ended, OnDisconnect handler s') \<and>
           go_bind (connection_ended handler cid tbl' s') (\<lambda>(tbl, s). Ret (register_connection cid tbl, s)) =
             Ret (ended\<lparr>shutdown_keys := insert (ssh_key cid) (shutdown_keys tbl)\<rparr>, OnDisconnect handler s')"
  using handleConnection_table [OF assms(1,2,4)] assms(1-3)
  by (auto simp: connection_ended_def register_connection_def Done_def Let_def insert_Diff_if insert_commute
      split: connection_outcome.splits)

theorem connection_cleanup_witness:
  "\<exists>tbl' as'.
     handleConnection (auth_OnNetworkConnection sample_auth sample_backend) (password_client [0]) sample_addr ''0a''
       sample_table (no_auth_yet, ()) = Ret (Established sample_metadata, tbl', as') \<and>
     connection_ended AbstractNetworkConnectionHandler ''0a'' (register_connection ''0a'' tbl') as' =
       Ret (sample_table\<lparr>conn_wg := 0, clientSockets := {''0a''}, conn_ids := {''0a''}\<rparr>, as')"
proof -
  obtain tbl' as' where run: "handleConnection (auth_OnNetworkConnection sample_auth sample_backend) (password_client [0])
      sample_addr ''0a'' sample_table (no_auth_yet, ()) = Ret (Established sample_metadata, tbl', as')"
    using sample_login by blast
  have "0 < conn_wg sample_table" "network_key ''0a'' \<notin> shutdown_keys sample_table" "ssh_key ''0a'' \<notin> shutdown_keys sample_table"
    by (simp_all add: sample_table_def)
  from connection_cleanup [OF this run, of AbstractNetworkConnectionHandler] run show ?thesis
    by (intro exI [of _ tbl'] exI [of _ as']) (simp add: Let_def sample_table_def AbstractNetworkConnectionHandler_def)
qed

text \<open>C39: Behind the authorization layer GSSAPI is always on offer and never lets anyone in: the layer wraps the
  GSSAPI server of the backend without giving it the authorization provider. When the backend has no GSSAPI
  server either, the first token a client sends is a nil dereference in the server.\<close>
theorem gssapi_behind_authorization:
  assumes "authorizationProvider h = Some provider"
    and "auth_OnNetworkConnection h backend meta as = (Inr (handler, meta'), as')"
  shows "\<exists>g f. gss_Server (createConfiguration meta' handler) = Some g \<and>
    GSSAPI_AllowLogin (createConfiguration meta' handler) = Some f \<and>
    (\<forall>conn t perms t'. f conn t \<noteq> Ret (Inr perms, t')) \<and>
    (gssapiAuthenticator h = None \<longrightarrow> (\<forall>token t. AcceptSecContext g token t = Panic nil_pointer))"
  using assms
  by (auto simp: auth_OnNetworkConnection_eq layered_def createConfiguration_def authz_network_def
      gssapi_no_permission_behind_authz auth_network_def)
    (simp add: authzGssApiServer_def)

definition sample_authz :: "unit auth_handler" where
  "sample_authz = sample_auth\<lparr>authorizationProvider := Some (\<lambda>m s.
     (\<lparr>ctx_Success = True, ctx_Error = None, ctx_Metadata = m, ctx_OnDisconnect = (\<lambda>s. s)\<rparr>, s))\<rparr>"

theorem gssapi_behind_authorization_witness:
  "\<exists>handler meta' as' g.
     auth_OnNetworkConnection sample_authz sample_backend
       \<lparr>RemoteAddr = sample_addr, ConnectionID = ''0a'', Metadata = None, Environment = None, Files = None\<rparr> (no_auth_yet, ()) =
       (Inr (handler, meta'), as') \<and>
     gss_Server (createConfiguration meta' handler) = Some g \<and> AcceptSecContext g [1] as' = Panic nil_pointer"
proof -
  let ?meta = "\<lparr>RemoteAddr = sample_addr, ConnectionID = ''0a'', Metadata = None, Environment = None, Files = None\<rparr>"
  obtain handler meta' as' where run: "auth_OnNetworkConnection sample_authz sample_backend ?meta (no_auth_yet, ()) =
      (Inr (handler, meta'), as')"
    by (simp add: auth_OnNetworkConnection_def sample_backend_def)
  have "authorizationProvider sample_authz \<noteq> None" "gssapiAuthenticator sample_authz = None"
    by (simp_all add: sample_authz_def sample_auth_def)
  then show ?thesis
    using gssapi_behind_authorization [OF _ run] run by fastforce
qed

end
