(* ===== verification/Auth_Clients.thy ===== *)
theory Auth_Clients
  imports Authentication
begin

text \<open>
  The clients of \<open>internal/auth\<close> that decide on a login: the webhook client and the webhook server it talks
  to, Kerberos, and OAuth2. The HTTP client, the Kerberos library and the OAuth2 flows are parameters.
\<close>

section \<open>The webhook client\<close>

text \<open>One attempt of the client: the status and body of the answer or an error of the HTTP client, and
  whether the time for the authentication is over afterwards.\<close>

record ResponseBody =
  resp_meta :: ConnectionAuthenticatedMetadata
  resp_Success :: bool

record attempt =
  att_response :: "go_error + int \<times> ResponseBody"
  att_expired :: bool

definition authServerRequest :: "go_error + int \<times> ResponseBody \<Rightarrow> go_error + ResponseBody" where
  "authServerRequest r =
     (case r of
        Inl err \<Rightarrow> Inl err
      | Inr (statusCode, body) \<Rightarrow>
          if statusCode \<noteq> 200
          then Inl (UserMessage ''AUTH_INVALID_STATUS'' ''Cannot authenticate at this time.''
                 (''auth server responded with an invalid status code: '' @ itoa statusCode))
          else Inr body)"

definition webhookClientContext :: "ConnectionAuthenticatedMetadata \<Rightarrow> bool \<Rightarrow> go_error option \<Rightarrow> 's AuthenticationContext" where
  "webhookClientContext meta success err =
     \<lparr>ctx_Success = success, ctx_Error = err, ctx_Metadata = meta, ctx_OnDisconnect = (\<lambda>s. s)\<rparr>"

text \<open>The retry loop, over the attempts that are made; when there is no further attempt it has not returned.\<close>

fun processAuthWithRetry ::
    "ConnectionAuthPendingMetadata \<Rightarrow> string \<Rightarrow> attempt list \<Rightarrow> 's AuthenticationContext go" where
  "processAuthWithRetry meta lmethod [] = Block"
| "processAuthWithRetry meta lmethod (att # rest) =
     (case authServerRequest (att_response att) of
        Inr body \<Rightarrow> Ret (webhookClientContext (Merge (Authenticated meta '''') (resp_meta body)) (resp_Success body) None)
      | Inl err \<Rightarrow>
          if att_expired att
          then Ret (webhookClientContext (AuthFailed meta) False
                 (Some (Wrap err ''AUTH_BACKEND_ERROR''
                    (''Backend request for '' @ lmethod @ '' authentication failed, giving up''))))
          else processAuthWithRetry meta lmethod rest)"

definition pending_of :: "ConnectionAuthenticatedMetadata \<Rightarrow> ConnectionAuthPendingMetadata" where
  "pending_of m = ConnectionAuthPendingMetadata.truncate m"

fun processAuthzWithRetry ::
    "ConnectionAuthenticatedMetadata \<Rightarrow> attempt list \<Rightarrow> 's AuthenticationContext go" where
  "processAuthzWithRetry meta [] = Block"
| "processAuthzWithRetry meta (att # rest) =
     (case authServerRequest (att_response att) of
        Inr body \<Rightarrow>
          Ret (webhookClientContext (Merge (Authenticated (pending_of meta) '''') (resp_meta body)) (resp_Success body) None)
      | Inl err \<Rightarrow>
          if att_expired att
          then Ret (webhookClientContext (AuthFailed (pending_of meta)) False
                 (Some (Wrap err ''AUTH_BACKEND_ERROR'' ''Backend request for authorization failed, giving up'')))
          else processAuthzWithRetry meta rest)"

record webhookClient =
  enablePassword :: bool
  enablePubKey :: bool
  enableAuthz :: bool

definition NewWebhookClient :: "string \<Rightarrow> webhookClient" where
  "NewWebhookClient authType =
     \<lparr>enablePassword = (authType = ''password'' \<or> authType = ''''),
      enablePubKey = (authType = ''pubkey'' \<or> authType = ''''),
      enableAuthz = (authType = ''authz'' \<or> authType = '''')\<rparr>"

definition Password :: "webhookClient \<Rightarrow> ConnectionAuthPendingMetadata \<Rightarrow> attempt list \<Rightarrow> 's AuthenticationContext go" where
  "Password client meta atts =
     (if \<not> enablePassword client
      then Ret (webhookClientContext (AuthFailed meta) False
             (Some (UserMessage ''AUTH_DISABLED'' ''Password authentication failed.'' ''Password authentication is disabled.'')))
      else processAuthWithRetry meta ''password'' atts)"

definition PubKey :: "webhookClient \<Rightarrow> ConnectionAuthPendingMetadata \<Rightarrow> attempt list \<Rightarrow> 's AuthenticationContext go" where
  "PubKey client meta atts =
     (if \<not> enablePubKey client
      then Ret (webhookClientContext (AuthFailed meta) False
             (Some (UserMessage ''AUTH_DISABLED'' ''Public key authentication failed.'' ''Public key authentication is disabled.'')))
      else processAuthWithRetry meta ''public key'' atts)"

definition Authorize :: "webhookClient \<Rightarrow> ConnectionAuthenticatedMetadata \<Rightarrow> attempt list \<Rightarrow> 's AuthenticationContext go" where
  "Authorize client meta atts =
     (if \<not> enableAuthz client
      then Ret (webhookClientContext (AuthFailed (pending_of meta)) False
             (Some (UserMessage ''AUTH_DISABLED'' ''Authorization failed.'' ''Authorization is disabled.'')))
      else processAuthzWithRetry meta atts)"

section \<open>The webhook server\<close>

text \<open>The handler of an authentication server built with the library: the request as it was decoded, and the
  status and body of the response; no answer of the backend means that the request ends in an error.\<close>

record 's auth_backend =
  OnAuthorization :: "ConnectionAuthenticatedMetadata \<Rightarrow> 's \<Rightarrow> (bool \<times> ConnectionAuthenticatedMetadata \<times> go_error option) \<times> 's"
  OnPassword :: "ConnectionAuthPendingMetadata \<Rightarrow> bytes \<Rightarrow> 's \<Rightarrow> (bool \<times> ConnectionAuthenticatedMetadata \<times> go_error option) \<times> 's"
  OnPubKey :: "ConnectionAuthPendingMetadata \<Rightarrow> string \<Rightarrow> 's \<Rightarrow> (bool \<times> ConnectionAuthenticatedMetadata \<times> go_error option) \<times> 's"

record http_response =
  http_status :: int
  http_body :: ResponseBody

definition respond :: "ConnectionAuthenticatedMetadata option \<Rightarrow> bool \<times> ConnectionAuthenticatedMetadata \<times> go_error option \<Rightarrow> http_response" where
  "respond on_error r =
     (case r of (success, meta, err) \<Rightarrow>
        if err \<noteq> None
        then \<lparr>http_status = 500, http_body = \<lparr>resp_meta = (case on_error of None \<Rightarrow> meta | Some m \<Rightarrow> m), resp_Success = False\<rparr>\<rparr>
        else \<lparr>http_status = 200, http_body = \<lparr>resp_meta = meta, resp_Success = success\<rparr>\<rparr>)"

definition authz_OnRequest ::
    "'s auth_backend \<Rightarrow> go_error + ConnectionAuthenticatedMetadata \<Rightarrow> 's \<Rightarrow> (go_error + http_response) \<times> 's" where
  "authz_OnRequest backend request s =
     (case request of
        Inl err \<Rightarrow> (Inl err, s)
      | Inr requestObject \<Rightarrow>
          (case OnAuthorization backend requestObject s of (r, s) \<Rightarrow> (Inr (respond (Some requestObject) r), s)))"

text \<open>The password arrives as base64 text; \<open>Inr (Inl err)\<close> is a text that is not base64.\<close>

definition password_OnRequest ::
    "'s auth_backend \<Rightarrow> go_error + ConnectionAuthPendingMetadata \<times> (go_error + bytes) \<Rightarrow> 's \<Rightarrow> (go_error + http_response) \<times> 's" where
  "password_OnRequest backend request s =
     (case request of
        Inl err \<Rightarrow> (Inl err, s)
      | Inr (meta, Inl err) \<Rightarrow> (Inl (ErrorString (''failed to decode password ('' @ error_text err @ '')'')), s)
      | Inr (meta, Inr password) \<Rightarrow>
          (case OnPassword backend meta password s of (r, s) \<Rightarrow> (Inr (respond None r), s)))"

definition pubkey_OnRequest ::
    "'s auth_backend \<Rightarrow> go_error + ConnectionAuthPendingMetadata \<times> string \<Rightarrow> 's \<Rightarrow> (go_error + http_response) \<times> 's" where
  "pubkey_OnRequest backend request s =
     (case request of
        Inl err \<Rightarrow> (Inl err, s)
      | Inr (meta, key) \<Rightarrow> (case OnPubKey backend meta key s of (r, s) \<Rightarrow> (Inr (respond None r), s)))"

datatype endpoint = AuthzHandler | PasswordHandler | PubKeyHandler | NotFound

definition ServeHTTP :: "string \<Rightarrow> endpoint" where
  "ServeHTTP path =
     (let name = last (split_on CHR ''/'' path)
      in if name = ''authz'' then AuthzHandler
         else if name = ''password'' then PasswordHandler
         else if name = ''pubkey'' then PubKeyHandler
         else NotFound)"

section \<open>Kerberos\<close>

record kerberos_config =
  EnforceUsername :: bool
  CredentialCachePath :: string

record kerberosAuthClient =
  krb_config :: kerberos_config
  krb_authType :: string

record kerberosAuthContext =
  krb_client :: "kerberosAuthClient option"
  krb_key :: bytes
  principalUsername :: string
  loginUsername :: string
  credentials :: "bytes option"
  krb_meta :: ConnectionAuthenticatedMetadata
  krb_success :: bool
  krb_err :: "go_error option"

text \<open>The zero values of Go.\<close>

definition zero_metadata :: ConnectionAuthenticatedMetadata where
  "zero_metadata = \<lparr>RemoteAddr = \<lparr>IP = [], Port = 0\<rparr>, ConnectionID = '''', Metadata = None, Environment = None, Files = None,
     ClientVersion = '''', Username = '''', AuthenticatedUsername = ''''\<rparr>"

definition zero_context :: kerberosAuthContext where
  "zero_context = \<lparr>krb_client = None, krb_key = [], principalUsername = '''', loginUsername = '''', credentials = None,
     krb_meta = zero_metadata, krb_success = False, krb_err = None\<rparr>"

definition krb_Error :: "kerberosAuthContext \<Rightarrow> go_error option" where
  "krb_Error k =
     (if \<not> krb_success k \<and> krb_err k = None
      then Some (ErrorString ''an unknown error happened during kerberos authentication'')
      else krb_err k)"

text \<open>The value method \<open>Metadata\<close> works on a copy; the maps it creates or finds get the two entries.\<close>

definition krb_Metadata :: "kerberosAuthContext \<Rightarrow> ConnectionAuthenticatedMetadata" where
  "krb_Metadata k =
     (case krb_client k of
        None \<Rightarrow> krb_meta k
      | Some c \<Rightarrow>
          (case credentials k of
             Some creds \<Rightarrow>
               let path = CredentialCachePath (krb_config c)
               in if path \<noteq> ''''
                  then (krb_meta k)
                    \<lparr>Files := Some ((case Files (krb_meta k) of None \<Rightarrow> Map.empty | Some f \<Rightarrow> f)
                       (path \<mapsto> \<lparr>bin_Value = creds, bin_Sensitive = True\<rparr>)),
                     Environment := Some ((case Environment (krb_meta k) of None \<Rightarrow> Map.empty | Some f \<Rightarrow> f)
                       (''KRB5CCNAME'' \<mapsto> \<lparr>val_Value = ''FILE:'' @ path, val_Sensitive = False\<rparr>))\<rparr>
                  else krb_meta k
           | None \<Rightarrow> krb_meta k))"

definition krb_AllowLogin ::
    "kerberosAuthContext \<Rightarrow> string \<Rightarrow> ConnectionAuthPendingMetadata \<Rightarrow> (ConnectionAuthenticatedMetadata \<times> go_error option) go" where
  "krb_AllowLogin k username meta =
     (if \<not> krb_success k then Ret (AuthFailed meta, None)
      else if loginUsername k \<noteq> username then Ret (AuthFailed meta, None)
      else case krb_client k of
             None \<Rightarrow> Panic nil_pointer
           | Some c \<Rightarrow>
               if EnforceUsername (krb_config c) \<and> username \<noteq> principalUsername k then Ret (AuthFailed meta, None)
               else Ret (Authenticated meta username, None))"

definition krb_context :: "kerberosAuthContext \<Rightarrow> 's AuthenticationContext" where
  "krb_context k = \<lparr>ctx_Success = krb_success k, ctx_Error = krb_Error k, ctx_Metadata = krb_Metadata k, ctx_OnDisconnect = (\<lambda>s. s)\<rparr>"

text \<open>\<open>login\<close> is the Kerberos library: a ticket for the user in its marshalled form, or the first error of the log-in,
  the ticket cache and its marshalling. The metadata of \<open>AllowLogin\<close> goes into a field of the outer struct
  that the promoted method \<open>Metadata\<close> does not read.\<close>

definition krb_Password ::
    "(string \<Rightarrow> bytes \<Rightarrow> 's \<Rightarrow> (go_error + bytes) \<times> 's) \<Rightarrow> kerberosAuthClient \<Rightarrow> ConnectionAuthPendingMetadata \<Rightarrow> bytes \<Rightarrow> 's \<Rightarrow>
     ('s AuthenticationContext \<times> 's) go" where
  "krb_Password login c meta password s =
     (if krb_authType c \<noteq> ''password'' \<and> krb_authType c \<noteq> ''''
      then Ret (krb_context (zero_context\<lparr>krb_meta := AuthFailed meta,
             krb_err := Some (ErrorString ''authentication urlEncodedClient not configured for password authentication'')\<rparr>), s)
      else case login (Username meta) password s of
             (Inl err, s) \<Rightarrow> Ret (krb_context (zero_context\<lparr>krb_client := Some c, krb_err := Some err\<rparr>), s)
           | (Inr ccacheMar, s) \<Rightarrow>
               let ctx = zero_context\<lparr>krb_client := Some c, principalUsername := Username meta,
                     loginUsername := Username meta, credentials := Some ccacheMar, krb_success := True\<rparr>
               in go_bind (krb_AllowLogin ctx (Username meta) meta) (\<lambda>(authMeta, err).
                    if err \<noteq> None then Ret (krb_context (zero_context\<lparr>krb_client := Some c, krb_err := err\<rparr>), s)
                    else Ret (krb_context ctx, s)))"

definition GSSAPI :: "kerberosAuthClient \<Rightarrow> kerberosAuthContext" where
  "GSSAPI c =
     (if krb_authType c \<noteq> ''gssapi'' \<and> krb_authType c \<noteq> ''''
      then zero_context\<lparr>krb_err := Some (ErrorString ''authentication urlEncodedClient not configured for GSSAPI authentication'')\<rparr>
      else zero_context\<lparr>krb_client := Some c\<rparr>)"

text \<open>What the Kerberos library makes of a token: each field is the outcome of one call, in the order of the calls.\<close>

record krb_token =
  tok_Unmarshal :: "go_error option"
  tok_Verify :: "string option"
  tok_APReqVerify :: "go_error + bool"
  tok_SubKey :: bytes
  tok_NewAPRep :: "go_error option"
  tok_Marshal :: "go_error + bytes"
  tok_GetCredDelegation :: "go_error + bool"
  tok_CredUnmarshal :: "go_error option"
  tok_Decrypt :: "go_error option"
  tok_ToCredentials :: "go_error option"
  tok_CacheMarshal :: "go_error + bytes"

definition krb_failed :: "go_error \<Rightarrow> string \<Rightarrow> go_error" where
  "krb_failed err text = Wrap err ''KRB_VERIFY_ERROR'' text"

text \<open>A verified token whose AP_REQ is not: the error that is wrapped is \<open>nil\<close>.\<close>

definition wrapped_nil :: "string \<Rightarrow> go_error" where
  "wrapped_nil text = NewMessage ''KRB_VERIFY_ERROR'' (text @ '' (<nil>)'')"

definition krb_AcceptSecContext ::
    "krb_token \<Rightarrow> kerberosAuthContext \<Rightarrow> ((go_error + bytes \<times> string \<times> bool) \<times> kerberosAuthContext) go" where
  "krb_AcceptSecContext st k =
     (case tok_Unmarshal st of
        Some err \<Rightarrow> Ret (Inl (krb_failed err ''Failed to unmarshal the initial KRB token''), k)
      | None \<Rightarrow>
        if krb_client k = None then Panic nil_pointer else
        case tok_Verify st of
          None \<Rightarrow> Ret (Inl (ErrorString ''invalid token''), k)
        | Some user \<Rightarrow>
            let k = k\<lparr>principalUsername := user\<rparr>
            in case tok_APReqVerify st of
                 Inl err \<Rightarrow> Ret (Inl (krb_failed err ''Failed to verify the AP_REQ packet (is the acceptor correct?)''), k)
               | Inr ok \<Rightarrow>
                   if \<not> ok then Ret (Inl (wrapped_nil ''Couldn't verify AP_REQ packet''), k)
                   else
                     let k = k\<lparr>krb_key := tok_SubKey st\<rparr>
                     in case tok_NewAPRep st of
                          Some err \<Rightarrow> Ret (Inl (krb_failed err ''Failed to generate an AP_REP packet''), k)
                        | None \<Rightarrow>
                            (case tok_Marshal st of
                               Inl err \<Rightarrow> Ret (Inl (krb_failed err ''Failed to marshal the AP_REP packet''), k)
                             | Inr mar2 \<Rightarrow>
                                 let accept = Inr (mar2, principalUsername k, False)
                                 in case tok_GetCredDelegation st of
                                      Inl err \<Rightarrow> Ret (accept, k)
                                    | Inr delegation \<Rightarrow>
                                        if \<not> delegation then Ret (accept, k)
                                        else if tok_CredUnmarshal st \<noteq> None then Ret (accept, k)
                                        else (case tok_Decrypt st of
                                                Some err \<Rightarrow> Ret (Inl err, k)
                                              | None \<Rightarrow>
                                                  (case tok_ToCredentials st of
                                                     Some err \<Rightarrow> Ret (Inl err, k)
                                                   | None \<Rightarrow>
                                                       (case tok_CacheMarshal st of
                                                          Inl err \<Rightarrow> Ret (Inl err, k)
                                                        | Inr mar \<Rightarrow> Ret (accept, k\<lparr>credentials := Some mar\<rparr>))))))"

record GSSAPIMicField =
  mic_Request :: uint8
  mic_UserName :: string
  mic_Service :: string
  mic_Method :: string

text \<open>The same for a message integrity code: \<open>mic_Verify\<close> is the verdict of the library for a key.\<close>

record krb_mic =
  mic_Unmarshal :: "go_error option"
  mic_Verify :: "bytes \<Rightarrow> go_error + bool"
  mic_Field :: "go_error + GSSAPIMicField"

definition krb_VerifyMIC :: "krb_mic \<Rightarrow> kerberosAuthContext \<Rightarrow> (go_error option \<times> kerberosAuthContext) go" where
  "krb_VerifyMIC t k =
     (case mic_Unmarshal t of
        Some err \<Rightarrow> Ret (Some err, k)
      | None \<Rightarrow>
          (case mic_Verify t (krb_key k) of
             Inl err \<Rightarrow> Ret (Some err, k)
           | Inr False \<Rightarrow> Ret (Some (NewMessage ''KRB_VERIFY_ERROR'' ''Verify() returned unverified but no error''), k)
           | Inr True \<Rightarrow>
               (case mic_Field t of
                  Inl err \<Rightarrow> Ret (Some err, k)
                | Inr field \<Rightarrow>
                    if mic_Request field \<noteq> 50 \<or> mic_Service field \<noteq> ''ssh-connection'' \<or> mic_Method field \<noteq> ''gssapi-with-mic''
                    then Ret (Some (NewMessage ''KRB_VERIFY_ERROR'' ''Received MIC packet with unexpected values''), k)
                    else (case krb_client k of
                            None \<Rightarrow> Panic nil_pointer
                          | Some c \<Rightarrow>
                              if EnforceUsername (krb_config c) \<and> mic_UserName field \<noteq> principalUsername k
                              then Ret (Some (UserMessage ''KRB_VERIFY_ERROR'' ''Unable to login with the requested username''
                                     (''Cannot login to account '' @ mic_UserName field @ '' using principal '' @ principalUsername k)), k)
                              else Ret (None, k\<lparr>loginUsername := mic_UserName field, krb_success := True\<rparr>)))))"

text \<open>The context as the GSSAPI server of a connection: \<open>tokens\<close> and \<open>mics\<close> are the Kerberos library.\<close>

definition krb_server ::
    "(bytes \<Rightarrow> krb_token) \<Rightarrow> (bytes \<Rightarrow> bytes \<Rightarrow> krb_mic) \<Rightarrow> kerberosAuthContext gssapi_server" where
  "krb_server tokens mics = \<lparr>
     gss_Success = (\<lambda>k. Ret (krb_success k)),
     gss_Error = (\<lambda>k. Ret (krb_Error k)),
     AcceptSecContext = (\<lambda>token. krb_AcceptSecContext (tokens token)),
     VerifyMIC = (\<lambda>micField micToken. krb_VerifyMIC (mics micField micToken)),
     DeleteSecContext = (\<lambda>k. Ret (None, k)),
     AllowLogin = (\<lambda>username meta k. go_bind (krb_AllowLogin k username meta) (\<lambda>r. Ret (r, k)))\<rparr>"

section \<open>OAuth2\<close>

text \<open>A flow of a provider; \<open>Verify\<close> of the authorization code flow takes the state and the code.\<close>

record 's device_flow =
  dev_GetAuthorizationURL :: "'s \<Rightarrow> (go_error + string \<times> string) \<times> 's"
  dev_Verify :: "'s \<Rightarrow> (ConnectionAuthenticatedMetadata \<times> go_error option) \<times> 's"
  dev_Deauthorize :: "'s \<Rightarrow> 's"

record 's code_flow =
  code_GetAuthorizationURL :: "'s \<Rightarrow> (go_error + string) \<times> 's"
  code_Verify :: "string \<Rightarrow> string \<Rightarrow> 's \<Rightarrow> (ConnectionAuthenticatedMetadata \<times> go_error option) \<times> 's"
  code_Deauthorize :: "'s \<Rightarrow> 's"

record 's OAuth2Provider =
  SupportsDeviceFlow :: bool
  GetDeviceFlow :: "ConnectionAuthPendingMetadata \<Rightarrow> 's \<Rightarrow> (go_error + 's device_flow) \<times> 's"
  SupportsAuthorizationCodeFlow :: bool
  GetAuthorizationCodeFlow :: "ConnectionAuthPendingMetadata \<Rightarrow> 's \<Rightarrow> (go_error + 's code_flow) \<times> 's"

definition oauth2Context :: "bool \<Rightarrow> ConnectionAuthenticatedMetadata \<Rightarrow> go_error option \<Rightarrow> ('s \<Rightarrow> 's) option \<Rightarrow> 's AuthenticationContext" where
  "oauth2Context success meta err flow =
     \<lparr>ctx_Success = success, ctx_Error = err, ctx_Metadata = meta,
      ctx_OnDisconnect = (case flow of None \<Rightarrow> (\<lambda>s. s) | Some deauthorize \<Rightarrow> deauthorize)\<rparr>"

text \<open>\<open>strings.SplitN(code, "|", 2)\<close> when it has two parts.\<close>

definition split_code :: "string \<Rightarrow> (string \<times> string) option" where
  "split_code code =
     (case dropWhile (\<lambda>c. c \<noteq> CHR ''|'') code of
        [] \<Rightarrow> None
      | _ # rest \<Rightarrow> Some (takeWhile (\<lambda>c. c \<noteq> CHR ''|'') code, rest))"

definition newline :: string where "newline = [CHR 0x0A]"

text \<open>Each attempt is \<open>None\<close> when the flow could not be started, so that the next one is tried.\<close>

definition try_device_flow ::
    "'s OAuth2Provider \<Rightarrow> ConnectionAuthPendingMetadata \<Rightarrow> 's challenge \<Rightarrow> 's \<Rightarrow> ('s AuthenticationContext option \<times> 's) go" where
  "try_device_flow provider meta challenge s =
     (if \<not> SupportsDeviceFlow provider then Ret (None, s)
      else case GetDeviceFlow provider meta s of
        (Inl err, s) \<Rightarrow> Ret (None, s)
      | (Inr deviceFlow, s) \<Rightarrow>
          (case dev_GetAuthorizationURL deviceFlow s of
             (Inl err, s) \<Rightarrow> Ret (None, s)
           | (Inr (authorizationURL, userCode), s) \<Rightarrow>
               go_bind (challenge (''Please click the following link: '' @ authorizationURL @ newline @ newline @
                          ''Enter the following code: '' @ userCode @ newline) [] s)
                 (\<lambda>((err, answers), s).
                    if err \<noteq> None
                    then Ret (Some (oauth2Context False (AuthFailed meta) err (Some (dev_Deauthorize deviceFlow))), s)
                    else case dev_Verify deviceFlow s of ((authenticatedMeta, err), s) \<Rightarrow>
                      if err \<noteq> None
                      then Ret (Some (oauth2Context False authenticatedMeta err (Some (dev_Deauthorize deviceFlow))),
                             dev_Deauthorize deviceFlow s)
                      else Ret (Some (oauth2Context True authenticatedMeta None (Some (dev_Deauthorize deviceFlow))), s))))"

definition code_question :: KeyboardInteractiveQuestion where
  "code_question = \<lparr>q_ID = ''code'', Question = ''Please paste the received code: '', EchoResponse = False\<rparr>"

definition code_instruction :: "string \<Rightarrow> string" where
  "code_instruction link = ''Please click the following link to log in: '' @ link @ newline @ newline"

definition try_code_flow ::
    "'s OAuth2Provider \<Rightarrow> ConnectionAuthPendingMetadata \<Rightarrow> 's challenge \<Rightarrow> 's \<Rightarrow> ('s AuthenticationContext option \<times> 's) go" where
  "try_code_flow provider meta challenge s =
     (if \<not> SupportsAuthorizationCodeFlow provider then Ret (None, s)
      else case GetAuthorizationCodeFlow provider meta s of
        (Inl err, s) \<Rightarrow> Ret (None, s)
      | (Inr authCodeFlow, s) \<Rightarrow>
          (case code_GetAuthorizationURL authCodeFlow s of
             (Inl err, s) \<Rightarrow> Ret (None, s)
           | (Inr link, s) \<Rightarrow>
               go_bind (challenge (code_instruction link) [code_question] s)
                 (\<lambda>((err, answers), s).
                    let flow = Some (code_Deauthorize authCodeFlow)
                    in if err \<noteq> None then Ret (Some (oauth2Context False (AuthFailed meta) err flow), s)
                       else case answers ''code'' of
                              None \<Rightarrow> Ret (Some (oauth2Context False (AuthFailed meta) err flow), s)
                            | Some code \<Rightarrow>
                                (case split_code code of
                                   None \<Rightarrow>
                                     Ret (Some (oauth2Context False (AuthFailed meta)
                                       (Some (UserMessage ''AUTH_FAILED'' ''Authentication failed.''
                                          ''Authentication failed because the return code did not contain the requisite state and code.''))
                                       flow), s)
                                 | Some (state, auth_code) \<Rightarrow>
                                     (case code_Verify authCodeFlow state auth_code s of ((authenticatedMeta, err), s) \<Rightarrow>
                                        Ret (Some (oauth2Context (err = None) authenticatedMeta err flow), s))))))"

definition KeyboardInteractive ::
    "'s OAuth2Provider \<Rightarrow> ConnectionAuthPendingMetadata \<Rightarrow> 's challenge \<Rightarrow> 's \<Rightarrow> ('s AuthenticationContext \<times> 's) go" where
  "KeyboardInteractive provider meta challenge s =
     go_bind (try_device_flow provider meta challenge s) (\<lambda>(r, s).
       case r of
         Some c \<Rightarrow> Ret (c, s)
       | None \<Rightarrow>
           go_bind (try_code_flow provider meta challenge s) (\<lambda>(r, s).
             case r of
               Some c \<Rightarrow> Ret (c, s)
             | None \<Rightarrow>
                 Ret (oauth2Context False (AuthFailed meta)
                   (Some (UserMessage ''AUTH_FAILED'' ''Authentication failed.'' ''Authentication failed. (<nil>)'')) None, s)))"

section \<open>What the webhook client decides\<close>

definition fails :: "attempt \<Rightarrow> bool" where
  "fails att = (case authServerRequest (att_response att) of Inl _ \<Rightarrow> True | Inr _ \<Rightarrow> False)"

definition retried :: "attempt \<Rightarrow> bool" where
  "retried att = (fails att \<and> \<not> att_expired att)"

lemma authServerRequest_Inr: "authServerRequest r = Inr body \<longleftrightarrow> r = Inr (200, body)"
  by (auto simp: authServerRequest_def split: sum.splits if_splits)


text \<open>The answer both loops decide on: that of the first attempt that is not retried.\<close>

definition decided :: "attempt list \<Rightarrow> ResponseBody option" where
  "decided atts =
     (case dropWhile retried atts of
        [] \<Rightarrow> None
      | att # _ \<Rightarrow> (case att_response att of Inr (status, body) \<Rightarrow> if status = 200 then Some body else None | Inl _ \<Rightarrow> None))"

lemma decided_Cons:
  "decided (att # rest) =
     (if retried att then decided rest
      else case authServerRequest (att_response att) of Inr body \<Rightarrow> Some body | Inl _ \<Rightarrow> None)"
  by (auto simp: decided_def authServerRequest_def split: sum.splits)

lemma retry_success:
  "(\<exists>c. processAuthWithRetry meta n atts = Ret c \<and> ctx_Success c \<and> ctx_Metadata c = m) \<longleftrightarrow>
     (\<exists>body. decided atts = Some body \<and> resp_Success body \<and> m = Merge (Authenticated meta '''') (resp_meta body))"
  "(\<exists>c. processAuthzWithRetry am atts = Ret c \<and> ctx_Success c \<and> ctx_Metadata c = m) \<longleftrightarrow>
     (\<exists>body. decided atts = Some body \<and> resp_Success body \<and> m = Merge (Authenticated (pending_of am) '''') (resp_meta body))"
  by (induction atts)
    (auto simp: decided_Cons decided_def [of "[]"] retried_def fails_def webhookClientContext_def split: sum.splits if_splits)

lemma retry_returns:
  "returns (processAuthWithRetry meta n atts) \<longleftrightarrow> (\<exists>att\<in>set atts. \<not> retried att)"
  "returns (processAuthzWithRetry am atts) \<longleftrightarrow> (\<exists>att\<in>set atts. \<not> retried att)"
  by (induction atts) (auto split: sum.splits simp: retried_def fails_def)


definition sample_attempts :: "attempt list" where
  "sample_attempts =
     [\<lparr>att_response = Inl (ErrorString ''connection refused''), att_expired = False\<rparr>,
      \<lparr>att_response = Inr (500, \<lparr>resp_meta = zero_metadata, resp_Success = True\<rparr>), att_expired = False\<rparr>,
      \<lparr>att_response = Inr (200, \<lparr>resp_meta = zero_metadata\<lparr>AuthenticatedUsername := ''bob''\<rparr>, resp_Success = True\<rparr>), att_expired = False\<rparr>]"


section \<open>What a Kerberos log-in rests on\<close>

text \<open>The calls the SSH library makes on the server of one connection, in any order and number.\<close>

datatype krb_op = Accept krb_token | Mic krb_mic

fun krb_step :: "krb_op \<Rightarrow> kerberosAuthContext \<Rightarrow> kerberosAuthContext go" where
  "krb_step (Accept st) k = go_bind (krb_AcceptSecContext st k) (\<lambda>(r, k). Ret k)"
| "krb_step (Mic t) k = go_bind (krb_VerifyMIC t k) (\<lambda>(r, k). Ret k)"

fun krb_run :: "krb_op list \<Rightarrow> kerberosAuthContext \<Rightarrow> kerberosAuthContext go" where
  "krb_run [] k = Ret k"
| "krb_run (op # ops) k = go_bind (krb_step op k) (krb_run ops)"

text \<open>A principal the library identified, a key of a request it verified, and a user name signed with such a key.\<close>

definition identified :: "krb_op list \<Rightarrow> string \<Rightarrow> bool" where
  "identified ops user = (\<exists>st. Accept st \<in> set ops \<and> tok_Verify st = Some user)"

definition agreed_key :: "krb_op list \<Rightarrow> bytes \<Rightarrow> bool" where
  "agreed_key ops key = (\<exists>st user. Accept st \<in> set ops \<and> tok_Verify st = Some user \<and> tok_APReqVerify st = Inr True \<and> tok_SubKey st = key)"

definition signed_name :: "krb_op list \<Rightarrow> string \<Rightarrow> bool" where
  "signed_name ops user = (\<exists>t key field. Mic t \<in> set ops \<and> agreed_key ops key \<and> mic_Verify t key = Inr True \<and>
     mic_Field t = Inr field \<and> mic_UserName field = user)"

definition krb_inv :: "kerberosAuthClient \<Rightarrow> krb_op list \<Rightarrow> kerberosAuthContext \<Rightarrow> bool" where
  "krb_inv c ops k \<longleftrightarrow>
     krb_client k = Some c \<and>
     (principalUsername k = '''' \<or> identified ops (principalUsername k)) \<and>
     (krb_key k = [] \<or> agreed_key ops (krb_key k)) \<and>
     (\<not> krb_success k \<or> signed_name ops (loginUsername k))"

lemma evidence_mono:
  "identified ops u \<Longrightarrow> identified (ops @ ops') u"
  "agreed_key ops key \<Longrightarrow> agreed_key (ops @ ops') key"
  "signed_name ops u \<Longrightarrow> signed_name (ops @ ops') u"
  unfolding identified_def agreed_key_def signed_name_def by (simp; blast)+

lemma krb_inv_mono: "krb_inv c ops k \<Longrightarrow> krb_inv c (ops @ ops') k"
  unfolding krb_inv_def using evidence_mono by metis

lemma AcceptSecContext_cases:
  assumes "krb_AcceptSecContext st k = Ret (r, k')"
  shows "k' = k \<or> (\<exists>user. tok_Verify st = Some user \<and>
    (k' = k\<lparr>principalUsername := user\<rparr> \<or>
     tok_APReqVerify st = Inr True \<and>
       (k' = k\<lparr>principalUsername := user, krb_key := tok_SubKey st\<rparr> \<or>
        (\<exists>mar. k' = k\<lparr>principalUsername := user, krb_key := tok_SubKey st, credentials := Some mar\<rparr>))))"
  using assms unfolding krb_AcceptSecContext_def Let_def
  by (auto split: option.splits sum.splits if_splits)

lemma VerifyMIC_cases:
  assumes "krb_VerifyMIC t k = Ret (r, k')"
  shows "k' = k \<or> (\<exists>field. mic_Verify t (krb_key k) = Inr True \<and> mic_Field t = Inr field \<and>
    k' = k\<lparr>loginUsername := mic_UserName field, krb_success := True\<rparr>)"
  using assms unfolding krb_VerifyMIC_def
  by (simp split: option.splits sum.splits bool.splits if_splits)

text \<open>The empty key of a connection on which no token was accepted verifies nothing.\<close>

definition no_empty_key :: "krb_op list \<Rightarrow> bool" where
  "no_empty_key ops = (\<forall>t. Mic t \<in> set ops \<longrightarrow> mic_Verify t [] \<noteq> Inr True)"

lemma krb_step_inv:
  assumes "krb_inv c ops k" and "krb_step op k = Ret k'" and "no_empty_key [op]"
  shows "krb_inv c (ops @ [op]) k'"
proof (cases op)
  case (Accept st)
  then obtain r where r: "krb_AcceptSecContext st k = Ret (r, k')"
    using assms(2) by (auto elim!: go_bind_RetE)
  have id: "identified (ops @ [op]) user" if "tok_Verify st = Some user" for user
    using that Accept by (auto simp: identified_def)
  have key: "agreed_key (ops @ [op]) (tok_SubKey st)" if "tok_Verify st = Some user" "tok_APReqVerify st = Inr True" for user
    using that Accept by (auto simp: agreed_key_def)
  from krb_inv_mono [OF assms(1), of "[op]"] AcceptSecContext_cases [OF r]
  show ?thesis
    by (elim disjE exE conjE) (auto simp: krb_inv_def id key)
next
  case (Mic t)
  then obtain r where r: "krb_VerifyMIC t k = Ret (r, k')"
    using assms(2) by (auto elim!: go_bind_RetE)
  have inv: "krb_inv c (ops @ [op]) k" by (rule krb_inv_mono [OF assms(1)])
  have "signed_name (ops @ [op]) (mic_UserName field)"
    if "mic_Verify t (krb_key k) = Inr True" "mic_Field t = Inr field" for field
  proof -
    have "krb_key k \<noteq> []"
      using that(1) assms(3) Mic by (auto simp: no_empty_key_def)
    then have "agreed_key (ops @ [op]) (krb_key k)"
      using inv by (simp add: krb_inv_def)
    then show ?thesis
      using that Mic by (auto simp: signed_name_def)
  qed
  then show ?thesis
    using VerifyMIC_cases [OF r] inv by (auto simp: krb_inv_def)
qed

lemma krb_run_inv:
  assumes "krb_inv c done k" and "krb_run ops k = Ret k'" and "no_empty_key ops"
  shows "krb_inv c (done @ ops) k'"
  using assms
proof (induction ops arbitrary: "done" k)
  case (Cons op ops)
  obtain k1 where "krb_step op k = Ret k1" "krb_run ops k1 = Ret k'"
    using Cons.prems(2) by (auto elim!: go_bind_RetE)
  moreover have "no_empty_key [op]" "no_empty_key ops"
    using Cons.prems(3) by (auto simp: no_empty_key_def)
  ultimately show ?case
    using Cons.IH [of "done @ [op]" k1] krb_step_inv [OF Cons.prems(1)] by simp
qed simp

text \<open>C16: A Kerberos user is authenticated only on evidence. Whatever calls the SSH library makes on the GSSAPI server
  of a connection, \<open>AllowLogin\<close> authenticates a user name only if that name was signed with the key of a
  request the library verified; and when user names are enforced, only if the library also identified
  the principal of that name.\<close>
theorem kerberos_login_verified:
  assumes "krb_run ops (GSSAPI c) = Ret k" and "no_empty_key ops" and "krb_authType c = ''gssapi''"
    and "krb_AllowLogin k user meta = Ret (m, err)" and "AuthenticatedUsername m \<noteq> ''''"
  shows "AuthenticatedUsername m = user \<and> signed_name ops user \<and>
    (EnforceUsername (krb_config c) \<longrightarrow> identified ops user)"
proof -
  have "krb_inv c [] (GSSAPI c)"
    using assms(3) by (simp add: krb_inv_def GSSAPI_def zero_context_def)
  from krb_run_inv [OF this assms(1,2)] have inv: "krb_inv c ops k" by simp
  show ?thesis
    using assms(4,5) inv
    by (auto simp: krb_AllowLogin_def krb_inv_def AuthFailed_def Authenticated_def ConnectionAuthPendingMetadata.defs
        ConnectionAuthenticatedMetadata.defs split: if_splits)
qed

definition sample_token :: krb_token where
  "sample_token = \<lparr>tok_Unmarshal = None, tok_Verify = Some ''alice'', tok_APReqVerify = Inr True, tok_SubKey = [7],
     tok_NewAPRep = None, tok_Marshal = Inr [1], tok_GetCredDelegation = Inr False, tok_CredUnmarshal = None,
     tok_Decrypt = None, tok_ToCredentials = None, tok_CacheMarshal = Inr []\<rparr>"

definition sample_mic :: krb_mic where
  "sample_mic = \<lparr>mic_Unmarshal = None, mic_Verify = (\<lambda>key. Inr (key = [7])),
     mic_Field = Inr \<lparr>mic_Request = 50, mic_UserName = ''alice'', mic_Service = ''ssh-connection'', mic_Method = ''gssapi-with-mic''\<rparr>\<rparr>"

definition sample_krb :: kerberosAuthClient where
  "sample_krb = \<lparr>krb_config = \<lparr>EnforceUsername = True, CredentialCachePath = ''''\<rparr>, krb_authType = ''gssapi''\<rparr>"

definition sample_krb_context :: kerberosAuthContext where
  "sample_krb_context = zero_context\<lparr>krb_client := Some sample_krb, principalUsername := ''alice'', krb_key := [7],
     loginUsername := ''alice'', krb_success := True\<rparr>"

lemma sample_krb_run: "krb_run [Accept sample_token, Mic sample_mic] (GSSAPI sample_krb) = Ret sample_krb_context"
  by (simp add: sample_token_def sample_mic_def sample_krb_def sample_krb_context_def GSSAPI_def zero_context_def
      krb_AcceptSecContext_def krb_VerifyMIC_def)

theorem kerberos_login_verified_witness:
  "signed_name [Accept sample_token, Mic sample_mic] ''alice'' \<and> identified [Accept sample_token, Mic sample_mic] ''alice''"
proof -
  let ?meta = "pending_of zero_metadata"
  have "krb_AllowLogin sample_krb_context ''alice'' ?meta = Ret (Authenticated ?meta ''alice'', None)"
    by (simp add: krb_AllowLogin_def sample_krb_context_def sample_krb_def)
  moreover have "AuthenticatedUsername (Authenticated ?meta ''alice'') \<noteq> ''''"
    by (simp add: Authenticated_def ConnectionAuthPendingMetadata.defs ConnectionAuthenticatedMetadata.defs)
  moreover have "no_empty_key [Accept sample_token, Mic sample_mic]"
    by (simp add: no_empty_key_def sample_mic_def)
  moreover have "krb_authType sample_krb = ''gssapi''" "EnforceUsername (krb_config sample_krb)"
    by (simp_all add: sample_krb_def)
  ultimately show ?thesis
    using kerberos_login_verified [OF sample_krb_run] by blast
qed

text \<open>C40: The refusals of \<open>AllowLogin\<close> let the user in. The Kerberos context refuses a user name other than the
  one that was signed, or, when names are enforced, other than the principal, by returning failed metadata without an
  error; the server takes a missing error for consent and gives the client its permissions.\<close>
theorem kerberos_refusal_admits:
  assumes "krb_success k" and "krb_client k = Some c"
    and "loginUsername k \<noteq> conn_User conn \<or> EnforceUsername (krb_config c) \<and> conn_User conn \<noteq> principalUsername k"
  shows "gss_AllowLogin meta (krb_server tokens mics) conn k =
    Ret (Inr \<lparr>containerssh_metadata =
      Some (AuthFailed (StartAuthentication meta (conn_ClientVersion conn) (conn_User conn)))\<rparr>, k)"
  using assms by (auto simp: gss_AllowLogin_def krb_server_def krb_AllowLogin_def Let_def)

theorem kerberos_refusal_admits_witness:
  "gss_AllowLogin \<lparr>RemoteAddr = sample_addr, ConnectionID = ''0a'', Metadata = None, Environment = None, Files = None\<rparr>
     (krb_server (\<lambda>_. sample_token) (\<lambda>_ _. sample_mic)) \<lparr>conn_User = ''root'', conn_ClientVersion = ''SSH-2.0-Test''\<rparr> sample_krb_context =
   Ret (Inr \<lparr>containerssh_metadata = Some
     \<lparr>RemoteAddr = sample_addr, ConnectionID = ''0a'', Metadata = None, Environment = None, Files = None,
      ClientVersion = ''SSH-2.0-Test'', Username = ''root'', AuthenticatedUsername = ''''\<rparr>\<rparr>, sample_krb_context)"
  by (subst kerberos_refusal_admits [of _ sample_krb])
    (simp_all add: sample_krb_context_def StartAuthentication_def AuthFailed_def ConnectionMetadata.defs
      ConnectionAuthPendingMetadata.defs ConnectionAuthenticatedMetadata.defs)

section \<open>OAuth2\<close>

lemma split_code_Some:
  assumes "split_code code = Some (state, auth_code)"
  shows "code = state @ ''|'' @ auth_code"
proof -
  obtain c where "dropWhile (\<lambda>c. c \<noteq> CHR ''|'') code = c # auth_code" and state: "state = takeWhile (\<lambda>c. c \<noteq> CHR ''|'') code"
    using assms by (auto simp: split_code_def split: list.splits)
  moreover from this(1) have "c = CHR ''|''"
    using hd_dropWhile [of "\<lambda>c. c \<noteq> CHR ''|''" code] by auto
  ultimately show ?thesis
    using takeWhile_dropWhile_id [of "\<lambda>c. c \<noteq> CHR ''|''" code] by simp
qed

lemma device_flow_success:
  assumes "try_device_flow provider meta challenge s = Ret (Some c, s')" and "ctx_Success c"
  shows "\<exists>flow t0 t t1. SupportsDeviceFlow provider \<and> GetDeviceFlow provider meta s = (Inr flow, t0) \<and>
    dev_Verify flow t = ((ctx_Metadata c, None), t1)"
  using assms unfolding try_device_flow_def
  by (auto simp: oauth2Context_def elim!: go_bind_RetE split: if_splits prod.splits sum.splits; blast)

lemma code_flow_success:
  assumes "try_code_flow provider meta challenge s = Ret (Some c, s')" and "ctx_Success c"
  shows "\<exists>flow t0 t t1 link answers state code. SupportsAuthorizationCodeFlow provider \<and>
    GetAuthorizationCodeFlow provider meta s = (Inr flow, t0) \<and>
    challenge (code_instruction link) [code_question] t = Ret ((None, answers), t1) \<and>
    answers ''code'' = Some (state @ ''|'' @ code) \<and>
    code_Verify flow state code t1 = ((ctx_Metadata c, None), s')"
  using assms unfolding try_code_flow_def Let_def
  by (auto simp: oauth2Context_def elim!: go_bind_RetE dest!: split_code_Some
      split: if_splits prod.splits sum.splits option.splits; blast)

text \<open>C37: Keyboard-interactive authentication over OAuth2 succeeds only when the OAuth2 server confirmed it: either the
  device flow was verified, or the code flow was with the state and code the user pasted; the metadata is
  that of the confirmation. The code flow is used only when the device flow is not supported or could not be started.\<close>
theorem oauth2_success_confirmed:
  assumes "KeyboardInteractive provider meta challenge s = Ret (c, s')" and "ctx_Success c"
  shows "(\<exists>flow t0 t t1. SupportsDeviceFlow provider \<and> GetDeviceFlow provider meta s = (Inr flow, t0) \<and>
            dev_Verify flow t = ((ctx_Metadata c, None), t1)) \<or>
         (\<exists>flow t0 t1 t t2 link answers state code. SupportsAuthorizationCodeFlow provider \<and>
            try_device_flow provider meta challenge s = Ret (None, t0) \<and>
            GetAuthorizationCodeFlow provider meta t0 = (Inr flow, t1) \<and>
            challenge (code_instruction link) [code_question] t = Ret ((None, answers), t2) \<and>
            answers ''code'' = Some (state @ ''|'' @ code) \<and>
            code_Verify flow state code t2 = ((ctx_Metadata c, None), s'))"
proof -
  obtain r t0 where dev: "try_device_flow provider meta challenge s = Ret (r, t0)"
    and rest: "(case r of Some c \<Rightarrow> Ret (c, t0) | None \<Rightarrow> go_bind (try_code_flow provider meta challenge t0) (\<lambda>(r, s).
       case r of Some c \<Rightarrow> Ret (c, s) | None \<Rightarrow> Ret (oauth2Context False (AuthFailed meta)
         (Some (UserMessage ''AUTH_FAILED'' ''Authentication failed.'' ''Authentication failed. (<nil>)'')) None, s))) = Ret (c, s')"
    using assms(1) unfolding KeyboardInteractive_def by (auto elim!: go_bind_RetE)
  show ?thesis
  proof (cases r)
    case (Some c')
    then have "try_device_flow provider meta challenge s = Ret (Some c, t0)" using dev rest by simp
    from device_flow_success [OF this assms(2)] show ?thesis by blast
  next
    case None
    then have "try_code_flow provider meta challenge t0 = Ret (Some c, s')"
      using rest assms(2) by (auto simp: oauth2Context_def elim!: go_bind_RetE split: option.splits)
    from code_flow_success [OF this assms(2)] None dev show ?thesis by blast
  qed
qed

text \<open>A provider with only the code flow, and a user who pastes the code it expects.\<close>

definition sample_code_flow :: "unit code_flow" where
  "sample_code_flow =
     \<lparr>code_GetAuthorizationURL = (\<lambda>s. (Inr ''https://idp/auth'', s)),
      code_Verify = (\<lambda>state code s. ((zero_metadata, if code = ''42'' then None else Some (ErrorString ''bad code'')), s)),
      code_Deauthorize = (\<lambda>s. s)\<rparr>"

definition sample_provider :: "unit OAuth2Provider" where
  "sample_provider =
     \<lparr>SupportsDeviceFlow = False, GetDeviceFlow = (\<lambda>_ s. (Inl (ErrorString ''unsupported''), s)),
      SupportsAuthorizationCodeFlow = True, GetAuthorizationCodeFlow = (\<lambda>_ s. (Inr sample_code_flow, s))\<rparr>"

definition sample_paste :: "unit challenge" where
  "sample_paste instruction questions s = Ret ((None, [''code'' \<mapsto> ''st|42'']), s)"

lemma sample_oauth2_login:
  "\<exists>c. KeyboardInteractive sample_provider (pending_of zero_metadata) sample_paste () = Ret (c, ()) \<and> ctx_Success c \<and>
     ctx_Metadata c = zero_metadata"
  by (simp add: KeyboardInteractive_def try_device_flow_def try_code_flow_def sample_provider_def sample_code_flow_def
      sample_paste_def split_code_def oauth2Context_def)

theorem oauth2_success_confirmed_witness:
  "\<exists>state code. code_Verify sample_code_flow state code () = ((zero_metadata, None), ())"
proof -
  obtain c where "KeyboardInteractive sample_provider (pending_of zero_metadata) sample_paste () = Ret (c, ())"
    "ctx_Success c" "ctx_Metadata c = zero_metadata"
    using sample_oauth2_login by blast
  from oauth2_success_confirmed [OF this(1,2)] this(3) show ?thesis
    by (auto simp: sample_provider_def)
qed

end
