(* ===== verification/Audit_Log.thy ===== *)
theory Audit_Log
  imports Messages
begin

unbundle bit_operations_syntax

text \<open>
  The audit log: the messages of \<open>auditlog/message\<close>, the logger that turns the events of a connection into
  messages (\<open>internal/auditlog/logger_impl.go\<close>), the readers and writers that record a stream
  (\<open>intercept.go\<close>), and the binary format, encoder and decoder (\<open>internal/auditlog/codec/binary\<close>).

  The CBOR library, the library that fills structs from maps and the GeoIP lookup are parameters. The gzip
  stream is represented by the bytes it carries; the encoder flushes it and never closes it, so that its end
  reads as an unexpected end of file.
\<close>

type_synonym Stream = int

abbreviation StreamStdin :: Stream where "StreamStdin \<equiv> 0"
abbreviation StreamStdout :: Stream where "StreamStdout \<equiv> 1"
abbreviation StreamStderr :: Stream where "StreamStderr \<equiv> 2"

section \<open>Message types\<close>

type_synonym Type = int

abbreviation TypeConnect :: Type where "TypeConnect \<equiv> 0"
abbreviation TypeDisconnect :: Type where "TypeDisconnect \<equiv> 1"
abbreviation TypeAuthPassword :: Type where "TypeAuthPassword \<equiv> 100"
abbreviation TypeAuthPasswordSuccessful :: Type where "TypeAuthPasswordSuccessful \<equiv> 101"
abbreviation TypeAuthPasswordFailed :: Type where "TypeAuthPasswordFailed \<equiv> 102"
abbreviation TypeAuthPasswordBackendError :: Type where "TypeAuthPasswordBackendError \<equiv> 103"
abbreviation TypeAuthPubKey :: Type where "TypeAuthPubKey \<equiv> 104"
abbreviation TypeAuthPubKeySuccessful :: Type where "TypeAuthPubKeySuccessful \<equiv> 105"
abbreviation TypeAuthPubKeyFailed :: Type where "TypeAuthPubKeyFailed \<equiv> 106"
abbreviation TypeAuthPubKeyBackendError :: Type where "TypeAuthPubKeyBackendError \<equiv> 107"
abbreviation TypeAuthKeyboardInteractiveChallenge :: Type where "TypeAuthKeyboardInteractiveChallenge \<equiv> 108"
abbreviation TypeAuthKeyboardInteractiveAnswer :: Type where "TypeAuthKeyboardInteractiveAnswer \<equiv> 109"
abbreviation TypeAuthKeyboardInteractiveFailed :: Type where "TypeAuthKeyboardInteractiveFailed \<equiv> 110"
abbreviation TypeAuthKeyboardInteractiveBackendError :: Type where "TypeAuthKeyboardInteractiveBackendError \<equiv> 111"
abbreviation TypeHandshakeFailed :: Type where "TypeHandshakeFailed \<equiv> 198"
abbreviation TypeHandshakeSuccessful :: Type where "TypeHandshakeSuccessful \<equiv> 199"
abbreviation TypeGlobalRequestUnknown :: Type where "TypeGlobalRequestUnknown \<equiv> 200"
abbreviation TypeGlobalRequestDecodeFailed :: Type where "TypeGlobalRequestDecodeFailed \<equiv> 201"
abbreviation TypeRequestReverseForward :: Type where "TypeRequestReverseForward \<equiv> 202"
abbreviation TypeRequestCancelReverseForward :: Type where "TypeRequestCancelReverseForward \<equiv> 203"
abbreviation TypeRequestStreamLocal :: Type where "TypeRequestStreamLocal \<equiv> 204"
abbreviation TypeRequestCancelStreamLocal :: Type where "TypeRequestCancelStreamLocal \<equiv> 205"
abbreviation TypeNewChannel :: Type where "TypeNewChannel \<equiv> 300"
abbreviation TypeNewChannelSuccessful :: Type where "TypeNewChannelSuccessful \<equiv> 301"
abbreviation TypeNewChannelFailed :: Type where "TypeNewChannelFailed \<equiv> 302"
abbreviation TypeNewForwardChannel :: Type where "TypeNewForwardChannel \<equiv> 303"
abbreviation TypeNewReverseForwardChannel :: Type where "TypeNewReverseForwardChannel \<equiv> 304"
abbreviation TypeNewReverseX11ForwardChannel :: Type where "TypeNewReverseX11ForwardChannel \<equiv> 305"
abbreviation TypeNewForwardStreamLocalChannel :: Type where "TypeNewForwardStreamLocalChannel \<equiv> 306"
abbreviation TypeNewReverseStreamLocalChannel :: Type where "TypeNewReverseStreamLocalChannel \<equiv> 307"
abbreviation TypeChannelRequestUnknownType :: Type where "TypeChannelRequestUnknownType \<equiv> 400"
abbreviation TypeChannelRequestDecodeFailed :: Type where "TypeChannelRequestDecodeFailed \<equiv> 401"
abbreviation TypeChannelRequestSetEnv :: Type where "TypeChannelRequestSetEnv \<equiv> 402"
abbreviation TypeChannelRequestExec :: Type where "TypeChannelRequestExec \<equiv> 403"
abbreviation TypeChannelRequestPty :: Type where "TypeChannelRequestPty \<equiv> 404"
abbreviation TypeChannelRequestShell :: Type where "TypeChannelRequestShell \<equiv> 405"
abbreviation TypeChannelRequestSignal :: Type where "TypeChannelRequestSignal \<equiv> 406"
abbreviation TypeChannelRequestSubsystem :: Type where "TypeChannelRequestSubsystem \<equiv> 407"
abbreviation TypeChannelRequestWindow :: Type where "TypeChannelRequestWindow \<equiv> 408"
abbreviation TypeChannelRequestX11 :: Type where "TypeChannelRequestX11 \<equiv> 409"
abbreviation TypeWriteClose :: Type where "TypeWriteClose \<equiv> 496"
abbreviation TypeClose :: Type where "TypeClose \<equiv> 497"
abbreviation TypeExitSignal :: Type where "TypeExitSignal \<equiv> 498"
abbreviation TypeExit :: Type where "TypeExit \<equiv> 499"
abbreviation TypeIO :: Type where "TypeIO \<equiv> 500"
abbreviation TypeRequestFailed :: Type where "TypeRequestFailed \<equiv> 501"

datatype (plugins only: size code) audit_payload =
    PayloadConnect string string
  | PayloadAuthPassword string bytes
  | PayloadAuthPasswordBackendError string bytes string
  | PayloadAuthPubKey string string
  | PayloadAuthPubKeyBackendError string string string
  | PayloadAuthKeyboardInteractiveChallenge string string "(string \<times> bool) list"
  | PayloadAuthKeyboardInteractiveAnswer string "(string \<times> string) list"
  | PayloadAuthKeyboardInteractiveFailed string
  | PayloadAuthKeyboardInteractiveBackendError string string
  | PayloadHandshakeFailed string
  | PayloadHandshakeSuccessful string
  | PayloadGlobalRequestUnknown string
  | PayloadGlobalRequestDecodeFailed uint64 string bytes string
  | PayloadRequestReverseForward string uint32
  | PayloadRequestStreamLocal string
  | PayloadNewChannel string
  | PayloadNewChannelSuccessful string
  | PayloadNewChannelFailed string string
  | PayloadNewForwardChannel string uint32 string uint32
  | PayloadNewReverseForwardChannel string uint32 string uint32
  | PayloadNewReverseX11ForwardChannel string uint32
  | PayloadChannelRequestUnknownType uint64 string bytes
  | PayloadChannelRequestDecodeFailed uint64 string bytes string
  | PayloadChannelRequestSetEnv uint64 string string
  | PayloadChannelRequestExec uint64 string
  | PayloadChannelRequestPty uint64 string uint32 uint32 uint32 uint32 bytes
  | PayloadChannelRequestShell uint64
  | PayloadChannelRequestSignal uint64 string
  | PayloadChannelRequestSubsystem uint64 string
  | PayloadChannelRequestWindow uint64 uint32 uint32 uint32 uint32
  | PayloadChannelRequestX11 uint64 bool string string uint32
  | PayloadIO Stream bytes
  | PayloadRequestFailed uint64 string
  | PayloadExit uint32
  | PayloadExitSignal string bool string string

text \<open>The struct a payload is, without its fields.\<close>

datatype (plugins only: size code) payload_kind =
    KindConnect
  | KindAuthPassword
  | KindAuthPasswordBackendError
  | KindAuthPubKey
  | KindAuthPubKeyBackendError
  | KindAuthKeyboardInteractiveChallenge
  | KindAuthKeyboardInteractiveAnswer
  | KindAuthKeyboardInteractiveFailed
  | KindAuthKeyboardInteractiveBackendError
  | KindHandshakeFailed
  | KindHandshakeSuccessful
  | KindGlobalRequestUnknown
  | KindGlobalRequestDecodeFailed
  | KindRequestReverseForward
  | KindRequestStreamLocal
  | KindNewChannel
  | KindNewChannelSuccessful
  | KindNewChannelFailed
  | KindNewForwardChannel
  | KindNewReverseForwardChannel
  | KindNewReverseX11ForwardChannel
  | KindChannelRequestUnknownType
  | KindChannelRequestDecodeFailed
  | KindChannelRequestSetEnv
  | KindChannelRequestExec
  | KindChannelRequestPty
  | KindChannelRequestShell
  | KindChannelRequestSignal
  | KindChannelRequestSubsystem
  | KindChannelRequestWindow
  | KindChannelRequestX11
  | KindIO
  | KindRequestFailed
  | KindExit
  | KindExitSignal

fun kind_of :: "audit_payload \<Rightarrow> payload_kind" where
  "kind_of (PayloadConnect _ _) = KindConnect"
| "kind_of (PayloadAuthPassword _ _) = KindAuthPassword"
| "kind_of (PayloadAuthPasswordBackendError _ _ _) = KindAuthPasswordBackendError"
| "kind_of (PayloadAuthPubKey _ _) = KindAuthPubKey"
| "kind_of (PayloadAuthPubKeyBackendError _ _ _) = KindAuthPubKeyBackendError"
| "kind_of (PayloadAuthKeyboardInteractiveChallenge _ _ _) = KindAuthKeyboardInteractiveChallenge"
| "kind_of (PayloadAuthKeyboardInteractiveAnswer _ _) = KindAuthKeyboardInteractiveAnswer"
| "kind_of (PayloadAuthKeyboardInteractiveFailed _) = KindAuthKeyboardInteractiveFailed"
| "kind_of (PayloadAuthKeyboardInteractiveBackendError _ _) = KindAuthKeyboardInteractiveBackendError"
| "kind_of (PayloadHandshakeFailed _) = KindHandshakeFailed"
| "kind_of (PayloadHandshakeSuccessful _) = KindHandshakeSuccessful"
| "kind_of (PayloadGlobalRequestUnknown _) = KindGlobalRequestUnknown"
| "kind_of (PayloadGlobalRequestDecodeFailed _ _ _ _) = KindGlobalRequestDecodeFailed"
| "kind_of (PayloadRequestReverseForward _ _) = KindRequestReverseForward"
| "kind_of (PayloadRequestStreamLocal _) = KindRequestStreamLocal"
| "kind_of (PayloadNewChannel _) = KindNewChannel"
| "kind_of (PayloadNewChannelSuccessful _) = KindNewChannelSuccessful"
| "kind_of (PayloadNewChannelFailed _ _) = KindNewChannelFailed"
| "kind_of (PayloadNewForwardChannel _ _ _ _) = KindNewForwardChannel"
| "kind_of (PayloadNewReverseForwardChannel _ _ _ _) = KindNewReverseForwardChannel"
| "kind_of (PayloadNewReverseX11ForwardChannel _ _) = KindNewReverseX11ForwardChannel"
| "kind_of (PayloadChannelRequestUnknownType _ _ _) = KindChannelRequestUnknownType"
| "kind_of (PayloadChannelRequestDecodeFailed _ _ _ _) = KindChannelRequestDecodeFailed"
| "kind_of (PayloadChannelRequestSetEnv _ _ _) = KindChannelRequestSetEnv"
| "kind_of (PayloadChannelRequestExec _ _) = KindChannelRequestExec"
| "kind_of (PayloadChannelRequestPty _ _ _ _ _ _ _) = KindChannelRequestPty"
| "kind_of (PayloadChannelRequestShell _) = KindChannelRequestShell"
| "kind_of (PayloadChannelRequestSignal _ _) = KindChannelRequestSignal"
| "kind_of (PayloadChannelRequestSubsystem _ _) = KindChannelRequestSubsystem"
| "kind_of (PayloadChannelRequestWindow _ _ _ _ _) = KindChannelRequestWindow"
| "kind_of (PayloadChannelRequestX11 _ _ _ _ _) = KindChannelRequestX11"
| "kind_of (PayloadIO _ _) = KindIO"
| "kind_of (PayloadRequestFailed _ _) = KindRequestFailed"
| "kind_of (PayloadExit _) = KindExit"
| "kind_of (PayloadExitSignal _ _ _ _) = KindExitSignal"

definition typeToID :: "(Type \<times> string) list" where
  "typeToID = [
    (TypeConnect, ''connect''),
    (TypeDisconnect, ''disconnect''),
    (TypeAuthPassword, ''auth_password''),
    (TypeAuthPasswordSuccessful, ''auth_password_successful''),
    (TypeAuthPasswordFailed, ''auth_password_failed''),
    (TypeAuthPasswordBackendError, ''auth_password_backend_error''),
    (TypeAuthPubKey, ''auth_pubkey''),
    (TypeAuthPubKeySuccessful, ''auth_pubkey_successful''),
    (TypeAuthPubKeyFailed, ''auth_pubkey_failed''),
    (TypeAuthPubKeyBackendError, ''auth_pubkey_backend_error''),
    (TypeAuthKeyboardInteractiveChallenge, ''auth_keyboard_interactive_challenge''),
    (TypeAuthKeyboardInteractiveAnswer, ''auth_keyboard_interactive_answer''),
    (TypeAuthKeyboardInteractiveFailed, ''auth_keyboard_interactive_failed''),
    (TypeAuthKeyboardInteractiveBackendError, ''auth_keyboard_interactive_backend_error''),
    (TypeGlobalRequestUnknown, ''global_request_unknown''),
    (TypeGlobalRequestDecodeFailed, ''global_request_decode_failed''),
    (TypeRequestReverseForward, ''forward_tcpip''),
    (TypeRequestCancelReverseForward, ''cancel_forward_tcpip''),
    (TypeRequestStreamLocal, ''forward_streamlocal''),
    (TypeRequestCancelStreamLocal, ''cancel_forward_streamlocal''),
    (TypeNewChannel, ''new_channel''),
    (TypeNewChannelSuccessful, ''new_channel_successful''),
    (TypeNewChannelFailed, ''new_channel_failed''),
    (TypeNewForwardChannel, ''new_channel_direct_tcpip''),
    (TypeNewReverseForwardChannel, ''new_channel_forwarded_tcpip''),
    (TypeNewReverseX11ForwardChannel, ''new_channel_x11''),
    (TypeNewForwardStreamLocalChannel, ''new_channel_direct_streamlocal''),
    (TypeNewReverseStreamLocalChannel, ''new_channel_forwarded_streamlocal''),
    (TypeChannelRequestUnknownType, ''channel_request_unknown''),
    (TypeChannelRequestDecodeFailed, ''channel_request_decode_failed''),
    (TypeChannelRequestSetEnv, ''setenv''),
    (TypeChannelRequestExec, ''exec''),
    (TypeChannelRequestPty, ''pty''),
    (TypeChannelRequestShell, ''shell''),
    (TypeChannelRequestSignal, ''signal''),
    (TypeChannelRequestSubsystem, ''subsystem''),
    (TypeChannelRequestWindow, ''window''),
    (TypeChannelRequestX11, ''x11-req''),
    (TypeWriteClose, ''close_write''),
    (TypeClose, ''close''),
    (TypeExit, ''exit''),
    (TypeExitSignal, ''exit_signal''),
    (TypeIO, ''io''),
    (TypeRequestFailed, ''request_failed'')]"

definition typeToName :: "(Type \<times> string) list" where
  "typeToName = [
    (TypeConnect, ''Connect''),
    (TypeDisconnect, ''Disconnect''),
    (TypeAuthPassword, ''Password authentication''),
    (TypeAuthPasswordSuccessful, ''Password authentication successful''),
    (TypeAuthPasswordFailed, ''Password authentication failed''),
    (TypeAuthPasswordBackendError, ''Password authentication backend error''),
    (TypeAuthPubKey, ''Public key authentication''),
    (TypeAuthPubKeySuccessful, ''Public key authentication successful''),
    (TypeAuthPubKeyFailed, ''Public key authentication failed''),
    (TypeAuthPubKeyBackendError, ''Public key authentication backend error''),
    (TypeAuthKeyboardInteractiveChallenge, ''Keyboard-interactive authentication challenge''),
    (TypeAuthKeyboardInteractiveAnswer, ''Keyboard-interactive authentication answer''),
    (TypeAuthKeyboardInteractiveFailed, ''Keyboard-interactive authentication failed''),
    (TypeAuthKeyboardInteractiveBackendError, ''Keyboard-interactive authentication backend error''),
    (TypeGlobalRequestUnknown, ''Unknown global request''),
    (TypeGlobalRequestDecodeFailed, ''Failed to decode global request''),
    (TypeRequestReverseForward, ''Request reverse port forwarding''),
    (TypeRequestCancelReverseForward, ''Request to stop reverse port forwarding''),
    (TypeRequestStreamLocal, ''Request reverse socket forwarding''),
    (TypeRequestCancelStreamLocal, ''Request to stop reverse socket forwarding''),
    (TypeNewChannel, ''New channel request''),
    (TypeNewChannelSuccessful, ''New channel successful''),
    (TypeNewChannelFailed, ''New channel failed''),
    (TypeNewForwardChannel, ''New client-to-server port forwarding channel''),
    (TypeNewReverseForwardChannel, ''New server-to-client port forwarding channel''),
    (TypeNewReverseX11ForwardChannel, ''New server-to-client X11 forwarding channel''),
    (TypeNewForwardStreamLocalChannel, ''New client-to-server unix socket forwarding channel''),
    (TypeNewReverseStreamLocalChannel, ''New server-to-client unix socket forwarding channel''),
    (TypeChannelRequestUnknownType, ''Unknown channel request''),
    (TypeChannelRequestDecodeFailed, ''Failed to decode channel request''),
    (TypeChannelRequestSetEnv, ''Set environment variable''),
    (TypeChannelRequestExec, ''Execute program''),
    (TypeChannelRequestPty, ''Request interactive terminal''),
    (TypeChannelRequestShell, ''Run shell''),
    (TypeChannelRequestSignal, ''Send signal to running process''),
    (TypeChannelRequestSubsystem, ''Request subsystem''),
    (TypeChannelRequestWindow, ''Change window size''),
    (TypeChannelRequestX11, ''Request X11 forwarding''),
    (TypeWriteClose, ''Close channel for writing''),
    (TypeClose, ''Close channel''),
    (TypeExit, ''Program exited''),
    (TypeExitSignal, ''Program exited with signal''),
    (TypeIO, ''I/O''),
    (TypeRequestFailed, ''Request failed'')]"

definition messageTypeToPayload :: "(Type \<times> payload_kind option) list" where
  "messageTypeToPayload = [
    (TypeConnect, Some KindConnect),
    (TypeDisconnect, None),
    (TypeAuthPassword, Some KindAuthPassword),
    (TypeAuthPasswordSuccessful, Some KindAuthPassword),
    (TypeAuthPasswordFailed, Some KindAuthPassword),
    (TypeAuthPasswordBackendError, Some KindAuthPasswordBackendError),
    (TypeAuthKeyboardInteractiveChallenge, Some KindAuthKeyboardInteractiveChallenge),
    (TypeAuthKeyboardInteractiveAnswer, Some KindAuthKeyboardInteractiveAnswer),
    (TypeAuthKeyboardInteractiveFailed, Some KindAuthKeyboardInteractiveFailed),
    (TypeAuthKeyboardInteractiveBackendError, Some KindAuthKeyboardInteractiveBackendError),
    (TypeHandshakeFailed, Some KindHandshakeFailed),
    (TypeHandshakeSuccessful, Some KindHandshakeSuccessful),
    (TypeAuthPubKey, Some KindAuthPubKey),
    (TypeAuthPubKeySuccessful, Some KindAuthPubKey),
    (TypeAuthPubKeyFailed, Some KindAuthPubKey),
    (TypeAuthPubKeyBackendError, Some KindAuthPubKeyBackendError),
    (TypeGlobalRequestUnknown, Some KindGlobalRequestUnknown),
    (TypeGlobalRequestDecodeFailed, Some KindGlobalRequestDecodeFailed),
    (TypeRequestReverseForward, Some KindRequestReverseForward),
    (TypeRequestCancelReverseForward, Some KindRequestReverseForward),
    (TypeRequestStreamLocal, Some KindRequestStreamLocal),
    (TypeRequestCancelStreamLocal, Some KindRequestStreamLocal),
    (TypeNewChannel, Some KindNewChannel),
    (TypeNewChannelSuccessful, Some KindNewChannelSuccessful),
    (TypeNewChannelFailed, Some KindNewChannelFailed),
    (TypeNewForwardChannel, Some KindNewForwardChannel),
    (TypeNewReverseForwardChannel, Some KindNewReverseForwardChannel),
    (TypeNewReverseX11ForwardChannel, Some KindNewReverseX11ForwardChannel),
    (TypeNewForwardStreamLocalChannel, Some KindRequestStreamLocal),
    (TypeNewReverseStreamLocalChannel, Some KindRequestStreamLocal),
    (TypeChannelRequestUnknownType, Some KindChannelRequestUnknownType),
    (TypeChannelRequestDecodeFailed, Some KindChannelRequestDecodeFailed),
    (TypeChannelRequestSetEnv, Some KindChannelRequestSetEnv),
    (TypeChannelRequestExec, Some KindChannelRequestExec),
    (TypeChannelRequestPty, Some KindChannelRequestPty),
    (TypeChannelRequestShell, Some KindChannelRequestShell),
    (TypeChannelRequestSignal, Some KindChannelRequestSignal),
    (TypeChannelRequestSubsystem, Some KindChannelRequestSubsystem),
    (TypeChannelRequestWindow, Some KindChannelRequestWindow),
    (TypeChannelRequestX11, Some KindChannelRequestX11),
    (TypeIO, Some KindIO),
    (TypeRequestFailed, Some KindRequestFailed),
    (TypeExit, Some KindExit),
    (TypeExitSignal, Some KindExitSignal),
    (TypeClose, None),
    (TypeWriteClose, None)]"

definition ID :: "Type \<Rightarrow> string" where
  "ID messageType = (case map_of typeToID messageType of Some val \<Rightarrow> val | None \<Rightarrow> ''invalid'')"

definition Name :: "Type \<Rightarrow> string" where
  "Name messageType = (case map_of typeToName messageType of Some val \<Rightarrow> val | None \<Rightarrow> ''invalid'')"

definition type_Payload :: "Type \<Rightarrow> go_error + payload_kind option" where
  "type_Payload messageType =
     (case map_of messageTypeToPayload messageType of
        None \<Rightarrow> Inl (ErrorString (''invalid message type: '' @ itoa messageType))
      | Some payload \<Rightarrow> Inr payload)"

record Message =
  msg_ConnectionID :: string
  Timestamp :: int
  MessageType :: Type
  msg_Payload :: "audit_payload option"
  msg_ChannelID :: "uint64 option"

text \<open>The \<open>Equals\<close> of the payloads compares all fields of two payloads of the same struct, but for the country of a
  connect message and the raw payload of requests that were unknown or not decoded.\<close>

fun compared :: "audit_payload \<Rightarrow> audit_payload" where
  "compared (PayloadConnect addr country) = PayloadConnect addr ''''"
| "compared (PayloadChannelRequestUnknownType i t payload) = PayloadChannelRequestUnknownType i t []"
| "compared (PayloadChannelRequestDecodeFailed i t payload reason) = PayloadChannelRequestDecodeFailed i t [] reason"
| "compared (PayloadGlobalRequestDecodeFailed i t payload reason) = PayloadGlobalRequestDecodeFailed i t [] reason"
| "compared p = p"

definition payload_Equals :: "audit_payload \<Rightarrow> audit_payload \<Rightarrow> bool" where
  "payload_Equals p other = (compared p = compared other)"

definition Equals :: "Message \<Rightarrow> Message \<Rightarrow> bool" where
  "Equals m other =
     (msg_ConnectionID m = msg_ConnectionID other \<and> Timestamp m = Timestamp other \<and>
      MessageType m = MessageType other \<and> msg_ChannelID m = msg_ChannelID other \<and>
      (case (msg_Payload m, msg_Payload other) of
         (None, None) \<Rightarrow> True
       | (Some p, Some q) \<Rightarrow> payload_Equals p q
       | _ \<Rightarrow> False))"

section \<open>The logger\<close>

text \<open>What a method of the logger writes: type, payload and channel of a message.\<close>

type_synonym entry = "Type \<times> audit_payload option \<times> uint64 option"

definition log_OnAuthPassword :: "string \<Rightarrow> bytes \<Rightarrow> entry" where
  "log_OnAuthPassword username password = (TypeAuthPassword, Some (PayloadAuthPassword username password), None)"

definition log_OnAuthPasswordSuccess :: "string \<Rightarrow> bytes \<Rightarrow> entry" where
  "log_OnAuthPasswordSuccess username password = (TypeAuthPasswordSuccessful, Some (PayloadAuthPassword username password), None)"

definition log_OnAuthPasswordFailed :: "string \<Rightarrow> bytes \<Rightarrow> entry" where
  "log_OnAuthPasswordFailed username password = (TypeAuthPasswordFailed, Some (PayloadAuthPassword username password), None)"

definition log_OnAuthPasswordBackendError :: "string \<Rightarrow> bytes \<Rightarrow> string \<Rightarrow> entry" where
  "log_OnAuthPasswordBackendError username password reason = (TypeAuthPasswordBackendError, Some (PayloadAuthPasswordBackendError username password reason), None)"

definition log_OnAuthPubKey :: "string \<Rightarrow> string \<Rightarrow> entry" where
  "log_OnAuthPubKey username pubKey = (TypeAuthPubKey, Some (PayloadAuthPubKey username pubKey), None)"

definition log_OnAuthPubKeySuccess :: "string \<Rightarrow> string \<Rightarrow> entry" where
  "log_OnAuthPubKeySuccess username pubKey = (TypeAuthPubKeySuccessful, Some (PayloadAuthPubKey username pubKey), None)"

definition log_OnAuthPubKeyFailed :: "string \<Rightarrow> string \<Rightarrow> entry" where
  "log_OnAuthPubKeyFailed username pubKey = (TypeAuthPubKeyFailed, Some (PayloadAuthPubKey username pubKey), None)"

definition log_OnAuthPubKeyBackendError :: "string \<Rightarrow> string \<Rightarrow> string \<Rightarrow> entry" where
  "log_OnAuthPubKeyBackendError username pubKey reason = (TypeAuthPubKeyBackendError, Some (PayloadAuthPubKeyBackendError username pubKey reason), None)"

definition log_OnAuthKeyboardInteractiveChallenge :: "string \<Rightarrow> string \<Rightarrow> (string \<times> bool) list \<Rightarrow> entry" where
  "log_OnAuthKeyboardInteractiveChallenge username instruction questions = (TypeAuthKeyboardInteractiveChallenge, Some (PayloadAuthKeyboardInteractiveChallenge username instruction questions), None)"

definition log_OnAuthKeyboardInteractiveAnswer :: "string \<Rightarrow> (string \<times> string) list \<Rightarrow> entry" where
  "log_OnAuthKeyboardInteractiveAnswer username answers = (TypeAuthKeyboardInteractiveAnswer, Some (PayloadAuthKeyboardInteractiveAnswer username answers), None)"

definition log_OnAuthKeyboardInteractiveFailed :: "string \<Rightarrow> entry" where
  "log_OnAuthKeyboardInteractiveFailed username = (TypeAuthKeyboardInteractiveFailed, Some (PayloadAuthKeyboardInteractiveFailed username), None)"

definition log_OnAuthKeyboardInteractiveBackendError :: "string \<Rightarrow> string \<Rightarrow> entry" where
  "log_OnAuthKeyboardInteractiveBackendError username reason = (TypeAuthKeyboardInteractiveBackendError, Some (PayloadAuthKeyboardInteractiveBackendError username reason), None)"

definition log_OnHandshakeFailed :: "string \<Rightarrow> entry" where
  "log_OnHandshakeFailed reason = (TypeHandshakeFailed, Some (PayloadHandshakeFailed reason), None)"

definition log_OnHandshakeSuccessful :: "string \<Rightarrow> entry" where
  "log_OnHandshakeSuccessful username = (TypeHandshakeSuccessful, Some (PayloadHandshakeSuccessful username), None)"

definition log_OnGlobalRequestUnknown :: "string \<Rightarrow> entry" where
  "log_OnGlobalRequestUnknown requestType = (TypeGlobalRequestUnknown, Some (PayloadGlobalRequestUnknown requestType), None)"

definition log_OnGlobalRequestDecodeFailed :: "uint64 \<Rightarrow> string \<Rightarrow> bytes \<Rightarrow> go_error \<Rightarrow> entry" where
  "log_OnGlobalRequestDecodeFailed requestID requestType payload reason = (TypeGlobalRequestDecodeFailed, Some (PayloadGlobalRequestDecodeFailed requestID requestType payload (error_text reason)), None)"

definition log_OnNewChannel :: "uint64 option \<Rightarrow> string \<Rightarrow> entry" where
  "log_OnNewChannel channelID channelType = (TypeNewChannel, Some (PayloadNewChannel channelType), channelID)"

definition log_OnNewChannelFailed :: "uint64 option \<Rightarrow> string \<Rightarrow> string \<Rightarrow> entry" where
  "log_OnNewChannelFailed channelID channelType reason = (TypeNewChannelFailed, Some (PayloadNewChannelFailed channelType reason), channelID)"

definition log_OnNewChannelSuccess :: "uint64 option \<Rightarrow> string \<Rightarrow> entry" where
  "log_OnNewChannelSuccess channelID channelType = (TypeNewChannelSuccessful, Some (PayloadNewChannelSuccessful channelType), channelID)"

definition log_OnRequestTCPReverseForward :: "string \<Rightarrow> uint32 \<Rightarrow> entry" where
  "log_OnRequestTCPReverseForward bindHost bindPort = (TypeRequestReverseForward, Some (PayloadRequestReverseForward bindHost bindPort), None)"

definition log_OnRequestCancelTCPReverseForward :: "string \<Rightarrow> uint32 \<Rightarrow> entry" where
  "log_OnRequestCancelTCPReverseForward bindHost bindPort = (TypeRequestCancelReverseForward, Some (PayloadRequestReverseForward bindHost bindPort), None)"

definition log_OnTCPForwardChannel :: "uint64 option \<Rightarrow> string \<Rightarrow> uint32 \<Rightarrow> string \<Rightarrow> uint32 \<Rightarrow> entry" where
  "log_OnTCPForwardChannel channelID hostToConnect portToConnect originatorHost originatorPort = (TypeNewForwardChannel, Some (PayloadNewForwardChannel hostToConnect portToConnect originatorHost originatorPort), channelID)"

definition log_OnReverseForwardChannel :: "uint64 option \<Rightarrow> string \<Rightarrow> uint32 \<Rightarrow> string \<Rightarrow> uint32 \<Rightarrow> entry" where
  "log_OnReverseForwardChannel channelID connectedHost connectedPort originatorHost originatorPort = (TypeNewReverseForwardChannel, Some (PayloadNewReverseForwardChannel connectedHost connectedPort originatorHost originatorPort), channelID)"

definition log_OnReverseStreamLocalChannel :: "uint64 option \<Rightarrow> string \<Rightarrow> entry" where
  "log_OnReverseStreamLocalChannel channelID path = (TypeNewReverseStreamLocalChannel, Some (PayloadRequestStreamLocal path), channelID)"

definition log_OnReverseX11ForwardChannel :: "uint64 option \<Rightarrow> string \<Rightarrow> uint32 \<Rightarrow> entry" where
  "log_OnReverseX11ForwardChannel channelID originatorHost originatorPort = (TypeNewReverseX11ForwardChannel, Some (PayloadNewReverseX11ForwardChannel originatorHost originatorPort), channelID)"

definition log_OnDirectStreamLocal :: "uint64 option \<Rightarrow> string \<Rightarrow> entry" where
  "log_OnDirectStreamLocal channelID path = (TypeNewForwardStreamLocalChannel, Some (PayloadRequestStreamLocal path), channelID)"

definition log_OnRequestStreamLocal :: "string \<Rightarrow> entry" where
  "log_OnRequestStreamLocal path = (TypeRequestStreamLocal, Some (PayloadRequestStreamLocal path), None)"

definition log_OnRequestCancelStreamLocal :: "string \<Rightarrow> entry" where
  "log_OnRequestCancelStreamLocal path = (TypeRequestCancelStreamLocal, Some (PayloadRequestStreamLocal path), None)"

definition log_OnRequestUnknown :: "uint64 option \<Rightarrow> uint64 \<Rightarrow> string \<Rightarrow> bytes \<Rightarrow> entry" where
  "log_OnRequestUnknown channelID requestID requestType payload = (TypeChannelRequestUnknownType, Some (PayloadChannelRequestUnknownType requestID requestType payload), channelID)"

definition log_OnRequestDecodeFailed :: "uint64 option \<Rightarrow> uint64 \<Rightarrow> string \<Rightarrow> bytes \<Rightarrow> string \<Rightarrow> entry" where
  "log_OnRequestDecodeFailed channelID requestID requestType payload reason = (TypeChannelRequestDecodeFailed, Some (PayloadChannelRequestDecodeFailed requestID requestType payload reason), channelID)"

definition log_OnRequestSetEnv :: "uint64 option \<Rightarrow> uint64 \<Rightarrow> string \<Rightarrow> string \<Rightarrow> entry" where
  "log_OnRequestSetEnv channelID requestID name val = (TypeChannelRequestSetEnv, Some (PayloadChannelRequestSetEnv requestID name val), channelID)"

definition log_OnRequestExec :: "uint64 option \<Rightarrow> uint64 \<Rightarrow> string \<Rightarrow> entry" where
  "log_OnRequestExec channelID requestID program = (TypeChannelRequestExec, Some (PayloadChannelRequestExec requestID program), channelID)"

definition log_OnRequestPty :: "uint64 option \<Rightarrow> uint64 \<Rightarrow> string \<Rightarrow> uint32 \<Rightarrow> uint32 \<Rightarrow> uint32 \<Rightarrow> uint32 \<Rightarrow> bytes \<Rightarrow> entry" where
  "log_OnRequestPty channelID requestID term columns rows width height modelist = (TypeChannelRequestPty, Some (PayloadChannelRequestPty requestID term columns rows width height modelist), channelID)"

definition log_OnRequestX11 :: "uint64 option \<Rightarrow> uint64 \<Rightarrow> bool \<Rightarrow> string \<Rightarrow> string \<Rightarrow> uint32 \<Rightarrow> entry" where
  "log_OnRequestX11 channelID requestID singleConnection protocol cookie screen = (TypeChannelRequestX11, Some (PayloadChannelRequestX11 requestID singleConnection protocol cookie screen), channelID)"

definition log_OnRequestShell :: "uint64 option \<Rightarrow> uint64 \<Rightarrow> entry" where
  "log_OnRequestShell channelID requestID = (TypeChannelRequestShell, Some (PayloadChannelRequestShell requestID), channelID)"

definition log_OnRequestSignal :: "uint64 option \<Rightarrow> uint64 \<Rightarrow> string \<Rightarrow> entry" where
  "log_OnRequestSignal channelID requestID signal = (TypeChannelRequestSignal, Some (PayloadChannelRequestSignal requestID signal), channelID)"

definition log_OnRequestSubsystem :: "uint64 option \<Rightarrow> uint64 \<Rightarrow> string \<Rightarrow> entry" where
  "log_OnRequestSubsystem channelID requestID subsystem = (TypeChannelRequestSubsystem, Some (PayloadChannelRequestSubsystem requestID subsystem), channelID)"

definition log_OnRequestWindow :: "uint64 option \<Rightarrow> uint64 \<Rightarrow> uint32 \<Rightarrow> uint32 \<Rightarrow> uint32 \<Rightarrow> uint32 \<Rightarrow> entry" where
  "log_OnRequestWindow channelID requestID columns rows width height = (TypeChannelRequestWindow, Some (PayloadChannelRequestWindow requestID columns rows width height), channelID)"

definition log_io :: "uint64 option \<Rightarrow> Stream \<Rightarrow> bytes \<Rightarrow> entry" where
  "log_io channelID stream data = (TypeIO, Some (PayloadIO stream data), channelID)"

definition log_OnRequestFailed :: "uint64 option \<Rightarrow> uint64 \<Rightarrow> go_error \<Rightarrow> entry" where
  "log_OnRequestFailed channelID requestID reason = (TypeRequestFailed, Some (PayloadRequestFailed requestID (error_text reason)), channelID)"

definition log_OnExit :: "uint64 option \<Rightarrow> uint32 \<Rightarrow> entry" where
  "log_OnExit channelID exitStatus = (TypeExit, Some (PayloadExit exitStatus), channelID)"

definition log_OnExitSignal :: "uint64 option \<Rightarrow> string \<Rightarrow> bool \<Rightarrow> string \<Rightarrow> string \<Rightarrow> entry" where
  "log_OnExitSignal channelID signal coreDumped errorMessage languageTag = (TypeExitSignal, Some (PayloadExitSignal signal coreDumped errorMessage languageTag), channelID)"

definition log_OnWriteClose :: "uint64 option \<Rightarrow> entry" where
  "log_OnWriteClose channelID = (TypeWriteClose, None, channelID)"

definition log_OnClose :: "uint64 option \<Rightarrow> entry" where
  "log_OnClose channelID = (TypeClose, None, channelID)"

text \<open>Everything a connection or channel of the logger can write between its first and its last message.\<close>

inductive logger_entry :: "entry \<Rightarrow> bool" where
  "logger_entry (log_OnAuthPassword username password)"
| "logger_entry (log_OnAuthPasswordSuccess username password)"
| "logger_entry (log_OnAuthPasswordFailed username password)"
| "logger_entry (log_OnAuthPasswordBackendError username password reason)"
| "logger_entry (log_OnAuthPubKey username pubKey)"
| "logger_entry (log_OnAuthPubKeySuccess username pubKey)"
| "logger_entry (log_OnAuthPubKeyFailed username pubKey)"
| "logger_entry (log_OnAuthPubKeyBackendError username pubKey reason)"
| "logger_entry (log_OnAuthKeyboardInteractiveChallenge username instruction questions)"
| "logger_entry (log_OnAuthKeyboardInteractiveAnswer username answers)"
| "logger_entry (log_OnAuthKeyboardInteractiveFailed username)"
| "logger_entry (log_OnAuthKeyboardInteractiveBackendError username reason)"
| "logger_entry (log_OnHandshakeFailed reason)"
| "logger_entry (log_OnHandshakeSuccessful username)"
| "logger_entry (log_OnGlobalRequestUnknown requestType)"
| "logger_entry (log_OnGlobalRequestDecodeFailed requestID requestType payload reason)"
| "logger_entry (log_OnNewChannel channelID channelType)"
| "logger_entry (log_OnNewChannelFailed channelID channelType reason)"
| "logger_entry (log_OnNewChannelSuccess channelID channelType)"
| "logger_entry (log_OnRequestTCPReverseForward bindHost bindPort)"
| "logger_entry (log_OnRequestCancelTCPReverseForward bindHost bindPort)"
| "logger_entry (log_OnTCPForwardChannel channelID hostToConnect portToConnect originatorHost originatorPort)"
| "logger_entry (log_OnReverseForwardChannel channelID connectedHost connectedPort originatorHost originatorPort)"
| "logger_entry (log_OnReverseStreamLocalChannel channelID path)"
| "logger_entry (log_OnReverseX11ForwardChannel channelID originatorHost originatorPort)"
| "logger_entry (log_OnDirectStreamLocal channelID path)"
| "logger_entry (log_OnRequestStreamLocal path)"
| "logger_entry (log_OnRequestCancelStreamLocal path)"
| "logger_entry (log_OnRequestUnknown channelID requestID requestType payload)"
| "logger_entry (log_OnRequestDecodeFailed channelID requestID requestType payload reason)"
| "logger_entry (log_OnRequestSetEnv channelID requestID name val)"
| "logger_entry (log_OnRequestExec channelID requestID program)"
| "logger_entry (log_OnRequestPty channelID requestID term columns rows width height modelist)"
| "logger_entry (log_OnRequestX11 channelID requestID singleConnection protocol cookie screen)"
| "logger_entry (log_OnRequestShell channelID requestID)"
| "logger_entry (log_OnRequestSignal channelID requestID signal)"
| "logger_entry (log_OnRequestSubsystem channelID requestID subsystem)"
| "logger_entry (log_OnRequestWindow channelID requestID columns rows width height)"
| "logger_entry (log_io channelID stream data)"
| "logger_entry (log_OnRequestFailed channelID requestID reason)"
| "logger_entry (log_OnExit channelID exitStatus)"
| "logger_entry (log_OnExitSignal channelID signal coreDumped errorMessage languageTag)"
| "logger_entry (log_OnWriteClose channelID)"
| "logger_entry (log_OnClose channelID)"

lemmas log_defs =
  log_OnAuthPassword_def log_OnAuthPasswordSuccess_def log_OnAuthPasswordFailed_def
  log_OnAuthPasswordBackendError_def log_OnAuthPubKey_def log_OnAuthPubKeySuccess_def
  log_OnAuthPubKeyFailed_def log_OnAuthPubKeyBackendError_def log_OnAuthKeyboardInteractiveChallenge_def
  log_OnAuthKeyboardInteractiveAnswer_def log_OnAuthKeyboardInteractiveFailed_def log_OnAuthKeyboardInteractiveBackendError_def
  log_OnHandshakeFailed_def log_OnHandshakeSuccessful_def log_OnGlobalRequestUnknown_def
  log_OnGlobalRequestDecodeFailed_def log_OnNewChannel_def log_OnNewChannelFailed_def
  log_OnNewChannelSuccess_def log_OnRequestTCPReverseForward_def log_OnRequestCancelTCPReverseForward_def
  log_OnTCPForwardChannel_def log_OnReverseForwardChannel_def log_OnReverseStreamLocalChannel_def
  log_OnReverseX11ForwardChannel_def log_OnDirectStreamLocal_def log_OnRequestStreamLocal_def
  log_OnRequestCancelStreamLocal_def log_OnRequestUnknown_def log_OnRequestDecodeFailed_def
  log_OnRequestSetEnv_def log_OnRequestExec_def log_OnRequestPty_def
  log_OnRequestX11_def log_OnRequestShell_def log_OnRequestSignal_def
  log_OnRequestSubsystem_def log_OnRequestWindow_def log_io_def
  log_OnRequestFailed_def log_OnExit_def log_OnExitSignal_def
  log_OnWriteClose_def log_OnClose_def

section \<open>The header\<close>

definition FileFormatLength :: nat where "FileFormatLength = 32"

definition CurrentVersion :: uint64 where "CurrentVersion = 2"

definition FileFormatMagic :: string where "FileFormatMagic = ''ContainerSSH-Auditlog''"

definition fileFormatBytes :: bytes where
  "fileFormatBytes =
     map (\<lambda>c. of_nat (of_char c)) FileFormatMagic @ replicate (FileFormatLength - length FileFormatMagic) 0"

text \<open>\<open>binary.LittleEndian\<close>.\<close>

definition putUint64 :: "uint64 \<Rightarrow> bytes" where
  "putUint64 v = map (\<lambda>i. ucast (drop_bit (8 * i) v)) [0..<8]"

fun getUint64 :: "bytes \<Rightarrow> uint64" where
  "getUint64 [] = 0"
| "getUint64 (b # bs) = ucast b OR push_bit 8 (getUint64 bs)"

definition getBytes :: "uint64 \<Rightarrow> bytes" where
  "getBytes version = fileFormatBytes @ putUint64 version"

definition readHeader :: "bytes \<Rightarrow> uint64 \<Rightarrow> go_error + uint64 \<times> bytes" where
  "readHeader reader maxVersion =
     (let headerBytes = take (FileFormatLength + 8) reader
      in if length headerBytes < FileFormatLength + 8
         then Inl (ErrorString (if headerBytes = [] then ''EOF'' else ''unexpected EOF''))
         else if take FileFormatLength headerBytes \<noteq> fileFormatBytes
         then Inl (ErrorString (''invalid file format header: ['' @
                join '' '' (map (\<lambda>b. itoa (uint b)) (take FileFormatLength headerBytes)) @ '']''))
         else let version = getUint64 (drop FileFormatLength headerBytes)
              in if version > maxVersion
                 then Inl (ErrorString (''file format version is higher than supported: '' @ itoa (uint version)))
                 else Inr (version, drop (FileFormatLength + 8) reader))"

section \<open>The encoder\<close>

text \<open>The storage a connection is written to: the header, what went through the gzip stream, the calls of
  \<open>SetMetadata\<close> and whether it was closed.\<close>

record writer =
  w_header :: bytes
  w_stream :: bytes
  w_metadata :: "(int \<times> string \<times> string \<times> string option) list"
  w_closed :: bool

record encoder_state =
  startTime :: int
  enc_ip :: string
  enc_country :: string
  enc_username :: "string option"
  enc_writer :: writer
  enc_running :: bool

definition SetMetadata :: "encoder_state \<Rightarrow> writer" where
  "SetMetadata e = (enc_writer e)\<lparr>w_metadata := w_metadata (enc_writer e) @
     [(sgn (startTime e) * (\<bar>startTime e\<bar> div 1000000000), enc_ip e, enc_country e, enc_username e)]\<rparr>"

text \<open>The country that is looked up for a connect message goes into the metadata of that call only: the variable is
  shadowed.\<close>

definition storeMetadata :: "(string \<Rightarrow> string) \<Rightarrow> Message \<Rightarrow> encoder_state \<Rightarrow> encoder_state go" where
  "storeMetadata lookup msg e =
     (if MessageType msg = TypeConnect
      then (case msg_Payload msg of
              Some (PayloadConnect remoteAddr c) \<Rightarrow>
                let e = e\<lparr>enc_ip := remoteAddr\<rparr>
                in Ret (e\<lparr>enc_writer := SetMetadata (e\<lparr>enc_country := lookup remoteAddr\<rparr>)\<rparr>)
            | _ \<Rightarrow> Panic ''interface conversion'')
      else if MessageType msg = TypeAuthPasswordSuccessful
      then (case msg_Payload msg of
              Some (PayloadAuthPassword user pw) \<Rightarrow>
                let e = e\<lparr>enc_username := Some user\<rparr> in Ret (e\<lparr>enc_writer := SetMetadata e\<rparr>)
            | _ \<Rightarrow> Panic ''interface conversion'')
      else if MessageType msg = TypeAuthPubKeySuccessful
      then (case msg_Payload msg of
              Some (PayloadAuthPubKey user key) \<Rightarrow>
                let e = e\<lparr>enc_username := Some user\<rparr> in Ret (e\<lparr>enc_writer := SetMetadata e\<rparr>)
            | _ \<Rightarrow> Panic ''interface conversion'')
      else if MessageType msg = TypeHandshakeSuccessful
      then (case msg_Payload msg of
              Some (PayloadHandshakeSuccessful user) \<Rightarrow>
                let e = e\<lparr>enc_username := Some user\<rparr> in Ret (e\<lparr>enc_writer := SetMetadata e\<rparr>)
            | _ \<Rightarrow> Panic ''interface conversion'')
      else Ret e)"

text \<open>One turn of the loop of \<open>Encode\<close>. \<open>item\<close> is the CBOR library writing one message to the stream, or the
  error it returns. After an error the encoder is gone; after a disconnect message it closes the storage.\<close>

definition encode_step ::
    "(Message \<Rightarrow> go_error + bytes) \<Rightarrow> (string \<Rightarrow> string) \<Rightarrow> Message \<Rightarrow> encoder_state \<Rightarrow> (go_error option \<times> encoder_state) go" where
  "encode_step item lookup msg e =
     (let e = (if startTime e = 0 then e\<lparr>startTime := Timestamp msg\<rparr> else e)
      in go_bind (storeMetadata lookup msg e) (\<lambda>e.
           case item msg of
             Inl err \<Rightarrow>
               Ret (Some (ErrorString (''failed to encode audit log message ('' @ error_text err @ '')'')), e\<lparr>enc_running := False\<rparr>)
           | Inr bs \<Rightarrow>
               let w = enc_writer e;
                   w = w\<lparr>w_stream := w_stream w @ bs\<rparr>
               in if MessageType msg = TypeDisconnect
                  then Ret (None, e\<lparr>enc_writer := w\<lparr>w_closed := True\<rparr>, enc_running := False\<rparr>)
                  else Ret (None, e\<lparr>enc_writer := w\<rparr>)))"

definition new_encoder :: encoder_state where
  "new_encoder = \<lparr>startTime = 0, enc_ip = '''', enc_country = ''XX'', enc_username = None,
     enc_writer = \<lparr>w_header = getBytes CurrentVersion, w_stream = [], w_metadata = [], w_closed = False\<rparr>, enc_running = True\<rparr>"

text \<open>\<open>Encode\<close> on the messages that come out of the channel before it is closed.\<close>

fun encode_loop ::
    "(Message \<Rightarrow> go_error + bytes) \<Rightarrow> (string \<Rightarrow> string) \<Rightarrow> Message list \<Rightarrow> encoder_state \<Rightarrow> (go_error option \<times> encoder_state) go" where
  "encode_loop item lookup [] e = Ret (None, e\<lparr>enc_writer := (enc_writer e)\<lparr>w_closed := True\<rparr>, enc_running := False\<rparr>)"
| "encode_loop item lookup (msg # msgs) e =
     go_bind (encode_step item lookup msg e) (\<lambda>(err, e).
       if enc_running e then encode_loop item lookup msgs e else Ret (err, e))"

section \<open>The decoder\<close>

text \<open>A message as the CBOR library reads it, its payload still a map.\<close>

record 'p decodedMessage =
  raw_ConnectionID :: string
  raw_Timestamp :: int
  raw_MessageType :: Type
  raw_Payload :: 'p
  raw_ChannelID :: "uint64 option"

definition decodeMessage ::
    "(payload_kind \<Rightarrow> 'p \<Rightarrow> go_error + audit_payload) \<Rightarrow> 'p decodedMessage \<Rightarrow> go_error + Message" where
  "decodeMessage fill v =
     (let message = (\<lambda>payload. \<lparr>msg_ConnectionID = raw_ConnectionID v, Timestamp = raw_Timestamp v,
            MessageType = raw_MessageType v, msg_Payload = payload, msg_ChannelID = raw_ChannelID v\<rparr>)
      in case type_Payload (raw_MessageType v) of
           Inl err \<Rightarrow> Inl err
         | Inr None \<Rightarrow> Inr (message None)
         | Inr (Some kind) \<Rightarrow>
             (case fill kind (raw_Payload v) of
                Inl err \<Rightarrow> Inl err
              | Inr payload \<Rightarrow> Inr (message (Some payload))))"

text \<open>What the CBOR library finds at the front of the stream.\<close>

datatype 'p parsed = Item "'p decodedMessage" bytes | UnexpectedEOF | ParseError go_error

definition decode_failed :: "go_error \<Rightarrow> go_error" where
  "decode_failed err = ErrorString (''failed to decode messages ('' @ error_text err @ '')'')"

text \<open>The two versions of the format: the messages and the errors that are sent to the caller. The loop of the second is
  given fuel; without fuel it has not returned.\<close>

fun decode_v2 ::
    "(bytes \<Rightarrow> 'p parsed) \<Rightarrow> (payload_kind \<Rightarrow> 'p \<Rightarrow> go_error + audit_payload) \<Rightarrow> nat \<Rightarrow> bytes \<Rightarrow> (Message list \<times> go_error list) go" where
  "decode_v2 parse fill 0 stream = Block"
| "decode_v2 parse fill (Suc fuel) stream =
     (case parse stream of
        UnexpectedEOF \<Rightarrow> Ret ([], [])
      | ParseError err \<Rightarrow> Ret ([], [decode_failed err])
      | Item msg rest \<Rightarrow>
          (case decodeMessage fill msg of
             Inl err \<Rightarrow> Ret ([], [err])
           | Inr m \<Rightarrow> go_bind (decode_v2 parse fill fuel rest) (\<lambda>(ms, errs). Ret (m # ms, errs))))"

fun decode_v1 :: "(payload_kind \<Rightarrow> 'p \<Rightarrow> go_error + audit_payload) \<Rightarrow> 'p decodedMessage list \<Rightarrow> Message list \<times> go_error list" where
  "decode_v1 fill [] = ([], [])"
| "decode_v1 fill (v # vs) =
     (case (decodeMessage fill v, decode_v1 fill vs) of
        (Inl err, (ms, errs)) \<Rightarrow> (ms, err # errs)
      | (Inr m, (ms, errs)) \<Rightarrow> (m # ms, errs))"

definition Decode ::
    "(bytes \<Rightarrow> go_error + 'p decodedMessage list) \<Rightarrow> (bytes \<Rightarrow> 'p parsed) \<Rightarrow> (payload_kind \<Rightarrow> 'p \<Rightarrow> go_error + audit_payload) \<Rightarrow>
     nat \<Rightarrow> bytes \<Rightarrow> (Message list \<times> go_error list) go" where
  "Decode parse_array parse fill fuel reader =
     (case readHeader reader CurrentVersion of
        Inl err \<Rightarrow> Ret ([], [err])
      | Inr (version, stream) \<Rightarrow>
          if version = 1
          then (case parse_array stream of
                  Inl err \<Rightarrow> Ret ([], [decode_failed err])
                | Inr messages \<Rightarrow> Ret (decode_v1 fill messages))
          else if version = 2 then decode_v2 parse fill fuel stream
          else Ret ([], []))"

section \<open>The connection of the logger\<close>

record loggerConnection =
  lc_connectionID :: string
  lc_closed :: bool
  lc_encoder :: encoder_state

text \<open>The channel to the encoder has no buffer: a message is sent when the encoder takes it, and the encoder
  takes the next one when it is done with the last. Without an encoder the sender waits, and holds the lock.\<close>

definition log ::
    "(Message \<Rightarrow> go_error + bytes) \<Rightarrow> (string \<Rightarrow> string) \<Rightarrow> int \<Rightarrow> entry \<Rightarrow> loggerConnection \<Rightarrow> loggerConnection go" where
  "log item lookup now ent l =
     (if lc_closed l then Ret l
      else if \<not> enc_running (lc_encoder l) then Block
      else case ent of (messageType, payload, channelID) \<Rightarrow>
        go_bind (encode_step item lookup
            \<lparr>msg_ConnectionID = lc_connectionID l, Timestamp = now, MessageType = messageType, msg_Payload = payload,
             msg_ChannelID = channelID\<rparr> (lc_encoder l))
          (\<lambda>(err, e). Ret (l\<lparr>lc_encoder := e\<rparr>)))"

definition OnConnect ::
    "(Message \<Rightarrow> go_error + bytes) \<Rightarrow> (string \<Rightarrow> string) \<Rightarrow> go_error option \<Rightarrow> bool \<Rightarrow> int \<Rightarrow> string \<Rightarrow> string \<Rightarrow>
     (go_error + loggerConnection) go" where
  "OnConnect item lookup open_error header_written now connectionID ip =
     (case open_error of
        Some err \<Rightarrow> Ret (Inl err)
      | None \<Rightarrow>
          let conn = \<lparr>lc_connectionID = connectionID, lc_closed = False,
                lc_encoder = new_encoder\<lparr>enc_running := header_written\<rparr>\<rparr>
          in go_bind (log item lookup now (TypeConnect, Some (PayloadConnect ip (lookup ip)), None) conn) (\<lambda>conn. Ret (Inr conn)))"

definition log_OnDisconnect ::
    "(Message \<Rightarrow> go_error + bytes) \<Rightarrow> (string \<Rightarrow> string) \<Rightarrow> int \<Rightarrow> loggerConnection \<Rightarrow> loggerConnection go" where
  "log_OnDisconnect item lookup now l =
     go_bind (log item lookup now (TypeDisconnect, None, None) l) (\<lambda>l.
       if lc_closed l then Panic ''close of closed channel'' else Ret (l\<lparr>lc_closed := True\<rparr>))"

fun log_all ::
    "(Message \<Rightarrow> go_error + bytes) \<Rightarrow> (string \<Rightarrow> string) \<Rightarrow> (int \<times> entry) list \<Rightarrow> loggerConnection \<Rightarrow> loggerConnection go" where
  "log_all item lookup [] l = Ret l"
| "log_all item lookup ((now, ent) # rest) l = go_bind (log item lookup now ent l) (log_all item lookup rest)"

section \<open>Recorded streams\<close>

record intercept =
  int_Stdin :: bool
  int_Stdout :: bool
  int_Stderr :: bool
  int_Forwarding :: bool

text \<open>Which stream a proxy records as; \<open>None\<close> is the stream itself, without recording.\<close>

definition GetStdinProxy :: "intercept \<Rightarrow> Stream option" where
  "GetStdinProxy i = (if int_Stdin i then Some StreamStdin else None)"

definition GetStdoutProxy :: "intercept \<Rightarrow> Stream option" where
  "GetStdoutProxy i = (if int_Stdout i then Some StreamStdout else None)"

definition GetStderrProxy :: "intercept \<Rightarrow> Stream option" where
  "GetStderrProxy i = (if int_Stdout i then Some StreamStderr else None)"

definition GetForwardingProxy :: "intercept \<Rightarrow> (Stream \<times> Stream) option" where
  "GetForwardingProxy i = (if int_Forwarding i then Some (StreamStdin, StreamStdout) else None)"

text \<open>A reader that records, as the steps of its two goroutines. The caller reads into a buffer it uses again; a message
  holds the front of that buffer, not a copy. \<open>Fill\<close> is \<open>backend.Read\<close> writing to the buffer, \<open>Send\<close> the
  message for it being taken by the encoder, \<open>Write\<close> the encoder writing the message it has taken.\<close>

record tap =
  buffer :: bytes
  filled :: "nat option"
  taken :: "nat option"
  recorded :: "bytes list"
  transferred :: "bytes list"

datatype tap_event = Fill bytes | Send | Write

fun tap_next :: "tap_event \<Rightarrow> tap \<Rightarrow> tap option" where
  "tap_next (Fill data) t =
     (if filled t \<noteq> None \<or> data = [] then None
      else Some (t\<lparr>buffer := data @ drop (length data) (buffer t), filled := Some (length data),
                  transferred := transferred t @ [data]\<rparr>))"
| "tap_next Send t =
     (case (filled t, taken t) of
        (Some n, None) \<Rightarrow> Some (t\<lparr>filled := None, taken := Some n\<rparr>)
      | _ \<Rightarrow> None)"
| "tap_next Write t =
     (case taken t of
        None \<Rightarrow> None
      | Some n \<Rightarrow> Some (t\<lparr>taken := None, recorded := recorded t @ [take n (buffer t)]\<rparr>))"

fun tap_run :: "tap_event list \<Rightarrow> tap \<Rightarrow> tap option" where
  "tap_run [] t = Some t"
| "tap_run (ev # evs) t = (case tap_next ev t of None \<Rightarrow> None | Some t' \<Rightarrow> tap_run evs t')"

section \<open>Reading the log back\<close>

lemma getUint64_bytes:
  "getUint64 (map (\<lambda>i. ucast (drop_bit (8 * i) v)) [k..<k + n]) = take_bit (8 * n) (drop_bit (8 * k) v)"
proof (induction n arbitrary: k)
  case (Suc n)
  have "ucast (ucast (drop_bit (8 * k) v) :: uint8) OR push_bit 8 (take_bit (8 * n) (drop_bit (8 * Suc k) v)) =
      take_bit (8 * Suc n) (drop_bit (8 * k) v)"
  proof (rule bit_word_eqI)
    fix m
    assume m: "m < LENGTH(64)"
    show "bit (ucast (ucast (drop_bit (8 * k) v) :: uint8) OR push_bit 8 (take_bit (8 * n) (drop_bit (8 * Suc k) v))) m =
        bit (take_bit (8 * Suc n) (drop_bit (8 * k) v)) m"
    proof (cases "m < 8")
      case True
      then show ?thesis using m by (simp add: bit_or_iff bit_ucast_iff bit_push_bit_iff bit_take_bit_iff bit_drop_bit_eq)
    next
      case False
      then obtain j where "m = 8 + j" using le_Suc_ex by fastforce
      then show ?thesis
        using m by (auto simp: bit_or_iff bit_ucast_iff bit_push_bit_iff bit_take_bit_iff bit_drop_bit_eq dest: bit_imp_le_length)
          (simp_all add: ac_simps)
    qed
  qed
  then show ?case
    using Suc.IH [of "Suc k"] by (simp add: upt_rec)
qed simp

lemma getUint64_putUint64: "getUint64 (putUint64 v) = v"
  using getUint64_bytes [of v 0 8] by (simp add: putUint64_def take_bit_word_eq_self)

lemma length_fileFormatBytes: "length fileFormatBytes = 32"
  by (simp add: fileFormatBytes_def FileFormatMagic_def FileFormatLength_def)

lemma length_putUint64: "length (putUint64 v) = 8"
  by (simp add: putUint64_def)

lemma readHeader_getBytes:
  "v \<le> maxVersion \<Longrightarrow> readHeader (getBytes v @ rest) maxVersion = Inr (v, rest)"
  using length_fileFormatBytes length_putUint64 [of v]
  by (simp add: readHeader_def getBytes_def FileFormatLength_def getUint64_putUint64 Let_def)

definition well_typed :: "Type \<Rightarrow> audit_payload option \<Rightarrow> bool" where
  "well_typed messageType payload = (type_Payload messageType = Inr (map_option kind_of payload))"

lemma well_typed_iff: "well_typed t p \<longleftrightarrow> map_of messageTypeToPayload t = Some (map_option kind_of p)"
  by (auto simp: well_typed_def type_Payload_def split: option.splits)

lemma logger_entry_typed: "logger_entry (t, p, c) \<Longrightarrow> well_typed t p"
  by (erule logger_entry.cases) (auto simp: well_typed_iff log_defs messageTypeToPayload_def)

lemma logger_entry_not_disconnect: "logger_entry (t, p, c) \<Longrightarrow> t \<noteq> TypeDisconnect"
  by (erule logger_entry.cases) (auto simp: log_defs)

text \<open>A message that is well typed passes the type assertions of the encoder.\<close>

definition audit_message :: "string \<Rightarrow> int \<times> entry \<Rightarrow> Message" where
  "audit_message connectionID te =
     (case te of (now, messageType, payload, channelID) \<Rightarrow>
        \<lparr>msg_ConnectionID = connectionID, Timestamp = now, MessageType = messageType, msg_Payload = payload, msg_ChannelID = channelID\<rparr>)"

lemma payload_of:
  "map_of messageTypeToPayload TypeConnect = Some (Some KindConnect)"
  "map_of messageTypeToPayload TypeDisconnect = Some None"
  "map_of messageTypeToPayload TypeAuthPasswordSuccessful = Some (Some KindAuthPassword)"
  "map_of messageTypeToPayload TypeAuthPubKeySuccessful = Some (Some KindAuthPubKey)"
  "map_of messageTypeToPayload TypeHandshakeSuccessful = Some (Some KindHandshakeSuccessful)"
  by (simp_all add: messageTypeToPayload_def)

lemma kind_of_inv [simp]:
  "kind_of p = KindConnect \<longleftrightarrow> (\<exists>a c. p = PayloadConnect a c)"
  "kind_of p = KindAuthPassword \<longleftrightarrow> (\<exists>u pw. p = PayloadAuthPassword u pw)"
  "kind_of p = KindAuthPubKey \<longleftrightarrow> (\<exists>u k. p = PayloadAuthPubKey u k)"
  "kind_of p = KindHandshakeSuccessful \<longleftrightarrow> (\<exists>u. p = PayloadHandshakeSuccessful u)"
  by (cases p; simp)+

lemma storeMetadata_returns:
  assumes "well_typed (MessageType msg) (msg_Payload msg)"
  shows "\<exists>e'. storeMetadata lookup msg e = Ret e' \<and> enc_running e' = enc_running e \<and> startTime e' = startTime e \<and>
    w_stream (enc_writer e') = w_stream (enc_writer e) \<and> w_header (enc_writer e') = w_header (enc_writer e)"
proof -
  have "\<exists>a c. msg_Payload msg = Some (PayloadConnect a c)" if "MessageType msg = TypeConnect"
    using assms that by (cases "msg_Payload msg") (auto simp: well_typed_iff payload_of dest: sym)
  moreover have "\<exists>u p. msg_Payload msg = Some (PayloadAuthPassword u p)" if "MessageType msg = TypeAuthPasswordSuccessful"
    using assms that by (cases "msg_Payload msg") (auto simp: well_typed_iff payload_of dest: sym)
  moreover have "\<exists>u p. msg_Payload msg = Some (PayloadAuthPubKey u p)" if "MessageType msg = TypeAuthPubKeySuccessful"
    using assms that by (cases "msg_Payload msg") (auto simp: well_typed_iff payload_of dest: sym)
  moreover have "\<exists>u. msg_Payload msg = Some (PayloadHandshakeSuccessful u)" if "MessageType msg = TypeHandshakeSuccessful"
    using assms that by (cases "msg_Payload msg") (auto simp: well_typed_iff payload_of dest: sym)
  ultimately show ?thesis
    by (auto simp: storeMetadata_def SetMetadata_def Let_def)
qed

lemma encode_step_returns:
  assumes "well_typed (MessageType msg) (msg_Payload msg)" and "item msg = Inr bs" and "enc_running e"
  shows "\<exists>e'. encode_step item lookup msg e = Ret (None, e') \<and> enc_running e' = (MessageType msg \<noteq> TypeDisconnect) \<and>
    w_stream (enc_writer e') = w_stream (enc_writer e) @ bs \<and> w_header (enc_writer e') = w_header (enc_writer e) \<and>
    (MessageType msg = TypeDisconnect \<longrightarrow> w_closed (enc_writer e'))"
  using storeMetadata_returns [OF assms(1), of lookup "if startTime e = 0 then e\<lparr>startTime := Timestamp msg\<rparr> else e"] assms(2,3)
  by (auto simp: encode_step_def Let_def)

text \<open>The CBOR library and the library that fills structs read back what was written, for the given messages; the end of
  the stream is an unexpected end of file.\<close>

definition reads_back ::
    "(Message \<Rightarrow> go_error + bytes) \<Rightarrow> (bytes \<Rightarrow> 'p parsed) \<Rightarrow> (payload_kind \<Rightarrow> 'p \<Rightarrow> go_error + audit_payload) \<Rightarrow> Message list \<Rightarrow> bool" where
  "reads_back item parse fill msgs \<longleftrightarrow>
     parse [] = UnexpectedEOF \<and>
     (\<forall>m\<in>set msgs. \<exists>bs raw. item m = Inr bs \<and> (\<forall>rest. parse (bs @ rest) = Item raw rest) \<and>
        raw_ConnectionID raw = msg_ConnectionID m \<and> raw_Timestamp raw = Timestamp m \<and> raw_MessageType raw = MessageType m \<and>
        raw_ChannelID raw = msg_ChannelID m \<and>
        (\<forall>p. msg_Payload m = Some p \<longrightarrow> fill (kind_of p) (raw_Payload raw) = Inr p))"

text \<open>The bytes of a sequence of messages.\<close>

definition written :: "(Message \<Rightarrow> go_error + bytes) \<Rightarrow> Message list \<Rightarrow> bytes" where
  "written item msgs = concat (map (\<lambda>m. case item m of Inr bs \<Rightarrow> bs | Inl _ \<Rightarrow> []) msgs)"

lemma decodeMessage_back:
  assumes "well_typed (MessageType m) (msg_Payload m)"
    and "raw_ConnectionID raw = msg_ConnectionID m" "raw_Timestamp raw = Timestamp m" "raw_MessageType raw = MessageType m"
      "raw_ChannelID raw = msg_ChannelID m"
    and "\<forall>p. msg_Payload m = Some p \<longrightarrow> fill (kind_of p) (raw_Payload raw) = Inr p"
  shows "decodeMessage fill raw = Inr m"
  using assms by (cases "msg_Payload m") (auto simp: decodeMessage_def well_typed_def Let_def)

lemma decode_v2_written:
  assumes "reads_back item parse fill msgs" and "\<forall>m\<in>set msgs. well_typed (MessageType m) (msg_Payload m)"
    and "length msgs < fuel"
  shows "decode_v2 parse fill fuel (written item msgs) = Ret (msgs, [])"
  using assms
proof (induction msgs arbitrary: fuel)
  case Nil
  then show ?case by (cases fuel) (auto simp: reads_back_def written_def)
next
  case (Cons m msgs)
  obtain fuel' where fuel: "fuel = Suc fuel'" "length msgs < fuel'"
    using Cons.prems(3) by (cases fuel) auto
  obtain bs raw where "item m = Inr bs" and parse: "\<And>rest. parse (bs @ rest) = Item raw rest"
    and raw: "raw_ConnectionID raw = msg_ConnectionID m" "raw_Timestamp raw = Timestamp m" "raw_MessageType raw = MessageType m"
      "raw_ChannelID raw = msg_ChannelID m" "\<forall>p. msg_Payload m = Some p \<longrightarrow> fill (kind_of p) (raw_Payload raw) = Inr p"
    using Cons.prems(1) unfolding reads_back_def by auto
  then have "written item (m # msgs) = bs @ written item msgs" by (simp add: written_def)
  moreover have "decodeMessage fill raw = Inr m"
    using Cons.prems(2) raw by (intro decodeMessage_back) simp_all
  moreover have "decode_v2 parse fill fuel' (written item msgs) = Ret (msgs, [])"
    using Cons.prems(1,2) fuel(2) by (intro Cons.IH) (auto simp: reads_back_def)
  ultimately show ?case
    by (simp add: fuel(1) parse)
qed

text \<open>An open connection of the logger that has written \<open>msgs\<close>.\<close>

definition has_written :: "(Message \<Rightarrow> go_error + bytes) \<Rightarrow> loggerConnection \<Rightarrow> Message list \<Rightarrow> bool" where
  "has_written item l msgs \<longleftrightarrow> w_header (enc_writer (lc_encoder l)) = getBytes CurrentVersion \<and>
     w_stream (enc_writer (lc_encoder l)) = written item msgs"

definition log_open :: "string \<Rightarrow> loggerConnection \<Rightarrow> bool" where
  "log_open connectionID l \<longleftrightarrow> \<not> lc_closed l \<and> enc_running (lc_encoder l) \<and> lc_connectionID l = connectionID"

lemma log_writes:
  assumes "log_open cid l" "has_written item l msgs" and "well_typed (fst ent) (fst (snd ent))"
    and "item (audit_message cid (now, ent)) = Inr bs"
  shows "\<exists>l'. log item lookup now ent l = Ret l' \<and> has_written item l' (msgs @ [audit_message cid (now, ent)]) \<and>
    \<not> lc_closed l' \<and> lc_connectionID l' = cid \<and> enc_running (lc_encoder l') = (fst ent \<noteq> TypeDisconnect) \<and>
    (fst ent = TypeDisconnect \<longrightarrow> w_closed (enc_writer (lc_encoder l')))"
proof -
  obtain t p c where ent: "ent = (t, p, c)" by (cases ent)
  let ?m = "audit_message cid (now, ent)"
  have m: "?m = \<lparr>msg_ConnectionID = cid, Timestamp = now, MessageType = t, msg_Payload = p, msg_ChannelID = c\<rparr>"
    by (simp add: audit_message_def ent)
  have "well_typed (MessageType ?m) (msg_Payload ?m)" and "enc_running (lc_encoder l)"
    using assms(1,3) by (simp_all add: audit_message_def ent log_open_def)
  from encode_step_returns [of ?m item bs "lc_encoder l" lookup, OF this(1) assms(4) this(2)]
  obtain e' where e': "encode_step item lookup ?m (lc_encoder l) = Ret (None, e')" "enc_running e' = (t \<noteq> TypeDisconnect)"
    "w_stream (enc_writer e') = w_stream (enc_writer (lc_encoder l)) @ bs"
    "w_header (enc_writer e') = w_header (enc_writer (lc_encoder l))" "t = TypeDisconnect \<longrightarrow> w_closed (enc_writer e')"
    by (auto simp: m)
  have "log item lookup now ent l = Ret (l\<lparr>lc_encoder := e'\<rparr>)"
    using assms(1) e'(1) by (simp add: log_def log_open_def ent audit_message_def)
  then show ?thesis
    using assms(1,2,4) e' by (auto simp: has_written_def log_open_def written_def ent)
qed

lemma log_all_writes:
  assumes "log_open cid l" "has_written item l msgs" and "\<forall>te\<in>set entries. logger_entry (snd te)"
    and "\<forall>te\<in>set entries. \<exists>bs. item (audit_message cid te) = Inr bs"
  shows "\<exists>l'. log_all item lookup entries l = Ret l' \<and> log_open cid l' \<and> has_written item l' (msgs @ map (audit_message cid) entries)"
  using assms
proof (induction entries arbitrary: l msgs)
  case (Cons te entries)
  obtain now t p c where te: "te = (now, t, p, c)" by (cases te)
  have "logger_entry (t, p, c)" using Cons.prems(3) te by simp
  note typed = logger_entry_typed [OF this] logger_entry_not_disconnect [OF this]
  obtain bs where "item (audit_message cid (now, t, p, c)) = Inr bs"
    using Cons.prems(4) te by auto
  from log_writes [OF Cons.prems(1,2) _ this, of lookup] typed
  obtain l1 where l1: "log item lookup now (t, p, c) l = Ret l1" "has_written item l1 (msgs @ [audit_message cid te])" "log_open cid l1"
    by (auto simp: log_open_def te)
  from Cons.IH [OF l1(3,2)] Cons.prems(3,4) l1(1) show ?case
    by (simp add: te)
qed simp

text \<open>The messages of a whole connection.\<close>

definition session_messages :: "(string \<Rightarrow> string) \<Rightarrow> string \<Rightarrow> string \<Rightarrow> int \<Rightarrow> (int \<times> entry) list \<Rightarrow> int \<Rightarrow> Message list" where
  "session_messages lookup cid ip t0 entries t1 =
     map (audit_message cid)
       ((t0, TypeConnect, Some (PayloadConnect ip (lookup ip)), None) # entries @ [(t1, TypeDisconnect, None, None)])"

text \<open>C36: Every message the logger writes carries the payload its type stands for: the struct that the decoder creates for
  the type is the struct of the payload, and a type without payload has none.\<close>
theorem audit_messages_typed:
  assumes "logger_entry (messageType, payload, channelID)"
  shows "type_Payload messageType = Inr (map_option kind_of payload)"
  using logger_entry_typed [OF assms] by (simp add: well_typed_def)

theorem audit_messages_typed_witness: "type_Payload TypeExit = Inr (Some KindExit)"
  using audit_messages_typed [OF logger_entry.intros(41) [of "Some 7" 3, unfolded log_OnExit_def]] by simp

lemma OnConnect_writes:
  assumes "item (audit_message cid (t0, TypeConnect, Some (PayloadConnect ip (lookup ip)), None)) = Inr bs"
  shows "\<exists>l. OnConnect item lookup None True t0 cid ip = Ret (Inr l) \<and> log_open cid l \<and>
    has_written item l [audit_message cid (t0, TypeConnect, Some (PayloadConnect ip (lookup ip)), None)]"
proof -
  let ?ent = "(TypeConnect, Some (PayloadConnect ip (lookup ip)), None)"
  let ?l = "\<lparr>lc_connectionID = cid, lc_closed = False, lc_encoder = new_encoder\<lparr>enc_running := True\<rparr>\<rparr>"
  have "log_open cid ?l" "has_written item ?l []" "well_typed (fst ?ent) (fst (snd ?ent))"
    by (simp_all add: log_open_def has_written_def new_encoder_def written_def well_typed_iff payload_of)
  from log_writes [OF this assms, of lookup] show ?thesis
    by (auto simp: OnConnect_def log_open_def)
qed

lemma logged_read_back:
  assumes "reads_back item parse fill (session_messages lookup cid ip t0 entries t1)"
    and "\<forall>te\<in>set entries. logger_entry (snd te)" and "length entries + 2 < fuel"
  shows "\<exists>l l1 l2. OnConnect item lookup None True t0 cid ip = Ret (Inr l) \<and> log_all item lookup entries l = Ret l1 \<and>
    log_OnDisconnect item lookup t1 l1 = Ret l2 \<and> w_closed (enc_writer (lc_encoder l2)) \<and>
    Decode parse_array parse fill fuel (w_header (enc_writer (lc_encoder l2)) @ w_stream (enc_writer (lc_encoder l2))) =
      Ret (session_messages lookup cid ip t0 entries t1, [])"
proof -
  let ?msgs = "session_messages lookup cid ip t0 entries t1"
  have item: "\<exists>bs. item m = Inr bs" if "m \<in> set ?msgs" for m
    using assms(1) that unfolding reads_back_def by blast
  obtain l where l: "OnConnect item lookup None True t0 cid ip = Ret (Inr l)" "log_open cid l"
      "has_written item l [audit_message cid (t0, TypeConnect, Some (PayloadConnect ip (lookup ip)), None)]"
    using item [of "audit_message cid (t0, TypeConnect, Some (PayloadConnect ip (lookup ip)), None)"]
      OnConnect_writes [of item cid t0 ip lookup]
    by (auto simp: session_messages_def)
  obtain l1 where l1: "log_all item lookup entries l = Ret l1" "log_open cid l1"
      "has_written item l1 (audit_message cid (t0, TypeConnect, Some (PayloadConnect ip (lookup ip)), None) #
         map (audit_message cid) entries)"
    using log_all_writes [OF l(2,3) assms(2), of lookup] item by (auto simp: session_messages_def)
  have "well_typed (fst (TypeDisconnect, None, None)) (fst (snd (TypeDisconnect, None, None)))"
    by (simp add: well_typed_iff payload_of)
  moreover obtain bs where "item (audit_message cid (t1, TypeDisconnect, None, None)) = Inr bs"
    using item by (auto simp: session_messages_def)
  ultimately obtain l2 where l2: "log item lookup t1 (TypeDisconnect, None, None) l1 = Ret l2" "has_written item l2 ?msgs"
      "\<not> lc_closed l2" "w_closed (enc_writer (lc_encoder l2))"
    using log_writes [OF l1(2,3), of "(TypeDisconnect, None, None)" t1 bs lookup] by (auto simp: session_messages_def)
  have "\<forall>m\<in>set ?msgs. well_typed (MessageType m) (msg_Payload m)"
    using assms(2) logger_entry_typed
    by (auto simp: session_messages_def audit_message_def well_typed_iff payload_of)
  then have "decode_v2 parse fill fuel (written item ?msgs) = Ret (?msgs, [])"
    using assms(1,3) by (intro decode_v2_written) (simp_all add: session_messages_def)
  moreover have "readHeader (getBytes CurrentVersion @ written item ?msgs) CurrentVersion = Inr (CurrentVersion, written item ?msgs)"
    by (rule readHeader_getBytes) simp
  ultimately have "Decode parse_array parse fill fuel (w_header (enc_writer (lc_encoder l2)) @ w_stream (enc_writer (lc_encoder l2))) =
      Ret (?msgs, [])"
    using l2(2) by (simp add: Decode_def has_written_def CurrentVersion_def)
  then show ?thesis
    using l(1) l1(1) l2 by (auto simp: log_OnDisconnect_def)
qed


text \<open>A log with one entry, and a codec that writes each of its messages as one byte.\<close>

definition sample_lookup :: "string \<Rightarrow> string" where "sample_lookup ip = ''CH''"

definition sample_entries :: "(int \<times> entry) list" where
  "sample_entries = [(20, log_io (Some 1) StreamStdin [104, 105])]"

definition sample_item :: "Message \<Rightarrow> go_error + bytes" where
  "sample_item m = (if MessageType m = TypeConnect then Inr [0] else if MessageType m = TypeIO then Inr [1] else Inr [2])"

definition sample_raw :: "int \<Rightarrow> entry \<Rightarrow> audit_payload option decodedMessage" where
  "sample_raw now ent =
     (case ent of (t, p, c) \<Rightarrow> \<lparr>raw_ConnectionID = ''0a'', raw_Timestamp = now, raw_MessageType = t, raw_Payload = p, raw_ChannelID = c\<rparr>)"

definition sample_parse :: "bytes \<Rightarrow> audit_payload option parsed" where
  "sample_parse bs =
     (case bs of
        [] \<Rightarrow> UnexpectedEOF
      | b # rest \<Rightarrow>
          if b = 0 then Item (sample_raw 10 (TypeConnect, Some (PayloadConnect ''192.0.2.1'' ''CH''), None)) rest
          else if b = 1 then Item (sample_raw 20 (log_io (Some 1) StreamStdin [104, 105])) rest
          else Item (sample_raw 30 (TypeDisconnect, None, None)) rest)"

definition sample_fill :: "payload_kind \<Rightarrow> audit_payload option \<Rightarrow> go_error + audit_payload" where
  "sample_fill k p = (case p of Some q \<Rightarrow> Inr q | None \<Rightarrow> Inl (ErrorString ''no payload''))"


section \<open>A recorded stream is not a copy\<close>


definition new_tap :: "bytes \<Rightarrow> tap" where
  "new_tap buf = \<lparr>buffer = buf, filled = None, taken = None, recorded = [], transferred = []\<rparr>"

definition in_turn :: "bytes list \<Rightarrow> tap_event list" where
  "in_turn blocks = concat (map (\<lambda>d. [Fill d, Send, Write]) blocks)"

lemma tap_run_in_turn:
  assumes "[] \<notin> set blocks" and "filled t = None" "taken t = None"
  shows "\<exists>t'. tap_run (in_turn blocks) t = Some t' \<and> recorded t' = recorded t @ blocks \<and> transferred t' = transferred t @ blocks"
  using assms
proof (induction blocks arbitrary: t)
  case (Cons d blocks)
  let ?t = "t\<lparr>buffer := d @ drop (length d) (buffer t), filled := None, taken := None, recorded := recorded t @ [d],
    transferred := transferred t @ [d]\<rparr>"
  have "tap_run (in_turn (d # blocks)) t = tap_run (in_turn blocks) ?t"
    using Cons.prems by (cases t) (auto simp: in_turn_def)
  then show ?case using Cons.IH [of ?t] Cons.prems by simp
qed (simp add: in_turn_def)

text \<open>A recorded stream need not be what was transferred. After a first block was handed to the encoder, the reader may
  fill its buffer with the next block before the encoder has written the first: the log then has the second block
  twice and the first not at all. When the encoder always writes before the buffer is used again, the log is
  what was transferred.\<close>
theorem recorded_stream_overwritten:
  assumes "[] \<notin> set blocks" and "length a = length b" and "a \<noteq> []"
  shows "(\<exists>t. tap_run (in_turn blocks) (new_tap buf) = Some t \<and> recorded t = blocks \<and> transferred t = blocks) \<and>
    (\<exists>t. tap_run [Fill a, Send, Fill b, Write, Send, Write] (new_tap buf) = Some t \<and>
       recorded t = [b, b] \<and> transferred t = [a, b])"
proof -
  have "b \<noteq> []" using assms by auto
  then show ?thesis
    using assms(2,3) tap_run_in_turn [OF assms(1), of "new_tap buf"] by (simp add: new_tap_def)
qed

theorem recorded_stream_overwritten_witness:
  "\<exists>t. tap_run [Fill [1], Send, Fill [2], Write, Send, Write] (new_tap [0]) = Some t \<and>
     recorded t = [[2], [2]] \<and> transferred t = [[1], [2]]"
  using recorded_stream_overwritten [of "[]" "[1]" "[2]" "[0]"] by simp

end
