(* ===== verification/Audit_Integration.thy ===== *)
theory Audit_Integration
  imports Audit_Log Authentication SSH_Server
begin

text \<open>
  The audit log layer, \<open>internal/auditlogintegration\<close>: handlers that note what happens on a connection in the
  audit log and pass every call on to the backend behind them. The connection of the logger is the parameter
  \<open>audit\<close>, which adds an entry (\<open>Audit_Log\<close>) to the state; the theorems use it with the list of the entries,
  \<open>journal\<close>, and hand that list to the logger.

  Shown: the layer is transparent, and the log of a session channel is, between the entries for its opening and its
  closing, one entry for every request, in order, followed by one for its failure where the layer notes failures. What
  is noted this way is read back by the decoder.
\<close>

section \<open>Session channels\<close>

definition audit_failed ::
    "(entry \<Rightarrow> 's \<Rightarrow> 's) \<Rightarrow> uint64 \<Rightarrow> uint64 \<Rightarrow> go_error option \<times> 's \<Rightarrow> go_error option \<times> 's" where
  "audit_failed audit ch requestID es =
     (case es of
        (Some err, s) \<Rightarrow> (Some err, audit (log_OnRequestFailed (Some ch) requestID err) s)
      | (None, s) \<Rightarrow> (None, s))"

definition audit_session ::
    "(entry \<Rightarrow> 's \<Rightarrow> 's) \<Rightarrow> uint64 \<Rightarrow> 's session_channel_handler \<Rightarrow> 's session_channel_handler" where
  "audit_session audit ch backend = \<lparr>
     OnUnsupportedChannelRequest = (\<lambda>requestID requestType payload s.
       audit (log_OnRequestUnknown (Some ch) requestID requestType payload)
         (OnUnsupportedChannelRequest backend requestID requestType payload s)),
     OnFailedDecodeChannelRequest = (\<lambda>requestID requestType payload reason s.
       audit (log_OnRequestDecodeFailed (Some ch) requestID requestType payload (error_text reason))
         (OnFailedDecodeChannelRequest backend requestID requestType payload reason s)),
     OnEnvRequest = (\<lambda>requestID name val s.
       audit_failed audit ch requestID
         (OnEnvRequest backend requestID name val (audit (log_OnRequestSetEnv (Some ch) requestID name val) s))),
     OnPtyRequest = (\<lambda>requestID trm columns rows width height modeList s.
       audit_failed audit ch requestID
         (OnPtyRequest backend requestID trm columns rows width height modeList
            (audit (log_OnRequestPty (Some ch) requestID trm columns rows width height modeList) s))),
     OnX11Request = (\<lambda>requestID singleConnection protocol cookie screen reverseHandler s.
       OnX11Request backend requestID singleConnection protocol cookie screen (ReverseHandlerProxy ''x11'' reverseHandler)
         (audit (log_OnRequestX11 (Some ch) requestID singleConnection protocol cookie screen) s)),
     OnExecRequest = (\<lambda>requestID program s.
       OnExecRequest backend requestID program (audit (log_OnRequestExec (Some ch) requestID program) s)),
     OnShell = (\<lambda>requestID s.
       audit_failed audit ch requestID (OnShell backend requestID (audit (log_OnRequestShell (Some ch) requestID) s))),
     OnSubsystem = (\<lambda>requestID subsystem s.
       audit_failed audit ch requestID
         (OnSubsystem backend requestID subsystem (audit (log_OnRequestSubsystem (Some ch) requestID subsystem) s))),
     OnSignal = (\<lambda>requestID sig s.
       audit_failed audit ch requestID
         (OnSignal backend requestID sig (audit (log_OnRequestSignal (Some ch) requestID sig) s))),
     OnWindow = (\<lambda>requestID columns rows width height s.
       audit_failed audit ch requestID
         (OnWindow backend requestID columns rows width height
            (audit (log_OnRequestWindow (Some ch) requestID columns rows width height) s))),
     OnClose = (\<lambda>s. OnClose backend (audit (log_OnClose (Some ch)) s)),
     OnShutdown = OnShutdown backend\<rparr>"

section \<open>Connections\<close>

definition audit_connection ::
    "(entry \<Rightarrow> 's \<Rightarrow> 's) \<Rightarrow> 's ssh_connection_handler \<Rightarrow> 's ssh_connection_handler" where
  "audit_connection audit backend = \<lparr>
     OnUnsupportedGlobalRequest = (\<lambda>requestID requestType payload s.
       OnUnsupportedGlobalRequest backend requestID requestType payload (audit (log_OnGlobalRequestUnknown requestType) s)),
     OnFailedDecodeGlobalRequest = (\<lambda>requestID requestType payload reason s.
       OnFailedDecodeGlobalRequest backend requestID requestType payload reason
         (audit (log_OnGlobalRequestDecodeFailed requestID requestType payload reason) s)),
     OnUnsupportedChannel = (\<lambda>channelID channelType extraData s.
       OnUnsupportedChannel backend channelID channelType extraData
         (audit (log_OnNewChannelFailed (Some channelID) channelType ''unsupported channel type'') s)),
     OnSessionChannel = (\<lambda>meta extraData session s.
       case OnSessionChannel backend meta extraData (SessionProxy (ChannelID meta) session) s of
         (Inl err, s) \<Rightarrow> (Inl err, s)
       | (Inr b, s) \<Rightarrow>
           (Inr (audit_session audit (ChannelID meta) b),
            audit (log_OnNewChannelSuccess (Some (ChannelID meta)) ''session'') s)),
     OnTCPForwardChannel = (\<lambda>channelID hostToConnect portToConnect originatorHost originatorPort s.
       case OnTCPForwardChannel backend channelID hostToConnect portToConnect originatorHost originatorPort
              (audit (log_OnTCPForwardChannel (Some channelID) hostToConnect portToConnect originatorHost originatorPort) s) of
         (Inl err, s) \<Rightarrow> (Inl err, s)
       | (Inr b, s) \<Rightarrow>
           (Inr (ForwardProxy channelID b), audit (log_OnNewChannelSuccess (Some channelID) ''direct-tcpip'') s)),
     OnRequestTCPReverseForward = (\<lambda>bindHost bindPort reverseHandler s.
       OnRequestTCPReverseForward backend bindHost bindPort (ReverseHandlerProxy ''forwarded-tcpip'' reverseHandler)
         (audit (log_OnRequestTCPReverseForward bindHost bindPort) s)),
     OnRequestCancelTCPReverseForward = (\<lambda>bindHost bindPort s.
       OnRequestCancelTCPReverseForward backend bindHost bindPort
         (audit (log_OnRequestCancelTCPReverseForward bindHost bindPort) s)),
     OnDirectStreamLocal = (\<lambda>channelID path s.
       case OnDirectStreamLocal backend channelID path (audit (log_OnDirectStreamLocal (Some channelID) path) s) of
         (Inl err, s) \<Rightarrow> (Inl err, s)
       | (Inr b, s) \<Rightarrow>
           (Inr (ForwardProxy channelID b),
            audit (log_OnNewChannelSuccess (Some channelID) ''direct-streamlocal@openssh.com'') s)),
     OnRequestStreamLocal = (\<lambda>path reverseHandler s.
       OnRequestStreamLocal backend path (ReverseHandlerProxy ''forwarded-streamlocal@openssh.com'' reverseHandler)
         (audit (log_OnRequestStreamLocal path) s)),
     OnRequestCancelStreamLocal = (\<lambda>path s.
       OnRequestCancelStreamLocal backend path (audit (log_OnRequestCancelStreamLocal path) s)),
     OnConnectionShutdown = OnConnectionShutdown backend\<rparr>"

text \<open>The proxy around a reverse-forwarding handler of the server, over the log and the server. A channel it opened is
  noted only when opening succeeded.\<close>

definition audit_opened ::
    "(uint64 \<Rightarrow> entry) \<Rightarrow> string \<Rightarrow> entry list \<Rightarrow> ((go_error + forward_channel \<times> uint64) \<times> server) go \<Rightarrow>
     ((go_error + forward_channel \<times> uint64) \<times> entry list \<times> server) go" where
  "audit_opened opening channelType entries res =
     go_bind res (\<lambda>(r, srv). case r of
         Inl err \<Rightarrow> Ret (Inl err, entries, srv)
       | Inr (channel, cid) \<Rightarrow>
           Ret (Inr (ForwardProxy cid channel, cid),
             entries @ [opening cid, log_OnNewChannelSuccess (Some cid) channelType], srv))"

definition proxy_NewChannelTCP where
  "proxy_NewChannelTCP marshal open_channel channelType rf connectedAddress connectedPort originatorAddress originatorPort es =
     (let (entries, srv) = es
      in audit_opened
           (\<lambda>cid. log_OnReverseForwardChannel (Some cid) connectedAddress connectedPort originatorAddress originatorPort)
           channelType entries
           (NewChannelTCP marshal open_channel rf connectedAddress connectedPort originatorAddress originatorPort srv))"

definition proxy_NewChannelUnix where
  "proxy_NewChannelUnix marshal open_channel channelType rf path es =
     (let (entries, srv) = es
      in audit_opened (\<lambda>cid. log_OnReverseStreamLocalChannel (Some cid) path) channelType entries
           (NewChannelUnix marshal open_channel rf path srv))"

definition proxy_NewChannelX11 where
  "proxy_NewChannelX11 marshal open_channel channelType rf originatorAddress originatorPort es =
     (let (entries, srv) = es
      in audit_opened (\<lambda>cid. log_OnReverseX11ForwardChannel (Some cid) originatorAddress originatorPort) channelType entries
           (NewChannelX11 marshal open_channel rf originatorAddress originatorPort srv))"

text \<open>The proxy around a session channel, over the log and the channel wrapper behind it. It gets its audit channel only
  after the backend has accepted the session; until then its calls panic, all but \<open>Close\<close>, which is that of the
  channel wrapper.\<close>

type_synonym sessionProxy = "uint64 option"

definition proxy_stream ::
    "string \<Rightarrow> (intercept \<Rightarrow> Stream option) \<Rightarrow> intercept \<Rightarrow> sessionProxy \<Rightarrow> (uint64 \<times> Stream option) go" where
  "proxy_stream name proxy i p =
     (case p of
        None \<Rightarrow> Panic (''BUG: '' @ name @ '' requested before channel is open'')
      | Some ch \<Rightarrow> Ret (ch, proxy i))"

definition proxy_Stdin where "proxy_Stdin = proxy_stream ''stdin'' GetStdinProxy"

definition proxy_Stdout where "proxy_Stdout = proxy_stream ''stdout'' GetStdoutProxy"

definition proxy_Stderr where "proxy_Stderr = proxy_stream ''stderr'' GetStderrProxy"

definition proxy_ExitStatus ::
    "uint32 \<Rightarrow> sessionProxy \<Rightarrow> entry list \<times> channel_wrapper \<Rightarrow> (entry list \<times> channel_wrapper) go" where
  "proxy_ExitStatus code p ec =
     (case p of
        None \<Rightarrow> Panic ''BUG: exit status requested before channel is open''
      | Some ch \<Rightarrow> go_bind (ExitStatus code (snd ec)) (\<lambda>c. Ret (fst ec @ [log_OnExit (Some ch) code], c)))"

definition proxy_ExitSignal ::
    "string \<Rightarrow> bool \<Rightarrow> string \<Rightarrow> string \<Rightarrow> sessionProxy \<Rightarrow> entry list \<times> channel_wrapper \<Rightarrow> (entry list \<times> channel_wrapper) go" where
  "proxy_ExitSignal sig coreDumped errorMessage languageTag p ec =
     (case p of
        None \<Rightarrow> Panic ''BUG: exit signal requested before channel is open''
      | Some ch \<Rightarrow> go_bind (ExitSignal sig coreDumped errorMessage languageTag (snd ec)) (\<lambda>c.
          Ret (fst ec @ [log_OnExitSignal (Some ch) sig coreDumped errorMessage languageTag], c)))"

definition proxy_CloseWrite :: "sessionProxy \<Rightarrow> entry list \<times> channel_wrapper \<Rightarrow> (entry list \<times> channel_wrapper) go" where
  "proxy_CloseWrite p ec =
     (case p of
        None \<Rightarrow> Panic ''BUG: write close requested before channel is open''
      | Some ch \<Rightarrow> go_bind (CloseWrite (snd ec)) (\<lambda>c. Ret (fst ec @ [log_OnWriteClose (Some ch)], c)))"

section \<open>Network connections\<close>

text \<open>The answers the layer notes: those of all questions, or the error of the first question without an answer.\<close>

fun audit_answers ::
    "KeyboardInteractiveQuestion list \<Rightarrow> (string \<rightharpoonup> string) \<Rightarrow> go_error + (string \<times> string) list" where
  "audit_answers [] answers = Inr []"
| "audit_answers (q # questions) answers =
     (case answers (getID q) of
        None \<Rightarrow> Inl (ErrorString ''no answer for question'')
      | Some a \<Rightarrow> map_sum id (\<lambda>rest. (Question q, a) # rest) (audit_answers questions answers))"

definition audit_challenge :: "(entry \<Rightarrow> 's \<Rightarrow> 's) \<Rightarrow> string \<Rightarrow> 's challenge \<Rightarrow> 's challenge" where
  "audit_challenge audit username challenge instruction questions s =
     go_bind (challenge instruction questions
       (audit (log_OnAuthKeyboardInteractiveChallenge username instruction
          (map (\<lambda>q. (Question q, EchoResponse q)) questions)) s)) (\<lambda>((err, answers), s).
       if err \<noteq> None then Ret ((err, answers), s)
       else case audit_answers questions answers of
              Inl e \<Rightarrow> Ret ((Some e, answers), s)
            | Inr as \<Rightarrow> Ret ((None, answers), audit (log_OnAuthKeyboardInteractiveAnswer username as) s))"

text \<open>The entry for the answer of the backend; a response other than the three known ones is not noted.\<close>

definition audit_response ::
    "entry \<Rightarrow> entry \<Rightarrow> (string \<Rightarrow> entry) \<Rightarrow> AuthResponse \<Rightarrow> go_error option \<Rightarrow> entry list" where
  "audit_response ok failed backend_error response reason =
     (case response of
        AuthResponseSuccess \<Rightarrow> [ok]
      | AuthResponseFailure \<Rightarrow> [failed]
      | AuthResponseUnavailable \<Rightarrow> [backend_error (case reason of Some e \<Rightarrow> error_text e | None \<Rightarrow> '''')]
      | AuthResponseOther _ \<Rightarrow> [])"

text \<open>The server reports a failed handshake with an error in every case.\<close>

definition audit_network :: "(entry \<Rightarrow> 's \<Rightarrow> 's) \<Rightarrow> 's network_handler \<Rightarrow> 's network_handler" where
  "audit_network audit backend = \<lparr>
     OnAuthPassword = (\<lambda>meta password s.
       let user = Username meta;
           ((response, authMeta, reason), s) = OnAuthPassword backend meta password (audit (log_OnAuthPassword user password) s)
       in ((response, authMeta, reason),
           fold audit (audit_response (log_OnAuthPasswordSuccess user password) (log_OnAuthPasswordFailed user password)
             (log_OnAuthPasswordBackendError user password) response reason) s)),
     OnAuthPubKey = (\<lambda>meta pubKey s.
       let ((response, authMeta, reason), s) = OnAuthPubKey backend meta pubKey (audit (log_OnAuthPubKey (Username meta) pubKey) s);
           user = Username authMeta
       in ((response, authMeta, reason),
           fold audit (audit_response (log_OnAuthPubKeySuccess user pubKey) (log_OnAuthPubKeyFailed user pubKey)
             (log_OnAuthPubKeyBackendError user pubKey) response reason) s)),
     OnAuthKeyboardInteractive = (\<lambda>meta challenge.
       OnAuthKeyboardInteractive backend meta (audit_challenge audit (Username meta) challenge)),
     OnAuthGSSAPI = OnAuthGSSAPI backend,
     OnHandshakeFailed = (\<lambda>meta reason s.
       audit (log_OnHandshakeFailed (case reason of Some e \<Rightarrow> error_text e | None \<Rightarrow> ''''))
         (OnHandshakeFailed backend meta reason s)),
     OnHandshakeSuccess = (\<lambda>meta s.
       OnHandshakeSuccess backend meta (audit (log_OnHandshakeSuccessful (Username meta)) s)),
     OnDisconnect = (\<lambda>s. OnDisconnect backend (audit (TypeDisconnect, None, None) s)),
     OnNetworkShutdown = OnNetworkShutdown backend\<rparr>"

section \<open>What is noted of a session\<close>

text \<open>The log as a list, to which entries are added at the end.\<close>

definition journal :: "entry \<Rightarrow> entry list \<times> 's \<Rightarrow> entry list \<times> 's" where
  "journal e = apfst (\<lambda>entries. entries @ [e])"

fun request_entry :: "uint64 \<Rightarrow> session_call \<Rightarrow> entry list" where
  "request_entry ch (CallUnsupported r t p) = [log_OnRequestUnknown (Some ch) r t p]"
| "request_entry ch (CallFailedDecode r t p e) = [log_OnRequestDecodeFailed (Some ch) r t p (error_text e)]"
| "request_entry ch (CallEnv r n v) = [log_OnRequestSetEnv (Some ch) r n v]"
| "request_entry ch (CallPty r t c rw w ht m) = [log_OnRequestPty (Some ch) r t c rw w ht m]"
| "request_entry ch (CallX11 r sc pr ck scr rf) = [log_OnRequestX11 (Some ch) r sc pr ck scr]"
| "request_entry ch (CallExec r n) = [log_OnRequestExec (Some ch) r n]"
| "request_entry ch (CallShell r) = [log_OnRequestShell (Some ch) r]"
| "request_entry ch (CallSubsystem r n) = [log_OnRequestSubsystem (Some ch) r n]"
| "request_entry ch (CallSignal r n) = [log_OnRequestSignal (Some ch) r n]"
| "request_entry ch (CallWindow r c rw w ht) = [log_OnRequestWindow (Some ch) r c rw w ht]"
| "request_entry ch CallClose = [log_OnClose (Some ch)]"
| "request_entry ch CallShutdown = []"

text \<open>The calls whose failure is noted: not those for programs given by name and for X11.\<close>

fun failure_noted :: "session_call \<Rightarrow> uint64 option" where
  "failure_noted (CallEnv r n v) = Some r"
| "failure_noted (CallPty r t c rw w ht m) = Some r"
| "failure_noted (CallShell r) = Some r"
| "failure_noted (CallSubsystem r n) = Some r"
| "failure_noted (CallSignal r n) = Some r"
| "failure_noted (CallWindow r c rw w ht) = Some r"
| "failure_noted _ = None"

definition failure_entry :: "uint64 \<Rightarrow> session_call \<Rightarrow> go_error option \<Rightarrow> entry list" where
  "failure_entry ch c err =
     (case (failure_noted c, err) of
        (Some r, Some e) \<Rightarrow> [log_OnRequestFailed (Some ch) r e]
      | _ \<Rightarrow> [])"

fun proxied :: "session_call \<Rightarrow> session_call" where
  "proxied (CallX11 r sc pr ck scr rf) = CallX11 r sc pr ck scr (ReverseHandlerProxy ''x11'' rf)"
| "proxied c = c"

lemma perform_audit:
  "perform (audit_session journal ch (lift_session h)) c (entries, s) =
     (case perform h (proxied c) s of (err, s') \<Rightarrow> (err, (entries @ request_entry ch c @ failure_entry ch c err, s')))"
  by (cases c) (simp_all add: audit_session_def journal_def lift_session_def on_snd_def audit_failed_def failure_entry_def
      split: prod.splits option.splits)

definition session_entries :: "uint64 \<Rightarrow> session_call list \<Rightarrow> go_error option list \<Rightarrow> entry list" where
  "session_entries ch calls errs = concat (map2 (\<lambda>c err. request_entry ch c @ failure_entry ch c err) calls errs)"

lemma serve_requests_audit:
  assumes "ConnectionID (Connection meta) \<in> conns"
  shows "\<exists>evs. serve_requests um conns meta (audit_session journal ch (lift_session h)) r requests (entries, s) =
     Ret (evs,
       case outcomes h (map proxied (calls_from um (ConnectionID (Connection meta)) r requests)) s of
         (errs, s') \<Rightarrow> (entries @ session_entries ch (calls_from um (ConnectionID (Connection meta)) r requests) errs, s'))
     \<and> length evs = length (filter req_WantReply requests)"
proof (induction requests arbitrary: r entries s)
  case Nil
  then show ?case by (simp add: session_entries_def)
next
  case (Cons request requests)
  let ?cid = "ConnectionID (Connection meta)"
  let ?call = "request_call um ?cid r request"
  obtain err s1 where p: "perform h (proxied ?call) s = (err, s1)" by fastforce
  obtain errs s2 where o: "outcomes h (map proxied (calls_from um ?cid (r + 1) requests)) s1 = (errs, s2)" by fastforce
  show ?case
    using Cons.IH [of "r + 1" "entries @ request_entry ch ?call @ failure_entry ch ?call err" s1]
    by (auto simp: handleChannelRequest_spec [OF assms] perform_audit p o Let_def length_createReply session_entries_def)
qed

lemma session_accepted:
  assumes "OnSessionChannel conn meta x (SessionProxy (ChannelID meta) sc) s = (Inr h, s1)"
  shows "OnSessionChannel (audit_connection journal (lift_connection conn)) meta x sc (entries, s) =
     (Inr (audit_session journal (ChannelID meta) (lift_session h)),
      (entries @ [log_OnNewChannelSuccess (Some (ChannelID meta)) ''session''], s1))"
  using assms by (simp add: audit_connection_def lift_connection_def on_snd_def journal_def)

lemma session_audited_outcome:
  assumes "OnSessionChannel conn meta (ExtraData nc) (SessionProxy (ChannelID meta) (ChannelWrapper (ChannelID meta))) s =
      (Inr h, s1)"
    and "ConnectionID (Connection meta) \<in> connMap srv"
    and "nc_accept nc = None"
    and "calls = calls_from um (ConnectionID (Connection meta)) 0 (nc_requests nc)"
  shows "\<exists>evs reg errs s2. outcomes h (map proxied calls) s1 = (errs, s2) \<and>
     handleSessionChannel um meta nc (audit_connection journal (lift_connection conn)) srv (entries, s) =
       Ret (Accepted # evs, srv\<lparr>shutdownHandlers := reg\<rparr>,
            entries @ [log_OnNewChannelSuccess (Some (ChannelID meta)) ''session''] @
              session_entries (ChannelID meta) calls errs @ [log_OnClose (Some (ChannelID meta))],
            OnClose h s2) \<and>
     length errs = length (nc_requests nc) \<and> length evs = length (filter req_WantReply (nc_requests nc))"
proof -
  let ?ch = "ChannelID meta"
  obtain errs s2 where o: "outcomes h (map proxied calls) s1 = (errs, s2)" by fastforce
  have "length errs = length (nc_requests nc)"
    using length_outcomes [of h "map proxied calls" s1, unfolded o] assms(4) by simp
  moreover obtain evs where
    "serve_requests um (connMap srv) meta (audit_session journal ?ch (lift_session h)) 0 (nc_requests nc)
       (entries @ [log_OnNewChannelSuccess (Some ?ch) ''session''], s1) =
     Ret (evs, (entries @ [log_OnNewChannelSuccess (Some ?ch) ''session'']) @ session_entries ?ch calls errs, s2)"
    "length evs = length (filter req_WantReply (nc_requests nc))"
    using serve_requests_audit [OF assms(2), of um ?ch h 0 "nc_requests nc" "entries @ [log_OnNewChannelSuccess (Some ?ch) ''session'']" s1]
      o assms(4) by auto
  ultimately show ?thesis
    using session_accepted [OF assms(1), of entries] o assms(3)
    by (simp add: handleSessionChannel_def Let_def audit_session_def journal_def lift_session_def) blast
qed


definition refused_exec :: "unit session_channel_handler" where
  "refused_exec = AbstractSessionChannelHandler\<lparr>OnX11Request := \<lambda>_ _ _ _ _ _ s. (None, s)\<rparr>"


lemma request_entry_logger: "e \<in> set (request_entry ch c) \<Longrightarrow> logger_entry e"
  by (cases c) (auto intro: logger_entry.intros)

lemma failure_entry_logger: "e \<in> set (failure_entry ch c err) \<Longrightarrow> logger_entry e"
  by (auto simp: failure_entry_def intro: logger_entry.intros split: option.splits)

definition typed_journal :: "entry list \<times> 's \<Rightarrow> bool" where
  "typed_journal es \<longleftrightarrow> (\<forall>e\<in>set (fst es). logger_entry e)"

text \<open>The layer keeps the log to entries of the logger.\<close>

interpretation audited: session_contract "audit_session journal ch (lift_session h)" typed_journal for ch h
proof (rule session_contractI)
  fix es :: "entry list \<times> 'a" and c
  assume "typed_journal es"
  then show "typed_journal (snd (perform (audit_session journal ch (lift_session h)) c es))"
    using perform_audit [of ch h c "fst es" "snd es"]
    by (auto simp: typed_journal_def dest: request_entry_logger failure_entry_logger split: prod.splits)
qed

lemma session_channel_typed:
  assumes "ConnectionID (Connection meta) \<in> connMap srv"
    and "handleSessionChannel um meta nc (audit_connection journal (lift_connection conn)) srv ([], s) = Ret (evs, srv', entries, s')"
  shows "typed_journal (entries, s')"
proof (cases "OnSessionChannel conn meta (ExtraData nc) (SessionProxy (ChannelID meta) (ChannelWrapper (ChannelID meta))) s")
  case (Pair r s1)
  show ?thesis
  proof (cases r)
    case (Inl rej)
    then show ?thesis
      using assms(2) Pair
      by (simp add: handleSessionChannel_def audit_connection_def lift_connection_def on_snd_def typed_journal_def)
  next
    case (Inr h)
    have "typed_journal ([log_OnNewChannelSuccess (Some (ChannelID meta)) ''session''], s1)"
      by (simp add: typed_journal_def logger_entry.intros)
    then show ?thesis
      using audited.handleSessionChannel_keeps [OF _ assms(1) _ assms(2)] session_accepted [of conn meta, OF Pair [unfolded Inr], of "[]"]
      by simp
  qed
qed

text \<open>C14: The whole way of a session into the audit log and back. Whatever a client sends on a session channel, and however
  the backend answers, the logger can write what the layer noted, at any times, between the entries for the start and the end
  of the connection, and the decoder reads from the storage exactly these messages, in order and without an error. The
  storage must take every message, and the codec must decode what it encoded.\<close>
theorem session_log_read_back:
  assumes "ConnectionID (Connection meta) \<in> connMap srv"
    and "handleSessionChannel um meta nc (audit_connection journal (lift_connection conn)) srv ([], s) = Ret (evs, srv', entries, s')"
    and "length stamps = length entries"
    and "reads_back item parse fill (session_messages lookup cid ip t0 (zip stamps entries) t1)"
    and "length entries + 2 < fuel"
  shows "\<exists>l l1 l2. OnConnect item lookup None True t0 cid ip = Ret (Inr l) \<and> log_all item lookup (zip stamps entries) l = Ret l1 \<and>
    log_OnDisconnect item lookup t1 l1 = Ret l2 \<and> w_closed (enc_writer (lc_encoder l2)) \<and>
    Decode parse_array parse fill fuel (w_header (enc_writer (lc_encoder l2)) @ w_stream (enc_writer (lc_encoder l2))) =
      Ret (session_messages lookup cid ip t0 (zip stamps entries) t1, [])"
proof (rule logged_read_back)
  have "\<forall>e\<in>set entries. logger_entry e"
    using session_channel_typed [OF assms(1,2)] by (simp add: typed_journal_def)
  then show "\<forall>te\<in>set (zip stamps entries). logger_entry (snd te)"
    by (auto dest: set_zip_rightD)
  show "length (zip stamps entries) + 2 < fuel" using assms(3,5) by simp
qed (rule assms(4))

text \<open>A channel without a request, and a codec that writes a message as its place in the log.\<close>

definition quiet_channel :: new_channel where
  "quiet_channel = sample_channel\<lparr>nc_requests := []\<rparr>"

definition quiet_log :: "(int \<times> entry) list" where
  "quiet_log = [(20, log_OnNewChannelSuccess (Some (ChannelID sample_meta)) ''session''), (21, log_OnClose (Some (ChannelID sample_meta)))]"

definition quiet_item :: "Message \<Rightarrow> go_error + bytes" where
  "quiet_item m = Inr [if MessageType m = TypeConnect then 0 else if MessageType m = TypeDisconnect then 3 else
     if MessageType m = fst (log_OnClose None) then 2 else 1]"

definition quiet_parse :: "bytes \<Rightarrow> audit_payload option parsed" where
  "quiet_parse bs =
     (case bs of
        [] \<Rightarrow> UnexpectedEOF
      | b # rest \<Rightarrow>
          if b = 0 then Item (sample_raw 10 (TypeConnect, Some (PayloadConnect ''192.0.2.1'' ''CH''), None)) rest
          else if b = 1 then Item (sample_raw 20 (snd (quiet_log ! 0))) rest
          else if b = 2 then Item (sample_raw 21 (snd (quiet_log ! 1))) rest
          else Item (sample_raw 30 (TypeDisconnect, None, None)) rest)"

theorem session_log_read_back_witness:
  "\<exists>l l1 l2. OnConnect quiet_item sample_lookup None True 10 ''0a'' ''192.0.2.1'' = Ret (Inr l) \<and>
    log_all quiet_item sample_lookup (zip [20, 21] (map snd quiet_log)) l = Ret l1 \<and>
    log_OnDisconnect quiet_item sample_lookup 30 l1 = Ret l2 \<and> w_closed (enc_writer (lc_encoder l2)) \<and>
    Decode (\<lambda>_. Inr []) quiet_parse sample_fill 5 (w_header (enc_writer (lc_encoder l2)) @ w_stream (enc_writer (lc_encoder l2))) =
      Ret (session_messages sample_lookup ''0a'' ''192.0.2.1'' 10 (zip [20, 21] (map snd quiet_log)) 30, [])"
proof (rule session_log_read_back)
  show "handleSessionChannel sample_um sample_meta quiet_channel
      (audit_connection journal (lift_connection (sample_conn refused_exec))) sample_srv ([], ()) =
      Ret ([Accepted], sample_srv\<lparr>shutdownHandlers := []\<rparr>, map snd quiet_log, ())"
    by (simp add: handleSessionChannel_def audit_connection_def lift_connection_def sample_conn_def on_snd_def quiet_channel_def
        sample_channel_def sample_srv_def audit_session_def journal_def lift_session_def refused_exec_def
        AbstractSessionChannelHandler_def Register_def Unregister_def quiet_log_def)
  show "reads_back quiet_item quiet_parse sample_fill
      (session_messages sample_lookup ''0a'' ''192.0.2.1'' 10 (zip [20, 21] (map snd quiet_log)) 30)"
    by (simp add: reads_back_def session_messages_def quiet_log_def audit_message_def quiet_item_def quiet_parse_def
        sample_raw_def sample_fill_def sample_lookup_def log_OnNewChannelSuccess_def log_OnClose_def)
qed (simp_all add: sample_srv_def quiet_log_def)

end
