(* ===== verification/Docker.thy ===== *)
theory Docker
  imports Handler_Api
begin

unbundle bit_operations_syntax

text \<open>
  The Docker backend (\<open>internal/docker\<close>): the handler of a session channel, which starts a program in a container,
  and the client that talks to the Docker daemon with its retries, the life of a container and of an
  execution in it, and the protocol by which the process id is read from the output.

  The Docker daemon and the parser of command lines are parameters. A channel of the retry loops that may take
  several attempts is given the outcomes of the attempts; when there are no more it has not returned.
\<close>

section \<open>The session channel\<close>

record docker_config =
  dk_Mode :: string
  dk_ShellCommand :: "string list"
  dk_Subsystems :: "string \<rightharpoonup> string"
  dk_DisableAgent :: bool
  dk_AgentPath :: string
  dk_ExposeAuthMetadataAsEnv :: bool

text \<open>What the channel uses of the container, the execution and the agent; an operation may return an error.\<close>

record 'w docker_backend =
  createExec :: "string list \<Rightarrow> (string \<rightharpoonup> string) \<Rightarrow> bool \<Rightarrow> 'w \<Rightarrow> go_error option \<times> 'w"
  createContainer :: "(string \<rightharpoonup> string) \<Rightarrow> bool \<Rightarrow> string list \<Rightarrow> 'w \<Rightarrow> go_error option \<times> 'w"
  attach :: "'w \<Rightarrow> go_error option \<times> 'w"
  start :: "'w \<Rightarrow> go_error option \<times> 'w"
  removeContainer :: "'w \<Rightarrow> 'w"
  connectionContainer :: "('w \<Rightarrow> 'w) option"
  resize :: "uint32 \<Rightarrow> uint32 \<Rightarrow> 'w \<Rightarrow> go_error option \<times> 'w"
  run_exec :: "'w \<Rightarrow> 'w"
  signal_exec :: "string \<Rightarrow> 'w \<Rightarrow> go_error option \<times> 'w"
  term_exec :: "'w \<Rightarrow> 'w"
  kill_exec :: "'w \<Rightarrow> 'w"
  exits_in_time :: "'w \<Rightarrow> bool \<times> 'w"
  NewX11Forwarding :: "bool \<Rightarrow> string \<Rightarrow> string \<Rightarrow> uint32 \<Rightarrow> reverse_forward \<Rightarrow> 'w \<Rightarrow> go_error option \<times> 'w"
  CloseX11Forwarding :: "'w \<Rightarrow> go_error option \<times> 'w"

record channelHandler =
  dk_env :: "string \<rightharpoonup> string"
  dk_pty :: bool
  dk_columns :: uint32
  dk_rows :: uint32
  dk_x11 :: bool
  dk_exec :: bool

definition new_channelHandler :: channelHandler where
  "new_channelHandler = \<lparr>dk_env = Map.empty, dk_pty = False, dk_columns = 0, dk_rows = 0, dk_x11 = False, dk_exec = False\<rparr>"

definition already_running :: go_error where
  "already_running = UserMessage ''DOCKER_PROGRAM_ALREADY_RUNNING'' ''program already running'' ''program already running''"

definition not_running :: "string \<Rightarrow> go_error" where
  "not_running text = UserMessage ''DOCKER_PROGRAM_NOT_RUNNING'' text text"

definition dk_OnEnvRequest :: "string \<Rightarrow> string \<Rightarrow> channelHandler \<times> 'w \<Rightarrow> (go_error option \<times> channelHandler \<times> 'w) go" where
  "dk_OnEnvRequest name value cw =
     (let (c, w) = cw
      in if dk_exec c then Ret (Some already_running, c, w)
         else Ret (None, c\<lparr>dk_env := (dk_env c)(name \<mapsto> value)\<rparr>, w))"

definition dk_OnPtyRequest :: "string \<Rightarrow> uint32 \<Rightarrow> uint32 \<Rightarrow> channelHandler \<times> 'w \<Rightarrow> (go_error option \<times> channelHandler \<times> 'w) go" where
  "dk_OnPtyRequest term columns rows cw =
     (let (c, w) = cw
      in if dk_exec c then Ret (Some already_running, c, w)
         else Ret (None, c\<lparr>dk_env := (dk_env c)(''TERM'' \<mapsto> term), dk_rows := rows, dk_columns := columns, dk_pty := True\<rparr>, w))"

text \<open>\<open>ParseCMD\<close> is the parser of command lines. It returns an empty list for an empty line.\<close>

definition parseProgram :: "(string \<Rightarrow> go_error + string list) \<Rightarrow> string \<Rightarrow> string list go" where
  "parseProgram ParseCMD program =
     (case ParseCMD program of
        Inl err \<Rightarrow> Ret [''/bin/sh'', ''-c'', program]
      | Inr [] \<Rightarrow> Panic ''index out of range''
      | Inr (first # rest) \<Rightarrow>
          if has_prefix first ''/'' \<or> has_prefix first ''./'' \<or> has_prefix first ''../''
          then Ret (first # rest)
          else Ret [''/bin/sh'', ''-c'', program])"

definition handleExecModeConnection ::
    "'w docker_backend \<Rightarrow> string list \<Rightarrow> channelHandler \<times> 'w \<Rightarrow> go_error option \<times> channelHandler \<times> 'w" where
  "handleExecModeConnection b program cw =
     (let (c, w) = cw
      in case createExec b program (dk_env c) (dk_pty c) w of
           (Some err, w) \<Rightarrow> (Some err, c, w)
         | (None, w) \<Rightarrow>
             let c = c\<lparr>dk_exec := True\<rparr>
             in if dk_pty c then (None, c, snd (resize b (dk_rows c) (dk_columns c) w)) else (None, c, w))"

text \<open>In session mode the execution is set before the container is started; it stays set when a later step fails.\<close>

definition handleExecModeSession ::
    "'w docker_backend \<Rightarrow> string list \<Rightarrow> channelHandler \<times> 'w \<Rightarrow> go_error option \<times> channelHandler \<times> 'w" where
  "handleExecModeSession b program cw =
     (let (c, w) = cw
      in case createContainer b (dk_env c) (dk_pty c) program w of
           (Some err, w) \<Rightarrow> (Some err, c, w)
         | (None, w) \<Rightarrow>
             (case attach b w of
                (Some err, w) \<Rightarrow> (Some err, c, removeContainer b w)
              | (None, w) \<Rightarrow>
                  let c = c\<lparr>dk_exec := True\<rparr>
                  in case start b w of
                       (Some err, w) \<Rightarrow> (Some err, c, removeContainer b w)
                     | (None, w) \<Rightarrow>
                         if dk_pty c
                         then (case resize b (dk_rows c) (dk_columns c) w of
                                 (Some err, w) \<Rightarrow> (Some err, c, removeContainer b w)
                               | (None, w) \<Rightarrow> (None, c, w))
                         else (None, c, w)))"

definition dk_run ::
    "docker_config \<Rightarrow> 'w docker_backend \<Rightarrow> string list \<Rightarrow> channelHandler \<times> 'w \<Rightarrow> go_error option \<times> channelHandler \<times> 'w" where
  "dk_run cfg b program cw =
     (if dk_exec (fst cw) then (Some already_running, cw)
      else case (if dk_Mode cfg = ''connection'' then handleExecModeConnection b program cw
                 else if dk_Mode cfg = ''session'' then handleExecModeSession b program cw
                 else (Some (UserMessage ''DOCKER_CONFIG_ERROR'' ''cannot run program'' (''invalid execution mode: '' @ dk_Mode cfg)), cw)) of
             (Some err, cw) \<Rightarrow> (Some err, cw)
           | (None, c, w) \<Rightarrow> (None, c, run_exec b w))"

definition dk_OnExecRequest ::
    "(string \<Rightarrow> go_error + string list) \<Rightarrow> docker_config \<Rightarrow> 'w docker_backend \<Rightarrow> string \<Rightarrow> channelHandler \<times> 'w \<Rightarrow>
     (go_error option \<times> channelHandler \<times> 'w) go" where
  "dk_OnExecRequest ParseCMD cfg b program cw =
     go_bind (parseProgram ParseCMD program) (\<lambda>p. Ret (dk_run cfg b p cw))"

definition dk_OnShell :: "docker_config \<Rightarrow> 'w docker_backend \<Rightarrow> channelHandler \<times> 'w \<Rightarrow> (go_error option \<times> channelHandler \<times> 'w) go" where
  "dk_OnShell cfg b cw = Ret (dk_run cfg b (dk_ShellCommand cfg) cw)"

definition dk_OnSubsystem ::
    "docker_config \<Rightarrow> 'w docker_backend \<Rightarrow> string \<Rightarrow> channelHandler \<times> 'w \<Rightarrow> (go_error option \<times> channelHandler \<times> 'w) go" where
  "dk_OnSubsystem cfg b subsystem cw =
     (case dk_Subsystems cfg subsystem of
        Some binary \<Rightarrow> Ret (dk_run cfg b [binary] cw)
      | None \<Rightarrow> Ret (Some (UserMessage ''DOCKER_SUBSYSTEM_NOT_SUPPORTED'' ''subsystem not supported''
               (''the specified subsystem is not supported ('' @ subsystem @ '')'')), cw))"

definition dk_OnSignal :: "'w docker_backend \<Rightarrow> string \<Rightarrow> channelHandler \<times> 'w \<Rightarrow> (go_error option \<times> channelHandler \<times> 'w) go" where
  "dk_OnSignal b signal cw =
     (let (c, w) = cw
      in if \<not> dk_exec c then Ret (Some (not_running ''Cannot send signal, program is not running.''), c, w)
         else case signal_exec b signal w of (err, w) \<Rightarrow> Ret (err, c, w))"

definition dk_OnWindow :: "'w docker_backend \<Rightarrow> uint32 \<Rightarrow> uint32 \<Rightarrow> channelHandler \<times> 'w \<Rightarrow> (go_error option \<times> channelHandler \<times> 'w) go" where
  "dk_OnWindow b columns rows cw =
     (let (c, w) = cw
      in if \<not> dk_exec c then Ret (Some (not_running ''Cannot resize window, program is not running.''), c, w)
         else case resize b rows columns w of (err, w) \<Rightarrow> Ret (err, c, w))"

definition dk_OnX11Request ::
    "'w docker_backend \<Rightarrow> bool \<Rightarrow> string \<Rightarrow> string \<Rightarrow> uint32 \<Rightarrow> reverse_forward \<Rightarrow> channelHandler \<times> 'w \<Rightarrow>
     (go_error option \<times> channelHandler \<times> 'w) go" where
  "dk_OnX11Request b singleConnection proto cookie screen reverseHandler cw =
     (let (c, w) = cw
      in if dk_x11 c then Ret (Some (ErrorString ''X11 forwarding already setup for this channel''), c, w)
         else let c = c\<lparr>dk_env := (dk_env c)(''DISPLAY'' \<mapsto> ''localhost:10'')\<rparr>
              in case NewX11Forwarding b singleConnection proto cookie screen reverseHandler w of
                   (Some err, w) \<Rightarrow> Ret (Some err, c, w)
                 | (None, w) \<Rightarrow> Ret (None, c\<lparr>dk_x11 := True\<rparr>, w))"

definition dk_OnClose :: "docker_config \<Rightarrow> 'w docker_backend \<Rightarrow> channelHandler \<times> 'w \<Rightarrow> channelHandler \<times> 'w" where
  "dk_OnClose cfg b cw =
     (let (c, w) = cw;
          w = (if dk_exec c then kill_exec b w else w);
          w = (if dk_x11 c then snd (CloseX11Forwarding b w) else w)
      in case connectionContainer b of
           Some remove \<Rightarrow> (c, if dk_Mode cfg = ''session'' then remove w else w)
         | None \<Rightarrow> (c, w))"

definition dk_OnShutdown :: "'w docker_backend \<Rightarrow> channelHandler \<times> 'w \<Rightarrow> channelHandler \<times> 'w" where
  "dk_OnShutdown b cw =
     (let (c, w) = cw
      in if dk_exec c
         then (case exits_in_time b (term_exec b w) of (exited, w) \<Rightarrow> (c, if exited then w else kill_exec b w))
         else (c, w))"

text \<open>The channel as a handler of the server. Its state is what a call left: once a call has panicked or waits for ever
  there is no further state.\<close>

definition on_go :: "('s \<Rightarrow> (go_error option \<times> 's) go) \<Rightarrow> 's go \<Rightarrow> go_error option \<times> 's go" where
  "on_go f g =
     (case go_bind g f of
        Ret (err, s) \<Rightarrow> (err, Ret s)
      | Panic m \<Rightarrow> (Some (ErrorString m), Panic m)
      | Block \<Rightarrow> (None, Block))"

definition after_go :: "('s \<Rightarrow> 's) \<Rightarrow> 's go \<Rightarrow> 's go" where
  "after_go f g = go_bind g (\<lambda>s. Ret (f s))"

definition docker_session ::
    "(string \<Rightarrow> go_error + string list) \<Rightarrow> docker_config \<Rightarrow> 'w docker_backend \<Rightarrow> (channelHandler \<times> 'w) go session_channel_handler" where
  "docker_session ParseCMD cfg b = \<lparr>
     OnUnsupportedChannelRequest = (\<lambda>_ _ _ s. s),
     OnFailedDecodeChannelRequest = (\<lambda>_ _ _ _ s. s),
     OnEnvRequest = (\<lambda>_ name value. on_go (dk_OnEnvRequest name value)),
     OnPtyRequest = (\<lambda>_ term columns rows _ _ _. on_go (dk_OnPtyRequest term columns rows)),
     OnX11Request = (\<lambda>_ sc pr ck scr rf. on_go (dk_OnX11Request b sc pr ck scr rf)),
     OnExecRequest = (\<lambda>_ program. on_go (dk_OnExecRequest ParseCMD cfg b program)),
     OnShell = (\<lambda>_. on_go (dk_OnShell cfg b)),
     OnSubsystem = (\<lambda>_ subsystem. on_go (dk_OnSubsystem cfg b subsystem)),
     OnSignal = (\<lambda>_ signal. on_go (dk_OnSignal b signal)),
     OnWindow = (\<lambda>_ columns rows _ _. on_go (dk_OnWindow b columns rows)),
     OnClose = after_go (dk_OnClose cfg b),
     OnShutdown = after_go (dk_OnShutdown b)\<rparr>"

section \<open>Retries\<close>

text \<open>One request to the Docker daemon: its result, and whether the time for the operation is over afterwards. How the
  client library classifies the errors it returns is a parameter.\<close>

record 'r request =
  req_result :: "go_error + 'r"
  req_expired :: bool

record docker_errors =
  IsErrNotFound :: "go_error \<Rightarrow> bool"
  IsErrNotImplemented :: "go_error \<Rightarrow> bool"
  IsErrPluginPermissionDenied :: "go_error \<Rightarrow> bool"
  IsErrUnauthorized :: "go_error \<Rightarrow> bool"

definition isPermanentError :: "docker_errors \<Rightarrow> go_error \<Rightarrow> bool" where
  "isPermanentError de err =
     (IsErrNotFound de err \<or> IsErrNotImplemented de err \<or> IsErrPluginPermissionDenied de err \<or> IsErrUnauthorized de err)"

text \<open>The loop around a request: \<open>permanent\<close> gives the error to return at once, \<open>giving_up\<close> the one to return when the time is
  over.\<close>

fun retry ::
    "(go_error \<Rightarrow> go_error option) \<Rightarrow> (go_error \<Rightarrow> go_error) \<Rightarrow> 'r request list \<Rightarrow> (go_error + 'r) go" where
  "retry permanent giving_up [] = Block"
| "retry permanent giving_up (r # rs) =
     (case req_result r of
        Inr x \<Rightarrow> Ret (Inr x)
      | Inl err \<Rightarrow>
          (case permanent err of
             Some e \<Rightarrow> Ret (Inl e)
           | None \<Rightarrow> if req_expired r then Ret (Inl (giving_up err)) else retry permanent giving_up rs))"

definition if_permanent :: "docker_errors \<Rightarrow> (go_error \<Rightarrow> go_error) \<Rightarrow> go_error \<Rightarrow> go_error option" where
  "if_permanent de f err = (if isPermanentError de err then Some (f err) else None)"

definition init_failed :: "string \<Rightarrow> string \<Rightarrow> go_error \<Rightarrow> go_error" where
  "init_failed code text err = WrapUser err code ''Failed to initialize SSH session.'' text"

definition v20_createContainer :: "'r request list \<Rightarrow> (go_error + 'r) go" where
  "v20_createContainer = retry (\<lambda>_. None) (init_failed ''DOCKER_CONTAINER_CREATE_FAILED'' ''failed to create container, giving up'')"

definition v20_attach :: "'r request list \<Rightarrow> (go_error + 'r) go" where
  "v20_attach = retry (\<lambda>_. None) (init_failed ''DOCKER_CONTAINER_ATTACH_FAILED'' ''failed to attach to exec, giving up'')"

definition v20_start :: "'r request list \<Rightarrow> (go_error + 'r) go" where
  "v20_start = retry (\<lambda>_. None) (init_failed ''DOCKER_CONTAINER_START_FAILED'' ''failed to start container, giving up'')"

definition realCreateExec :: "docker_errors \<Rightarrow> 'r request list \<Rightarrow> (go_error + 'r) go" where
  "realCreateExec de = retry
     (if_permanent de (\<lambda>err. Wrap err ''DOCKER_EXEC_CREATE_FAILED'' ''failed to create exec, permanent error''))
     (\<lambda>err. Wrap err ''DOCKER_EXEC_CREATE_FAILED'' ''failed to create exec, giving up'')"

definition attachExec :: "docker_errors \<Rightarrow> 'r request list \<Rightarrow> (go_error + 'r) go" where
  "attachExec de = retry
     (if_permanent de (\<lambda>err. Wrap err ''DOCKER_EXEC_ATTACH_FAILED'' ''failed to attach to exec, permanent error''))
     (\<lambda>err. Wrap err ''DOCKER_EXEC_ATTACH_FAILED'' ''failed to attach to exec, giving up'')"

definition v20_resize :: "docker_errors \<Rightarrow> 'r request list \<Rightarrow> (go_error + 'r) go" where
  "v20_resize de = retry
     (if_permanent de (\<lambda>err. WrapUser err ''DOCKER_EXEC_RESIZE_FAILED'' ''Cannot resize window.''
        ''cannot resize window, permanent error''))
     (\<lambda>err. WrapUser err ''DOCKER_EXEC_RESIZE_FAILED'' ''Cannot resize window.'' ''cannot resize window, diving up'')"

definition sendSignalToContainer :: "docker_errors \<Rightarrow> string \<Rightarrow> string \<Rightarrow> 'r request list \<Rightarrow> (go_error + 'r) go" where
  "sendSignalToContainer de containerID sig = retry
     (if_permanent de (\<lambda>err. WrapUser err ''DOCKER_CONTAINER_SIGNAL_FAILED'' ''Cannot send signal to process.''
        (''Cannot send '' @ sig @ '' signal to container '' @ containerID @ '', permanent error'')))
     (\<lambda>err. Wrap err ''DOCKER_CONTAINER_SIGNAL_FAILED''
        (''Cannot send '' @ sig @ '' signal to container '' @ containerID @ '', retrying in 10 seconds''))"

text \<open>An image that is not found is no error. The error that is given up with is not the last one: the loop declares a
  variable of its own.\<close>

fun hasImage :: "docker_errors \<Rightarrow> unit request list \<Rightarrow> (go_error + bool) go" where
  "hasImage de [] = Block"
| "hasImage de (r # rs) =
     (case req_result r of
        Inr u \<Rightarrow> Ret (Inr True)
      | Inl err \<Rightarrow>
          if IsErrNotFound de err then Ret (Inr False)
          else if req_expired r
          then Ret (Inl (NewMessage ''DOCKER_IMAGE_LISTING_FAILED'' ''failed to list images, giving up (<nil>)''))
          else hasImage de rs)"

text \<open>\<open>ParseNamed\<close> is the parser of image names: an error, and whether it says that the name is not canonical.\<close>

definition getCanonicalImageName :: "(string \<Rightarrow> (go_error \<times> bool) option) \<Rightarrow> string \<Rightarrow> go_error + string" where
  "getCanonicalImageName ParseNamed imageName =
     (case ParseNamed imageName of
        None \<Rightarrow> Inr imageName
      | Some (err, not_canonical) \<Rightarrow>
          if \<not> not_canonical then Inl err
          else if CHR ''/'' \<notin> set imageName then Inr (''docker.io/library/'' @ imageName)
          else Inr (''docker.io/'' @ imageName))"

text \<open>\<open>strings.Contains\<close>.\<close>

definition str_contains :: "string \<Rightarrow> string \<Rightarrow> bool" where
  "str_contains s t = list_ex (\<lambda>i. has_prefix (drop i s) t) [0..<length s + 1]"

text \<open>One attempt to pull covers the request, reading the stream and closing it.\<close>

definition v20_pullImage ::
    "docker_errors \<Rightarrow> (string \<Rightarrow> (go_error \<times> bool) option) \<Rightarrow> string \<Rightarrow> unit request list \<Rightarrow> (go_error + unit) go" where
  "v20_pullImage de ParseNamed imageName requests =
     (case getCanonicalImageName ParseNamed imageName of
        Inl err \<Rightarrow> Ret (Inl err)
      | Inr canonical \<Rightarrow>
          let failed = init_failed ''DOCKER_IMAGE_PULL_FAILED'' (''failed to pull image '' @ canonical @ '', giving up'')
          in retry
               (\<lambda>err. if IsErrUnauthorized de err \<or> IsErrNotFound de err \<or> str_contains (error_text err) ''no basic auth credential''
                      then Some (failed err) else None)
               failed requests)"

definition pullNeeded :: "docker_errors \<Rightarrow> string \<Rightarrow> string \<Rightarrow> unit request list \<Rightarrow> (bool \<times> go_error option) go" where
  "pullNeeded de policy imageName requests =
     (if policy = ''Never'' then Ret (False, None)
      else if policy = ''Always'' then Ret (True, None)
      else if CHR '':'' \<notin> set imageName \<or> drop (length imageName - 7) imageName = '':latest'' then Ret (True, None)
      else go_bind (hasImage de requests) (\<lambda>r.
             case r of
               Inl err \<Rightarrow> Ret (True, Some err)
             | Inr present \<Rightarrow> Ret (\<not> present, None)))"

definition pullImage ::
    "docker_errors \<Rightarrow> (string \<Rightarrow> (go_error \<times> bool) option) \<Rightarrow> string \<Rightarrow> string \<Rightarrow> unit request list \<Rightarrow> unit request list \<Rightarrow>
     go_error option go" where
  "pullImage de ParseNamed policy imageName listing pulling =
     go_bind (pullNeeded de policy imageName listing) (\<lambda>(needed, err).
       if err \<noteq> None \<or> \<not> needed then Ret err
       else go_bind (v20_pullImage de ParseNamed imageName pulling) (\<lambda>r. Ret (case r of Inl e \<Rightarrow> Some e | Inr _ \<Rightarrow> None)))"

section \<open>What is asked of the daemon\<close>

text \<open>The variables of an environment are listed in some order; the order of Go's maps is not specified, so the model
  takes the map as a list of its entries.\<close>

definition createEnv :: "(string \<times> string) list \<Rightarrow> string list" where
  "createEnv env = map (\<lambda>(k, v). k @ ''='' @ v) env"

record ExecConfig =
  exec_Tty :: bool
  exec_Env :: "string list"
  exec_Cmd :: "string list"

text \<open>The program of an execution is run by the agent, unless it is disabled.\<close>

definition createExecConfig :: "docker_config \<Rightarrow> (string \<times> string) list \<Rightarrow> bool \<Rightarrow> string list \<Rightarrow> ExecConfig" where
  "createExecConfig cfg env tty program =
     \<lparr>exec_Tty = tty, exec_Env = createEnv env,
      exec_Cmd = (if dk_DisableAgent cfg then program else [dk_AgentPath cfg, ''console'', ''--pid'', ''--''] @ program)\<rparr>"

text \<open>The part of a container's configuration that is set from the session; \<open>cc_Attach\<close> stands for the five fields that
  attach the standard streams.\<close>

record ContainerConfig =
  cc_Labels :: "string \<rightharpoonup> string"
  cc_Env :: "string list"
  cc_Tty :: bool
  cc_Attach :: bool
  cc_Cmd :: "string list"

definition createConfig ::
    "string list \<Rightarrow> ContainerConfig option \<Rightarrow> (string \<rightharpoonup> string) \<Rightarrow> (string \<times> string) list \<Rightarrow> bool option \<Rightarrow> string list \<Rightarrow>
     ContainerConfig" where
  "createConfig idleCommand containerConfig labels env tty cmd =
     (let new = (case containerConfig of
                   Some c \<Rightarrow> c
                 | None \<Rightarrow> \<lparr>cc_Labels = Map.empty, cc_Env = [], cc_Tty = False, cc_Attach = False, cc_Cmd = []\<rparr>);
          new = new\<lparr>cc_Cmd := idleCommand, cc_Labels := cc_Labels new ++ labels, cc_Env := cc_Env new @ createEnv env\<rparr>
      in case tty of
           None \<Rightarrow> new
         | Some t \<Rightarrow> new\<lparr>cc_Tty := t, cc_Attach := True, cc_Cmd := cmd\<rparr>)"

section \<open>The life of a container\<close>

text \<open>\<open>cnt_locked\<close> is the mutex of the container, \<open>cnt_removing\<close> the mutex of its removal, \<open>cnt_wg\<close> the number of executions
  that have not finished.\<close>

record dockerV20Container =
  cnt_locked :: bool
  cnt_removing :: bool
  cnt_wg :: nat
  shuttingDown :: bool
  shutdown :: bool
  cnt_removed :: bool

definition new_container :: dockerV20Container where
  "new_container =
     \<lparr>cnt_locked = False, cnt_removing = False, cnt_wg = 0, shuttingDown = False, shutdown = False, cnt_removed = False\<rparr>"

text \<open>\<open>sync.WaitGroup.Done\<close>.\<close>

definition wg_Done :: "dockerV20Container \<Rightarrow> dockerV20Container go" where
  "wg_Done d = (if cnt_wg d = 0 then Panic ''sync: negative WaitGroup counter'' else Ret (d\<lparr>cnt_wg := cnt_wg d - 1\<rparr>))"

text \<open>\<open>createExec\<close> before the requests: refused while the container shuts down, with the lock still held.\<close>

definition admitExec :: "dockerV20Container \<Rightarrow> (go_error option \<times> dockerV20Container) go" where
  "admitExec d =
     (if cnt_locked d then Block
      else if shuttingDown d
      then Ret (Some (UserMessage ''DOCKER_CONTAINER_SHUTTING_DOWN'' ''Server is shutting down''
             ''Refusing new Docker execution because the container is shutting down.''), d\<lparr>cnt_locked := True\<rparr>)
      else Ret (None, d\<lparr>cnt_wg := cnt_wg d + 1\<rparr>))"

text \<open>The execution is created and attached; when that fails it is not counted any longer.\<close>

definition lockedCreateExec ::
    "docker_errors \<Rightarrow> unit request list \<Rightarrow> unit request list \<Rightarrow> dockerV20Container \<Rightarrow> (go_error option \<times> dockerV20Container) go" where
  "lockedCreateExec de creating attaching d =
     go_bind (realCreateExec de creating) (\<lambda>r.
       case r of
         Inl err \<Rightarrow> go_bind (wg_Done d) (\<lambda>d. Ret (Some err, d))
       | Inr _ \<Rightarrow>
           go_bind (attachExec de attaching) (\<lambda>r.
             case r of
               Inl err \<Rightarrow> go_bind (wg_Done d) (\<lambda>d. Ret (Some err, d))
             | Inr _ \<Rightarrow> Ret (None, d)))"

definition v20_createExec ::
    "docker_errors \<Rightarrow> unit request list \<Rightarrow> unit request list \<Rightarrow> dockerV20Container \<Rightarrow> (go_error option \<times> dockerV20Container) go" where
  "v20_createExec de creating attaching d =
     go_bind (admitExec d) (\<lambda>(err, d). if err \<noteq> None then Ret (err, d) else lockedCreateExec de creating attaching d)"

text \<open>\<open>remove\<close> in two parts: it announces the shut-down, then waits for the executions and removes the container. Other
  calls run between the parts. The first part says whether there is a second: a container that is being shut down already
  is left alone.\<close>

definition remove_begin :: "dockerV20Container \<Rightarrow> (bool \<times> dockerV20Container) go" where
  "remove_begin d =
     (if cnt_removing d then Block
      else if shuttingDown d then Ret (False, d)
      else if cnt_locked d then Block
      else Ret (True, d\<lparr>cnt_removing := True, shuttingDown := True\<rparr>))"

text \<open>One attempt to remove the container: looking for it, removing it, and whether the time is over afterwards.\<close>

record removal =
  rm_inspect :: "go_error option"
  rm_remove :: "go_error option"
  rm_expired :: bool

fun remove_loop :: "docker_errors \<Rightarrow> removal list \<Rightarrow> go_error option go" where
  "remove_loop de [] = Block"
| "remove_loop de (a # as) =
     (let again = (\<lambda>err. if rm_expired a
                        then Ret (Some (Wrap err ''DOCKER_CONTAINER_REMOVE_FAILED'' ''failed to remove container on disconnect, giving up''))
                        else remove_loop de as)
      in case rm_inspect a of
           Some err \<Rightarrow> if IsErrNotFound de err then Ret None else again err
         | None \<Rightarrow> (case rm_remove a of None \<Rightarrow> Ret None | Some err \<Rightarrow> again err))"

definition remove_end :: "docker_errors \<Rightarrow> removal list \<Rightarrow> dockerV20Container \<Rightarrow> (go_error option \<times> dockerV20Container) go" where
  "remove_end de attempts d =
     (if cnt_wg d > 0 then Block
      else if cnt_locked d then Block
      else go_bind (remove_loop de attempts) (\<lambda>err.
             Ret (err, d\<lparr>cnt_removing := False, shutdown := True, cnt_removed := (err = None)\<rparr>)))"

text \<open>What happens to a container while it is being removed: a program is asked for, or one has ended (or was not created).\<close>

datatype container_call = NewExec | ExecFinished

fun container_next :: "container_call \<Rightarrow> dockerV20Container \<Rightarrow> dockerV20Container go" where
  "container_next NewExec d = go_bind (admitExec d) (\<lambda>(err, d). Ret d)"
| "container_next ExecFinished d = wg_Done d"

fun container_run :: "container_call list \<Rightarrow> dockerV20Container \<Rightarrow> dockerV20Container go" where
  "container_run [] d = Ret d"
| "container_run (ev # evs) d = go_bind (container_next ev d) (container_run evs)"

section \<open>The life of an execution\<close>

text \<open>The main program of a container is an execution without an id; its process id is 1.\<close>

record dockerV20Exec =
  exec_id :: bool
  exec_locked :: bool
  exec_pid :: int
  exec_done :: bool
  exec_once :: bool
  exec_reported :: "int list"

definition new_exec :: "bool \<Rightarrow> int \<Rightarrow> dockerV20Exec" where
  "new_exec has_id pid =
     \<lparr>exec_id = has_id, exec_locked = False, exec_pid = pid, exec_done = False, exec_once = False, exec_reported = []\<rparr>"

record inspect_state =
  st_Running :: bool
  st_Restarting :: bool
  st_ExitCode :: int

definition containerInspect :: "go_error + inspect_state \<Rightarrow> go_error + int" where
  "containerInspect r =
     (case r of
        Inl err \<Rightarrow> Inl err
      | Inr st \<Rightarrow>
          if st_Running st then Inl (NewMessage ''DOCKER_EXIT_CODE_STILL_RUNNING'' ''container still running'')
          else if st_Restarting st then Inl (NewMessage ''DOCKER_EXIT_CODE_CONTAINER_RESTARTING'' ''container is restarting'')
          else if st_ExitCode st < 0
          then Inl (NewMessage ''DOCKER_EXIT_CODE_NEGATIVE'' (''negative exit code: '' @ itoa (st_ExitCode st)))
          else Inr (st_ExitCode st))"

definition execInspect :: "go_error + inspect_state \<Rightarrow> go_error + int" where
  "execInspect r =
     (case r of
        Inl err \<Rightarrow> Inl err
      | Inr st \<Rightarrow>
          if st_Running st then Inl (NewMessage ''DOCKER_EXIT_CODE_STILL_RUNNING'' ''Program still running'')
          else if st_ExitCode st < 0
          then Inl (NewMessage ''DOCKER_EXIT_CODE_NEGATIVE'' (''Negative exit code: '' @ itoa (st_ExitCode st)))
          else Inr (st_ExitCode st))"

text \<open>One attempt to stop the container: its status, the outcome of stopping it, and whether the time is over.\<close>

record stopping =
  stop_inspect :: "go_error + string"
  stop_result :: "go_error option"
  stop_expired :: bool

fun stopContainer :: "stopping list \<Rightarrow> go_error option go" where
  "stopContainer [] = Block"
| "stopContainer (a # as) =
     (let again = (\<lambda>err. if stop_expired a
                        then Ret (Some (Wrap err ''DOCKER_CONTAINER_STOP_FAILED'' ''failed to stop container, giving up''))
                        else stopContainer as)
      in case stop_inspect a of
           Inl err \<Rightarrow> again err
         | Inr status \<Rightarrow>
             if status = ''stopped'' then Ret None
             else (case stop_result a of None \<Rightarrow> Ret None | Some err \<Rightarrow> again err))"

text \<open>One round of \<open>finished\<close>: the attempts to stop the container, the state of the program, and whether the time is over.\<close>

record poll =
  poll_stop :: "stopping list"
  poll_inspect :: "go_error + inspect_state"
  poll_expired :: bool

text \<open>The loop of \<open>finished\<close>: the exit code that is passed to \<open>onExit\<close>, or \<open>None\<close> when the loop gives up and
  \<open>onExit\<close> is not called.\<close>

fun finished_loop :: "docker_errors \<Rightarrow> bool \<Rightarrow> poll list \<Rightarrow> int option go" where
  "finished_loop de has_id [] = Block"
| "finished_loop de has_id (p # ps) =
     (let inspected = (\<lambda>r. case r of
             Inr code \<Rightarrow> Ret (Some code)
           | Inl err \<Rightarrow>
               if isPermanentError de err then Ret None
               else if poll_expired p then Ret None
               else finished_loop de has_id ps)
      in if has_id then inspected (execInspect (poll_inspect p))
         else go_bind (stopContainer (poll_stop p)) (\<lambda>err.
                if err \<noteq> None then Ret (Some 137) else inspected (containerInspect (poll_inspect p))))"

definition finished ::
    "docker_errors \<Rightarrow> poll list \<Rightarrow> dockerV20Container \<times> dockerV20Exec \<Rightarrow> (dockerV20Container \<times> dockerV20Exec) go" where
  "finished de polls ce =
     (let (c, d) = ce
      in if exec_locked d then Block
         else if exec_pid d = -1 then Ret (c, d)
         else let d = d\<lparr>exec_pid := -1, exec_done := True\<rparr>
              in go_bind (finished_loop de (exec_id d) polls) (\<lambda>code.
                 go_bind (if exec_id d then wg_Done c else Ret c) (\<lambda>c.
                   Ret (c, case code of None \<Rightarrow> d | Some n \<Rightarrow> d\<lparr>exec_reported := exec_reported d @ [n]\<rparr>))))"

text \<open>The two copying goroutines of \<open>run\<close>: whichever ends first calls \<open>finished\<close>, the other does nothing.\<close>

datatype copy_end = InputEnd | OutputEnd

definition copy_ended ::
    "docker_errors \<Rightarrow> copy_end \<Rightarrow> poll list \<Rightarrow> dockerV20Container \<times> dockerV20Exec \<Rightarrow> (dockerV20Container \<times> dockerV20Exec) go" where
  "copy_ended de which polls ce =
     (let (c, d) = ce
      in if exec_once d then Ret ce else finished de polls (c, d\<lparr>exec_once := True\<rparr>))"

fun copies ::
    "docker_errors \<Rightarrow> (copy_end \<times> poll list) list \<Rightarrow> dockerV20Container \<times> dockerV20Exec \<Rightarrow> (dockerV20Container \<times> dockerV20Exec) go" where
  "copies de [] ce = Ret ce"
| "copies de ((which, polls) # rest) ce = go_bind (copy_ended de which polls ce) (copies de rest)"

text \<open>\<open>run\<close>: with the agent the process id is read first. When that fails the exit is reported with code 137 and the
  goroutines are not started; \<open>pid\<close> is what \<open>readPIDFromStdout\<close> gives. The result says whether the goroutines run.\<close>

definition v20_run ::
    "docker_config \<Rightarrow> go_error + int \<Rightarrow> dockerV20Container \<times> dockerV20Exec \<Rightarrow> (bool \<times> dockerV20Container \<times> dockerV20Exec) go" where
  "v20_run cfg pid ce =
     (let (c, d) = ce
      in if exec_locked d then Block
         else if dk_Mode cfg = ''connection'' \<and> \<not> dk_DisableAgent cfg
         then (case pid of
                 Inl err \<Rightarrow> go_bind (wg_Done c) (\<lambda>c. Ret (False, c, d\<lparr>exec_reported := exec_reported d @ [137]\<rparr>))
               | Inr n \<Rightarrow> Ret (True, c, d\<lparr>exec_pid := n\<rparr>))
         else Ret (True, c, d))"

text \<open>A program of the agent is run and waited for. \<open>onExit\<close> sends on a channel that only the caller receives from, after
  \<open>run\<close> returns: when the process id cannot be read, \<open>run\<close> calls it and never returns. The caller waits for ever, too, if the
  exit status is not found.\<close>

definition realSendSignal ::
    "docker_errors \<Rightarrow> docker_config \<Rightarrow> unit request list \<Rightarrow> unit request list \<Rightarrow> go_error + int \<Rightarrow> (copy_end \<times> poll list) list \<Rightarrow>
     dockerV20Container \<Rightarrow> (go_error option \<times> dockerV20Container) go" where
  "realSendSignal de cfg creating attaching pid ends c =
     go_bind (lockedCreateExec de creating attaching c) (\<lambda>(err, c).
       if err \<noteq> None then Ret (err, c)
       else go_bind (v20_run cfg pid (c, new_exec True 0)) (\<lambda>(runs, ce).
         if \<not> runs then Block
         else go_bind (copies de ends ce) (\<lambda>(c, d).
           case exec_reported d of
             [] \<Rightarrow> Block
           | exitStatus # _ \<Rightarrow>
               Ret (if exitStatus \<noteq> 0 then Some (ErrorString (''signal program exited with status '' @ itoa exitStatus)) else None, c))))"

text \<open>\<open>writeFile\<close> runs a program of the agent, too. Its \<open>onExit\<close> closes the channel the caller waits on, so a process id that
  cannot be read ends it.\<close>

definition writeFile ::
    "docker_errors \<Rightarrow> docker_config \<Rightarrow> unit request list \<Rightarrow> unit request list \<Rightarrow> go_error + int \<Rightarrow> (copy_end \<times> poll list) list \<Rightarrow> string \<Rightarrow>
     string \<Rightarrow> dockerV20Container \<Rightarrow> (go_error option \<times> dockerV20Container) go" where
  "writeFile de cfg creating attaching pid ends stderr path c =
     (if dk_DisableAgent cfg
      then Ret (Some (NewMessage ''DOCKER_FILE_WRITE_FAILED''
             (''The ContainerSSH guest agent is disabled. Failed to write file '' @ path @ '' in the container'')), c)
      else go_bind (v20_createExec de creating attaching c) (\<lambda>(err, c).
        case err of
          Some e \<Rightarrow> Ret (Some (Wrap e ''DOCKER_FILE_WRITE_FAILED'' ''Failed to write file inside container''), c)
        | None \<Rightarrow>
            go_bind (v20_run cfg pid (c, new_exec True 0)) (\<lambda>(runs, ce).
            go_bind (if runs then copies de ends ce else Ret ce) (\<lambda>(c, d).
              case exec_reported d of
                [] \<Rightarrow> Block
              | exitCode # _ \<Rightarrow>
                  Ret (if exitCode \<noteq> 0
                       then Some (NewMessage ''DOCKER_FILE_WRITE_FAILED''
                              (''Agent exited with status '' @ itoa exitCode @ '' error output: '' @ stderr))
                       else None, c)))))"

text \<open>The answers of the daemon while a signal is sent.\<close>

record signalling =
  sg_kill :: "unit request list"
  sg_creating :: "unit request list"
  sg_attaching :: "unit request list"
  sg_pid :: "go_error + int"
  sg_ends :: "(copy_end \<times> poll list) list"

text \<open>\<open>signal\<close>: a container that was shut down is noticed with the lock of the execution held.\<close>

definition v20_signal ::
    "docker_errors \<Rightarrow> docker_config \<Rightarrow> string \<Rightarrow> signalling \<Rightarrow> string \<Rightarrow> dockerV20Container \<times> dockerV20Exec \<Rightarrow>
     (go_error option \<times> dockerV20Container \<times> dockerV20Exec) go" where
  "v20_signal de cfg containerID sg sig ce =
     (let (c, e) = ce
      in if dk_DisableAgent cfg
         then Ret (Some (UserMessage ''DOCKER_EXEC_SIGNAL_FAILED_NO_AGENT'' ''Cannot send signal to process.''
                (''Cannot send signal '' @ sig @ '' to process because the ContainerSSH agent is disabled'')), c, e)
         else if exec_locked e then Block
         else if exec_pid e \<le> 0
         then Ret (Some (UserMessage ''DOCKER_SIGNAL_FAILED_NO_PID'' ''Cannot send signal to process''
                ''could not send signal to exec, process ID not found''), c, e)
         else if exec_pid e = 1
         then go_bind (sendSignalToContainer de containerID sig (sg_kill sg)) (\<lambda>r.
                Ret (case r of Inl err \<Rightarrow> Some err | Inr _ \<Rightarrow> None, c, e))
         else if shutdown c
         then Ret (Some (UserMessage ''DOCKER_EXEC_SIGNAL_FAILED'' ''Cannot send signal to process.''
                ''Not sending signal to process, container is already shutting down.''), c, e\<lparr>exec_locked := True\<rparr>)
         else go_bind (realSendSignal de cfg (sg_creating sg) (sg_attaching sg) (sg_pid sg) (sg_ends sg) (c\<lparr>cnt_wg := cnt_wg c + 1\<rparr>))
                (\<lambda>(err, c). Ret (err, c, e)))"

definition v20_term ::
    "docker_errors \<Rightarrow> docker_config \<Rightarrow> string \<Rightarrow> signalling \<Rightarrow> dockerV20Container \<times> dockerV20Exec \<Rightarrow> (dockerV20Container \<times> dockerV20Exec) go" where
  "v20_term de cfg containerID sg ce =
     (if exec_done (snd ce) then Ret ce
      else go_bind (v20_signal de cfg containerID sg ''TERM'' ce) (\<lambda>(err, ce). Ret ce))"

text \<open>\<open>kill\<close> does nothing for the main program of a container, which has no execution id.\<close>

definition v20_kill ::
    "docker_errors \<Rightarrow> docker_config \<Rightarrow> string \<Rightarrow> signalling \<Rightarrow> dockerV20Container \<times> dockerV20Exec \<Rightarrow> (dockerV20Container \<times> dockerV20Exec) go" where
  "v20_kill de cfg containerID sg ce =
     (if exec_done (snd ce) \<or> \<not> exec_id (snd ce) then Ret ce
      else go_bind (v20_signal de cfg containerID sg ''KILL'' ce) (\<lambda>(err, ce). Ret ce))"

section \<open>Reading the process id\<close>

text \<open>The reads the source returns, each with at most the number of bytes asked for.\<close>

type_synonym reads = "(bytes \<times> go_error option) list"

fun read_loop :: "nat \<Rightarrow> nat \<Rightarrow> bytes \<Rightarrow> reads \<Rightarrow> ((bytes \<times> go_error option) \<times> reads) go" where
  "read_loop wanted readIndex finalBuffer [] = Block"
| "read_loop wanted readIndex finalBuffer ((buf, err) # source) =
     (let readBytes = length buf
      in if readBytes < readIndex then Panic ''slice bounds out of range''
         else
           let finalBuffer = take readIndex finalBuffer @ take (readBytes - readIndex) buf @ drop readBytes finalBuffer;
               readIndex = readIndex + readBytes
           in if err \<noteq> None then Ret ((take readIndex finalBuffer, err), source)
              else if readIndex = wanted then Ret ((finalBuffer, None), source)
              else read_loop wanted readIndex finalBuffer source)"

definition readBytesFromReader :: "reads \<Rightarrow> nat \<Rightarrow> ((bytes \<times> go_error option) \<times> reads) go" where
  "readBytesFromReader source wanted = read_loop wanted 0 (replicate wanted 0) source"

text \<open>\<open>binary.BigEndian.Uint32\<close> and \<open>binary.LittleEndian.Uint32\<close>.\<close>

definition bigEndian32 :: "bytes \<Rightarrow> uint32" where
  "bigEndian32 bs = fold (\<lambda>b acc. push_bit 8 acc OR ucast b) bs 0"

definition littleEndian32 :: "bytes \<Rightarrow> uint32" where
  "littleEndian32 bs = bigEndian32 (rev bs)"

text \<open>The process id and what is left over for the standard output; \<open>write\<close> is whether writing that fails.\<close>

definition readPIDFromStdout ::
    "bool \<Rightarrow> (bytes \<Rightarrow> go_error option) \<Rightarrow> reads \<Rightarrow> ((go_error + int \<times> bytes) \<times> reads) go" where
  "readPIDFromStdout tty write source =
     (if tty
      then go_bind (readBytesFromReader source 4) (\<lambda>((pidBytes, err), source).
             case err of
               Some e \<Rightarrow> Ret (Inl e, source)
             | None \<Rightarrow> Ret (Inr (uint (littleEndian32 pidBytes), []), source))
      else go_bind (readBytesFromReader source 8) (\<lambda>((headerBuffer, err), source).
             case err of
               Some e \<Rightarrow> Ret (Inl (Wrap e ''DOCKER_AGENT_READ_FAILED'' ''failed to read from ContainerSSH agent''), source)
             | None \<Rightarrow>
                 let stream = hd headerBuffer;
                     frameLength = unat (bigEndian32 (drop 4 headerBuffer))
                 in if stream > 2
                    then Ret (Inl (ErrorString (''invalid stream type received from Docker daemon: '' @ itoa (uint stream))), source)
                    else go_bind (readBytesFromReader source frameLength) (\<lambda>((frameData, err), source).
                      case err of
                        Some e \<Rightarrow> Ret (Inl (ErrorString (''failed to read pid from ContainerSSH agent ('' @ error_text e @ '')'')), source)
                      | None \<Rightarrow>
                          if frameLength < 4
                          then Ret (Inl (NewMessage ''DOCKER_AGENT_READ_FAILED''
                                 (''not enough testdata received ('' @ itoa (int frameLength) @
                                  '' bytes) from Docker daemon while trying to read pid from ContainerSSH agent'')), source)
                          else if stream = 2
                          then Ret (Inl (ErrorString ''unexpected testdata on stderr when trying to read pid from ContainerSSH agent''), source)
                          else (case (if frameLength > 4 then write (drop 4 frameData) else None) of
                                  Some e \<Rightarrow> Ret (Inl (ErrorString
                                    (''failed to write remaining frame testdata to stdout ('' @ error_text e @ '')'')), source)
                                | None \<Rightarrow> Ret (Inr (uint (littleEndian32 (take 4 frameData)), drop 4 frameData), source)))))"

section \<open>What the client guarantees\<close>

text \<open>The process id is read correctly only when it arrives in one piece. A read that returns all the bytes asked for
  gives these bytes. When they arrive in two pieces, the second is copied to the wrong place: if it is shorter than the
  first the server panics, and otherwise the end of the result is zeros.\<close>
theorem pid_read_in_pieces:
  assumes "c1 \<noteq> []" and "c2 \<noteq> []"
  shows "readBytesFromReader ((c1, None) # source) (length c1) = Ret ((c1, None), source) \<and>
    readBytesFromReader ((c1, None) # (c2, None) # source) (length c1 + length c2) =
      (if length c2 < length c1 then Panic ''slice bounds out of range''
       else Ret ((c1 @ take (length c2 - length c1) c2 @ replicate (length c1) 0, None), source))"
  using assms by (auto simp: readBytesFromReader_def Let_def)

theorem pid_read_in_pieces_witness:
  "readBytesFromReader [([1, 2, 3], None), ([4], None)] 4 = Panic ''slice bounds out of range'' \<and>
   readBytesFromReader [([1, 2], None), ([3, 4], None)] 4 = Ret (([1, 2, 0, 0], None), [])"
  using pid_read_in_pieces [of "[1, 2, 3]" "[4]" "[]"] pid_read_in_pieces [of "[1, 2]" "[3, 4]" "[]"]
  by (simp add: eval_nat_numeral)

lemma container_run_shutting_down:
  assumes "container_run evs d = Ret d'" and "shuttingDown d"
  shows "shuttingDown d' \<and> cnt_removed d' = cnt_removed d \<and> (cnt_locked d' \<longleftrightarrow> cnt_locked d \<or> NewExec \<in> set evs)"
  using assms
proof (induction evs arbitrary: d)
  case (Cons ev evs)
  obtain d1 where d1: "container_next ev d = Ret d1" "container_run evs d1 = Ret d'"
    using Cons.prems(1) by (auto elim!: go_bind_RetE)
  then have "shuttingDown d1 \<and> cnt_removed d1 = cnt_removed d \<and> (cnt_locked d1 \<longleftrightarrow> cnt_locked d \<or> ev = NewExec)"
    using Cons.prems(2) by (cases ev) (auto simp: admitExec_def wg_Done_def split: if_splits)
  then show ?case using Cons.IH [OF d1(2)] by auto
qed simp

text \<open>A container is removed, once its programs have ended, exactly if no further program was asked for while it shut down. A
  request for a program in that time is refused but keeps the lock of the container: the removal then waits for ever, whatever
  the daemon answers. Otherwise it returns what the daemon's answers give, and the container is gone unless that is an
  error.\<close>
theorem container_removed_iff:
  assumes "remove_begin d = Ret (True, d1)" and "container_run calls d1 = Ret d2" and "cnt_wg d2 = 0"
    and "remove_loop de attempts = Ret err"
  shows "(if NewExec \<in> set calls then remove_end de attempts d2 = Block
          else \<exists>d3. remove_end de attempts d2 = Ret (err, d3) \<and> cnt_removed d3 = (err = None))"
proof -
  have "shuttingDown d1" "\<not> cnt_locked d1"
    using assms(1) by (auto simp: remove_begin_def split: if_splits)
  then show ?thesis
    using container_run_shutting_down [OF assms(2)] assms(3,4) by (simp add: remove_end_def)
qed

definition sample_errors :: docker_errors where
  "sample_errors = \<lparr>IsErrNotFound = (\<lambda>_. False), IsErrNotImplemented = (\<lambda>_. False), IsErrPluginPermissionDenied = (\<lambda>_. False),
     IsErrUnauthorized = (\<lambda>_. False)\<rparr>"

theorem container_removed_iff_witness:
  "\<exists>d1 d2. remove_begin (new_container\<lparr>cnt_wg := 1\<rparr>) = Ret (True, d1) \<and> container_run [NewExec, ExecFinished] d1 = Ret d2 \<and>
     remove_end sample_errors [\<lparr>rm_inspect = None, rm_remove = None, rm_expired = False\<rparr>] d2 = Block"
proof -
  let ?d1 = "new_container\<lparr>cnt_wg := 1, cnt_removing := True, shuttingDown := True\<rparr>"
  let ?d2 = "new_container\<lparr>cnt_wg := 0, cnt_removing := True, shuttingDown := True, cnt_locked := True\<rparr>"
  let ?as = "[\<lparr>rm_inspect = None, rm_remove = None, rm_expired = False\<rparr>]"
  have r: "remove_begin (new_container\<lparr>cnt_wg := 1\<rparr>) = Ret (True, ?d1)" by (simp add: remove_begin_def new_container_def)
  have c: "container_run [NewExec, ExecFinished] ?d1 = Ret ?d2"
    by (simp add: admitExec_def wg_Done_def new_container_def)
  have "remove_loop sample_errors ?as = Ret None" by simp
  from container_removed_iff [OF r c _ this] have "remove_end sample_errors ?as ?d2 = Block" by (simp add: new_container_def)
  with r c show ?thesis by blast
qed

lemma copies_once: "exec_once (snd ce) \<Longrightarrow> copies de evs ce = Ret ce"
  by (induction evs) (auto simp: copy_ended_def split: prod.splits)

lemma still_running_unreported:
  "\<forall>p\<in>set polls. \<exists>st. poll_inspect p = Inr st \<and> st_Running st \<Longrightarrow> finished_loop de True polls = Ret r \<Longrightarrow> r = None"
  by (induction polls) (auto simp: Let_def execInspect_def split: if_splits)


definition still_running :: "bool \<Rightarrow> poll" where
  "still_running expired = \<lparr>poll_stop = [], poll_inspect = Inr \<lparr>st_Running = True, st_Restarting = False, st_ExitCode = 0\<rparr>,
     poll_expired = expired\<rparr>"


section \<open>Which programs a session starts\<close>

text \<open>A backend that notes the programs it is asked to run.\<close>

definition noting :: "'w docker_backend \<Rightarrow> (string list list \<times> 'w) docker_backend" where
  "noting b = \<lparr>
     createExec = (\<lambda>program env tty nw. case createExec b program env tty (snd nw) of (err, w) \<Rightarrow> (err, fst nw @ [program], w)),
     createContainer = (\<lambda>env tty program nw. case createContainer b env tty program (snd nw) of (err, w) \<Rightarrow> (err, fst nw @ [program], w)),
     attach = on_snd (attach b),
     start = on_snd (start b),
     removeContainer = apsnd (removeContainer b),
     connectionContainer = map_option apsnd (connectionContainer b),
     resize = (\<lambda>rows columns. on_snd (resize b rows columns)),
     run_exec = apsnd (run_exec b),
     signal_exec = (\<lambda>sig. on_snd (signal_exec b sig)),
     term_exec = apsnd (term_exec b),
     kill_exec = apsnd (kill_exec b),
     exits_in_time = on_snd (exits_in_time b),
     NewX11Forwarding = (\<lambda>sc pr ck scr rf. on_snd (NewX11Forwarding b sc pr ck scr rf)),
     CloseX11Forwarding = on_snd (CloseX11Forwarding b)\<rparr>"

definition programs :: "(channelHandler \<times> string list list \<times> 'w) go \<Rightarrow> string list set" where
  "programs g = (case g of Ret (c, ps, w) \<Rightarrow> set ps | _ \<Rightarrow> {})"

lemma programs_dk_run:
  "set (fst (snd (snd (dk_run cfg (noting b) program (c, ps, w))))) \<subseteq> insert program (set ps)"
  by (auto simp: dk_run_def handleExecModeConnection_def handleExecModeSession_def noting_def on_snd_def apsnd_def map_prod_def Let_def
      split: prod.splits option.splits if_splits)

text \<open>The programs a call on the channel may start.\<close>

fun call_programs :: "(string \<Rightarrow> go_error + string list) \<Rightarrow> docker_config \<Rightarrow> session_call \<Rightarrow> string list set" where
  "call_programs ParseCMD cfg (CallExec r p) = {q. parseProgram ParseCMD p = Ret q}"
| "call_programs ParseCMD cfg (CallShell r) = {dk_ShellCommand cfg}"
| "call_programs ParseCMD cfg (CallSubsystem r n) = {[q] |q. dk_Subsystems cfg n = Some q}"
| "call_programs ParseCMD cfg c = {}"

lemma programs_on_go:
  assumes "\<And>c ps w r c' ps' w'. f (c, ps, w) = Ret (r, c', ps', w') \<Longrightarrow> set ps' \<subseteq> A \<union> set ps"
  shows "programs (snd (on_go f g)) \<subseteq> programs g \<union> A"
proof (cases g)
  case (Ret s)
  obtain c ps w where s: "s = (c, ps, w)" by (cases s)
  show ?thesis
  proof (cases "f s")
    case (Ret r)
    then show ?thesis
      using \<open>g = Ret s\<close> s assms [of c ps w] by (cases r) (auto simp: programs_def on_go_def)
  qed (use Ret in \<open>auto simp: programs_def on_go_def\<close>)
qed (auto simp: programs_def on_go_def)

lemma programs_after_go:
  assumes "\<And>c ps w. fst (snd (f (c, ps, w))) = ps"
  shows "programs (after_go f g) = programs g"
proof (cases g)
  case (Ret s)
  obtain c ps w where "s = (c, ps, w)" by (cases s)
  then show ?thesis
    using Ret assms [of c ps w] by (cases "f s") (auto simp: programs_def after_go_def)
qed (auto simp: programs_def after_go_def)

lemma noting_simps [simp]:
  "fst (snd (resize (noting b) r c nw)) = fst nw" "fst (snd (signal_exec (noting b) sig nw)) = fst nw"
  "fst (snd (NewX11Forwarding (noting b) sc pr ck scr rf nw)) = fst nw"
  "fst (kill_exec (noting b) nw) = fst nw" "fst (term_exec (noting b) nw) = fst nw" "fst (snd (exits_in_time (noting b) nw)) = fst nw"
  "fst (snd (CloseX11Forwarding (noting b) nw)) = fst nw"
  by (simp_all add: noting_def on_snd_def apsnd_def split: prod.splits)

lemma noting_container: "connectionContainer (noting b) = Some f \<Longrightarrow> fst (f nw) = fst nw"
  by (auto simp: noting_def apsnd_def)

text \<open>The operations that start a program, and those that do not.\<close>

lemma programs_started:
  "programs (snd (on_go (dk_OnExecRequest ParseCMD cfg (noting b) p) g)) \<subseteq> programs g \<union> {q. parseProgram ParseCMD p = Ret q}"
  "programs (snd (on_go (dk_OnShell cfg (noting b)) g)) \<subseteq> insert (dk_ShellCommand cfg) (programs g)"
  "programs (snd (on_go (dk_OnSubsystem cfg (noting b) n) g)) \<subseteq> programs g \<union> {[q] |q. dk_Subsystems cfg n = Some q}"
proof -
  have run: "set ps' \<subseteq> insert q (set ps)" if "dk_run cfg (noting b) q (h, ps, w) = (e, h', ps', w')" for q h ps w e h' ps' w'
    using programs_dk_run [of cfg b q h ps w] that by simp
  show "programs (snd (on_go (dk_OnExecRequest ParseCMD cfg (noting b) p) g)) \<subseteq> programs g \<union> {q. parseProgram ParseCMD p = Ret q}"
    by (rule programs_on_go) (auto simp: dk_OnExecRequest_def elim!: go_bind_RetE dest!: run)
  show "programs (snd (on_go (dk_OnShell cfg (noting b)) g)) \<subseteq> insert (dk_ShellCommand cfg) (programs g)"
    using programs_on_go [of "dk_OnShell cfg (noting b)" "{dk_ShellCommand cfg}" g]
    by (auto simp: dk_OnShell_def dest!: run)
  show "programs (snd (on_go (dk_OnSubsystem cfg (noting b) n) g)) \<subseteq> programs g \<union> {[q] |q. dk_Subsystems cfg n = Some q}"
    by (rule programs_on_go) (auto simp: dk_OnSubsystem_def split: option.splits dest!: run)
qed

lemma programs_quiet:
  fixes g :: "(channelHandler \<times> string list list \<times> 'w) go"
  shows "programs (snd (on_go (dk_OnEnvRequest n v) g)) \<subseteq> programs g"
    and "programs (snd (on_go (dk_OnPtyRequest t cl rw) g)) \<subseteq> programs g"
    and "programs (snd (on_go (dk_OnX11Request (noting b) sc pr ck scr rf) g)) \<subseteq> programs g"
    and "programs (snd (on_go (dk_OnSignal (noting b) sig) g)) \<subseteq> programs g"
    and "programs (snd (on_go (dk_OnWindow (noting b) cl rw) g)) \<subseteq> programs g"
proof -
  have quiet: "programs (snd (on_go f g)) \<subseteq> programs g"
    if "\<And>c ps w r c' ps' w'. f (c, ps, w) = Ret (r, c', ps', w') \<Longrightarrow> ps' = ps" for f
    using programs_on_go [of f "{}" g] that by fastforce
  have same: "ps' = ps" if "f (ps, w) = (r, ps', w')" "fst (snd (f (ps, w))) = fst (ps, w)"
    for f :: "string list list \<times> 'w \<Rightarrow> go_error option \<times> string list list \<times> 'w" and ps w r ps' w'
    using that by simp
  show "programs (snd (on_go (dk_OnEnvRequest n v) g)) \<subseteq> programs g" "programs (snd (on_go (dk_OnPtyRequest t cl rw) g)) \<subseteq> programs g"
    by (rule quiet; auto simp: dk_OnEnvRequest_def dk_OnPtyRequest_def split: if_splits)+
  show "programs (snd (on_go (dk_OnX11Request (noting b) sc pr ck scr rf) g)) \<subseteq> programs g"
    by (rule quiet) (auto simp: dk_OnX11Request_def Let_def split: if_splits prod.splits option.splits dest!: same)
  show "programs (snd (on_go (dk_OnSignal (noting b) sig) g)) \<subseteq> programs g" "programs (snd (on_go (dk_OnWindow (noting b) cl rw) g)) \<subseteq> programs g"
    by (rule quiet; auto simp: dk_OnSignal_def dk_OnWindow_def split: if_splits prod.splits dest!: same)+
qed

lemma programs_ended:
  "programs (after_go (dk_OnClose cfg (noting b)) g) = programs g" "programs (after_go (dk_OnShutdown (noting b)) g) = programs g"
  by (rule programs_after_go; auto simp: dk_OnClose_def dk_OnShutdown_def Let_def noting_container case_prod_beta split: option.splits)+

lemma programs_perform:
  "programs (snd (perform (docker_session ParseCMD cfg (noting b)) c g)) \<subseteq> programs g \<union> call_programs ParseCMD cfg c"
  by (cases c) (simp_all add: docker_session_def programs_started programs_quiet programs_ended)

section \<open>What a channel does with the client\<close>

text \<open>The contract of the client with the channel handler: what its operations keep. The first part is about a running program;
  the second adds the operations that start one.\<close>

locale docker_client =
  fixes cfg :: docker_config and b :: "'w docker_backend" and P :: "'w \<Rightarrow> bool"
  assumes resize: "P w \<Longrightarrow> P (snd (resize b rows columns w))"
    and run_exec: "P w \<Longrightarrow> P (run_exec b w)"
    and signal_exec: "P w \<Longrightarrow> P (snd (signal_exec b sig w))"
    and term_exec: "P w \<Longrightarrow> P (term_exec b w)"
    and kill_exec: "P w \<Longrightarrow> P (kill_exec b w)"
    and exits_in_time: "P w \<Longrightarrow> P (snd (exits_in_time b w))"
    and new_x11: "P w \<Longrightarrow> P (snd (NewX11Forwarding b sc pr ck scr rf w))"
    and close_x11: "P w \<Longrightarrow> P (snd (CloseX11Forwarding b w))"
    and connection_container: "dk_Mode cfg = ''session'' \<Longrightarrow> connectionContainer b = Some remove \<Longrightarrow> P w \<Longrightarrow> P (remove w)"
begin

text \<open>A running program keeps running, and every operation keeps \<open>P\<close>.\<close>

definition started :: "(channelHandler \<times> 'w) go \<Rightarrow> bool" where
  "started g = (\<forall>c w. g = Ret (c, w) \<longrightarrow> dk_exec c \<and> P w)"

definition keeping :: "(channelHandler \<times> 'w) go \<Rightarrow> bool" where
  "keeping g = (\<forall>c w. g = Ret (c, w) \<longrightarrow> P w)"

lemma on_go_started:
  assumes "\<And>c w r c' w'. f (c, w) = Ret (r, c', w') \<Longrightarrow> dk_exec c \<Longrightarrow> P w \<Longrightarrow> dk_exec c' \<and> P w'" and "started g"
  shows "started (snd (on_go f g))"
proof (cases g)
  case (Ret s)
  then show ?thesis
    using assms by (cases s; cases "f s") (auto simp: on_go_def started_def split: prod.splits)
qed (simp_all add: on_go_def started_def)

lemma on_go_keeping:
  assumes "\<And>c w r c' w'. f (c, w) = Ret (r, c', w') \<Longrightarrow> P w \<Longrightarrow> P w'" and "keeping g"
  shows "keeping (snd (on_go f g))"
proof (cases g)
  case (Ret s)
  then show ?thesis
    using assms by (cases s; cases "f s") (auto simp: on_go_def keeping_def split: prod.splits)
qed (simp_all add: on_go_def keeping_def)

lemma OnSignal_keeps: "dk_OnSignal b sig (c, w) = Ret (r, c', w') \<Longrightarrow> P w \<Longrightarrow> c' = c \<and> P w'"
  using signal_exec [of w sig] by (auto simp: dk_OnSignal_def split: if_splits prod.splits)

lemma OnWindow_keeps: "dk_OnWindow b columns rows (c, w) = Ret (r, c', w') \<Longrightarrow> P w \<Longrightarrow> c' = c \<and> P w'"
  using resize [of w rows columns] by (auto simp: dk_OnWindow_def split: if_splits prod.splits)

lemma OnX11Request_keeps: "dk_OnX11Request b sc pr ck scr rf (c, w) = Ret (r, c', w') \<Longrightarrow> P w \<Longrightarrow> dk_exec c' = dk_exec c \<and> P w'"
  using new_x11 [of w sc pr ck scr rf] by (auto simp: dk_OnX11Request_def Let_def split: if_splits prod.splits option.splits)

lemma OnEnvRequest_keeps: "dk_OnEnvRequest n v (c, w) = Ret (r, c', w') \<Longrightarrow> P w \<Longrightarrow> dk_exec c' = dk_exec c \<and> P w'"
  by (auto simp: dk_OnEnvRequest_def split: if_splits)

lemma OnPtyRequest_keeps: "dk_OnPtyRequest t columns rows (c, w) = Ret (r, c', w') \<Longrightarrow> P w \<Longrightarrow> dk_exec c' = dk_exec c \<and> P w'"
  by (auto simp: dk_OnPtyRequest_def split: if_splits)

lemma OnClose_keeps: "dk_OnClose cfg b (c, w) = (c', w') \<Longrightarrow> P w \<Longrightarrow> c' = c \<and> P w'"
  by (auto simp: dk_OnClose_def Let_def kill_exec close_x11 connection_container split: option.splits if_splits)

lemma OnShutdown_keeps: "dk_OnShutdown b (c, w) = (c', w') \<Longrightarrow> P w \<Longrightarrow> c' = c \<and> P w'"
  using exits_in_time [of "term_exec b w"] by (auto simp: dk_OnShutdown_def term_exec kill_exec split: prod.splits if_splits)

lemma after_go_started:
  assumes "\<And>c w c' w'. f (c, w) = (c', w') \<Longrightarrow> P w \<Longrightarrow> c' = c \<and> P w'" and "started g"
  shows "started (after_go f g)"
  unfolding started_def
proof (intro allI impI)
  fix c w
  assume "after_go f g = Ret (c, w)"
  then obtain c0 w0 where "g = Ret (c0, w0)" "f (c0, w0) = (c, w)" by (auto simp: after_go_def elim!: go_bind_RetE)
  then show "dk_exec c \<and> P w" using assms(1) [of c0 w0 c w] assms(2) by (auto simp: started_def)
qed

lemma after_go_keeping:
  assumes "\<And>c w c' w'. f (c, w) = (c', w') \<Longrightarrow> P w \<Longrightarrow> c' = c \<and> P w'" and "keeping g"
  shows "keeping (after_go f g)"
  using assms by (cases g) (auto simp: after_go_def keeping_def)

lemma starting_refused:
  "dk_OnExecRequest ParseCMD cfg b p (c, w) = Ret (r, c', w') \<Longrightarrow> dk_exec c \<Longrightarrow> P w \<Longrightarrow> dk_exec c' \<and> P w'"
  "dk_OnShell cfg b (c, w) = Ret (r, c', w') \<Longrightarrow> dk_exec c \<Longrightarrow> P w \<Longrightarrow> dk_exec c' \<and> P w'"
  "dk_OnSubsystem cfg b n (c, w) = Ret (r, c', w') \<Longrightarrow> dk_exec c \<Longrightarrow> P w \<Longrightarrow> dk_exec c' \<and> P w'"
  by (auto simp: dk_OnExecRequest_def dk_OnShell_def dk_OnSubsystem_def dk_run_def elim!: go_bind_RetE split: option.splits)

lemma operations_started:
  "started g \<Longrightarrow> started (snd (on_go (dk_OnSignal b sig) g))"
  "started g \<Longrightarrow> started (snd (on_go (dk_OnWindow b columns rows) g))"
  "started g \<Longrightarrow> started (snd (on_go (dk_OnX11Request b sc pr ck scr rf) g))"
  "started g \<Longrightarrow> started (snd (on_go (dk_OnEnvRequest n v) g))"
  "started g \<Longrightarrow> started (snd (on_go (dk_OnPtyRequest t columns rows) g))"
  "started g \<Longrightarrow> started (snd (on_go (dk_OnExecRequest ParseCMD cfg b p) g))"
  "started g \<Longrightarrow> started (snd (on_go (dk_OnShell cfg b) g))"
  "started g \<Longrightarrow> started (snd (on_go (dk_OnSubsystem cfg b n) g))"
         apply (rule on_go_started, use OnSignal_keeps in blast, assumption)
        apply (rule on_go_started, use OnWindow_keeps in blast, assumption)
       apply (rule on_go_started, use OnX11Request_keeps in blast, assumption)
      apply (rule on_go_started, use OnEnvRequest_keeps in blast, assumption)
     apply (rule on_go_started, use OnPtyRequest_keeps in blast, assumption)
    apply (rule on_go_started, use starting_refused in blast, assumption)+
  done

lemma started_keeps: "started g \<Longrightarrow> started (snd (perform (docker_session ParseCMD cfg b) c g))"
  by (cases c)
    (simp_all add: docker_session_def operations_started after_go_started [OF OnClose_keeps] after_go_started [OF OnShutdown_keeps])

end

text \<open>The operations that start a program, in the two modes.\<close>

locale docker_starter = docker_client +
  assumes create_exec: "dk_Mode cfg = ''connection'' \<Longrightarrow> P w \<Longrightarrow> P (snd (createExec b program env tty w))"
    and create_container: "dk_Mode cfg = ''session'' \<Longrightarrow> P w \<Longrightarrow> P (snd (createContainer b env tty program w))"
    and attach: "dk_Mode cfg = ''session'' \<Longrightarrow> P w \<Longrightarrow> P (snd (attach b w))"
    and start: "dk_Mode cfg = ''session'' \<Longrightarrow> P w \<Longrightarrow> P (snd (start b w))"
    and remove_container: "dk_Mode cfg = ''session'' \<Longrightarrow> P w \<Longrightarrow> P (removeContainer b w)"
begin

lemma connection_mode_keeps:
  assumes "handleExecModeConnection b program (c, w) = (r, c', w')" "dk_Mode cfg = ''connection''" "P w"
  shows "P w'"
proof -
  obtain r1 w1 where e: "createExec b program (dk_env c) (dk_pty c) w = (r1, w1)" by fastforce
  then have "P w1" using create_exec [OF assms(2,3), of program "dk_env c" "dk_pty c"] by simp
  then show ?thesis
    using assms(1) e resize [of w1 "dk_rows c" "dk_columns c"] by (auto simp: handleExecModeConnection_def Let_def split: option.splits if_splits)
qed

lemma session_mode_keeps:
  assumes "handleExecModeSession b program (c, w) = (r, c', w')" and mode: "dk_Mode cfg = ''session''" and "P w"
  shows "P w'"
proof -
  obtain r1 w1 r2 w2 r3 w3 r4 w4 where e:
    "createContainer b (dk_env c) (dk_pty c) program w = (r1, w1)" "attach b w1 = (r2, w2)" "start b w2 = (r3, w3)"
    "resize b (dk_rows c) (dk_columns c) w3 = (r4, w4)"
    by fastforce
  then have "P w1" "P w2" "P w3" "P w4"
    using create_container [OF mode \<open>P w\<close>, of "dk_env c" "dk_pty c" program] attach [OF mode, of w1] start [OF mode, of w2]
      resize [of w3 "dk_rows c" "dk_columns c"] by auto
  then show ?thesis
    using assms(1) e remove_container [OF mode, of w2] remove_container [OF mode, of w3] remove_container [OF mode, of w4]
    by (auto simp: handleExecModeSession_def Let_def split: option.splits if_splits)
qed

lemma run_keeps: "dk_run cfg b program (c, w) = (r, c', w') \<Longrightarrow> P w \<Longrightarrow> P w'"
  by (auto simp: dk_run_def split: if_splits prod.splits option.splits
      intro: run_exec dest: connection_mode_keeps session_mode_keeps)

lemma starting_keeps:
  "dk_OnExecRequest ParseCMD cfg b p (c, w) = Ret (r, c', w') \<Longrightarrow> P w \<Longrightarrow> P w'"
  "dk_OnShell cfg b (c, w) = Ret (r, c', w') \<Longrightarrow> P w \<Longrightarrow> P w'"
  "dk_OnSubsystem cfg b n (c, w) = Ret (r, c', w') \<Longrightarrow> P w \<Longrightarrow> P w'"
  by (auto simp: dk_OnExecRequest_def dk_OnShell_def dk_OnSubsystem_def elim!: go_bind_RetE split: option.splits dest!: run_keeps)

lemma operations_keep:
  "keeping g \<Longrightarrow> keeping (snd (on_go (dk_OnSignal b sig) g))"
  "keeping g \<Longrightarrow> keeping (snd (on_go (dk_OnWindow b columns rows) g))"
  "keeping g \<Longrightarrow> keeping (snd (on_go (dk_OnX11Request b sc pr ck scr rf) g))"
  "keeping g \<Longrightarrow> keeping (snd (on_go (dk_OnEnvRequest n v) g))"
  "keeping g \<Longrightarrow> keeping (snd (on_go (dk_OnPtyRequest t columns rows) g))"
  "keeping g \<Longrightarrow> keeping (snd (on_go (dk_OnExecRequest ParseCMD cfg b p) g))"
  "keeping g \<Longrightarrow> keeping (snd (on_go (dk_OnShell cfg b) g))"
  "keeping g \<Longrightarrow> keeping (snd (on_go (dk_OnSubsystem cfg b n) g))"
         apply (rule on_go_keeping, use OnSignal_keeps in blast, assumption)
        apply (rule on_go_keeping, use OnWindow_keeps in blast, assumption)
       apply (rule on_go_keeping, use OnX11Request_keeps in blast, assumption)
      apply (rule on_go_keeping, use OnEnvRequest_keeps in blast, assumption)
     apply (rule on_go_keeping, use OnPtyRequest_keeps in blast, assumption)
    apply (rule on_go_keeping, use starting_keeps in blast, assumption)+
  done

lemma session_keeps: "keeping g \<Longrightarrow> keeping (snd (perform (docker_session ParseCMD cfg b) c g))"
  by (cases c)
    (simp_all add: docker_session_def operations_keep after_go_keeping [OF OnClose_keeps] after_go_keeping [OF OnShutdown_keeps])

end

end
