(* ===== verification/Agent_Forward.thy ===== *)
theory Agent_Forward
  imports Agent_Stream
begin

text \<open>
  Forwarding through the agent (\<open>internal/agentforward\<close>): the streams to the agents a connection has started, one for direct
  forwarding, one for X11, and one for each address that is forwarded back to the client. The operations of the backends are
  translated one by one over the protocol of \<open>Agent_Protocol\<close>.

  Starting an agent is the parameter \<open>setupAgent\<close> over the state \<open>'w\<close> of the backend: an error, or a stream, of which the
  model has the first packet that is received (or the error of receiving it). What is received on a stream during a
  shut-down is a parameter as well.
\<close>

section \<open>State\<close>

record agentForward =
  reverseForwards :: "(string \<times> ForwardCtx) list"
  nX11Channels :: uint32
  x11Forward :: "ForwardCtx option"
  directForward :: "ForwardCtx option"

type_synonym 'w agent_starter = "'w \<Rightarrow> (go_error + (go_error + Packet)) \<times> 'w"

definition NewAgentForward :: agentForward where
  "NewAgentForward = \<lparr>reverseForwards = [], nX11Channels = 0, x11Forward = None, directForward = None\<rparr>"

definition HasDirectAgent :: "agentForward \<Rightarrow> bool" where
  "HasDirectAgent f = (directForward f \<noteq> None)"

definition HasX11 :: "agentForward \<Rightarrow> bool" where
  "HasX11 f = (x11Forward f \<noteq> None)"

definition mangleForwardAddr :: "string \<Rightarrow> string \<Rightarrow> uint32 \<Rightarrow> string go" where
  "mangleForwardAddr proto addr port =
     (if proto = ''tcp'' then Ret (''tcp-'' @ addr @ '':'' @ itoa (uint port))
      else if proto = ''unix'' then Ret (''unix-'' @ addr)
      else Panic (''Requested to mangle unknown protocol '' @ proto))"

section \<open>Serving the connections of an agent\<close>

text \<open>One round of a serving loop, for the connection \<open>i\<close> the agent has asked for: it is joined to a channel of the client,
  rejected, or the loop ends. \<open>open\<close> opens a channel to the client.\<close>

datatype serve_result = Serving uint64 | Rejected | Stopped

definition serve_conn ::
    "(NewConnectionPayload \<Rightarrow> (go_error + uint64) go) \<Rightarrow> uint64 \<Rightarrow> ForwardCtx \<Rightarrow> (serve_result \<times> ForwardCtx) go" where
  "serve_conn open i ctx =
     (case map_of (connMap ctx) i of
        None \<Rightarrow> Panic ''nil pointer dereference''
      | Some c \<Rightarrow>
          go_bind (open (details c)) (\<lambda>r.
            case r of
              Inl err \<Rightarrow> Ret (Stopped, ctx)
            | Inr channel \<Rightarrow>
                (case Accept c ctx of
                   (Some err, c, ctx) \<Rightarrow> Ret (Stopped, store i c ctx)
                 | (None, c, ctx) \<Rightarrow> Ret (Serving channel, store i c ctx))))"

definition serveX11 ::
    "(string \<Rightarrow> uint32 \<Rightarrow> (go_error + uint64) go) \<Rightarrow> uint32 \<Rightarrow> uint64 \<Rightarrow> ForwardCtx \<Rightarrow> (serve_result \<times> ForwardCtx) go" where
  "serveX11 newChannelX11 nX11 i ctx =
     (if nX11 = 0 then Ret (Rejected, on_connection Reject i ctx)
      else serve_conn (\<lambda>d. newChannelX11 (conn_OriginatorAddress d) (conn_OriginatorPort d)) i ctx)"

definition serveReverseForward ::
    "(string \<Rightarrow> uint32 \<Rightarrow> string \<Rightarrow> uint32 \<Rightarrow> (go_error + uint64) go) \<Rightarrow> uint64 \<Rightarrow> ForwardCtx \<Rightarrow> (serve_result \<times> ForwardCtx) go" where
  "serveReverseForward newChannelTCP =
     serve_conn (\<lambda>d. newChannelTCP (conn_ConnectedAddress d) (conn_ConnectedPort d) (conn_OriginatorAddress d) (conn_OriginatorPort d))"

definition serveReverseForwardUnix ::
    "(string \<Rightarrow> (go_error + uint64) go) \<Rightarrow> uint64 \<Rightarrow> ForwardCtx \<Rightarrow> (serve_result \<times> ForwardCtx) go" where
  "serveReverseForwardUnix newChannelUnix = serve_conn (\<lambda>d. newChannelUnix (conn_ConnectedAddress d))"

text \<open>The stream for direct forwarding: the connections an agent asks for are all rejected.\<close>

definition serveDirect :: "uint64 \<Rightarrow> ForwardCtx \<Rightarrow> (serve_result \<times> ForwardCtx) go" where
  "serveDirect i ctx = Ret (Rejected, on_connection Reject i ctx)"

section \<open>Operations\<close>

text \<open>The context is stored before the stream is set up, and stays when that fails.\<close>

definition setupX11 ::
    "codec \<Rightarrow> 'w agent_starter \<Rightarrow> bool \<Rightarrow> string \<Rightarrow> string \<Rightarrow> uint32 \<Rightarrow> agentForward \<times> 'w \<Rightarrow> go_error option \<times> agentForward \<times> 'w" where
  "setupX11 cd setupAgent singleConnection proto cookie screen fw =
     (let (f, w) = fw
      in if x11Forward f \<noteq> None then (Some (ErrorString ''X11 forwarding already setup''), f, w)
         else case setupAgent w of
                (Inl err, w) \<Rightarrow> (Some err, f, w)
              | (Inr resp, w) \<Rightarrow>
                  let (err, ctx) = StartX11ForwardClient cd singleConnection (itoa (uint screen)) proto cookie resp init
                  in (err, f\<lparr>x11Forward := Some ctx\<rparr>, w))"

definition af_NewX11Forwarding ::
    "codec \<Rightarrow> 'w agent_starter \<Rightarrow> bool \<Rightarrow> string \<Rightarrow> string \<Rightarrow> uint32 \<Rightarrow> agentForward \<times> 'w \<Rightarrow> go_error option \<times> agentForward \<times> 'w" where
  "af_NewX11Forwarding cd setupAgent singleConnection proto cookie screen fw =
     (let (err, f, w) =
            (if x11Forward (fst fw) = None then setupX11 cd setupAgent singleConnection proto cookie screen fw else (None, fw))
      in if err \<noteq> None then (err, f, w) else (None, f\<lparr>nX11Channels := nX11Channels f + 1\<rparr>, w))"

definition reverse_forwarding ::
    "string \<Rightarrow> string go \<Rightarrow> 'w agent_starter \<Rightarrow> (go_error + Packet \<Rightarrow> ForwardCtx \<Rightarrow> go_error option \<times> ForwardCtx) \<Rightarrow>
     agentForward \<times> 'w \<Rightarrow> (go_error option \<times> agentForward \<times> 'w) go" where
  "reverse_forwarding already key setupAgent startClient fw =
     (let (f, w) = fw
      in go_bind key (\<lambda>key.
           if map_of (reverseForwards f) key \<noteq> None then Ret (Some (ErrorString already), f, w)
           else case setupAgent w of
                  (Inl err, w) \<Rightarrow> Ret (Some err, f, w)
                | (Inr resp, w) \<Rightarrow>
                    let (err, ctx) = startClient resp init
                    in Ret (err, f\<lparr>reverseForwards := AList.update key ctx (reverseForwards f)\<rparr>, w)))"

definition NewTCPReverseForwarding ::
    "codec \<Rightarrow> 'w agent_starter \<Rightarrow> string \<Rightarrow> uint32 \<Rightarrow> agentForward \<times> 'w \<Rightarrow> (go_error option \<times> agentForward \<times> 'w) go" where
  "NewTCPReverseForwarding cd setupAgent bindHost bindPort =
     reverse_forwarding ''Forwarding already started for this host/port combo'' (mangleForwardAddr ''tcp'' bindHost bindPort)
       setupAgent (StartReverseForwardClient cd bindHost bindPort False)"

definition NewUnixReverseForwarding ::
    "codec \<Rightarrow> 'w agent_starter \<Rightarrow> string \<Rightarrow> agentForward \<times> 'w \<Rightarrow> (go_error option \<times> agentForward \<times> 'w) go" where
  "NewUnixReverseForwarding cd setupAgent path =
     reverse_forwarding ''Forwarding already started for this socket'' (mangleForwardAddr ''unix'' path 0)
       setupAgent (StartReverseForwardClientUnix cd path False)"

definition cancel_forwarding :: "string go \<Rightarrow> agentForward \<Rightarrow> (go_error option \<times> agentForward) go" where
  "cancel_forwarding key f =
     go_bind key (\<lambda>key.
       case map_of (reverseForwards f) key of
         None \<Rightarrow> Ret (Some (ErrorString ''Forwarding not found''), f)
       | Some ctx \<Rightarrow>
           go_bind (NoMoreConnections ctx) (\<lambda>(err, ctx).
             if err \<noteq> None then Ret (err, f\<lparr>reverseForwards := AList.update key ctx (reverseForwards f)\<rparr>)
             else Ret (None, f\<lparr>reverseForwards := AList.delete key (reverseForwards f)\<rparr>)))"

definition CancelTCPForwarding :: "string \<Rightarrow> uint32 \<Rightarrow> agentForward \<Rightarrow> (go_error option \<times> agentForward) go" where
  "CancelTCPForwarding bindHost bindPort = cancel_forwarding (mangleForwardAddr ''tcp'' bindHost bindPort)"

definition CancelStreamLocalForwarding :: "string \<Rightarrow> agentForward \<Rightarrow> (go_error option \<times> agentForward) go" where
  "CancelStreamLocalForwarding path = cancel_forwarding (mangleForwardAddr ''unix'' path 0)"

definition af_CloseX11Forwarding :: "agentForward \<Rightarrow> go_error option \<times> agentForward" where
  "af_CloseX11Forwarding f =
     (if x11Forward f = None
      then (Some (ErrorString ''X11 forwarding not setup, please call NewX11Forwarding at least once''), f)
      else if nX11Channels f = 0
      then (Some (ErrorString ''Tried to close X11 session when there are already 0 X11 channels''), f)
      else (None, f\<lparr>nX11Channels := nX11Channels f - 1\<rparr>))"

definition setupDirectForward :: "codec \<Rightarrow> 'w agent_starter \<Rightarrow> agentForward \<times> 'w \<Rightarrow> go_error option \<times> agentForward \<times> 'w" where
  "setupDirectForward cd setupAgent fw =
     (let (f, w) = fw
      in if directForward f \<noteq> None then (Some (ErrorString ''Direct forwarding has already been setup for this connection''), f, w)
         else case setupAgent w of
                (Inl err, w) \<Rightarrow> (Some err, f, w)
              | (Inr resp, w) \<Rightarrow>
                  let (err, ctx) = StartServerForward cd resp init
                  in (err, f\<lparr>directForward := Some ctx\<rparr>, w))"

definition forward_direct ::
    "codec \<Rightarrow> 'w agent_starter \<Rightarrow> (ForwardCtx \<Rightarrow> ((go_error + uint64) \<times> ForwardCtx) go) \<Rightarrow> agentForward \<times> 'w \<Rightarrow>
     ((go_error + uint64) \<times> agentForward \<times> 'w) go" where
  "forward_direct cd setupAgent connect fw =
     (let (err, f, w) = (if directForward (fst fw) = None then setupDirectForward cd setupAgent fw else (None, fw))
      in case err of
           Some e \<Rightarrow> Ret (Inl e, f, w)
         | None \<Rightarrow>
             (case directForward f of
                None \<Rightarrow> Panic ''nil pointer dereference''
              | Some ctx \<Rightarrow> go_bind (connect ctx) (\<lambda>(conn, ctx). Ret (conn, f\<lparr>directForward := Some ctx\<rparr>, w))))"

definition NewForwardTCP ::
    "codec \<Rightarrow> 'w agent_starter \<Rightarrow> string \<Rightarrow> uint32 \<Rightarrow> string \<Rightarrow> uint32 \<Rightarrow> agentForward \<times> 'w \<Rightarrow> ((go_error + uint64) \<times> agentForward \<times> 'w) go" where
  "NewForwardTCP cd setupAgent hostToConnect portToConnect originatorHost originatorPort =
     forward_direct cd setupAgent (NewConnectionTCP cd hostToConnect portToConnect originatorHost originatorPort False)"

definition NewForwardUnix ::
    "codec \<Rightarrow> 'w agent_starter \<Rightarrow> string \<Rightarrow> agentForward \<times> 'w \<Rightarrow> ((go_error + uint64) \<times> agentForward \<times> 'w) go" where
  "NewForwardUnix cd setupAgent path = forward_direct cd setupAgent (NewConnectionUnix cd path False)"

text \<open>\<open>NoMoreConnections\<close> and \<open>Kill\<close> of one stream; \<open>heard\<close> is what is received before the time of \<open>Kill\<close> is over.\<close>

definition stop_stream :: "codec \<Rightarrow> (go_error + Packet) list \<Rightarrow> ForwardCtx \<Rightarrow> ForwardCtx go" where
  "stop_stream cd heard ctx =
     go_bind (NoMoreConnections ctx) (\<lambda>(_, ctx).
     go_bind (Kill_close ctx) (\<lambda>ctx.
     go_bind (handleBackend cd heard ctx) (\<lambda>ctx.
       if waitGroup ctx = 0 then Ret ctx else WaitFinish (Kill_timeout ctx))))"

fun stop_streams :: "codec \<Rightarrow> (string \<Rightarrow> (go_error + Packet) list) \<Rightarrow> (string \<times> ForwardCtx) list \<Rightarrow> (string \<times> ForwardCtx) list go" where
  "stop_streams cd heard [] = Ret []"
| "stop_streams cd heard ((key, ctx) # rest) =
     go_bind (stop_stream cd (heard key) ctx) (\<lambda>ctx. go_bind (stop_streams cd heard rest) (\<lambda>rest. Ret ((key, ctx) # rest)))"

text \<open>For the X11 stream the end is announced on the stream for direct forwarding, which may not exist.\<close>

definition af_OnShutdown :: "codec \<Rightarrow> (string \<Rightarrow> (go_error + Packet) list) \<Rightarrow> agentForward \<Rightarrow> agentForward go" where
  "af_OnShutdown cd heard f =
     go_bind (case directForward f of
                None \<Rightarrow> Ret f
              | Some ctx \<Rightarrow> go_bind (stop_stream cd (heard ''direct'') ctx) (\<lambda>ctx. Ret (f\<lparr>directForward := Some ctx\<rparr>))) (\<lambda>f.
     go_bind (case x11Forward f of
                None \<Rightarrow> Ret f
              | Some x11 \<Rightarrow>
                  (case directForward f of
                     None \<Rightarrow> Panic ''nil pointer dereference''
                   | Some ctx \<Rightarrow>
                       go_bind (NoMoreConnections ctx) (\<lambda>(_, ctx).
                       go_bind (Kill_close x11) (\<lambda>x11.
                       go_bind (handleBackend cd (heard ''x11'') x11) (\<lambda>x11.
                       go_bind (if waitGroup x11 = 0 then Ret x11 else WaitFinish (Kill_timeout x11)) (\<lambda>x11.
                         Ret (f\<lparr>directForward := Some ctx, x11Forward := Some x11\<rparr>))))))) (\<lambda>f.
     go_bind (stop_streams cd heard (reverseForwards f)) (\<lambda>forwards. Ret (f\<lparr>reverseForwards := forwards\<rparr>))))"

section \<open>Forwarded addresses\<close>

text \<open>Two addresses share an entry of the table only if they are the same: the port is what follows the last colon.\<close>

lemma itoa_no_colon [simp]: "CHR '':'' \<notin> set (itoa (uint (p :: 'a :: len word)))"
  by (simp add: itoa_def)

lemma digits_inj: "digits m = digits n \<Longrightarrow> m = n"
  by (metis undigits_digits)

lemma itoa_uint_inj: "itoa (uint (p :: 'a :: len word)) = itoa (uint q) \<Longrightarrow> p = q"
  using digits_inj [of "unat p" "unat q"] by (simp add: itoa_def unsigned_word_eqI)

lemma append_last_sep:
  assumes "xs @ c # ys = xs' @ c # ys'" "c \<notin> set ys" "c \<notin> set ys'"
  shows "xs = xs' \<and> ys = ys'"
  using assms
proof (induction xs arbitrary: xs')
  case Nil
  then show ?case by (cases xs') auto
next
  case (Cons x xs)
  then show ?case by (cases xs') auto
qed

lemma mangle_tcp_inj:
  "mangleForwardAddr ''tcp'' h p = mangleForwardAddr ''tcp'' h' p' \<longleftrightarrow> h = h' \<and> p = p'"
proof
  assume "mangleForwardAddr ''tcp'' h p = mangleForwardAddr ''tcp'' h' p'"
  then have "h @ CHR '':'' # itoa (uint p) = h' @ CHR '':'' # itoa (uint p')" by (simp add: mangleForwardAddr_def)
  from append_last_sep [OF this] show "h = h' \<and> p = p'" using itoa_uint_inj by auto
qed simp

lemma mangle_unix_inj: "mangleForwardAddr ''unix'' a p = mangleForwardAddr ''unix'' a' p' \<longleftrightarrow> a = a'"
  by (simp add: mangleForwardAddr_def)

lemma mangle_tcp_unix: "mangleForwardAddr ''tcp'' h p \<noteq> mangleForwardAddr ''unix'' a q"
  by (simp add: mangleForwardAddr_def)

interpretation forwards: registry "AList.update :: string \<Rightarrow> ForwardCtx \<Rightarrow> _" AList.delete map_of
  by unfold_locales (auto simp: update_conv' delete_conv')

lemma reverse_forwarding_entry:
  assumes "reverse_forwarding already (Ret key) setupAgent startClient (f, w) = Ret (err, f', w')"
    and "map_of (reverseForwards f) key = None" and "setupAgent w = (Inr resp, w1)"
  shows "map_of (reverseForwards f') = (map_of (reverseForwards f))(key \<mapsto> snd (startClient resp init)) \<and> err = fst (startClient resp init)"
  using assms by (auto simp: reverse_forwarding_def forwards.lookup_register split: prod.splits)

lemma reverse_forwarding_refused:
  "map_of (reverseForwards f) key \<noteq> None \<Longrightarrow>
   reverse_forwarding already (Ret key) setupAgent startClient (f, w) = Ret (Some (ErrorString already), f, w)"
  by (simp add: reverse_forwarding_def)

section \<open>Shutting down\<close>

named_theorems keeps_closed

lemma writePacket_closed [keeps_closed]: "writePacket p ctx = (e, ctx') \<Longrightarrow> channel_closed ctx' = channel_closed ctx"
  by (auto simp: writePacket_def split: option.splits)

lemma store_closed [simp]: "channel_closed (store i c ctx) = channel_closed ctx"
  by (simp add: store_def)

lemma Close_closed [keeps_closed]: "Close c ctx = (e, c', ctx') \<Longrightarrow> channel_closed ctx' = channel_closed ctx"
  by (auto simp: Close_def Let_def split: prod.splits if_splits dest: keeps_closed)

lemma CloseImm_closed [keeps_closed]: "CloseImm c ctx = (e, c', ctx') \<Longrightarrow> channel_closed ctx' = channel_closed ctx"
  by (auto simp: CloseImm_def split: if_splits)

lemma Reject_closed [keeps_closed]: "Reject c ctx = (e, c', ctx') \<Longrightarrow> channel_closed ctx' = channel_closed ctx"
  by (auto simp: Reject_def Let_def split: prod.splits if_splits dest: keeps_closed)

lemma on_connection_closed:
  assumes "\<And>c ctx e c' ctx'. f c ctx = (e, c', ctx') \<Longrightarrow> channel_closed ctx' = channel_closed ctx"
  shows "channel_closed (on_connection f i ctx) = channel_closed ctx"
  using assms by (auto simp: on_connection_def split: option.splits prod.splits)

lemma fold_closed:
  assumes "\<And>c ctx e c' ctx'. f c ctx = (e, c', ctx') \<Longrightarrow> channel_closed ctx' = channel_closed ctx"
  shows "channel_closed (fold (on_connection f) is ctx) = channel_closed ctx"
  by (induction "is" arbitrary: ctx) (simp_all add: on_connection_closed [of f, OF assms])

lemma handlers_closed [keeps_closed]:
  "handleData p ctx = Ret ctx' \<Longrightarrow> channel_closed ctx' = channel_closed ctx"
  "handleClose p ctx = Ret ctx' \<Longrightarrow> channel_closed ctx' = channel_closed ctx"
  "handleSuccess p ctx = Ret ctx' \<Longrightarrow> channel_closed ctx' = channel_closed ctx"
  "handleError p ctx = Ret ctx' \<Longrightarrow> channel_closed ctx' = channel_closed ctx"
  by (auto simp: handleData_def handleClose_def handleSuccess_def handleError_def Let_def
      split: if_splits option.splits connection_state.splits prod.splits dest!: keeps_closed)

lemma handleNewConnection_closed [keeps_closed]:
  "handleNewConnection cd p ctx = Ret ctx' \<Longrightarrow> channel_closed ctx' = channel_closed ctx"
  by (auto simp: handleNewConnection_def Let_def split: if_splits sum.splits prod.splits dest!: keeps_closed)

lemma handlePacket_closed: "handlePacket cd p ctx = Ret ctx' \<Longrightarrow> channel_closed ctx \<Longrightarrow> channel_closed ctx'"
  by (auto simp: handlePacket_def split: if_splits dest: keeps_closed)

lemma handleBackend_closed: "handleBackend cd ps ctx = Ret ctx' \<Longrightarrow> channel_closed ctx \<Longrightarrow> channel_closed ctx'"
  by (induction cd ps ctx rule: handleBackend.induct) (auto elim!: go_bind_RetE dest: handlePacket_closed)

lemma Kill_closed:
  assumes "Kill_close ctx = Ret ctx'" "channel_closed ctx"
  shows "channel_closed ctx'"
proof -
  have "stopped ctx" using assms by (auto simp: Kill_close_def NoMoreConnections_def split: if_splits)
  then show ?thesis
    using assms by (auto simp: Kill_close_def fold_closed [of Close, OF Close_closed])
qed

lemma Kill_timeout_closed: "channel_closed (Kill_timeout ctx) = channel_closed ctx"
  unfolding Kill_timeout_def by (rule fold_closed) (rule CloseImm_closed)

lemma stop_stream_closed:
  assumes "stop_stream cd heard ctx = Ret ctx'"
  shows "channel_closed ctx'"
proof -
  obtain e c1 c2 c3 where "NoMoreConnections ctx = Ret (e, c1)" "Kill_close c1 = Ret c2" "handleBackend cd heard c2 = Ret c3"
    and last: "(if waitGroup c3 = 0 then Ret c3 else WaitFinish (Kill_timeout c3)) = Ret ctx'"
    using assms by (auto simp: stop_stream_def elim!: go_bind_RetE)
  moreover from this(1) have "channel_closed c1"
    by (auto simp: NoMoreConnections_def split: if_splits dest!: writePacket_closed)
  ultimately have "channel_closed c3" using Kill_closed handleBackend_closed by blast
  then show ?thesis using last by (auto simp: WaitFinish_def Kill_timeout_closed split: if_splits)
qed

lemma shutdown_with_x11:
  assumes "x11Forward f = Some x11"
  shows "\<not> returns (af_OnShutdown cd heard f)"
proof (cases "directForward f")
  case None
  then show ?thesis by (simp add: af_OnShutdown_def assms)
next
  case (Some direct)
  show ?thesis
  proof (cases "stop_stream cd (heard ''direct'') direct")
    case (Ret ctx)
    then have "NoMoreConnections ctx = Panic ''close of closed channel''"
      using stop_stream_closed by (simp add: NoMoreConnections_def)
    then show ?thesis by (simp add: af_OnShutdown_def assms Some Ret)
  qed (simp_all add: af_OnShutdown_def Some)
qed

text \<open>A connection that was ever used for X11 forwarding cannot be shut down: the end of the X11 stream is announced on the
  stream for direct forwarding instead, which either does not exist or was ended a moment before, and the server panics or
  is still waiting for direct connections to end.\<close>
theorem x11_shutdown_never_returns:
  assumes "af_NewX11Forwarding cd setupAgent single proto cookie screen (f, w) = (None, f', w')"
    and "x11Forward f'' = x11Forward f'"
  shows "\<not> returns (af_OnShutdown cd heard f'')"
proof -
  obtain x11 where "x11Forward f' = Some x11"
    using assms(1) by (auto simp: af_NewX11Forwarding_def setupX11_def Let_def split: if_splits prod.splits sum.splits)
  with assms(2) show ?thesis by (simp add: shutdown_with_x11)
qed

definition sample_agent :: "unit agent_starter" where
  "sample_agent w = (Inr (Inr (packet PACKET_SUCCESS 0 [])), w)"

theorem x11_shutdown_never_returns_witness:
  "\<exists>f'. af_NewX11Forwarding sample_codec sample_agent False ''MIT-MAGIC-COOKIE-1'' ''00'' 0 (NewAgentForward, ()) = (None, f', ()) \<and>
     \<not> returns (af_OnShutdown sample_codec (\<lambda>_. []) f')"
proof -
  obtain f' where f': "af_NewX11Forwarding sample_codec sample_agent False ''MIT-MAGIC-COOKIE-1'' ''00'' 0 (NewAgentForward, ()) = (None, f', ())"
    by (simp add: af_NewX11Forwarding_def setupX11_def NewAgentForward_def sample_agent_def StartX11ForwardClient_def
        startReverseForwardingClient_def sample_codec_def writePacket_def init_def check_response_def packet_def)
  with x11_shutdown_never_returns [OF f' refl] show ?thesis by blast
qed

text \<open>The forwarding of an address is started at most once. While its entry exists a further request for the same address
  is refused and changes nothing; the entries of other addresses, of either kind, are not touched. The entry is made even
  when the agent refuses the forwarding: the client is told of the failure, and every later attempt is refused as if it
  had succeeded.\<close>
theorem forwarding_started_once:
  assumes "NewTCPReverseForwarding cd setupAgent host port (f, w) = Ret (err, f', w')"
    and "setupAgent w = (Inr resp, w1)"
    and "mangleForwardAddr ''tcp'' host port = Ret key" and "map_of (reverseForwards f) key = None"
  shows "NewTCPReverseForwarding cd setupAgent host port (f', w2) =
           Ret (Some (ErrorString ''Forwarding already started for this host/port combo''), f', w2)
    \<and> (\<forall>host' port' k. (host', port') \<noteq> (host, port) \<longrightarrow> mangleForwardAddr ''tcp'' host' port' = Ret k \<longrightarrow>
          map_of (reverseForwards f') k = map_of (reverseForwards f) k)
    \<and> (\<forall>path k. mangleForwardAddr ''unix'' path 0 = Ret k \<longrightarrow> map_of (reverseForwards f') k = map_of (reverseForwards f) k)"
proof -
  have entry: "map_of (reverseForwards f') = (map_of (reverseForwards f))(key \<mapsto> snd (StartReverseForwardClient cd host port False resp init))"
    using reverse_forwarding_entry [of _ key setupAgent _ f w err f' w' resp w1] assms by (simp add: NewTCPReverseForwarding_def)
  have "k \<noteq> key" if "(host', port') \<noteq> (host, port)" "mangleForwardAddr ''tcp'' host' port' = Ret k" for host' port' k
    using that assms(3) mangle_tcp_inj [of host' port' host port] by auto
  moreover have "k \<noteq> key" if "mangleForwardAddr ''unix'' path 0 = Ret k" for path k
    using that assms(3) mangle_tcp_unix [of host port path 0] by auto
  ultimately show ?thesis
    using entry by (auto simp: NewTCPReverseForwarding_def assms(3) reverse_forwarding_refused)
qed

theorem forwarding_started_once_witness:
  "\<exists>err f'. NewTCPReverseForwarding sample_codec (\<lambda>w. (Inr (Inr (packet PACKET_ERROR 0 [])), w)) ''localhost'' 80 (NewAgentForward, ()) =
        Ret (Some err, f', ()) \<and>
     NewTCPReverseForwarding sample_codec (\<lambda>w. (Inr (Inr (packet PACKET_ERROR 0 [])), w)) ''localhost'' 80 (f', ()) =
        Ret (Some (ErrorString ''Forwarding already started for this host/port combo''), f', ())"
proof -
  let ?agent = "\<lambda>w :: unit. (Inr (Inr (packet PACKET_ERROR 0 [])), w) :: (go_error + (go_error + Packet)) \<times> unit"
  obtain err f' where f': "NewTCPReverseForwarding sample_codec ?agent ''localhost'' 80 (NewAgentForward, ()) = Ret (Some err, f', ())"
    by (simp add: NewTCPReverseForwarding_def reverse_forwarding_def NewAgentForward_def mangleForwardAddr_def StartReverseForwardClient_def
        startReverseForwardingClient_def sample_codec_def writePacket_def init_def check_response_def packet_def)
  have n: "map_of (reverseForwards NewAgentForward) (''tcp-localhost:'' @ itoa (uint (80 :: uint32))) = None"
    by (simp add: NewAgentForward_def)
  have m: "mangleForwardAddr ''tcp'' ''localhost'' 80 = Ret (''tcp-localhost:'' @ itoa (uint (80 :: uint32)))"
    by (simp add: mangleForwardAddr_def)
  have a: "?agent () = (Inr (Inr (packet PACKET_ERROR 0 [])), ())" by simp
  from f' forwarding_started_once [OF f' a m n, of "()", THEN conjunct1] show ?thesis by (intro exI conjI)
qed

end
