(* ===== verification/Docker_Connection.thy ===== *)
theory Docker_Connection
  imports Docker Agent_Forward Authentication
begin

text \<open>
  A connection served by the Docker backend: \<open>handler_network.go\<close> and \<open>handler_ssh.go\<close> of \<open>internal/docker\<close>. The handler of the
  network connection starts the container of the connection and removes it; the handler of the SSH connection makes the
  channel handlers of \<open>Docker\<close> and forwards ports through the agent of \<open>Agent_Forward\<close>.

  What the client of the daemon does for one connection is the parameter \<open>dd\<close>, over the state \<open>'w\<close> of the daemon; the
  operations of the client themselves are in \<open>Docker\<close>. Containers are named by numbers.
\<close>

section \<open>The handler of the network connection\<close>

record 'w docker_daemon =
  dd_get :: "'w \<Rightarrow> go_error option \<times> 'w"
  dd_pullImage :: "'w \<Rightarrow> go_error option \<times> 'w"
  dd_createContainer ::
    "(string \<rightharpoonup> string) \<Rightarrow> (string \<rightharpoonup> string) \<Rightarrow> bool option \<Rightarrow> string list \<Rightarrow> 'w \<Rightarrow> (go_error + nat) \<times> 'w"
  dd_start :: "nat \<Rightarrow> 'w \<Rightarrow> go_error option \<times> 'w"
  dd_attach :: "nat \<Rightarrow> 'w \<Rightarrow> go_error option \<times> 'w"
  dd_writeFile :: "nat \<Rightarrow> string \<Rightarrow> bytes \<Rightarrow> 'w \<Rightarrow> go_error option \<times> 'w"
  dd_createExec :: "nat \<Rightarrow> string list \<Rightarrow> (string \<rightharpoonup> string) \<Rightarrow> bool \<Rightarrow> 'w \<Rightarrow> go_error option \<times> 'w"
  dd_remove :: "nat \<Rightarrow> 'w \<Rightarrow> 'w"
  dd_resize :: "uint32 \<Rightarrow> uint32 \<Rightarrow> 'w \<Rightarrow> go_error option \<times> 'w"
  dd_run :: "'w \<Rightarrow> 'w"
  dd_signal :: "string \<Rightarrow> 'w \<Rightarrow> go_error option \<times> 'w"
  dd_term :: "'w \<Rightarrow> 'w"
  dd_kill :: "'w \<Rightarrow> 'w"
  dd_exits_in_time :: "'w \<Rightarrow> bool \<times> 'w"
  dd_agent_says :: "'w \<Rightarrow> (go_error + Packet) \<times> 'w"

text \<open>\<open>nh_client_ip\<close> is the text of the address of the client.\<close>

record networkHandler =
  nh_client_ip :: string
  nh_connectionID :: string
  nh_username :: string
  nh_dockerClient :: bool
  nh_labels :: "string \<rightharpoonup> string"
  nh_container :: "nat option"
  nh_disconnected :: bool

definition nh_New :: "string \<Rightarrow> string \<Rightarrow> networkHandler" where
  "nh_New ip connectionID =
     \<lparr>nh_client_ip = ip, nh_connectionID = connectionID, nh_username = '''', nh_dockerClient = False, nh_labels = Map.empty,
      nh_container = None, nh_disconnected = False\<rparr>"

definition no_docker_auth :: "ConnectionAuthPendingMetadata \<Rightarrow> auth_result" where
  "no_docker_auth meta =
     (AuthResponseUnavailable, AuthFailed meta, Some (ErrorString ''docker does not support authentication''))"

definition setupDockerClient :: "'w docker_daemon \<Rightarrow> networkHandler \<times> 'w \<Rightarrow> go_error option \<times> networkHandler \<times> 'w" where
  "setupDockerClient dd nw =
     (let (n, w) = nw
      in if nh_dockerClient n then (None, n, w)
         else case dd_get dd w of
                (Some err, w) \<Rightarrow> (Some (ErrorString (''failed to create Docker client ('' @ error_text err @ '')'')), n, w)
              | (None, w) \<Rightarrow> (None, n\<lparr>nh_dockerClient := True\<rparr>, w))"

definition values_of :: "(string \<rightharpoonup> Value) option \<Rightarrow> (string \<rightharpoonup> string)" where
  "values_of m = (\<lambda>k. map_option val_Value (or_empty m k))"

text \<open>The environment of the container: the metadata, if it is to be exposed, and the environment of the connection.\<close>

definition container_env :: "docker_config \<Rightarrow> ConnectionAuthenticatedMetadata \<Rightarrow> (string \<rightharpoonup> string)" where
  "container_env cfg meta =
     (if dk_ExposeAuthMetadataAsEnv cfg then values_of (fst (GetMetadata meta)) else Map.empty) ++ values_of (fst (GetEnvironment meta))"

definition container_labels :: "networkHandler \<Rightarrow> (string \<rightharpoonup> string)" where
  "container_labels n =
     [''containerssh_connection_id'' \<mapsto> nh_connectionID n, ''containerssh_ip'' \<mapsto> nh_client_ip n,
      ''containerssh_username'' \<mapsto> nh_username n]"

text \<open>The files are written in the order in which Go enumerates the map; an error is logged and the next one is written.\<close>

fun write_files :: "'w docker_daemon \<Rightarrow> nat \<Rightarrow> (string \<times> bytes) list \<Rightarrow> 'w \<Rightarrow> 'w" where
  "write_files dd cnt [] w = w"
| "write_files dd cnt ((path, content) # files) w = write_files dd cnt files (snd (dd_writeFile dd cnt path content w))"

definition nh_OnHandshakeSuccess ::
    "docker_config \<Rightarrow> 'w docker_daemon \<Rightarrow> (string \<times> bytes) list \<Rightarrow> ConnectionAuthenticatedMetadata \<Rightarrow> networkHandler \<times> 'w \<Rightarrow>
     go_error option \<times> networkHandler \<times> 'w" where
  "nh_OnHandshakeSuccess cfg dd files meta nw =
     (let (n, w) = nw;
          n = n\<lparr>nh_username := Username meta\<rparr>;
          env = container_env cfg meta
      in case setupDockerClient dd (n, w) of
           (Some err, nw) \<Rightarrow> (Some err, nw)
         | (None, n, w) \<Rightarrow>
             (case dd_pullImage dd w of
                (Some err, w) \<Rightarrow> (Some err, n, w)
              | (None, w) \<Rightarrow>
                  let n = n\<lparr>nh_labels := container_labels n\<rparr>
                  in if dk_Mode cfg \<noteq> ''connection'' then (None, n, w)
                     else case dd_createContainer dd (nh_labels n) env None [] w of
                            (Inl err, w) \<Rightarrow> (Some err, n, w)
                          | (Inr cnt, w) \<Rightarrow>
                              let n = n\<lparr>nh_container := Some cnt\<rparr>
                              in case dd_start dd cnt w of
                                   (Some err, w) \<Rightarrow> (Some err, n, w)
                                 | (None, w) \<Rightarrow> (None, n, write_files dd cnt files w)))"

definition nh_OnDisconnect :: "'w docker_daemon \<Rightarrow> networkHandler \<times> 'w \<Rightarrow> networkHandler \<times> 'w" where
  "nh_OnDisconnect dd nw =
     (let (n, w) = nw
      in if nh_disconnected n then (n, w)
         else (n\<lparr>nh_disconnected := True\<rparr>, case nh_container n of Some cnt \<Rightarrow> dd_remove dd cnt w | None \<Rightarrow> w))"

text \<open>\<open>expired\<close> says that the time of the shut-down is over before the connection has ended.\<close>

definition nh_OnShutdown :: "'w docker_daemon \<Rightarrow> bool \<Rightarrow> networkHandler \<times> 'w \<Rightarrow> networkHandler \<times> 'w" where
  "nh_OnShutdown dd expired nw = (if expired then nh_OnDisconnect dd nw else nw)"

text \<open>The handler as an implementation of the interface.\<close>

definition docker_network ::
    "docker_config \<Rightarrow> 'w docker_daemon \<Rightarrow> (string \<times> bytes) list \<Rightarrow> bool \<Rightarrow> (networkHandler \<times> 'w) network_handler" where
  "docker_network cfg dd files expired = AbstractNetworkConnectionHandler\<lparr>
     OnAuthPassword := (\<lambda>meta _ s. (no_docker_auth meta, s)),
     OnAuthPubKey := (\<lambda>meta _ s. (no_docker_auth meta, s)),
     OnHandshakeSuccess := nh_OnHandshakeSuccess cfg dd files,
     OnDisconnect := nh_OnDisconnect dd,
     OnNetworkShutdown := nh_OnShutdown dd expired\<rparr>"

section \<open>The handler of the SSH connection\<close>

text \<open>What a channel works on: the container it has started (in session mode), the forwarding of the connection and the
  daemon.\<close>

type_synonym 'w session_world = "nat option \<times> agentForward \<times> 'w"

definition in_daemon :: "('w \<Rightarrow> 'r \<times> 'w) \<Rightarrow> 'w session_world \<Rightarrow> 'r \<times> 'w session_world" where
  "in_daemon f s = (case s of (cnt, fwd, w) \<Rightarrow> case f w of (r, w) \<Rightarrow> (r, cnt, fwd, w))"

definition in_daemon_unit :: "('w \<Rightarrow> 'w) \<Rightarrow> 'w session_world \<Rightarrow> 'w session_world" where
  "in_daemon_unit f s = (case s of (cnt, fwd, w) \<Rightarrow> (cnt, fwd, f w))"

text \<open>The agent for forwarding is a program in the container of the connection; there is none in session mode. A handler of an
  SSH connection in connection mode has a container.\<close>

definition setupAgent :: "docker_config \<Rightarrow> 'w docker_daemon \<Rightarrow> networkHandler \<Rightarrow> (string \<rightharpoonup> string) \<Rightarrow> 'w agent_starter" where
  "setupAgent cfg dd n env w =
     (if dk_Mode cfg \<noteq> ''connection'' then (Inl (ErrorString ''port forwarding does not work in session mode''), w)
      else case nh_container n of
             None \<Rightarrow> (Inl (ErrorString ''nil pointer dereference''), w)
           | Some cnt \<Rightarrow>
               (case dd_createExec dd cnt [dk_AgentPath cfg, ''forward-server''] env False w of
                  (Some err, w) \<Rightarrow> (Inl err, w)
                | (None, w) \<Rightarrow> apfst Inr (dd_agent_says dd (dd_run dd w))))"

text \<open>A handler that has no container cannot be asked for one by the code; the model gives an error there.\<close>

definition of_container :: "('a \<Rightarrow> 'w \<Rightarrow> go_error option \<times> 'w) \<Rightarrow> 'a option \<Rightarrow> 'w \<Rightarrow> go_error option \<times> 'w" where
  "of_container f cnt w = (case cnt of None \<Rightarrow> (Some (ErrorString ''no container''), w) | Some c \<Rightarrow> f c w)"

text \<open>The channel handler's view of the client. The container that a session starts is remembered until it is started or
  removed.\<close>

definition session_backend ::
    "codec \<Rightarrow> docker_config \<Rightarrow> 'w docker_daemon \<Rightarrow> networkHandler \<Rightarrow> (string \<rightharpoonup> string) \<Rightarrow> 'w session_world docker_backend" where
  "session_backend cd cfg dd n env = \<lparr>
     createExec = (\<lambda>program env tty. in_daemon (of_container (\<lambda>c. dd_createExec dd c program env tty) (nh_container n))),
     createContainer = (\<lambda>env tty program (cnt, fwd, w).
       case dd_createContainer dd (nh_labels n) env (Some tty) program w of
         (Inl err, w) \<Rightarrow> (Some err, cnt, fwd, w)
       | (Inr c, w) \<Rightarrow> (None, Some c, fwd, w)),
     attach = (\<lambda>(cnt, fwd, w). in_daemon (of_container (dd_attach dd) cnt) (cnt, fwd, w)),
     start = (\<lambda>(cnt, fwd, w). in_daemon (of_container (dd_start dd) cnt) (cnt, fwd, w)),
     removeContainer = (\<lambda>(cnt, fwd, w). (cnt, fwd, case cnt of Some c \<Rightarrow> dd_remove dd c w | None \<Rightarrow> w)),
     connectionContainer = map_option (\<lambda>c. in_daemon_unit (dd_remove dd c)) (nh_container n),
     resize = (\<lambda>rows columns. in_daemon (dd_resize dd rows columns)),
     run_exec = in_daemon_unit (dd_run dd),
     signal_exec = (\<lambda>sig. in_daemon (dd_signal dd sig)),
     term_exec = in_daemon_unit (dd_term dd),
     kill_exec = in_daemon_unit (dd_kill dd),
     exits_in_time = in_daemon (dd_exits_in_time dd),
     NewX11Forwarding = (\<lambda>sc pr ck scr rf (cnt, fwd, w).
       case af_NewX11Forwarding cd (setupAgent cfg dd n env) sc pr ck scr (fwd, w) of (err, fwd, w) \<Rightarrow> (err, cnt, fwd, w)),
     CloseX11Forwarding = (\<lambda>(cnt, fwd, w). case af_CloseX11Forwarding fwd of (err, fwd) \<Rightarrow> (err, cnt, fwd, w))\<rparr>"

text \<open>The state of a connection: its forwarding, its channels and the daemon.\<close>

record 'w docker_conn =
  dc_forward :: agentForward
  dc_sessions :: "uint64 \<rightharpoonup> channelHandler \<times> nat option"
  dc_daemon :: 'w

text \<open>An operation of one channel in the state of the connection.\<close>

definition session_view :: "uint64 \<Rightarrow> 'w docker_conn \<Rightarrow> (channelHandler \<times> 'w session_world) go" where
  "session_view ch c =
     (case dc_sessions c ch of
        None \<Rightarrow> Panic ''nil pointer dereference''
      | Some (h, cnt) \<Rightarrow> Ret (h, cnt, dc_forward c, dc_daemon c))"

definition session_put :: "uint64 \<Rightarrow> 'w docker_conn \<Rightarrow> channelHandler \<times> 'w session_world \<Rightarrow> 'w docker_conn" where
  "session_put ch c s =
     (case s of (h, cnt, fwd, w) \<Rightarrow> c\<lparr>dc_sessions := (dc_sessions c)(ch \<mapsto> (h, cnt)), dc_forward := fwd, dc_daemon := w\<rparr>)"

definition focus ::
    "uint64 \<Rightarrow> ((channelHandler \<times> 'w session_world) go \<Rightarrow> 'r \<times> (channelHandler \<times> 'w session_world) go) \<Rightarrow> 'w docker_conn go \<Rightarrow>
     'r \<times> 'w docker_conn go" where
  "focus ch f g =
     (case f (go_bind g (session_view ch)) of
        (r, s) \<Rightarrow> (r, go_bind g (\<lambda>c. go_bind s (\<lambda>s. Ret (session_put ch c s)))))"

definition focus_unit ::
    "uint64 \<Rightarrow> ((channelHandler \<times> 'w session_world) go \<Rightarrow> (channelHandler \<times> 'w session_world) go) \<Rightarrow> 'w docker_conn go \<Rightarrow>
     'w docker_conn go" where
  "focus_unit ch f g = snd (focus ch (\<lambda>s. ((), f s)) g)"

definition focus_session ::
    "uint64 \<Rightarrow> (channelHandler \<times> 'w session_world) go session_channel_handler \<Rightarrow> 'w docker_conn go session_channel_handler" where
  "focus_session ch h = \<lparr>
     OnUnsupportedChannelRequest = (\<lambda>r t p. focus_unit ch (OnUnsupportedChannelRequest h r t p)),
     OnFailedDecodeChannelRequest = (\<lambda>r t p e. focus_unit ch (OnFailedDecodeChannelRequest h r t p e)),
     OnEnvRequest = (\<lambda>r n v. focus ch (OnEnvRequest h r n v)),
     OnPtyRequest = (\<lambda>r t c rw w ht m. focus ch (OnPtyRequest h r t c rw w ht m)),
     OnX11Request = (\<lambda>r sc p c scr rf. focus ch (OnX11Request h r sc p c scr rf)),
     OnExecRequest = (\<lambda>r p. focus ch (OnExecRequest h r p)),
     OnShell = (\<lambda>r. focus ch (OnShell h r)),
     OnSubsystem = (\<lambda>r n. focus ch (OnSubsystem h r n)),
     OnSignal = (\<lambda>r n. focus ch (OnSignal h r n)),
     OnWindow = (\<lambda>r c rw w ht. focus ch (OnWindow h r c rw w ht)),
     OnClose = focus_unit ch (OnClose h),
     OnShutdown = focus_unit ch (OnShutdown h)\<rparr>"

text \<open>An operation of the forwarding in the state of the connection.\<close>

definition on_forward ::
    "(agentForward \<times> 'w \<Rightarrow> ('r \<times> agentForward \<times> 'w) go) \<Rightarrow> 'w docker_conn \<Rightarrow> ('r \<times> 'w docker_conn) go" where
  "on_forward f c =
     go_bind (f (dc_forward c, dc_daemon c)) (\<lambda>(r, fwd, w). Ret (r, c\<lparr>dc_forward := fwd, dc_daemon := w\<rparr>))"

definition rejection :: "string \<Rightarrow> ChannelRejection" where
  "rejection text = NewChannelRejection ConnectionFailed ''DOCKER_FORWARDING_FAILED'' ''Error setting up the forwarding'' text"

definition forward_result :: "(go_error \<Rightarrow> string) \<Rightarrow> go_error + uint64 \<Rightarrow> ChannelRejection + forward_channel" where
  "forward_result text r = (case r of Inl err \<Rightarrow> Inl (rejection (text err)) | Inr conn \<Rightarrow> Inr (AgentConnection conn))"

definition sc_OnSessionChannel ::
    "(string \<Rightarrow> go_error + string list) \<Rightarrow> codec \<Rightarrow> docker_config \<Rightarrow> 'w docker_daemon \<Rightarrow> networkHandler \<Rightarrow> (string \<rightharpoonup> string) \<Rightarrow>
     ChannelMetadata \<Rightarrow> 'w docker_conn go \<Rightarrow> (ChannelRejection + 'w docker_conn go session_channel_handler) \<times> 'w docker_conn go" where
  "sc_OnSessionChannel ParseCMD cd cfg dd n env meta g =
     (Inr (focus_session (ChannelID meta) (docker_session ParseCMD cfg (session_backend cd cfg dd n env))),
      go_bind g (\<lambda>c. Ret (c\<lparr>dc_sessions := (dc_sessions c)(ChannelID meta \<mapsto> (new_channelHandler, None))\<rparr>)))"

definition docker_connection ::
    "(string \<Rightarrow> go_error + string list) \<Rightarrow> codec \<Rightarrow> (string \<Rightarrow> (go_error + Packet) list) \<Rightarrow> docker_config \<Rightarrow> 'w docker_daemon \<Rightarrow>
     networkHandler \<Rightarrow> (string \<rightharpoonup> string) \<Rightarrow> 'w docker_conn go ssh_connection_handler" where
  "docker_connection ParseCMD cd heard cfg dd n env = \<lparr>
     OnUnsupportedGlobalRequest = (\<lambda>_ _ _ s. s),
     OnFailedDecodeGlobalRequest = (\<lambda>_ _ _ _ s. s),
     OnUnsupportedChannel = (\<lambda>_ _ _ s. s),
     OnSessionChannel = (\<lambda>meta _ _. sc_OnSessionChannel ParseCMD cd cfg dd n env meta),
     OnTCPForwardChannel = (\<lambda>_ h p oh op.
       on_conn (Inl (rejection '''')) (\<lambda>c.
         go_bind (on_forward (NewForwardTCP cd (setupAgent cfg dd n env) h p oh op) c) (\<lambda>(r, c).
           Ret (forward_result (\<lambda>_. ''Error setting up the forwarding'') r, c)))),
     OnRequestTCPReverseForward = (\<lambda>h p _. on_conn None (on_forward (NewTCPReverseForwarding cd (setupAgent cfg dd n env) h p))),
     OnRequestCancelTCPReverseForward = (\<lambda>h p.
       on_conn None (on_forward (\<lambda>(fwd, w). go_bind (CancelTCPForwarding h p fwd) (\<lambda>(err, fwd). Ret (err, fwd, w))))),
     OnDirectStreamLocal = (\<lambda>_ path.
       on_conn (Inl (rejection '''')) (\<lambda>c.
         go_bind (on_forward (NewForwardUnix cd (setupAgent cfg dd n env) path) c) (\<lambda>(r, c).
           Ret (forward_result (\<lambda>err. ''Error setting up the forwarding ('' @ error_text err @ '')'') r, c)))),
     OnRequestStreamLocal = (\<lambda>path _. on_conn None (on_forward (NewUnixReverseForwarding cd (setupAgent cfg dd n env) path))),
     OnRequestCancelStreamLocal = (\<lambda>path.
       on_conn None (on_forward (\<lambda>(fwd, w). go_bind (CancelStreamLocalForwarding path fwd) (\<lambda>(err, fwd). Ret (err, fwd, w))))),
     OnConnectionShutdown = (\<lambda>g.
       snd (on_conn () (on_forward (\<lambda>(fwd, w). go_bind (af_OnShutdown cd heard fwd) (\<lambda>fwd. Ret ((), fwd, w)))) g))\<rparr>"

section \<open>Which containers are left\<close>

text \<open>A daemon that notes the containers that are created and removed.\<close>

datatype container_event = Created nat | Removed nat

definition tracked :: "'w docker_daemon \<Rightarrow> (container_event list \<times> 'w) docker_daemon" where
  "tracked dd = \<lparr>
     dd_get = on_snd (dd_get dd),
     dd_pullImage = on_snd (dd_pullImage dd),
     dd_createContainer = (\<lambda>labels env tty cmd (log, w).
       case dd_createContainer dd labels env tty cmd w of
         (Inl err, w) \<Rightarrow> (Inl err, log, w)
       | (Inr c, w) \<Rightarrow> (Inr c, log @ [Created c], w)),
     dd_start = (\<lambda>c. on_snd (dd_start dd c)),
     dd_attach = (\<lambda>c. on_snd (dd_attach dd c)),
     dd_writeFile = (\<lambda>c path content. on_snd (dd_writeFile dd c path content)),
     dd_createExec = (\<lambda>c program env tty. on_snd (dd_createExec dd c program env tty)),
     dd_remove = (\<lambda>c (log, w). (log @ [Removed c], dd_remove dd c w)),
     dd_resize = (\<lambda>rows columns. on_snd (dd_resize dd rows columns)),
     dd_run = apsnd (dd_run dd),
     dd_signal = (\<lambda>sig. on_snd (dd_signal dd sig)),
     dd_term = apsnd (dd_term dd),
     dd_kill = apsnd (dd_kill dd),
     dd_exits_in_time = on_snd (dd_exits_in_time dd),
     dd_agent_says = on_snd (dd_agent_says dd)\<rparr>"

lemma tracked_sel [simp]:
  "dd_get (tracked dd) = on_snd (dd_get dd)"
  "dd_pullImage (tracked dd) = on_snd (dd_pullImage dd)"
  "dd_start (tracked dd) c = on_snd (dd_start dd c)"
  "dd_attach (tracked dd) c = on_snd (dd_attach dd c)"
  "dd_writeFile (tracked dd) c path content = on_snd (dd_writeFile dd c path content)"
  "dd_createExec (tracked dd) c program env tty = on_snd (dd_createExec dd c program env tty)"
  "dd_remove (tracked dd) c lw = (fst lw @ [Removed c], dd_remove dd c (snd lw))"
  "dd_resize (tracked dd) rows columns = on_snd (dd_resize dd rows columns)"
  "dd_run (tracked dd) = apsnd (dd_run dd)"
  "dd_signal (tracked dd) sig = on_snd (dd_signal dd sig)"
  "dd_term (tracked dd) = apsnd (dd_term dd)"
  "dd_kill (tracked dd) = apsnd (dd_kill dd)"
  "dd_exits_in_time (tracked dd) = on_snd (dd_exits_in_time dd)"
  "dd_agent_says (tracked dd) = on_snd (dd_agent_says dd)"
  by (simp_all add: tracked_def case_prod_beta)

lemma tracked_create:
  "dd_createContainer (tracked dd) labels env tty cmd (log, w) =
     (case dd_createContainer dd labels env tty cmd w of
        (Inl err, w) \<Rightarrow> (Inl err, log, w)
      | (Inr c, w) \<Rightarrow> (Inr c, log @ [Created c], w))"
  by (simp add: tracked_def)

definition event_log :: "(container_event list \<times> 'w) session_world \<Rightarrow> container_event list" where
  "event_log s = (case s of (cnt, fwd, log, w) \<Rightarrow> log)"

lemma event_log_simp [simp]: "event_log (cnt, fwd, log, w) = log"
  by (simp add: event_log_def)

lemma fst_snd_on_snd [simp]: "fst (snd (on_snd f s)) = fst s"
  by (simp add: on_snd_def split: prod.splits)

lemma log_in_daemon:
  assumes "\<And>lw. fst (snd (f lw)) = fst lw"
  shows "event_log (snd (in_daemon f s)) = event_log s"
proof -
  obtain cnt fwd log w where s: "s = (cnt, fwd, log, w)" by (cases s)
  then show ?thesis using assms [of "(log, w)"] by (auto simp: event_log_def in_daemon_def split: prod.splits)
qed

lemma log_in_daemon_unit: "event_log (in_daemon_unit (apsnd f) s) = event_log s"
  by (cases s) (simp add: event_log_def in_daemon_unit_def)

lemma log_setupAgent: "fst (snd (setupAgent cfg (tracked dd) n env lw)) = fst lw"
  by (auto simp: setupAgent_def on_snd_def split: option.splits prod.splits)

lemma log_NewX11:
  assumes "\<And>lw. fst (snd (starter lw)) = fst lw"
  shows "fst (snd (snd (af_NewX11Forwarding cd starter sc pr ck scr (fwd, lw)))) = fst lw"
  using assms [of lw] by (auto simp: af_NewX11Forwarding_def setupX11_def Let_def split: prod.splits sum.splits)

lemma log_of_container:
  assumes "\<And>c lw. fst (snd (f c lw)) = fst lw"
  shows "fst (snd (of_container f cnt lw)) = fst lw"
  using assms by (simp add: of_container_def split: option.splits)

text \<open>In connection mode a channel neither creates nor removes a container; in session mode it removes none unless the connection has one.\<close>

lemma client_log:
  fixes n :: networkHandler and dd :: "'w docker_daemon" and cd :: codec and cfg :: docker_config and env :: "string \<rightharpoonup> string"
  defines "b \<equiv> session_backend cd cfg (tracked dd) n env"
  shows "event_log (snd (resize b rows columns w)) = event_log w"
    and "event_log (run_exec b w) = event_log w"
    and "event_log (snd (signal_exec b sig w)) = event_log w"
    and "event_log (term_exec b w) = event_log w"
    and "event_log (kill_exec b w) = event_log w"
    and "event_log (snd (exits_in_time b w)) = event_log w"
    and "event_log (snd (createExec b program env' tty w)) = event_log w"
    and "event_log (snd (attach b w)) = event_log w"
    and "event_log (snd (start b w)) = event_log w"
    and "event_log (snd (CloseX11Forwarding b w)) = event_log w"
    and "event_log (snd (NewX11Forwarding b sc pr ck scr rf w)) = event_log w"
proof -
  obtain cnt fwd log u where w: "w = (cnt, fwd, log, u)" by (cases w)
  show "event_log (snd (CloseX11Forwarding b w)) = event_log w"
    by (simp add: w b_def session_backend_def event_log_def split: prod.splits)
  show "event_log (snd (NewX11Forwarding b sc pr ck scr rf w)) = event_log w"
    using log_NewX11 [of "setupAgent cfg (tracked dd) n env" cd sc pr ck scr fwd "(log, u)", OF log_setupAgent]
    by (auto simp: w b_def session_backend_def event_log_def split: prod.splits)
  show "event_log (snd (attach b w)) = event_log w" "event_log (snd (start b w)) = event_log w"
    by (simp_all add: w b_def session_backend_def log_in_daemon log_of_container del: split_paired_All)
qed (simp_all add: b_def session_backend_def log_in_daemon log_in_daemon_unit log_of_container)

interpretation connection_mode: docker_starter cfg "session_backend cd cfg (tracked dd) n env"
    "\<lambda>s. dk_Mode cfg = ''connection'' \<longrightarrow> event_log s = log"
  for cd cfg dd n env log
  by unfold_locales (auto simp: client_log)

lemma connectionContainer_backend:
  "connectionContainer (session_backend cd cfg dd n env) = map_option (\<lambda>c. in_daemon_unit (dd_remove dd c)) (nh_container n)"
  by (simp add: session_backend_def)

interpretation session_mode: docker_client cfg "session_backend cd cfg (tracked dd) n env"
    "\<lambda>s. nh_container n = None \<longrightarrow> event_log s = log"
  for cd cfg dd n env log
  by unfold_locales (auto simp: client_log connectionContainer_backend)

text \<open>The calls on one channel, one after the other.\<close>

definition run_calls :: "'s session_channel_handler \<Rightarrow> session_call list \<Rightarrow> 's \<Rightarrow> 's" where
  "run_calls h cs s = fold (\<lambda>c s. snd (perform h c s)) cs s"

lemma run_calls_keeps:
  assumes "\<And>s c. Q s \<Longrightarrow> Q (snd (perform h c s))" and "Q s"
  shows "Q (run_calls h cs s)"
  using assms(2) unfolding run_calls_def by (induction cs arbitrary: s) (simp_all add: assms(1))

lemma log_write_files: "fst (write_files (tracked dd) cnt files lw) = fst lw"
  by (induction "tracked dd" cnt files lw rule: write_files.induct) (simp_all add: case_prod_beta)

lemma log_write_files_eq: "write_files (tracked dd) cnt files (log, w) = (log', w') \<Longrightarrow> log' = log"
  using log_write_files [of dd cnt files "(log, w)"] by simp

lemma handshake_log:
  assumes "nh_OnHandshakeSuccess cfg (tracked dd) files meta (nh_New ip connectionID, [], w) = (err, n, log, w')"
  shows "log = (case nh_container n of None \<Rightarrow> [] | Some c \<Rightarrow> [Created c])" and "\<not> nh_disconnected n"
    and "dk_Mode cfg \<noteq> ''connection'' \<Longrightarrow> nh_container n = None"
  using assms
  by (auto simp: nh_OnHandshakeSuccess_def setupDockerClient_def nh_New_def tracked_create on_snd_def Let_def
      split: prod.splits option.splits sum.splits if_splits dest!: log_write_files_eq)


text \<open>A daemon for which every request succeeds.\<close>

definition sample_daemon :: "unit docker_daemon" where
  "sample_daemon = \<lparr>dd_get = (\<lambda>w. (None, w)), dd_pullImage = (\<lambda>w. (None, w)), dd_createContainer = (\<lambda>_ _ _ _ w. (Inr 7, w)),
     dd_start = (\<lambda>_ w. (None, w)), dd_attach = (\<lambda>_ w. (None, w)), dd_writeFile = (\<lambda>_ _ _ w. (None, w)),
     dd_createExec = (\<lambda>_ _ _ _ w. (None, w)), dd_remove = (\<lambda>_ w. w), dd_resize = (\<lambda>_ _ w. (None, w)), dd_run = (\<lambda>w. w),
     dd_signal = (\<lambda>_ w. (None, w)), dd_term = (\<lambda>w. w), dd_kill = (\<lambda>w. w), dd_exits_in_time = (\<lambda>w. (True, w)),
     dd_agent_says = (\<lambda>w. (Inr (packet PACKET_SUCCESS 0 []), w))\<rparr>"

definition sample_dk_config :: "string \<Rightarrow> docker_config" where
  "sample_dk_config mode = \<lparr>dk_Mode = mode, dk_ShellCommand = [''/bin/bash''], dk_Subsystems = Map.empty, dk_DisableAgent = False,
     dk_AgentPath = ''agent'', dk_ExposeAuthMetadataAsEnv = False\<rparr>"

definition sample_user :: ConnectionAuthenticatedMetadata where
  "sample_user = Authenticated (StartAuthentication
     \<lparr>RemoteAddr = \<lparr>IP = [127, 0, 0, 1], Port = 22\<rparr>, ConnectionID = ''c1'', Metadata = None,
      Environment = None, Files = None\<rparr> ''SSH-2.0-Go'' ''foo'') ''foo''"

lemmas sample_docker_defs = docker_session_def dk_OnShell_def on_go_def after_go_def dk_run_def handleExecModeSession_def handleExecModeConnection_def
  session_backend_def new_channelHandler_def in_daemon_def in_daemon_unit_def of_container_def on_snd_def tracked_def sample_daemon_def
  sample_dk_config_def run_calls_def dk_OnClose_def nh_OnHandshakeSuccess_def setupDockerClient_def nh_New_def nh_OnDisconnect_def


text \<open>In session mode the container of a session is left behind. Once a program was started in it, nothing that is asked for on the
  channel, nor closing the channel, nor the end of the connection removes it: it was created, and it is still there.\<close>
theorem session_container_left:
  assumes "dk_Mode cfg = ''session''"
    and "nh_OnHandshakeSuccess cfg (tracked dd) files meta (nh_New ip connectionID, [], w) = (None, n, log, w1)"
    and "perform (docker_session ParseCMD cfg (session_backend cd cfg (tracked dd) n env)) (CallShell r)
           (Ret (new_channelHandler, None, NewAgentForward, log, w1)) = (None, g)"
    and "run_calls (docker_session ParseCMD cfg (session_backend cd cfg (tracked dd) n env)) calls g = Ret (h, cnt, fwd, log2, w2)"
    and "nh_OnDisconnect (tracked dd) (n, log2, w2) = (n', log3, w3)"
  shows "\<exists>c. log3 = [Created c]"
proof -
  have n: "nh_container n = None" and log: "log = []" using handshake_log [OF assms(2)] assms(1) by auto
  obtain h1 cnt1 fwd1 log1 w1' c where g: "g = Ret (h1, cnt1, fwd1, log1, w1')" and started: "dk_exec h1" "log1 = [Created c]"
    using assms(1,3) log
    by (auto simp: docker_session_def dk_OnShell_def on_go_def dk_run_def handleExecModeSession_def session_backend_def new_channelHandler_def
        tracked_create in_daemon_def in_daemon_unit_def of_container_def on_snd_def Let_def
        split: prod.splits option.splits sum.splits if_splits)
  have "session_mode.started n [Created c]
      (run_calls (docker_session ParseCMD cfg (session_backend cd cfg (tracked dd) n env)) calls g)"
    by (rule run_calls_keeps) (rule session_mode.started_keeps, assumption, simp add: session_mode.started_def g started)
  then have "log2 = [Created c]" using assms(4) n unfolding session_mode.started_def by simp
  then show ?thesis using assms(5) n by (auto simp: nh_OnDisconnect_def split: if_splits)
qed

theorem session_container_left_witness:
  "\<exists>n w1 g h cnt fwd w2 n' w3.
     nh_OnHandshakeSuccess (sample_dk_config ''session'') (tracked sample_daemon) [] sample_user (nh_New ''::1'' ''c1'', [], ()) =
       (None, n, [], w1) \<and>
     perform (docker_session (\<lambda>s. Inr [s]) (sample_dk_config ''session'') (session_backend sample_codec (sample_dk_config ''session'')
         (tracked sample_daemon) n Map.empty)) (CallShell 0)
       (Ret (new_channelHandler, None, NewAgentForward, [], w1)) = (None, g) \<and>
     run_calls (docker_session (\<lambda>s. Inr [s]) (sample_dk_config ''session'') (session_backend sample_codec (sample_dk_config ''session'')
         (tracked sample_daemon) n Map.empty)) [CallClose] g = Ret (h, cnt, fwd, [Created 7], w2) \<and>
     nh_OnDisconnect (tracked sample_daemon) (n, [Created 7], w2) = (n', [Created 7], w3)"
proof -
  let ?cfg = "sample_dk_config ''session''"
  obtain n where hs: "nh_OnHandshakeSuccess ?cfg (tracked sample_daemon) [] sample_user (nh_New ''::1'' ''c1'', [], ()) =
       (None, n, [], ())" and n: "nh_container n = None"
    by (simp add: sample_docker_defs)
  let ?h = "docker_session (\<lambda>s. Inr [s]) ?cfg (session_backend sample_codec ?cfg (tracked sample_daemon) n Map.empty)"
  obtain g where shell: "perform ?h (CallShell 0) (Ret (new_channelHandler, None, NewAgentForward, [], ())) = (None, g)"
    and g: "g = Ret (new_channelHandler\<lparr>dk_exec := True\<rparr>, Some 7, NewAgentForward, [Created 7], ())"
    by (simp add: sample_docker_defs n)
  obtain h cnt fwd where calls: "run_calls ?h [CallClose] g = Ret (h, cnt, fwd, [Created 7], ())"
    by (simp add: sample_docker_defs n g)
  obtain n' log3 where dis: "nh_OnDisconnect (tracked sample_daemon) (n, [Created 7], ()) = (n', log3, ())" by (metis prod_cases3 old.unit.exhaust)
  have "dk_Mode ?cfg = ''session''" by (simp add: sample_dk_config_def)
  from session_container_left [OF this hs shell calls dis] have "\<exists>c. log3 = [Created c]" .
  moreover have "log3 = [Created 7]" using dis n by (auto simp: nh_OnDisconnect_def split: if_splits)
  ultimately show ?thesis using hs shell calls dis by blast
qed

end
