(* ===== verification/Config_Options.thy ===== *)
theory Config_Options
  imports Security
begin

text \<open>
  The options of the configuration and how they are validated, \<open>config/\<close>: HTTP clients and servers (\<open>http.go\<close>),
  the SSH server and the SSH proxy (\<open>ssh.go\<close>, \<open>sshproxy.go\<close>), logging (\<open>log.go\<close>), audit log, GeoIP, metrics and
  health, authentication (\<open>auth.go\<close>), Docker and Kubernetes. The security options are in \<open>Security\<close>.

  A structure is a record with the fields that validation or the program reads; embedded structures are fields. A duration
  is a number of nanoseconds. The file system, the network, the URL parser, certificates and keys are fields of
  \<open>platform\<close>, and so are the text form of a duration and the joining of paths; regular expressions are written out as predicates.
\<close>

section \<open>The platform\<close>

text \<open>\<open>os_Stat\<close> returns whether the file is a directory, \<open>ParsePrivateKey\<close> the type of the public key.\<close>

record platform =
  os_Stat :: "string \<Rightarrow> go_error + bool"
  os_ReadFile :: "string \<Rightarrow> go_error + string"
  url_ParseRequestURI :: "string \<Rightarrow> go_error option"
  url_Parse :: "string \<Rightarrow> go_error option"
  X509KeyPair :: "string \<Rightarrow> string \<Rightarrow> go_error option"
  AppendCertsFromPEM :: "string \<Rightarrow> bool"
  SystemCertPool :: "go_error option"
  net_Dial :: "string \<Rightarrow> string \<Rightarrow> go_error option"
  ParsePrivateKey :: "string \<Rightarrow> go_error + string"
  path_Join :: "string \<Rightarrow> string \<Rightarrow> string"
  Duration_String :: "int \<Rightarrow> string"

abbreviation (input) Millisecond :: int where "Millisecond \<equiv> 1000000"
abbreviation (input) Second :: int where "Second \<equiv> 1000 * Millisecond"

text \<open>\<open>fmt.Errorf\<close> with a cause at its end. None of the causes is a configuration error, so their chain is not kept.\<close>

definition caused :: "string \<Rightarrow> go_error \<Rightarrow> go_error" where
  "caused text err = ErrorString (text @ '' ('' @ error_text err @ '')'')"

definition is_space :: "char \<Rightarrow> bool" where
  "is_space c \<longleftrightarrow> of_char c \<in> {9, 10, 11, 12, 13, 32 :: nat}"

definition TrimSpace :: "string \<Rightarrow> string" where
  "TrimSpace s = rev (dropWhile is_space (rev (dropWhile is_space s)))"

definition check :: "bool \<Rightarrow> go_error \<Rightarrow> go_error option" where
  "check ok err = (if ok then None else Some err)"

lemma check_None [simp]: "check ok err = None \<longleftrightarrow> ok"
  by (simp add: check_def)

text \<open>The first error of a list of items.\<close>

definition each :: "('a \<Rightarrow> go_error option) \<Rightarrow> 'a list \<Rightarrow> go_error option" where
  "each validate xs = first_error (map validate xs)"

lemma each_None [simp]: "each f xs = None \<longleftrightarrow> (\<forall>x\<in>set xs. f x = None)"
  by (simp add: each_def list_all_iff)

lemma caused_None [simp]: "map_option (caused text) e = None \<longleftrightarrow> e = None"
  by simp

section \<open>Host and port\<close>

text \<open>\<open>net.SplitHostPort\<close>. An address is split at its last colon; a host in brackets may have colons.\<close>

definition addrErr :: "string \<Rightarrow> string \<Rightarrow> go_error" where
  "addrErr hostport why = ErrorString (''address '' @ hostport @ '': '' @ why)"

definition SplitHostPort :: "string \<Rightarrow> go_error + string \<times> string" where
  "SplitHostPort hostport =
     (if CHR '':'' \<notin> set hostport then Inl (addrErr hostport ''missing port in address'')
      else let port = rev (takeWhile (\<lambda>c. c \<noteq> CHR '':'') (rev hostport));
               before = take (length hostport - length port - 1) hostport
           in if hd hostport = CHR ''[''
              then let host = takeWhile (\<lambda>c. c \<noteq> CHR '']'') (tl hostport);
                       rest = drop (length host + 2) hostport
                   in if CHR '']'' \<notin> set hostport then Inl (addrErr hostport ''missing ']' in address'')
                      else if rest = [] then Inl (addrErr hostport ''missing port in address'')
                      else if length host + 2 \<noteq> length before
                      then Inl (addrErr hostport (if hd rest = CHR '':'' then ''too many colons in address'' else ''missing port in address''))
                      else if CHR ''['' \<in> set (tl hostport) then Inl (addrErr hostport ''unexpected '[' in address'')
                      else if CHR '']'' \<in> set rest then Inl (addrErr hostport ''unexpected ']' in address'')
                      else Inr (host, port)
              else if CHR '':'' \<in> set before then Inl (addrErr hostport ''too many colons in address'')
              else if CHR ''['' \<in> set hostport then Inl (addrErr hostport ''unexpected '[' in address'')
              else if CHR '']'' \<in> set hostport then Inl (addrErr hostport ''unexpected ']' in address'')
              else Inr (before, port))"

section \<open>HTTP clients and servers\<close>

definition Validate_TLSVersion :: "string \<Rightarrow> go_error option" where
  "Validate_TLSVersion t = check (t \<in> {''1.2'', ''1.3''}) (ErrorString (''unsupported TLS version: '' @ t))"

text \<open>\<open>tls.VersionTLS12\<close> is 0x0303, \<open>tls.VersionTLS13\<close> is 0x0304.\<close>

definition GetTLSVersion :: "string \<Rightarrow> uint16 go" where
  "GetTLSVersion t =
     (if t = ''1.3'' then Ret 0x0303 else if t = ''1.2'' then Ret 0x0303
      else Panic (''invalid TLS version: '' @ t))"

text \<open>The numbers of the curves in \<open>crypto/tls\<close>.\<close>

definition curveToID :: "(string \<times> uint16) list" where
  "curveToID = [(''x25519'', 29), (''X25519'', 29), (''secp256r1'', 23), (''prime256v1'', 23), (''secp384r1'', 24), (''secp521r1'', 25)]"

definition Validate_ECDHCurve :: "string \<Rightarrow> go_error option" where
  "Validate_ECDHCurve c =
     check (c \<in> {''x25519'', ''X25519'', ''secp256r1'', ''prime256v1'', ''secp384r1'', ''secp521r1''})
       (ErrorString (''invalid ECDH curve: '' @ c))"

definition Validate_ECDHCurveList :: "string list \<Rightarrow> go_error option" where
  "Validate_ECDHCurveList c =
     first_error [each Validate_ECDHCurve c, check (c \<noteq> []) (ErrorString ''no ECDH curves provided'')]"

definition getCurveID :: "string \<Rightarrow> uint16 go" where
  "getCurveID c = (case map_of curveToID c of Some curveID \<Rightarrow> Ret curveID | None \<Rightarrow> Panic (''invalid ECDH curve: '' @ c))"

fun curves_GetList :: "string list \<Rightarrow> uint16 list go" where
  "curves_GetList [] = Ret []"
| "curves_GetList (c # cs) = go_bind (getCurveID c) (\<lambda>x. go_bind (curves_GetList cs) (\<lambda>xs. Ret (x # xs)))"

text \<open>The numbers of the cipher suites in \<open>crypto/tls\<close>, by their IANA, OpenSSL and GnuTLS names.\<close>

definition stringToCipherSuite :: "(string \<times> uint16) list" where
  "stringToCipherSuite =
     [(''TLS_AES_128_GCM_SHA256'', 0x1301),
      (''TLS_AES_256_GCM_SHA384'', 0x1302),
      (''TLS_CHACHA20_POLY1305_SHA256'', 0x1303),
      (''TLS_ECDHE_ECDSA_WITH_AES_128_GCM_SHA256'', 0xC02B),
      (''TLS_ECDHE_RSA_WITH_AES_128_GCM_SHA256'', 0xC02F),
      (''TLS_ECDHE_ECDSA_WITH_AES_256_GCM_SHA384'', 0xC02C),
      (''TLS_ECDHE_RSA_WITH_AES_256_GCM_SHA384'', 0xC030),
      (''TLS_ECDHE_ECDSA_WITH_CHACHA20_POLY1305'', 0xCCA9),
      (''TLS_ECDHE_RSA_WITH_CHACHA20_POLY1305'', 0xCCA8),
      (''ECDHE-ECDSA-AES128-GCM-SHA256'', 0xC02B),
      (''ECDHE-RSA-AES128-GCM-SHA256'', 0xC02F),
      (''ECDHE-ECDSA-AES256-GCM-SHA384'', 0xC02C),
      (''ECDHE-RSA-AES256-GCM-SHA384'', 0xC030),
      (''ECDHE-ECDSA-CHACHA20-POLY1305'', 0xCCA9),
      (''ECDHE-RSA-CHACHA20-POLY1305'', 0xCCA8),
      (''TLS_ECDHE_ECDSA_AES_128_GCM_SHA256'', 0xC02B),
      (''TLS_ECDHE_RSA_AES_128_GCM_SHA256'', 0xC02F),
      (''TLS_ECDHE_ECDSA_AES_256_GCM_SHA384'', 0xC02C),
      (''TLS_ECDHE_RSA_AES_256_GCM_SHA384'', 0xC030),
      (''TLS_ECDHE_ECDSA_CHACHA20_POLY1305'', 0xCCA9),
      (''TLS_ECDHE_RSA_CHACHA20_POLY1305'', 0xCCA8)]"

definition Validate_CipherSuite :: "string \<Rightarrow> go_error option" where
  "Validate_CipherSuite c =
     check (map_of stringToCipherSuite c \<noteq> None) (ErrorString (''unsupported cipher suite: '' @ c))"

definition Validate_CipherSuiteList :: "string list \<Rightarrow> go_error option" where
  "Validate_CipherSuiteList c =
     first_error [each Validate_CipherSuite c, check (c \<noteq> []) (ErrorString ''no cipher suites provided'')]"

definition getCipher :: "string \<Rightarrow> uint16 go" where
  "getCipher c =
     (case map_of stringToCipherSuite c of Some suite \<Rightarrow> Ret suite | None \<Rightarrow> Panic (''unsupported cipher suite: '' @ c))"

fun ciphers_GetList :: "string list \<Rightarrow> uint16 list go" where
  "ciphers_GetList [] = Ret []"
| "ciphers_GetList (c # cs) = go_bind (getCipher c) (\<lambda>x. go_bind (ciphers_GetList cs) (\<lambda>xs. Ret (x # xs)))"

text \<open>A list of curves or of cipher suites in JSON or YAML: a list, or a string with colons. The entries are added to
  those the list already has.\<close>

definition unmarshal_list :: "string \<Rightarrow> go_error + string list \<Rightarrow> go_error + string \<Rightarrow> string list \<Rightarrow> go_error + string list" where
  "unmarshal_list what as_list as_string c =
     (case as_list of
        Inl err \<Rightarrow>
          (case as_string of
             Inl err \<Rightarrow> Inl (ErrorString (''failed to unmarshal '' @ what @ '' list, neither a list nor a string is provided''))
           | Inr decodedString \<Rightarrow> Inr (c @ split_on CHR '':'' decodedString))
      | Inr decoded \<Rightarrow> Inr (c @ decoded))"

record HTTPClientConfiguration =
  hc_URL :: string
  hc_Timeout :: int
  hc_CACert :: string
  hc_ClientCert :: string
  hc_ClientKey :: string
  hc_TLSVersion :: string
  hc_ECDHCurves :: "string list"
  hc_CipherSuites :: "string list"
  hc_RequestEncoding :: string

definition Validate_RequestEncoding :: "string \<Rightarrow> go_error option" where
  "Validate_RequestEncoding r =
     check (r \<in> {'''', ''JSON'', ''WWW-URLENCODED''}) (ErrorString (''invalid request encoding: '' @ r))"

definition loadPEM :: "platform \<Rightarrow> string \<Rightarrow> go_error + string" where
  "loadPEM p spec = (if \<not> has_prefix (TrimSpace spec) ''-----'' then os_ReadFile p spec else Inr spec)"

definition validateClientCert :: "platform \<Rightarrow> HTTPClientConfiguration \<Rightarrow> go_error option" where
  "validateClientCert p c =
     (if hc_ClientCert c \<noteq> '''' \<and> hc_ClientKey c = ''''
      then Some (newError ''clientCert'' ''client certificate provided without client key'')
      else if hc_ClientCert c = '''' \<and> hc_ClientKey c \<noteq> ''''
      then Some (newError ''clientKey'' ''client key provided without client certificate'')
      else if hc_ClientCert c \<noteq> '''' \<and> hc_ClientKey c \<noteq> ''''
      then case loadPEM p (hc_ClientCert c) of
             Inl err \<Rightarrow> wrapWithMessage (Some err) ''clientCert'' ''failed to load client certificate''
           | Inr clientCert \<Rightarrow>
               (case loadPEM p (hc_ClientKey c) of
                  Inl err \<Rightarrow> wrapWithMessage (Some err) ''clientKey'' ''failed to load client certificate''
                | Inr clientKey \<Rightarrow>
                    wrapWithMessage (X509KeyPair p clientCert clientKey) ''clientCert'' ''failed to load certificate or key'')
      else None)"

definition validateCACert :: "platform \<Rightarrow> HTTPClientConfiguration \<Rightarrow> go_error option" where
  "validateCACert p c =
     (if TrimSpace (hc_CACert c) \<noteq> ''''
      then case loadPEM p (hc_CACert c) of
             Inl err \<Rightarrow> Some (caused ''failed to load CA certificate'' err)
           | Inr caCert \<Rightarrow> check (AppendCertsFromPEM p caCert) (ErrorString ''invalid CA certificate provided'')
      else if has_prefix (hc_URL c) ''https://''
      then map_option (caused ''system certificate pool unusable and no explicit CA certificate was given'') (SystemCertPool p)
      else None)"

definition Validate_HTTPClient :: "platform \<Rightarrow> HTTPClientConfiguration \<Rightarrow> go_error option" where
  "Validate_HTTPClient p c = first_error
     ([check (url_ParseRequestURI p (hc_URL c) = None) (newError ''url'' (''invalid URL: '' @ hc_URL c)),
       check (hc_Timeout c \<ge> 100 * Millisecond)
         (newError ''timeout'' (''timeout value '' @ Duration_String p (hc_Timeout c) @ '' is too low, must be at least 100ms'')),
       wrap_option (validateCACert p c) ''cacert'',
       Validate_RequestEncoding (hc_RequestEncoding c)] @
      (if has_prefix (hc_URL c) ''https://''
       then [wrap_option (Validate_TLSVersion (hc_TLSVersion c)) ''tlsVersion'',
             wrap_option (Validate_ECDHCurveList (hc_ECDHCurves c)) ''curves'',
             wrap_option (Validate_CipherSuiteList (hc_CipherSuites c)) ''cipher'']
       else []) @
      [validateClientCert p c])"

record HTTPServerConfiguration =
  hs_Listen :: string
  hs_Key :: string
  hs_Cert :: string
  hs_ClientCACert :: string
  hs_TLSVersion :: string
  hs_ECDHCurves :: "string list"
  hs_CipherSuites :: "string list"

definition validate_server_cert :: "platform \<Rightarrow> HTTPServerConfiguration \<Rightarrow> go_error option" where
  "validate_server_cert p config =
     (case loadPEM p (hs_Cert config) of
        Inl err \<Rightarrow> Some (caused ''failed to load certificate'' err)
      | Inr pemCert \<Rightarrow>
          (case loadPEM p (hs_Key config) of
             Inl err \<Rightarrow> Some (caused ''failed to load key'' err)
           | Inr pemKey \<Rightarrow> first_error
               [map_option (caused ''failed to load key/certificate'') (X509KeyPair p pemCert pemKey),
                map_option (caused ''invalid TLS version'') (Validate_TLSVersion (hs_TLSVersion config)),
                map_option (caused ''invalid curve algorithms'') (Validate_ECDHCurveList (hs_ECDHCurves config)),
                map_option (caused ''invalid cipher suites'') (Validate_CipherSuiteList (hs_CipherSuites config))]))"

definition Validate_HTTPServer :: "platform \<Rightarrow> HTTPServerConfiguration \<Rightarrow> go_error option" where
  "Validate_HTTPServer p config = first_error
     [check (hs_Listen config \<noteq> '''') (ErrorString ''no listen address provided''),
      (case SplitHostPort (hs_Listen config) of
         Inl err \<Rightarrow> Some (caused ''invalid listen address provided'' err) | Inr _ \<Rightarrow> None),
      check (\<not> (hs_Cert config \<noteq> '''' \<and> hs_Key config = '''')) (ErrorString ''certificate provided without a key''),
      check (\<not> (hs_Cert config = '''' \<and> hs_Key config \<noteq> '''')) (ErrorString ''key provided without certificate''),
      (if hs_Cert config \<noteq> '''' \<and> hs_Key config \<noteq> '''' then validate_server_cert p config else None),
      (if hs_ClientCACert config \<noteq> ''''
       then case loadPEM p (hs_ClientCACert config) of
              Inl err \<Rightarrow> Some (caused ''failed to load client CA certificate'' err)
            | Inr clientCaCert \<Rightarrow>
                check (AppendCertsFromPEM p clientCaCert) (ErrorString ''failed to load client CA certificate'')
       else None)]"

section \<open>SSH\<close>

definition supportedKexAlgos :: "string list" where
  "supportedKexAlgos = [''curve25519-sha256@libssh.org'', ''ecdh-sha2-nistp256'', ''ecdh-sha2-nistp384'', ''ecdh-sha2-nistp521'',
     ''diffie-hellman-group1-sha1'', ''diffie-hellman-group14-sha1'']"

definition supportedHostKeyAlgos :: "string list" where
  "supportedHostKeyAlgos = [''ssh-rsa-cert-v01@openssh.com'', ''ssh-dss-cert-v01@openssh.com'',
     ''ecdsa-sha2-nistp256-cert-v01@openssh.com'', ''ecdsa-sha2-nistp384-cert-v01@openssh.com'',
     ''ecdsa-sha2-nistp521-cert-v01@openssh.com'', ''ssh-ed25519-cert-v01@openssh.com'', ''ssh-rsa'', ''ssh-dss'', ''ssh-ed25519'']"

definition supportedMACs :: "string list" where
  "supportedMACs = [''hmac-sha2-256-etm@openssh.com'', ''hmac-sha2-256'', ''hmac-sha1-96'', ''hmac-sha1'']"

definition supportedCiphers :: "string list" where
  "supportedCiphers = [''chacha20-poly1305@openssh.com'', ''aes256-gcm@openssh.com'', ''aes128-gcm@openssh.com'', ''aes256-ctr'',
     ''aes192-ctr'', ''aes128-ctr'', ''aes128-cbc'', ''arcfour256'', ''arcfour128'', ''arcfour'', ''tripledescbcID'']"

definition Validate_algo :: "string list \<Rightarrow> string \<Rightarrow> string \<Rightarrow> string \<Rightarrow> go_error option" where
  "Validate_algo supported empty_text unsupported_text k =
     (if k = '''' then Some (ErrorString empty_text)
      else check (k \<in> set supported) (ErrorString (unsupported_text @ '': '' @ k)))"

definition Validate_SSHKex :: "string \<Rightarrow> go_error option" where
  "Validate_SSHKex = Validate_algo supportedKexAlgos ''empty key exchange algorithm'' ''key exchange algorithm not supported''"

definition Validate_SSHKexList :: "string list \<Rightarrow> go_error option" where
  "Validate_SSHKexList k =
     first_error [check (k \<noteq> []) (ErrorString ''the key exchange list cannot be empty''), each Validate_SSHKex k]"

definition Validate_SSHKeyAlgo :: "string \<Rightarrow> go_error option" where
  "Validate_SSHKeyAlgo = Validate_algo supportedHostKeyAlgos ''empty host key algorithm'' ''unsupported host key algorithm''"

definition Validate_SSHKeyAlgoList :: "string list \<Rightarrow> go_error option" where
  "Validate_SSHKeyAlgoList h =
     first_error [check (h \<noteq> []) (ErrorString ''host key algorithm list cannot be empty''), each Validate_SSHKeyAlgo h]"

definition Validate_SSHMAC :: "string \<Rightarrow> go_error option" where
  "Validate_SSHMAC = Validate_algo supportedMACs ''empty SSHMAC'' ''SSHMAC not supported''"

definition Validate_SSHMACList :: "string list \<Rightarrow> go_error option" where
  "Validate_SSHMACList m =
     first_error [check (m \<noteq> []) (ErrorString ''empty SSHMAC list''),
       map_option (caused ''invalid SSHMAC'') (each Validate_SSHMAC m)]"

definition Validate_SSHCipher :: "string \<Rightarrow> go_error option" where
  "Validate_SSHCipher = Validate_algo supportedCiphers ''empty cipher name'' ''invalid cipher name''"

text \<open>No ciphers are the default ones of the library.\<close>

definition Validate_SSHCipherList :: "string list \<Rightarrow> go_error option" where
  "Validate_SSHCipherList c = (if c = [] then None else each Validate_SSHCipher c)"

text \<open>The regular expressions for versions: \<open>SSH-2\<close>, any character but a newline, \<open>0-\<close>, a non-empty run of characters of a
  class, and possibly a space and a non-empty comment.\<close>

definition alphanumeric :: "char \<Rightarrow> bool" where
  "alphanumeric c \<longleftrightarrow> (let n = of_char c :: nat in 48 \<le> n \<and> n \<le> 57 \<or> 65 \<le> n \<and> n \<le> 90 \<or> 97 \<le> n \<and> n \<le> 122)"

definition version_matches :: "(char \<Rightarrow> bool) \<Rightarrow> string \<Rightarrow> bool" where
  "version_matches software s \<longleftrightarrow>
     (let body = drop 8 s; comment = dropWhile software body
      in has_prefix s ''SSH-2'' \<and> length s > 8 \<and> s ! 5 \<noteq> CHR 0x0A \<and> s ! 6 = CHR ''0'' \<and> s ! 7 = CHR ''-'' \<and>
         takeWhile software body \<noteq> [] \<and>
         (comment = [] \<or> hd comment = CHR '' '' \<and> tl comment \<noteq> [] \<and>
            list_all (\<lambda>c. alphanumeric c \<or> c \<in> set ''- _.'') (tl comment)))"

definition Validate_ServerVersion :: "string \<Rightarrow> go_error option" where
  "Validate_ServerVersion s =
     check (length s \<le> 253 \<and>
            version_matches (\<lambda>c. 33 \<le> (of_char c :: nat) \<and> of_char c \<le> (126 :: nat) \<and> c \<noteq> CHR ''-'') s)
       (ErrorString (''invalid server version string ('' @ s @
          ''), see https://tools.ietf.org/html/rfc4253#page-4 section 4.2. for details''))"

record SSHConfig =
  ssh_ServerVersion :: string
  ssh_Ciphers :: "string list"
  ssh_KexAlgorithms :: "string list"
  ssh_MACs :: "string list"
  ssh_HostKeys :: "string list"
  ssh_ClientAliveInterval :: int
  ssh_ClientAliveCountMax :: int

definition Validate_SSH :: "SSHConfig \<Rightarrow> go_error option" where
  "Validate_SSH cfg = first_error
     [wrap_option (Validate_ServerVersion (ssh_ServerVersion cfg)) ''serverVersion'',
      wrap_option (Validate_SSHCipherList (ssh_Ciphers cfg)) ''ciphers'',
      wrap_option (Validate_SSHKexList (ssh_KexAlgorithms cfg)) ''kex'',
      wrap_option (Validate_SSHMACList (ssh_MACs cfg)) ''macs'',
      check (\<not> (ssh_ClientAliveInterval cfg \<noteq> 0 \<and> ssh_ClientAliveInterval cfg < Second))
        (newError ''clientAliveInterval'' ''clientAliveInterval should be at least 1 second long''),
      check (ssh_ClientAliveCountMax cfg > 0)
        (newError ''clientAliveCountMax'' ''clientAliveCountMax should be at least 1'')]"

text \<open>A key is given as PEM text or as the name of a file; which of the two, its first five characters tell.\<close>

definition pem_or_file :: "platform \<Rightarrow> string \<Rightarrow> string \<Rightarrow> (go_error + string) go" where
  "pem_or_file p failed key =
     (if length (TrimSpace key) < 5 then Panic ''slice bounds out of range''
      else if take 5 (TrimSpace key) \<noteq> ''-----''
      then Ret (map_sum (caused (failed @ key)) id (os_ReadFile p key))
      else Ret (Inr key))"

fun LoadHostKeys_from :: "platform \<Rightarrow> nat \<Rightarrow> string list \<Rightarrow> (go_error + string list) go" where
  "LoadHostKeys_from p index [] = Ret (Inr [])"
| "LoadHostKeys_from p index (hostKey # rest) =
     go_bind (pem_or_file p ''failed to load host key '' hostKey) (\<lambda>r. case r of
         Inl err \<Rightarrow> Ret (Inl err)
       | Inr hostKey \<Rightarrow>
           (case ParsePrivateKey p hostKey of
              Inl err \<Rightarrow> Ret (Inl (caused ''failed to parse host key'' err))
            | Inr keyType \<Rightarrow>
                if Validate_SSHKeyAlgo keyType \<noteq> None
                then Ret (Inl (ErrorString (''unsupported host key algorithm '' @ keyType @ '' on host key '' @ itoa (int index))))
                else go_bind (LoadHostKeys_from p (Suc index) rest) (\<lambda>r. Ret (map_sum id (Cons hostKey) r))))"

definition LoadHostKeys :: "platform \<Rightarrow> SSHConfig \<Rightarrow> (go_error + string list) go" where
  "LoadHostKeys p cfg = LoadHostKeys_from p 0 (ssh_HostKeys cfg)"

record SSHProxyConfig =
  px_Server :: string
  px_Port :: uint16
  px_UsernamePassThrough :: bool
  px_Username :: string
  px_Password :: string
  px_PrivateKey :: string
  px_AllowedHostKeyFingerprints :: "string list"
  px_Ciphers :: "string list"
  px_KexAlgorithms :: "string list"
  px_MACs :: "string list"
  px_HostKeyAlgorithms :: "string list"
  px_ClientVersion :: string

definition Validate_ClientVersion :: "string \<Rightarrow> go_error option" where
  "Validate_ClientVersion s =
     check (version_matches alphanumeric s)
       (ErrorString (''invalid client version string ('' @ s @
          ''), see https://tools.ietf.org/html/rfc4253#page-4 section 4.2. for details''))"

definition Validate_Fingerprints :: "string list \<Rightarrow> go_error option" where
  "Validate_Fingerprints a = first_error
     [check (a \<noteq> []) (ErrorString ''no host keys provided''),
      each (\<lambda>fp. check (has_prefix fp ''SSH256:'' \<and> drop 7 fp \<noteq> [] \<and> list_all (\<lambda>c. alphanumeric c \<or> c \<in> set ''/+'') (drop 7 fp))
              (ErrorString (''invalid fingerprint: '' @ fp @ '' (must start with SHA256:)''))) a]"

definition Validate_SSHProxy :: "SSHProxyConfig \<Rightarrow> go_error option" where
  "Validate_SSHProxy c = first_error
     [check (px_Server c \<noteq> '''') (newError ''server'' ''server cannot be empty''),
      check (px_Username c \<noteq> '''' \<or> px_UsernamePassThrough c)
        (newError ''username'' ''username cannot be empty when usernamePassThrough is not set''),
      check (px_AllowedHostKeyFingerprints c \<noteq> [])
        (newError ''allowedHostKeyFingerprints'' ''allowedHostKeyFingerprints cannot be empty''),
      wrap_option (Validate_SSHCipherList (px_Ciphers c)) ''ciphers'',
      wrap_option (Validate_SSHKexList (px_KexAlgorithms c)) ''kex'',
      wrap_option (Validate_SSHMACList (px_MACs c)) ''macs'',
      wrap_option (Validate_SSHKeyAlgoList (px_HostKeyAlgorithms c)) ''hostKeyAlgos'',
      wrap_option (Validate_ClientVersion (px_ClientVersion c)) ''clientVersion'']"

text \<open>No key is no error; the key is its PEM text.\<close>

definition LoadPrivateKey :: "platform \<Rightarrow> SSHProxyConfig \<Rightarrow> (go_error + string option) go" where
  "LoadPrivateKey p c =
     (if px_PrivateKey c = '''' then Ret (Inr None)
      else go_bind (pem_or_file p ''failed load private key '' (px_PrivateKey c)) (\<lambda>r. case r of
             Inl err \<Rightarrow> Ret (Inl err)
           | Inr privateKey \<Rightarrow>
               (case ParsePrivateKey p privateKey of
                  Inl err \<Rightarrow> Ret (Inl (caused ''failed to parse private key'' err))
                | Inr keyType \<Rightarrow>
                    if Validate_SSHKeyAlgo keyType \<noteq> None
                    then Ret (Inl (ErrorString (''unsupported host key algorithm '' @ keyType)))
                    else Ret (Inr (Some privateKey)))))"

section \<open>Logging\<close>

definition level_names :: "(int \<times> string) list" where
  "level_names = [(7, ''debug''), (6, ''info''), (5, ''notice''), (4, ''warning''), (3, ''error''), (2, ''crit''), (1, ''alert''), (0, ''emerg'')]"

text \<open>The message of \<open>Name\<close> formats the pointer to the level, not the level, with \<open>%d\<close>.\<close>

definition LogLevel_Name :: "(int \<Rightarrow> string) \<Rightarrow> int \<Rightarrow> go_error + string" where
  "LogLevel_Name pointer_text level =
     (case map_of level_names level of
        Some name \<Rightarrow> Inr name
      | None \<Rightarrow> Inl (ErrorString (''invalid log level ('' @ pointer_text level @ '')'')))"

definition ToLevel :: "string \<Rightarrow> go_error + int" where
  "ToLevel level =
     (case map_of (map prod.swap level_names) level of
        Some l \<Rightarrow> Inr l
      | None \<Rightarrow> Inl (ErrorString (''invalid log level ('' @ level @ '')'')))"

definition Validate_LogLevel :: "int \<Rightarrow> go_error option" where
  "Validate_LogLevel level = check (0 \<le> level \<and> level \<le> 7) (ErrorString (''invalid log level ('' @ itoa level @ '')''))"

definition facilityToName :: "(int \<times> string) list" where
  "facilityToName = zip [0..23]
     [''kern'', ''user'', ''mail'', ''daemon'', ''auth'', ''syslog'', ''lpr'', ''news'', ''uucp'', ''cron'', ''authpriv'', ''ftp'',
      ''ntp'', ''logaudit'', ''logalert'', ''clock'', ''local0'', ''local1'', ''local2'', ''local3'', ''local4'', ''local5'', ''local6'', ''local7'']"

definition nameToFacility :: "(string \<times> int) list" where
  "nameToFacility = map prod.swap facilityToName"

definition Facility_Number :: "string \<Rightarrow> go_error + int" where
  "Facility_Number s =
     (case map_of nameToFacility s of Some n \<Rightarrow> Inr n | None \<Rightarrow> Inl (ErrorString (''invalid facility: '' @ s)))"

record SyslogConfig =
  sl_Destination :: string
  sl_Facility :: string

definition Validate_Syslog :: "platform \<Rightarrow> SyslogConfig \<Rightarrow> go_error option" where
  "Validate_Syslog p c =
     (let destination = (if sl_Destination c \<noteq> '''' then sl_Destination c else ''/dev/log'');
          dialled =
            (if has_prefix (sl_Destination c) ''/''
             then case net_Dial p ''unix'' destination of
                    None \<Rightarrow> None
                  | Some _ \<Rightarrow> map_option (caused (''failed to open UNIX socket to '' @ sl_Destination c)) (net_Dial p ''unixgram'' destination)
             else map_option (caused (''failed to open UDP socket to '' @ sl_Destination c)) (net_Dial p ''udp'' destination))
      in first_error
           [dialled, check (map_of nameToFacility (sl_Facility c) \<noteq> None) (ErrorString (''invalid facility: '' @ sl_Facility c))])"

record LogConfig =
  lg_Level :: int
  lg_Format :: string
  lg_Destination :: string
  lg_Syslog :: SyslogConfig
  lg_has_T :: bool

definition Validate_Log :: "LogConfig \<Rightarrow> go_error option" where
  "Validate_Log c = first_error
     [wrap_option (Validate_LogLevel (lg_Level c)) ''level'',
      wrap_option (check (lg_Format c \<in> {''ljson'', ''text''}) (ErrorString (''invalid log format: '' @ lg_Format c))) ''format'',
      wrap_option (check (lg_Destination c \<in> {''stdout'', ''file'', ''syslog'', ''test''})
        (ErrorString (''invalid destination: '' @ lg_Destination c))) ''destination'',
      check (\<not> (lg_Destination c = ''test'' \<and> \<not> lg_has_T c))
        (ErrorString ''test log destination selected but no test case provided'')]"

section \<open>Audit log, GeoIP, metrics and health\<close>

record AuditLogS3Config =
  s3_Local :: string
  s3_AccessKey :: string
  s3_SecretKey :: string
  s3_Bucket :: string
  s3_UploadPartSize :: uint64
  s3_ParallelUploads :: uint64

record AuditLogConfig =
  au_Enable :: bool
  au_Format :: string
  au_Storage :: string
  au_Directory :: string
  au_S3 :: AuditLogS3Config

definition Validate_directory :: "platform \<Rightarrow> string \<Rightarrow> string \<Rightarrow> string \<Rightarrow> go_error option" where
  "Validate_directory p opt what dir =
     (case os_Stat p dir of
        Inl err \<Rightarrow> wrapWithMessage (Some err) opt (what @ dir)
      | Inr is_dir \<Rightarrow> check is_dir (newError opt (what @ dir @ '' (not a directory)'')))"

definition Validate_S3 :: "platform \<Rightarrow> AuditLogS3Config \<Rightarrow> go_error option" where
  "Validate_S3 p config = first_error
     [check (s3_Local config \<noteq> '''') (newError ''local'' ''empty local storage directory provided''),
      Validate_directory p ''local'' ''invalid local directory: '' (s3_Local config),
      check (s3_AccessKey config \<noteq> '''') (newError ''accessKey'' ''no access key provided''),
      check (s3_SecretKey config \<noteq> '''') (newError ''secretKey'' ''no secret key provided''),
      check (s3_Bucket config \<noteq> '''') (newError ''bucket'' ''no bucket name provided''),
      check (s3_UploadPartSize config \<ge> 5242880)
        (newError ''uploadPartSize'' (''upload part size too low '' @ itoa (uint (s3_UploadPartSize config)) @ '' (minimum 5 MB)'')),
      check (s3_ParallelUploads config \<ge> 1)
        (newError ''parallelUploads'' (''parallel uploads invalid: '' @ itoa (uint (s3_ParallelUploads config)) @ '' (must be positive)''))]"

definition Validate_AuditLog :: "platform \<Rightarrow> AuditLogConfig \<Rightarrow> go_error option" where
  "Validate_AuditLog p config =
     (if \<not> au_Enable config then None
      else first_error
        [wrap_option (check (au_Format config \<in> {''binary'', ''asciinema'', ''none''})
           (ErrorString (''invalid audit log format: '' @ au_Format config))) ''format'',
         wrap_option (check (au_Storage config \<in> {''none'', ''file'', ''s3''})
           (ErrorString (''invalid audit log storage: '' @ au_Storage config))) ''storage'',
         (if au_Storage config = ''file''
          then wrap_option (Validate_directory p ''directory'' ''invalid audit log directory: '' (au_Directory config)) ''file''
          else if au_Storage config = ''s3'' then wrap_option (Validate_S3 p (au_S3 config)) ''s3''
          else None)])"

record GeoIPConfig =
  geo_Provider :: string
  geo_GeoIP2File :: string

definition Validate_GeoIP :: "platform \<Rightarrow> GeoIPConfig \<Rightarrow> go_error option" where
  "Validate_GeoIP p config = first_error
     [wrap_option (check (geo_Provider config \<in> {''dummy'', ''maxmind''})
        (ErrorString (''invalid GeoIP provider: '' @ geo_Provider config))) ''provider'',
      (if geo_Provider config = ''maxmind''
       then case os_Stat p (geo_GeoIP2File config) of
              Inl err \<Rightarrow> wrapWithMessage (Some err) ''maxmind-geoip2-file'' (''invalid MaxMind GeoIP2 file: '' @ geo_GeoIP2File config)
            | Inr is_dir \<Rightarrow>
                check (\<not> is_dir) (ErrorString (''invalid MaxMind GeoIP2 file: '' @ geo_GeoIP2File config @ '' (is a directory)''))
       else None)]"

record MetricsConfig =
  mt_Enable :: bool
  mt_Path :: string
  mt_Server :: HTTPServerConfiguration

definition Validate_Metrics :: "platform \<Rightarrow> MetricsConfig \<Rightarrow> go_error option" where
  "Validate_Metrics p c =
     (if \<not> mt_Enable c then None
      else first_error [check (mt_Path c \<noteq> '''') (newError ''path'' ''metrics path cannot be empty''), Validate_HTTPServer p (mt_Server c)])"

record HealthConfig =
  hl_Enable :: bool
  hl_Server :: HTTPServerConfiguration
  hl_Client :: HTTPClientConfiguration

definition Validate_Health :: "platform \<Rightarrow> HealthConfig \<Rightarrow> go_error option" where
  "Validate_Health p c =
     (if \<not> hl_Enable c then None
      else first_error [Validate_HTTPServer p (hl_Server c), wrap_option (Validate_HTTPClient p (hl_Client c)) ''client''])"

record ClientConfig =
  cl_HTTP :: HTTPClientConfiguration
  cl_TransmitSensitiveMetadata :: bool

definition Validate_Client :: "platform \<Rightarrow> ClientConfig \<Rightarrow> go_error option" where
  "Validate_Client p c = (if hc_URL (cl_HTTP c) = '''' then None else Validate_HTTPClient p (cl_HTTP c))"

section \<open>Authentication\<close>

record AuthWebhookClientConfig =
  wh_HTTP :: HTTPClientConfiguration
  wh_AuthTimeout :: int

definition Validate_Webhook :: "platform \<Rightarrow> AuthWebhookClientConfig \<Rightarrow> go_error option" where
  "Validate_Webhook p c = first_error
     [check (wh_AuthTimeout c \<ge> 100 * Millisecond)
        (newError ''timeout'' (''auth timeout value '' @ Duration_String p (wh_AuthTimeout c) @ '' is too low, must be at least 100ms'')),
      Validate_HTTPClient p (wh_HTTP c)]"

text \<open>The option and the message are the arguments as the source gives them.\<close>

definition Validate_Kerberos :: "platform \<Rightarrow> string \<Rightarrow> go_error option" where
  "Validate_Kerberos p Keytab =
     (case os_Stat p Keytab of
        Inl err \<Rightarrow> wrapWithMessage (Some err) ''keytab file %s does not exist or is inaccessible'' Keytab
      | Inr _ \<Rightarrow> None)"

record PasswordAuthConfig =
  pw_Method :: string
  pw_Webhook :: AuthWebhookClientConfig
  pw_Keytab :: string

definition Validate_Password :: "platform \<Rightarrow> PasswordAuthConfig \<Rightarrow> go_error option" where
  "Validate_Password p c =
     (if pw_Method c \<notin> {'''', ''webhook'', ''kerberos''}
      then Some (caused ''invalid method for password authentication'' (ErrorString (''invalid value for method: '' @ pw_Method c)))
      else if pw_Method c = ''webhook'' then Validate_Webhook p (pw_Webhook c)
      else if pw_Method c = ''kerberos'' then Validate_Kerberos p (pw_Keytab c)
      else None)"

record PublicKeyAuthConfig =
  pk_Method :: string
  pk_Webhook :: AuthWebhookClientConfig

definition Validate_PublicKey :: "platform \<Rightarrow> PublicKeyAuthConfig \<Rightarrow> go_error option" where
  "Validate_PublicKey p c =
     (if pk_Method c \<notin> {'''', ''webhook''}
      then Some (caused ''invalid public key authentication configuration'' (ErrorString (''invalid value for method: '' @ pk_Method c)))
      else if pk_Method c = ''webhook'' then Validate_Webhook p (pk_Webhook c)
      else None)"

record OAuth2Config =
  oa_Redirect :: HTTPServerConfiguration
  oa_Webroot :: string
  oa_ClientID :: string
  oa_ClientSecret :: string
  oa_Provider :: string
  oa_GitHubURL :: string
  oa_OIDC :: HTTPClientConfiguration
  oa_DeviceFlow :: bool
  oa_AuthorizationCodeFlow :: bool
  oa_OIDCRedirectURI :: string
  oa_AuthorizeEndpointURL :: string
  oa_TokenEndpoint :: HTTPClientConfiguration
  oa_GenericRedirectURI :: string

definition Validate_Redirect :: "platform \<Rightarrow> OAuth2Config \<Rightarrow> go_error option" where
  "Validate_Redirect p cfg = first_error
     [Validate_HTTPServer p (oa_Redirect cfg),
      (if oa_Webroot cfg \<noteq> ''''
       then case os_Stat p (oa_Webroot cfg) of
              Inl err \<Rightarrow> wrap_option (Some err) ''webroot''
            | Inr False \<Rightarrow> Some (newError ''webroot'' ''invalid webroot (not a directory)'')
            | Inr True \<Rightarrow>
                (case os_Stat p (path_Join p (oa_Webroot cfg) ''index.html'') of
                   Inl err \<Rightarrow> wrapWithMessage (Some err) ''webroot'' ''webroot does not contain an index.html file''
                 | Inr is_dir \<Rightarrow>
                     check (\<not> is_dir) (newError ''webroot'' ''webroot does not contain an index.html file (index.html is a directory)''))
       else None)]"

definition Validate_OIDC :: "platform \<Rightarrow> OAuth2Config \<Rightarrow> go_error option" where
  "Validate_OIDC p cfg = first_error
     [check (oa_DeviceFlow cfg \<or> oa_AuthorizationCodeFlow cfg)
        (ErrorString ''at least one of deviceFlow or authorizationCodeFlow must be enabled''),
      wrap_option (check (\<not> (oa_AuthorizationCodeFlow cfg \<and> oa_OIDCRedirectURI cfg = ''''))
        (ErrorString ''redirectURI is required if the authorization code flow is enabled'')) ''redirectURI'',
      Validate_HTTPClient p (oa_OIDC cfg)]"

definition Validate_Generic :: "platform \<Rightarrow> OAuth2Config \<Rightarrow> go_error option" where
  "Validate_Generic p cfg = first_error
     [check (url_ParseRequestURI p (oa_AuthorizeEndpointURL cfg) = None)
        (newError ''authorizeEndpointURL'' (''invalid URL: '' @ oa_AuthorizeEndpointURL cfg)),
      check (url_ParseRequestURI p (oa_GenericRedirectURI cfg) = None)
        (newError ''redirectURI'' (''invalid URL: '' @ oa_GenericRedirectURI cfg)),
      wrap_option (Validate_HTTPClient p (oa_TokenEndpoint cfg)) ''tokenEndpoint'']"

definition Validate_OAuth2 :: "platform \<Rightarrow> OAuth2Config \<Rightarrow> go_error option" where
  "Validate_OAuth2 p cfg = first_error
     [wrap_option (Validate_Redirect p cfg) ''redirect'',
      check (oa_ClientID cfg \<noteq> '''') (newError ''clientId'' ''empty client ID''),
      check (oa_ClientSecret cfg \<noteq> '''') (newError ''clientSecret'' ''empty client secret''),
      wrap_option (check (oa_Provider cfg \<in> {''github'', ''oidc'', ''generic''}) (ErrorString ''invalid oAuth2 provider'')) ''provider'',
      (if oa_Provider cfg = ''github'' then wrap_option (wrap_option (url_Parse p (oa_GitHubURL cfg)) ''url'') ''github''
       else if oa_Provider cfg = ''oidc'' then wrap_option (Validate_OIDC p cfg) ''oidc''
       else if oa_Provider cfg = ''generic'' then wrap_option (Validate_Generic p cfg) ''generic''
       else None)]"

record AuthConfig =
  ac_PasswordAuth :: PasswordAuthConfig
  ac_PublicKeyAuth :: PublicKeyAuthConfig
  ac_KeyboardInteractiveMethod :: string
  ac_OAuth2 :: OAuth2Config
  ac_GSSAPIMethod :: string
  ac_GSSAPIKeytab :: string
  ac_AuthzMethod :: string
  ac_AuthzWebhook :: AuthWebhookClientConfig
  ac_AuthTimeout :: int
  ac_HTTP :: HTTPClientConfiguration
  ac_Password :: "bool option"
  ac_PubKey :: "bool option"

definition Validate_KeyboardInteractive :: "platform \<Rightarrow> AuthConfig \<Rightarrow> go_error option" where
  "Validate_KeyboardInteractive p c = first_error
     [wrap_option (check (ac_KeyboardInteractiveMethod c \<in> {'''', ''oauth2''})
        (ErrorString (''invalid value for method for keyboard-interactive authentication: '' @ ac_KeyboardInteractiveMethod c))) ''method'',
      (if ac_KeyboardInteractiveMethod c = ''oauth2'' then wrap_option (Validate_OAuth2 p (ac_OAuth2 c)) ''oauth2'' else None)]"

definition Validate_GSSAPI :: "platform \<Rightarrow> AuthConfig \<Rightarrow> go_error option" where
  "Validate_GSSAPI p c = first_error
     [wrap_option (check (ac_GSSAPIMethod c \<in> {'''', ''kerberos''})
        (ErrorString (''invalid value for method for GSSAPI authentication: '' @ ac_GSSAPIMethod c))) ''method'',
      (if ac_GSSAPIMethod c = ''kerberos'' then wrap_option (Validate_Kerberos p (ac_GSSAPIKeytab c)) ''kerberos'' else None)]"

definition Validate_Authz :: "platform \<Rightarrow> AuthConfig \<Rightarrow> go_error option" where
  "Validate_Authz p c = first_error
     [wrap_option (check (ac_AuthzMethod c \<in> {'''', ''webhook''})
        (ErrorString (''invalid value for method for authorization: '' @ ac_AuthzMethod c))) ''method'',
      (if ac_AuthzMethod c = ''webhook'' then wrap_option (Validate_Webhook p (ac_AuthzWebhook c)) ''webhook'' else None)]"

definition Validate_Auth :: "platform \<Rightarrow> AuthConfig \<Rightarrow> go_error option" where
  "Validate_Auth p c = first_error
     [check (\<not> (pw_Method (ac_PasswordAuth c) = '''' \<and> pk_Method (ac_PublicKeyAuth c) = '''' \<and>
               ac_KeyboardInteractiveMethod c = '''' \<and> ac_GSSAPIMethod c = '''' \<and>
               ac_Password c \<noteq> Some True \<and> ac_PubKey c \<noteq> Some True \<and> hc_URL (ac_HTTP c) = ''''))
        (ErrorString ''no authentication method configured, please configure at least one''),
      (if pw_Method (ac_PasswordAuth c) \<noteq> ''''
       then first_error
         [check (\<not> (hc_URL (ac_HTTP c) \<noteq> '''' \<and> ac_Password c = Some True))
            (newError ''url'' ''both the password authentication and the legacy url have been provided, please use the new configuration format''),
          wrap_option (Validate_Password p (ac_PasswordAuth c)) ''password'']
       else None),
      (if pk_Method (ac_PublicKeyAuth c) \<noteq> ''''
       then first_error
         [check (\<not> (hc_URL (ac_HTTP c) \<noteq> '''' \<and> ac_PubKey c = Some True))
            (newError ''url'' ''both the pubkey authentication and the legacy url have been provided, please use the new configuration format''),
          wrap_option (Validate_PublicKey p (ac_PublicKeyAuth c)) ''publicKey'']
       else None),
      (if ac_KeyboardInteractiveMethod c \<noteq> '''' then wrap_option (Validate_KeyboardInteractive p c) ''keyboardInteractive'' else None),
      (if ac_GSSAPIMethod c \<noteq> '''' then wrap_option (Validate_GSSAPI p c) ''gssapi'' else None),
      (if ac_AuthzMethod c \<noteq> '''' then wrap_option (Validate_Authz p c) ''authz'' else None),
      (if (ac_Password c = Some True \<or> ac_PubKey c = Some True) \<and> hc_URL (ac_HTTP c) \<noteq> ''''
       then Validate_HTTPClient p (ac_HTTP c) else None)]"

section \<open>Docker and Kubernetes\<close>

text \<open>\<open>HostConfig\<close> is the name of the restart policy, if there is a host configuration; the library takes an empty name and
  \<open>no\<close> for no policy. \<open>ContainerConfig\<close> is the name of the image.\<close>

record DockerConfig =
  dc_Host :: string
  dc_Mode :: string
  dc_IdleCommand :: "string list"
  dc_ShellCommand :: "string list"
  dc_ImagePullPolicy :: string
  dc_RestartPolicy :: "string option"
  dc_Image :: "string option"

definition Validate_DockerExecution :: "DockerConfig \<Rightarrow> go_error option" where
  "Validate_DockerExecution c = first_error
     [check (\<not> (dc_Mode c = ''connection'' \<and> dc_IdleCommand c = []))
        (newError ''idleCommand'' (''idle command required for execution mode '' @ [CHR 0x22] @ ''connection'' @ [CHR 0x22])),
      check (\<not> (dc_Mode c = ''connection'' \<and> dc_ShellCommand c = []))
        (newError ''shellCommand'' (''shell command required for execution mode '' @ [CHR 0x22] @ ''connection'' @ [CHR 0x22])),
      (case dc_RestartPolicy c of
         Some policy \<Rightarrow>
           wrap_option (check (\<not> (dc_Mode c = ''session'' \<and> policy \<notin> {'''', ''no''}))
             (newError ''restartPolicy''
                (''unsupported restart policy for execution mode '' @ [CHR 0x22] @ ''session'' @ [CHR 0x22] @ '': '' @ policy @
                 '' (session containers may not restart)''))) ''hostConfig''
       | None \<Rightarrow> None),
      wrap_option (check (dc_ImagePullPolicy c \<in> {''Always'', ''IfNotPresent'', ''Never''})
        (ErrorString (''invalid image pull policy: '' @ dc_ImagePullPolicy c))) ''imagePullPolicy'',
      (case dc_Image c of
         None \<Rightarrow> Some (newError ''container'' ''no container config provided'')
       | Some image_name \<Rightarrow> wrap_option (check (image_name \<noteq> '''') (newError ''image'' ''no image name provided'')) ''container''),
      wrap_option (check (dc_Mode c \<in> {''connection'', ''session''}) (ErrorString (''invalid execution mode: '' @ dc_Mode c))) ''mode'']"

definition Validate_Docker :: "DockerConfig \<Rightarrow> go_error option" where
  "Validate_Docker c = first_error
     [wrap_option (check (dc_Host c \<noteq> '''') (ErrorString ''missing host'')) ''connection'',
      wrap_option (Validate_DockerExecution c) ''execution'']"

text \<open>Of the specification of a pod only the images of its containers and the restart policy count here.\<close>

record KubernetesConfig =
  kc_Host :: string
  kc_APIPath :: string
  kc_BearerTokenFile :: string
  kc_Namespace :: string
  kc_Images :: "string list"
  kc_RestartPolicy :: string
  kc_ConsoleContainerNumber :: int
  kc_IdleCommand :: "string list"
  kc_ShellCommand :: "string list"
  kc_AgentPath :: string
  kc_DisableAgent :: bool
  kc_Mode :: string

definition Validate_KubernetesConnection :: "platform \<Rightarrow> KubernetesConfig \<Rightarrow> go_error option" where
  "Validate_KubernetesConnection p c = first_error
     [check (kc_Host c \<noteq> '''') (newError ''host'' ''no host specified''),
      check (kc_APIPath c \<noteq> '''') (newError ''path'' ''no API path specified''),
      (if kc_BearerTokenFile c \<noteq> ''''
       then case os_Stat p (kc_BearerTokenFile c) of
              Inl err \<Rightarrow>
                wrapWithMessage (Some err) ''bearerTokenFile'' (''bearer token file '' @ kc_BearerTokenFile c @ '' not found'')
            | Inr _ \<Rightarrow> None
       else None)]"

fun Validate_images :: "nat \<Rightarrow> string list \<Rightarrow> go_error option" where
  "Validate_images i [] = None"
| "Validate_images i (image_name # rest) =
     (if image_name = '''' then wrap_option (wrap_option (Some (newError ''image'' ''missing image name'')) (itoa (int i))) ''spec''
      else Validate_images (Suc i) rest)"

definition Validate_KubernetesPod :: "KubernetesConfig \<Rightarrow> go_error option" where
  "Validate_KubernetesPod c = first_error
     ([wrap_option (check (kc_Namespace c \<noteq> '''') (newError ''namespace'' ''no namespace specified in pod config'')) ''metadata'',
       check (kc_ConsoleContainerNumber c < int (length (kc_Images c)))
         (newError ''consoleContainerNumber'' ''the specified container for consoles does not exist in the pod spec''),
       check (kc_DisableAgent c \<or> kc_AgentPath c \<noteq> '''')
         (newError ''agentPath'' ''the agent path is required when the agent is not disabled''),
       wrap_option (check (kc_Images c \<noteq> []) (newError ''containers'' ''no containers specified in the pod spec'')) ''spec'',
       Validate_images 0 (kc_Images c),
       wrap_option (check (kc_Mode c \<in> {''connection'', ''session''}) (ErrorString (''invalid execution mode: '' @ kc_Mode c))) ''mode''] @
      (if kc_Mode c = ''connection''
       then [check (kc_IdleCommand c \<noteq> []) (newError ''idleCommand'' ''idle command is required when the execution mode is connection''),
             check (kc_ShellCommand c \<noteq> []) (newError ''shellCommand'' ''shell command is required when the execution mode is connection'')]
       else if kc_Mode c = ''session''
       then [wrap_option (check (kc_RestartPolicy c \<in> {'''', ''Never''})
               (newError ''restartPolicy''
                  (''invalid restart policy in session mode: '' @ kc_RestartPolicy c @ '' only '' @ [CHR 0x22] @ ''Never'' @ [CHR 0x22] @ '' is allowed''))) ''spec'',
             check (kc_DisableAgent c \<or> kc_ShellCommand c \<noteq> [])
               (newError ''shellCommand'' ''shell command is required when using the agent'')]
       else []))"

definition Validate_Kubernetes :: "platform \<Rightarrow> KubernetesConfig \<Rightarrow> go_error option" where
  "Validate_Kubernetes p c = first_error
     [wrap_option (Validate_KubernetesConnection p c) ''connection'', wrap_option (Validate_KubernetesPod c) ''pod'']"

end
