(* ===== verification/Metrics.thy ===== *)
theory Metrics
  imports Authentication "HOL-Library.AList" "HOL-Library.Char_ord" "HOL-Library.List_Lexorder"
begin

text \<open>
  The metrics collector, \<open>internal/metrics\<close>, and the layer that counts connections with it,
  \<open>internal/metricsintegration\<close>. A map is an association list; the map and the list of the values of a metric hold the
  same objects and are one association list in the order of creation. The values are \<open>float64\<close> in the source, here
  integers: the program counts, and whole numbers are exact far beyond what it can count to. The lookup of the country
  of an address is a parameter. The mutex of the collector makes each operation one step.

  Shown: the number of current connections that is exported is, for every country, the number of connections that are open,
  and the counters are what they count.
\<close>

section \<open>Metrics and their values\<close>

datatype MetricType = MetricTypeCounter | MetricTypeGauge

fun type_name :: "MetricType \<Rightarrow> string" where
  "type_name MetricTypeCounter = ''counter''"
| "type_name MetricTypeGauge = ''gauge''"

record Metric =
  m_Name :: string
  m_Help :: string
  m_Unit :: string
  m_Type :: MetricType

abbreviation (input) newline :: string where "newline \<equiv> [CHR 0x0A]"

definition metric_String :: "Metric \<Rightarrow> string" where
  "metric_String metric =
     ''# HELP '' @ m_Name metric @ '' '' @ m_Help metric @ newline @
     ''# UNIT '' @ m_Name metric @ '' '' @ m_Unit metric @ newline @
     ''# TYPE '' @ m_Name metric @ '' '' @ type_name (m_Type metric) @ newline"

type_synonym labels = "(string \<times> string) list"

record MetricValue =
  mv_Name :: string
  mv_Labels :: labels
  mv_Value :: int

definition toMap :: "labels \<Rightarrow> labels" where
  "toMap labels = fold (\<lambda>(name, val) result. AList.update name val result) labels []"

definition Label :: "string \<Rightarrow> string \<Rightarrow> (string \<times> string) go" where
  "Label name val =
     (if name = '''' then Panic ''BUG: the name cannot be empty''
      else if name = ''country'' then Panic ''BUG: the name 'country' is reserved for GeoIP lookups''
      else if val = '''' then Panic ''BUG: the value cannot be empty''
      else Ret (name, val))"

text \<open>\<open>strings.NewReplacer\<close> for quotes and backslashes.\<close>

fun escape :: "string \<Rightarrow> string" where
  "escape [] = []"
| "escape (c # cs) = (if c = CHR 0x22 \<or> c = CHR 0x5C then [CHR 0x5C, c] else [c]) @ escape cs"

definition label_text :: "labels \<Rightarrow> string \<Rightarrow> string" where
  "label_text labels k =
     k @ [CHR ''='', CHR 0x22] @ escape (case map_of labels k of Some v \<Rightarrow> v | None \<Rightarrow> '''') @ [CHR 0x22]"

definition CombinedName :: "string \<Rightarrow> labels \<Rightarrow> string" where
  "CombinedName name labels =
     (let keys = sort (map fst labels);
          labelList = map (label_text labels) keys
      in name @ (if labelList \<noteq> [] then ''{'' @ join '','' labelList @ ''}'' else ''''))"

text \<open>The verb \<open>%f\<close> has six decimals.\<close>

definition value_String :: "MetricValue \<Rightarrow> string" where
  "value_String v = CombinedName (mv_Name v) (mv_Labels v) @ '' '' @ itoa (mv_Value v) @ ''.000000'' @ newline"

section \<open>The collector\<close>

record collector =
  col_metrics :: "Metric list"
  col_values :: "(string \<times> (string \<times> MetricValue) list) list"

definition new_collector :: collector where
  "new_collector = \<lparr>col_metrics = [], col_values = []\<rparr>"

definition createMetric :: "string \<Rightarrow> string \<Rightarrow> string \<Rightarrow> MetricType \<Rightarrow> collector \<Rightarrow> go_error option \<times> collector" where
  "createMetric name unit help metricType c =
     (case find (\<lambda>m. m_Name m = name) (col_metrics c) of
        Some existingMetric \<Rightarrow>
          if m_Unit existingMetric = unit \<and> m_Help existingMetric = help \<and> m_Type existingMetric = metricType
          then (None, c)
          else (Some (ErrorString ''the specified metric already exists''), c)
      | None \<Rightarrow>
          (None, c\<lparr>col_metrics := col_metrics c @ [\<lparr>m_Name = name, m_Help = help, m_Unit = unit, m_Type = metricType\<rparr>]\<rparr>))"

definition MustCreate :: "string \<Rightarrow> string \<Rightarrow> string \<Rightarrow> MetricType \<Rightarrow> collector \<Rightarrow> collector go" where
  "MustCreate name unit help metricType c =
     (case createMetric name unit help metricType c of
        (Some err, c) \<Rightarrow> Panic (error_text err)
      | (None, c) \<Rightarrow> Ret c)"

definition values_of :: "string \<Rightarrow> collector \<Rightarrow> (string \<times> MetricValue) list" where
  "values_of name c = (case map_of (col_values c) name of Some vs \<Rightarrow> vs | None \<Rightarrow> [])"

definition GetMetric :: "string \<Rightarrow> collector \<Rightarrow> MetricValue list" where
  "GetMetric name c = map snd (values_of name c)"

definition collector_String :: "collector \<Rightarrow> string" where
  "collector_String c =
     concat (map (\<lambda>metric. metric_String metric @ concat (map value_String (GetMetric (m_Name metric) c))) (col_metrics c)) @
     ''# EOF'' @ newline"

definition getValueStruct :: "string \<Rightarrow> labels \<Rightarrow> collector \<Rightarrow> MetricValue \<times> collector" where
  "getValueStruct name labels c =
     (let valueStruct = \<lparr>mv_Name = name, mv_Labels = labels, mv_Value = 0\<rparr>;
          combined = CombinedName name labels
      in case map_of (values_of name c) combined of
           Some v \<Rightarrow> (v, c)
         | None \<Rightarrow> (valueStruct, c\<lparr>col_values := AList.update name (values_of name c @ [(combined, valueStruct)]) (col_values c)\<rparr>))"

definition get :: "string \<Rightarrow> labels \<Rightarrow> collector \<Rightarrow> int \<times> collector" where
  "get name labels c = (case getValueStruct name labels c of (v, c) \<Rightarrow> (mv_Value v, c))"

definition set_value :: "string \<Rightarrow> labels \<Rightarrow> int \<Rightarrow> collector \<Rightarrow> collector" where
  "set_value name labels val c =
     (case getValueStruct name labels c of (v, c) \<Rightarrow>
        c\<lparr>col_values := AList.update name (AList.update (CombinedName name labels) (v\<lparr>mv_Value := val\<rparr>) (values_of name c)) (col_values c)\<rparr>)"

section \<open>Counters and gauges\<close>

definition add_to :: "string \<Rightarrow> labels \<Rightarrow> int \<Rightarrow> collector \<Rightarrow> collector" where
  "add_to name realLabels by_value c =
     (case get name realLabels c of (val, c) \<Rightarrow> set_value name realLabels (val + by_value) c)"

definition counter_IncrementBy :: "string \<Rightarrow> labels \<Rightarrow> int \<Rightarrow> labels \<Rightarrow> collector \<Rightarrow> go_error option \<times> collector" where
  "counter_IncrementBy name own by_value labels c =
     (if by_value < 0 then (Some (ErrorString ''a counter cannot be incremented by a negative number''), c)
      else (None, add_to name (toMap (own @ labels)) by_value c))"

definition geo_labels :: "(bytes \<Rightarrow> string) \<Rightarrow> bytes \<Rightarrow> labels \<Rightarrow> labels" where
  "geo_labels lookup ip labels = AList.update ''country'' (lookup ip) (toMap labels)"

definition counterGeo_IncrementBy ::
    "(bytes \<Rightarrow> string) \<Rightarrow> string \<Rightarrow> labels \<Rightarrow> bytes \<Rightarrow> int \<Rightarrow> labels \<Rightarrow> collector \<Rightarrow> go_error option \<times> collector" where
  "counterGeo_IncrementBy lookup name own ip by_value labels c =
     (if by_value < 0 then (Some (ErrorString ''a counter cannot be incremented by a negative number''), c)
      else (None, add_to name (geo_labels lookup ip (own @ labels)) by_value c))"

definition gauge_IncrementBy :: "string \<Rightarrow> labels \<Rightarrow> int \<Rightarrow> labels \<Rightarrow> collector \<Rightarrow> collector" where
  "gauge_IncrementBy name own by_value labels c = add_to name (toMap (own @ labels)) by_value c"

definition gauge_DecrementBy :: "string \<Rightarrow> labels \<Rightarrow> int \<Rightarrow> labels \<Rightarrow> collector \<Rightarrow> collector" where
  "gauge_DecrementBy name own by_value labels c = add_to name (toMap (own @ labels)) (- by_value) c"

definition gauge_Set :: "string \<Rightarrow> labels \<Rightarrow> int \<Rightarrow> labels \<Rightarrow> collector \<Rightarrow> collector" where
  "gauge_Set name own val labels c = set_value name (toMap (own @ labels)) val c"

definition gaugeGeo_IncrementBy ::
    "(bytes \<Rightarrow> string) \<Rightarrow> string \<Rightarrow> labels \<Rightarrow> bytes \<Rightarrow> int \<Rightarrow> labels \<Rightarrow> collector \<Rightarrow> collector" where
  "gaugeGeo_IncrementBy lookup name own ip by_value labels c =
     add_to name (geo_labels lookup ip (own @ labels)) by_value c"

definition gaugeGeo_DecrementBy ::
    "(bytes \<Rightarrow> string) \<Rightarrow> string \<Rightarrow> labels \<Rightarrow> bytes \<Rightarrow> int \<Rightarrow> labels \<Rightarrow> collector \<Rightarrow> collector" where
  "gaugeGeo_DecrementBy lookup name own ip by_value labels c =
     add_to name (geo_labels lookup ip (own @ labels)) (- by_value) c"

definition gaugeGeo_Set ::
    "(bytes \<Rightarrow> string) \<Rightarrow> string \<Rightarrow> labels \<Rightarrow> bytes \<Rightarrow> int \<Rightarrow> labels \<Rightarrow> collector \<Rightarrow> collector" where
  "gaugeGeo_Set lookup name own ip val labels c = set_value name (geo_labels lookup ip (own @ labels)) val c"

text \<open>The page the metrics server delivers: the status, and the body if there is one.\<close>

definition ServeHTTP :: "string \<Rightarrow> string \<Rightarrow> collector \<Rightarrow> nat \<times> string" where
  "ServeHTTP path request c = (if path \<noteq> request then (404, '''') else (200, collector_String c))"

section \<open>Counting connections\<close>

abbreviation (input) MetricNameConnections :: string where
  "MetricNameConnections \<equiv> ''containerssh_ssh_connections_total''"
abbreviation (input) MetricNameCurrentConnections :: string where
  "MetricNameCurrentConnections \<equiv> ''containerssh_ssh_current_connections''"
abbreviation (input) MetricNameSuccessfulHandshake :: string where
  "MetricNameSuccessfulHandshake \<equiv> ''containerssh_ssh_successful_handshakes_total''"
abbreviation (input) MetricNameFailedHandshake :: string where
  "MetricNameFailedHandshake \<equiv> ''containerssh_ssh_failed_handshakes_total''"

definition NewHandler :: "collector \<Rightarrow> collector go" where
  "NewHandler c =
     go_bind (MustCreate MetricNameConnections ''connections_total'' ''Number of connections since start'' MetricTypeCounter c) (\<lambda>c.
     go_bind (MustCreate MetricNameCurrentConnections ''connections'' ''Current open SSH connections'' MetricTypeGauge c) (\<lambda>c.
     go_bind (MustCreate MetricNameSuccessfulHandshake ''handshakes_total'' ''Successful SSH handshakes since start'' MetricTypeCounter c) (\<lambda>c.
     MustCreate MetricNameFailedHandshake ''handshakes_total'' ''Failed SSH handshakes since start'' MetricTypeCounter c)))"

definition count_one :: "(bytes \<Rightarrow> string) \<Rightarrow> string \<Rightarrow> bytes \<Rightarrow> collector \<Rightarrow> collector" where
  "count_one lookup name ip c = snd (counterGeo_IncrementBy lookup name [] ip 1 [] c)"

text \<open>The result of the backend's own \<open>OnNetworkConnection\<close> is passed on.\<close>

definition metrics_OnNetworkConnection ::
    "(bytes \<Rightarrow> string) \<Rightarrow> ConnectionMetadata \<Rightarrow> go_error option \<Rightarrow> collector \<Rightarrow> go_error option \<times> collector" where
  "metrics_OnNetworkConnection lookup meta backend_err c =
     (if backend_err \<noteq> None then (backend_err, c)
      else (None, gaugeGeo_IncrementBy lookup MetricNameCurrentConnections [] (IP (RemoteAddr meta)) 1 []
                    (count_one lookup MetricNameConnections (IP (RemoteAddr meta)) c)))"

text \<open>The handler of a connection from \<open>ip\<close>: its state is the flag \<open>disconnected\<close>, the collector and the backend.\<close>

definition metrics_network ::
    "(bytes \<Rightarrow> string) \<Rightarrow> bytes \<Rightarrow> ((bool \<times> collector) \<times> 's) network_handler \<Rightarrow> ((bool \<times> collector) \<times> 's) network_handler" where
  "metrics_network lookup ip backend = backend\<lparr>
     OnHandshakeFailed := (\<lambda>meta reason dcs.
       OnHandshakeFailed backend meta reason (apfst (apsnd (count_one lookup MetricNameFailedHandshake ip)) dcs)),
     OnHandshakeSuccess := (\<lambda>meta dcs.
       case OnHandshakeSuccess backend meta dcs of
         (Some failureReason, dcs) \<Rightarrow>
           (Some failureReason, apfst (apsnd (count_one lookup MetricNameFailedHandshake ip)) dcs)
       | (None, dcs) \<Rightarrow> (None, apfst (apsnd (count_one lookup MetricNameSuccessfulHandshake ip)) dcs)),
     OnDisconnect := (\<lambda>((disconnected, c), s).
       OnDisconnect backend
         (if \<not> disconnected then ((True, gaugeGeo_DecrementBy lookup MetricNameCurrentConnections [] ip 1 [] c), s)
          else ((disconnected, c), s)))\<rparr>"

section \<open>What the values are\<close>

definition reading :: "string \<Rightarrow> string \<Rightarrow> collector \<Rightarrow> int" where
  "reading name combined c = (case map_of (values_of name c) combined of Some v \<Rightarrow> mv_Value v | None \<Rightarrow> 0)"

lemma values_of_update [simp]:
  "values_of n (c\<lparr>col_values := AList.update name vs (col_values c)\<rparr>) = (if n = name then vs else values_of n c)"
  by (simp add: values_of_def update_conv')

lemma getValueStruct_spec:
  assumes "getValueStruct name labels c = (v, c')"
  shows "mv_Value v = reading name (CombinedName name labels) c" "\<And>n k. reading n k c' = reading n k c"
  using assms by (auto simp: getValueStruct_def Let_def reading_def map_add_def split: option.splits if_splits)

lemma reading_set_value:
  "reading n k (set_value name labels val c) =
     (if n = name \<and> k = CombinedName name labels then val else reading n k c)"
proof -
  obtain v c' where vc: "getValueStruct name labels c = (v, c')" by fastforce
  show ?thesis
    using getValueStruct_spec(2) [OF vc, of n k]
    by (auto simp: set_value_def vc reading_def update_conv')
qed

lemma reading_add_to [simp]:
  "reading n k (add_to name labels d c) =
     reading n k c + (if n = name \<and> k = CombinedName name labels then d else 0)"
proof -
  obtain v c' where vc: "getValueStruct name labels c = (v, c')" by fastforce
  show ?thesis
    using getValueStruct_spec [OF vc] by (auto simp: add_to_def get_def vc reading_set_value)
qed

lemma escape_inj [simp]: "escape s = escape t \<longleftrightarrow> s = t"
proof (induction s arbitrary: t)
  case Nil
  show ?case by (cases t) auto
next
  case (Cons c s)
  then show ?case by (cases t) (auto split: if_splits)
qed

lemma CombinedName_country:
  "CombinedName name (geo_labels lookup ip []) = CombinedName name (geo_labels lookup ip' []) \<longleftrightarrow> lookup ip = lookup ip'"
  by (simp add: CombinedName_def geo_labels_def toMap_def label_text_def)

text \<open>The value of a metric for a country.\<close>

definition country_value :: "string \<Rightarrow> string \<Rightarrow> collector \<Rightarrow> int" where
  "country_value name country c = reading name (CombinedName name [(''country'', country)]) c"

lemma country_value_add [simp]:
  "country_value name country (add_to name' (geo_labels lookup ip []) d c) =
     country_value name country c + (if name = name' \<and> country = lookup ip then d else 0)"
proof -
  have "geo_labels (\<lambda>_. country) ip [] = [(''country'', country)]" by (simp add: geo_labels_def toMap_def)
  then show ?thesis
    using CombinedName_country [of name "\<lambda>x. if x = ip then lookup ip else country" ip]
    by (auto simp: country_value_def CombinedName_def geo_labels_def toMap_def label_text_def)
qed

section \<open>Connections come and go\<close>

text \<open>What the server does with its handlers. A backend answers the end of a handshake with \<open>err\<close>.\<close>

datatype metrics_event =
    Arrive nat ConnectionMetadata "go_error option"
  | HandshakeFails nat ConnectionMetadata go_error
  | HandshakeEnds nat ConnectionAuthenticatedMetadata "go_error option"
  | Leave nat

definition answering :: "go_error option \<Rightarrow> 's network_handler" where
  "answering err = AbstractNetworkConnectionHandler\<lparr>OnHandshakeSuccess := \<lambda>_ s. (err, s)\<rparr>"

type_synonym connections = "(nat \<times> (bytes \<times> bool)) list"

definition on_connection ::
    "nat \<Rightarrow> (bytes \<Rightarrow> (bool \<times> collector) \<times> unit \<Rightarrow> (bool \<times> collector) \<times> unit) \<Rightarrow> collector \<times> connections \<Rightarrow> collector \<times> connections" where
  "on_connection i f cc =
     (case map_of (snd cc) i of
        None \<Rightarrow> cc
      | Some (ip, disconnected) \<Rightarrow>
          (case f ip ((disconnected, fst cc), ()) of ((d, c), _) \<Rightarrow> (c, AList.update i (ip, d) (snd cc))))"

fun metrics_next :: "(bytes \<Rightarrow> string) \<Rightarrow> metrics_event \<Rightarrow> collector \<times> connections \<Rightarrow> collector \<times> connections" where
  "metrics_next lookup (Arrive i meta err) (c, conns) =
     (if map_of conns i \<noteq> None then (c, conns)
      else case metrics_OnNetworkConnection lookup meta err c of
             (Some _, c) \<Rightarrow> (c, conns)
           | (None, c) \<Rightarrow> (c, AList.update i (IP (RemoteAddr meta), False) conns))"
| "metrics_next lookup (HandshakeFails i meta reason) cc =
     on_connection i (\<lambda>ip. OnHandshakeFailed (metrics_network lookup ip (answering None)) meta (Some reason)) cc"
| "metrics_next lookup (HandshakeEnds i meta err) cc =
     on_connection i (\<lambda>ip dcs. snd (OnHandshakeSuccess (metrics_network lookup ip (answering err)) meta dcs)) cc"
| "metrics_next lookup (Leave i) cc =
     on_connection i (\<lambda>ip. OnDisconnect (metrics_network lookup ip (answering None))) cc"

definition connections_exact :: "(bytes \<Rightarrow> string) \<Rightarrow> collector \<times> connections \<Rightarrow> bool" where
  "connections_exact lookup cc \<longleftrightarrow> (\<forall>country.
     country_value MetricNameCurrentConnections country (fst cc) =
       int (count_vals (\<lambda>(ip, disconnected). \<not> disconnected \<and> lookup ip = country) (snd cc)) \<and>
     country_value MetricNameConnections country (fst cc) = int (count_vals (\<lambda>(ip, d). lookup ip = country) (snd cc)))"

lemmas metrics_defs = metrics_network_def answering_def AbstractNetworkConnectionHandler_def count_one_def
  counterGeo_IncrementBy_def gaugeGeo_DecrementBy_def gaugeGeo_IncrementBy_def metrics_OnNetworkConnection_def

lemma count_vals_replace:
  assumes "map_of al k = Some w"
  shows "int (count_vals P (AList.update k v al)) = int (count_vals P al) + (if P v then 1 else 0) - (if P w then 1 else 0)"
  using count_vals_update_old [OF assms, of P v] by (auto split: if_splits)

lemma metrics_next_exact:
  assumes "connections_exact lookup cc"
  shows "connections_exact lookup (metrics_next lookup ev cc)"
proof (cases ev)
  case (Arrive i meta err)
  then show ?thesis
    using assms by (cases cc; cases err; cases "map_of (snd cc) i")
      (auto simp: connections_exact_def metrics_defs count_vals_update_new)
next
  case (HandshakeFails i meta reason)
  then show ?thesis
    using assms by (auto simp: connections_exact_def on_connection_def metrics_defs count_vals_replace split: option.splits)
next
  case (HandshakeEnds i meta err)
  then show ?thesis
    using assms by (cases err)
      (auto simp: connections_exact_def on_connection_def metrics_defs count_vals_replace split: option.splits)
next
  case (Leave i)
  then show ?thesis
    using assms by (auto simp: connections_exact_def on_connection_def metrics_defs count_vals_replace split: option.splits)
qed

lemma fold_metrics_exact:
  "connections_exact lookup cc \<Longrightarrow> connections_exact lookup (fold (metrics_next lookup) evs cc)"
  by (induction evs arbitrary: cc) (simp_all add: metrics_next_exact)

lemma MustCreate_values: "MustCreate name u help t c = Ret c' \<Longrightarrow> col_values c' = col_values c"
  by (auto simp: MustCreate_def createMetric_def split: option.splits if_splits)

lemma country_value_none: "col_values c = [] \<Longrightarrow> country_value name country c = 0"
  by (simp add: country_value_def reading_def values_of_def)

text \<open>C30: The exported number of current connections is exact. Whatever connections arrive, fail or complete their handshakes
  and end, in whatever order and however often the end of a connection is reported, the gauge shows for every country the
  number of connections from there that were accepted and have not ended, and the counter the number of all that were
  accepted. A connection that the backend refuses is not counted.\<close>
theorem connections_counted:
  assumes "NewHandler new_collector = Ret c"
    and "fold (metrics_next lookup) evs (c, []) = (c', conns)"
  shows "country_value MetricNameCurrentConnections country c' =
           int (count_vals (\<lambda>(ip, disconnected). \<not> disconnected \<and> lookup ip = country) conns) \<and>
         country_value MetricNameConnections country c' = int (count_vals (\<lambda>(ip, disconnected). lookup ip = country) conns)"
proof -
  have "col_values c = []"
    using assms(1) by (auto simp: NewHandler_def new_collector_def elim!: go_bind_RetE dest!: MustCreate_values)
  then have "connections_exact lookup (c, [])" by (simp add: connections_exact_def country_value_none)
  from fold_metrics_exact [OF this, of evs] show ?thesis by (simp add: assms(2) connections_exact_def)
qed

definition sample_arrival :: "bytes \<Rightarrow> ConnectionMetadata" where
  "sample_arrival ip = \<lparr>RemoteAddr = \<lparr>IP = ip, Port = 22\<rparr>, ConnectionID = ''c1'', Metadata = None, Environment = None, Files = None\<rparr>"

definition sample_lookup_country :: "bytes \<Rightarrow> string" where
  "sample_lookup_country ip = (if ip = [127, 0, 0, 1] then ''LO'' else ''XX'')"

text \<open>Two connections from the same country, one of which ends twice, and one that is refused.\<close>
theorem connections_counted_witness:
  "\<exists>c c' conns. NewHandler new_collector = Ret c \<and>
     fold (metrics_next sample_lookup_country)
       [Arrive 0 (sample_arrival [127, 0, 0, 1]) None, Arrive 1 (sample_arrival [127, 0, 0, 1]) None,
        Arrive 2 (sample_arrival [192, 0, 2, 1]) (Some (ErrorString ''refused'')), Leave 0, Leave 0] (c, []) = (c', conns) \<and>
     country_value MetricNameCurrentConnections ''LO'' c' = 1 \<and> country_value MetricNameConnections ''LO'' c' = 2"
proof -
  obtain c where c: "NewHandler new_collector = Ret c"
    by (simp add: NewHandler_def new_collector_def MustCreate_def createMetric_def)
  let ?evs = "[Arrive 0 (sample_arrival [127, 0, 0, 1]) None, Arrive 1 (sample_arrival [127, 0, 0, 1]) None,
        Arrive 2 (sample_arrival [192, 0, 2, 1]) (Some (ErrorString ''refused'')), Leave 0, Leave 0]"
  obtain c' conns where run: "fold (metrics_next sample_lookup_country) ?evs (c, []) = (c', conns)" by fastforce
  have "conns = [(0, [127, 0, 0, 1], True), (1, [127, 0, 0, 1], False)]"
    using run by (auto simp: metrics_defs on_connection_def sample_arrival_def)
  then show ?thesis
    using connections_counted [OF c run, of "''LO''"] c run by (auto simp: sample_lookup_country_def)
qed

end
