(* ===== verification/Config.thy ===== *)
theory Config
  imports Config_Options Metrics
begin

text \<open>
  The configuration of the application (\<open>config/appconfig.go\<close>), its loading with the options of older versions
  (\<open>internal/config/compat.go\<close>, \<open>config/auth.go\<close>), and the client of the configuration server
  (\<open>internal/config/client_impl.go\<close>, \<open>loader_http.go\<close>). Go iterates over a map in no fixed order: the order in which
  the sections are validated is the parameter \<open>iter\<close>. Decoding JSON and merging structures are parameters.
\<close>

section \<open>The application configuration\<close>

record AppConfig =
  app_SSH :: SSHConfig
  app_ConfigServer :: ClientConfig
  app_Auth :: AuthConfig
  app_Log :: LogConfig
  app_Metrics :: MetricsConfig
  app_GeoIP :: GeoIPConfig
  app_Audit :: AuditLogConfig
  app_Health :: HealthConfig
  app_Security :: SecurityConfig
  app_Backend :: string
  app_Docker :: DockerConfig
  app_has_DockerRun :: bool
  app_Kubernetes :: KubernetesConfig
  app_has_KubeRun :: bool
  app_SSHProxy :: SSHProxyConfig

definition Validate_Backend :: "string \<Rightarrow> go_error option" where
  "Validate_Backend b =
     (if b \<in> {''docker'', ''kubernetes'', ''sshproxy''} then None
      else if b = '''' then Some (ErrorString ''no backend configured'')
      else Some (ErrorString (''invalid backend: '' @ b)))"

text \<open>The queue of sections, each with what its own validation returns.\<close>

type_synonym validation_queue = "(string \<times> go_error option) list"

definition queue_Validate :: "validation_queue \<Rightarrow> go_error option" where
  "queue_Validate items = first_error (map (\<lambda>(name, err). wrap_option err name) items)"

definition validation_items :: "platform \<Rightarrow> AppConfig \<Rightarrow> bool \<Rightarrow> validation_queue" where
  "validation_items p cfg dynamic =
     [(''ssh'', Validate_SSH (app_SSH cfg)),
      (''configserver'', Validate_Client p (app_ConfigServer cfg)),
      (''auth'', Validate_Auth p (app_Auth cfg)),
      (''log'', Validate_Log (app_Log cfg)),
      (''metrics'', Validate_Metrics p (app_Metrics cfg)),
      (''geoip'', Validate_GeoIP p (app_GeoIP cfg)),
      (''audit'', Validate_AuditLog p (app_Audit cfg)),
      (''health'', Validate_Health p (app_Health cfg))] @
     (if hc_URL (cl_HTTP (app_ConfigServer cfg)) \<noteq> '''' \<and> \<not> dynamic then []
      else [(''security'', Security.Validate (app_Security cfg)),
            (''backend'', Validate_Backend (app_Backend cfg))] @
           (if app_Backend cfg = ''docker'' then [(''docker'', Validate_Docker (app_Docker cfg))]
            else if app_Backend cfg = ''kubernetes'' then [(''kubernetes'', Validate_Kubernetes p (app_Kubernetes cfg))]
            else if app_Backend cfg = ''sshproxy'' then [(''sshproxy'', Validate_SSHProxy (app_SSHProxy cfg))]
            else []))"

definition AppConfig_Validate ::
    "platform \<Rightarrow> (validation_queue \<Rightarrow> validation_queue) \<Rightarrow> AppConfig \<Rightarrow> bool \<Rightarrow> go_error option" where
  "AppConfig_Validate p iter cfg dynamic =
     (if app_has_DockerRun cfg
      then Some (NewMessage ''DOCKER_RUN_REMOVED''
             (''You are using the `dockerrun` configuration which has been removed since ContainerSSH 0.5. '' @
              ''Please switch to the Docker backend. For details and a migration guide see '' @
              ''https://containerssh.io/deprecations/dockerrun/''))
      else if app_has_KubeRun cfg
      then Some (NewMessage ''KUBERNETES_KUBERUN_REMOVED''
             (''You are using the `kuberun` configuration which has been removed since ContainerSSH 0.5. '' @
              ''Please switch to the Kubernetes backend. For details and a migration guide see '' @
              ''https://containerssh.io/deprecations/kuberun/''))
      else queue_Validate (iter (validation_items p cfg dynamic)))"

section \<open>Options of older versions\<close>

text \<open>The two forms of the \<open>auth\<close> section. In the old one \<open>password\<close> is a flag, in the new one a structure. What is decoded
  is copied to the configuration, all but the timeout.\<close>

definition AuthConfig_Set :: "AuthConfig \<Rightarrow> AuthConfig \<Rightarrow> AuthConfig" where
  "AuthConfig_Set decoded c = decoded\<lparr>ac_AuthTimeout := ac_AuthTimeout c\<rparr>"

definition AuthConfig_Unmarshal :: "go_error + AuthConfig \<Rightarrow> go_error + AuthConfig \<Rightarrow> AuthConfig \<Rightarrow> go_error + AuthConfig" where
  "AuthConfig_Unmarshal as_legacy as_new c =
     (case as_legacy of
        Inr legacyConfig \<Rightarrow> Inr (AuthConfig_Set legacyConfig c)
      | Inl _ \<Rightarrow>
          (case as_new of
             Inl err \<Rightarrow> Inl err
           | Inr newConfig \<Rightarrow> Inr (AuthConfig_Set newConfig c)))"

definition zero_HTTPClient :: HTTPClientConfiguration where
  "zero_HTTPClient = \<lparr>hc_URL = '''', hc_Timeout = 0, hc_CACert = '''', hc_ClientCert = '''', hc_ClientKey = '''',
     hc_TLSVersion = '''', hc_ECDHCurves = [], hc_CipherSuites = [], hc_RequestEncoding = ''''\<rparr>"

definition fixCompatibility :: "AppConfig \<Rightarrow> AppConfig" where
  "fixCompatibility cfg =
     (let auth = app_Auth cfg
      in if hc_URL (ac_HTTP auth) \<noteq> '''' \<and> hc_URL (wh_HTTP (pw_Webhook (ac_PasswordAuth auth))) = ''''
         then cfg\<lparr>app_Auth := auth\<lparr>
                ac_PasswordAuth := (ac_PasswordAuth auth)\<lparr>pw_Method := ''webhook'',
                  pw_Webhook := (pw_Webhook (ac_PasswordAuth auth))\<lparr>wh_HTTP := ac_HTTP auth\<rparr>\<rparr>,
                ac_PublicKeyAuth := (ac_PublicKeyAuth auth)\<lparr>pk_Method := ''webhook'',
                  pk_Webhook := (pk_Webhook (ac_PublicKeyAuth auth))\<lparr>wh_HTTP := ac_HTTP auth\<rparr>\<rparr>,
                ac_HTTP := zero_HTTPClient\<rparr>\<rparr>
         else cfg)"

section \<open>The configuration server\<close>

record config_response =
  cr_meta :: ConnectionAuthenticatedMetadata
  cr_Config :: AppConfig

text \<open>One request: the answer is decoded into the response, which keeps what the answer does not set, and its status is
  returned, or the error of the HTTP client; and whether the time for the requests is over then.\<close>

record config_attempt =
  cf_reply :: "config_response \<Rightarrow> config_response \<times> (go_error + int)"
  cf_expired :: bool

definition configServerRequest :: "go_error + int \<Rightarrow> go_error option" where
  "configServerRequest r =
     (case r of
        Inl err \<Rightarrow> Some err
      | Inr statusCode \<Rightarrow>
          check (statusCode = 200)
            (UserMessage ''CONFIG_INVALID_STATUS_CODE'' ''Cannot authenticate at this time.''
               (''Configuration server responded with an invalid status code: '' @ itoa statusCode)))"

definition getReason :: "go_error \<Rightarrow> string" where
  "getReason err = (case error_code err of Some code \<Rightarrow> code | None \<Rightarrow> ''UNKNOWN_ERROR'')"

definition count_request :: "labels \<Rightarrow> collector \<Rightarrow> collector" where
  "count_request labels c = snd (counter_IncrementBy ''containerssh_config_server_requests_total'' [] 1 labels c)"

definition count_failure :: "labels \<Rightarrow> collector \<Rightarrow> collector" where
  "count_failure labels c = snd (counter_IncrementBy ''containerssh_config_server_failures_total'' [] 1 labels c)"

text \<open>The loop over the requests that are made; when there is no further one it has not returned.\<close>

fun Get_loop ::
    "config_response \<Rightarrow> bool \<Rightarrow> config_attempt list \<Rightarrow> collector \<Rightarrow>
     ((go_error + AppConfig \<times> ConnectionAuthenticatedMetadata) \<times> collector) go" where
  "Get_loop response failed_before [] c = Block"
| "Get_loop response failed_before (att # rest) c =
     (let lastLabels = [(''retry'', if failed_before then ''1'' else ''0'')];
          c = count_request lastLabels c;
          (response, r) = cf_reply att response
      in case configServerRequest r of
           None \<Rightarrow> Ret (Inr (cr_Config response, cr_meta response), c)
         | Some lastError \<Rightarrow>
             let lastLabels = lastLabels @ [(''reason'', getReason lastError)];
                 c = count_failure ((''type'', ''soft'') # lastLabels) c
             in if cf_expired att
                then Ret (Inl (Wrap lastError ''CONFIG_BACKEND_ERROR'' ''Configuration request to backend failed, giving up''),
                       count_failure ((''type'', ''hard'') # lastLabels) c)
                else Get_loop response True rest c)"

text \<open>Without a URL there is no HTTP client. \<open>zero\<close> is the response with all fields unset. The request is the metadata of the
  connection as it is, sensitive values included, whatever \<open>TransmitSensitiveMetadata\<close> says.\<close>

definition config_Get ::
    "config_response \<Rightarrow> ClientConfig \<Rightarrow> ConnectionAuthenticatedMetadata \<Rightarrow> config_attempt list \<Rightarrow> collector \<Rightarrow>
     ((go_error + AppConfig \<times> ConnectionAuthenticatedMetadata) \<times> collector) go" where
  "config_Get zero cfg meta attempts c =
     (if hc_URL (cl_HTTP cfg) = '''' then Ret (Inr (cr_Config zero, meta), c)
      else Get_loop zero False attempts c)"

definition LoadConnection ::
    "(AppConfig \<Rightarrow> AppConfig \<Rightarrow> go_error + AppConfig) \<Rightarrow> config_response \<Rightarrow> ClientConfig \<Rightarrow> ConnectionAuthenticatedMetadata \<Rightarrow>
     config_attempt list \<Rightarrow> AppConfig \<Rightarrow> collector \<Rightarrow>
     ((go_error + AppConfig \<times> ConnectionAuthenticatedMetadata) \<times> collector) go" where
  "LoadConnection merge zero client meta attempts config c =
     go_bind (config_Get zero client meta attempts c) (\<lambda>(r, c). case r of
         Inl err \<Rightarrow> Ret (Inl err, c)
       | Inr (newAppConfig, newMeta) \<Rightarrow>
           (case merge config newAppConfig of
              Inl err \<Rightarrow> Ret (Inl err, c)
            | Inr merged \<Rightarrow> Ret (Inr (merged, newMeta), c)))"

section \<open>What validation guarantees\<close>

lemma queue_Validate_None: "queue_Validate items = None \<longleftrightarrow> (\<forall>(name, err)\<in>set items. err = None)"
  by (auto simp: queue_Validate_def list_all_iff)

lemma queue_Validate_Some:
  assumes "queue_Validate items = Some e"
  shows "\<exists>name err. (name, Some err) \<in> set items \<and> wrap_option (Some err) name = Some e"
proof -
  from first_error_in [OF assms [unfolded queue_Validate_def]]
  obtain name err where item: "(name, err) \<in> set items" "wrap_option err name = Some e" by auto
  moreover from item(2) obtain x where "err = Some x" by (cases err) simp_all
  ultimately show ?thesis by blast
qed

lemma Validate_Backend_None: "Validate_Backend b = None \<longleftrightarrow> b \<in> {''docker'', ''kubernetes'', ''sshproxy''}"
  by (simp add: Validate_Backend_def)

definition static_valid :: "platform \<Rightarrow> AppConfig \<Rightarrow> bool" where
  "static_valid p cfg \<longleftrightarrow>
     Validate_SSH (app_SSH cfg) = None \<and> Validate_Client p (app_ConfigServer cfg) = None \<and>
     Validate_Auth p (app_Auth cfg) = None \<and> Validate_Log (app_Log cfg) = None \<and>
     Validate_Metrics p (app_Metrics cfg) = None \<and> Validate_GeoIP p (app_GeoIP cfg) = None \<and>
     Validate_AuditLog p (app_Audit cfg) = None \<and> Validate_Health p (app_Health cfg) = None"

definition backend_valid :: "platform \<Rightarrow> AppConfig \<Rightarrow> bool" where
  "backend_valid p cfg \<longleftrightarrow>
     app_Backend cfg = ''docker'' \<and> Validate_Docker (app_Docker cfg) = None \<or>
     app_Backend cfg = ''kubernetes'' \<and> Validate_Kubernetes p (app_Kubernetes cfg) = None \<or>
     app_Backend cfg = ''sshproxy'' \<and> Validate_SSHProxy (app_SSHProxy cfg) = None"

lemma validation_items_None:
  "(\<forall>(name, err)\<in>set (validation_items p cfg dynamic). err = None) \<longleftrightarrow>
     static_valid p cfg \<and>
     (hc_URL (cl_HTTP (app_ConfigServer cfg)) \<noteq> '''' \<and> \<not> dynamic \<or>
      Security.Validate (app_Security cfg) = None \<and> backend_valid p cfg)"
proof (cases "hc_URL (cl_HTTP (app_ConfigServer cfg)) \<noteq> '''' \<and> \<not> dynamic")
  case True
  then show ?thesis by (simp add: validation_items_def static_valid_def)
next
  case False
  consider (docker) "app_Backend cfg = ''docker''" | (kubernetes) "app_Backend cfg = ''kubernetes''"
    | (sshproxy) "app_Backend cfg = ''sshproxy''" | (other) "app_Backend cfg \<notin> {''docker'', ''kubernetes'', ''sshproxy''}"
    by blast
  then show ?thesis
    using False
    by cases (simp add: validation_items_def static_valid_def backend_valid_def Validate_Backend_None; blast)+
qed

lemma AppConfig_Validate_None:
  assumes "\<And>items. set (iter items) = set items"
  shows "AppConfig_Validate p iter cfg dynamic = None \<longleftrightarrow>
     \<not> app_has_DockerRun cfg \<and> \<not> app_has_KubeRun cfg \<and> static_valid p cfg \<and>
     (hc_URL (cl_HTTP (app_ConfigServer cfg)) \<noteq> '''' \<and> \<not> dynamic \<or>
      Security.Validate (app_Security cfg) = None \<and> backend_valid p cfg)"
  using validation_items_None [of p cfg dynamic] by (simp add: AppConfig_Validate_def queue_Validate_None assms)

lemma AppConfig_Validate_Some:
  assumes "\<And>items. set (iter items) = set items"
    and "AppConfig_Validate p iter cfg dynamic = Some e" and "\<not> app_has_DockerRun cfg" "\<not> app_has_KubeRun cfg"
  shows "\<exists>name err. (name, Some err) \<in> set (validation_items p cfg dynamic) \<and> wrap_option (Some err) name = Some e \<and>
     option_path (Some e) = name # option_path (Some err)"
proof -
  have "queue_Validate (iter (validation_items p cfg dynamic)) = Some e" using assms(2-4) by (simp add: AppConfig_Validate_def)
  from queue_Validate_Some [OF this] obtain name err
    where item: "(name, Some err) \<in> set (validation_items p cfg dynamic)" "wrap_option (Some err) name = Some e"
    unfolding assms(1) by blast
  then show ?thesis using option_path_wrap [of "Some err" name] by auto
qed

text \<open>A platform on which every file exists and is a file, every URL parses and every key is an RSA key.\<close>

definition sample_platform :: platform where
  "sample_platform = \<lparr>os_Stat = (\<lambda>_. Inr False), os_ReadFile = (\<lambda>_. Inr ''key''), url_ParseRequestURI = (\<lambda>_. None),
     url_Parse = (\<lambda>_. None), X509KeyPair = (\<lambda>_ _. None), AppendCertsFromPEM = (\<lambda>_. True), SystemCertPool = None,
     net_Dial = (\<lambda>_ _. None), ParsePrivateKey = (\<lambda>_. Inr ''ssh-rsa''), path_Join = (\<lambda>d f. d @ ''/'' @ f),
     Duration_String = (\<lambda>_. ''0s'')\<rparr>"

definition zero_HTTPServer :: HTTPServerConfiguration where
  "zero_HTTPServer = \<lparr>hs_Listen = '''', hs_Key = '''', hs_Cert = '''', hs_ClientCACert = '''', hs_TLSVersion = '''',
     hs_ECDHCurves = [], hs_CipherSuites = []\<rparr>"

definition zero_OAuth2 :: OAuth2Config where
  "zero_OAuth2 = \<lparr>oa_Redirect = zero_HTTPServer, oa_Webroot = '''', oa_ClientID = '''', oa_ClientSecret = '''', oa_Provider = '''',
     oa_GitHubURL = '''', oa_OIDC = zero_HTTPClient, oa_DeviceFlow = False, oa_AuthorizationCodeFlow = False,
     oa_OIDCRedirectURI = '''', oa_AuthorizeEndpointURL = '''', oa_TokenEndpoint = zero_HTTPClient, oa_GenericRedirectURI = ''''\<rparr>"

definition sample_webhook :: AuthWebhookClientConfig where
  "sample_webhook = \<lparr>wh_HTTP = zero_HTTPClient\<lparr>hc_URL := ''http://auth'', hc_Timeout := 2000000000\<rparr>, wh_AuthTimeout = 60000000000\<rparr>"

definition sample_auth :: AuthConfig where
  "sample_auth = \<lparr>ac_PasswordAuth = \<lparr>pw_Method = ''webhook'', pw_Webhook = sample_webhook, pw_Keytab = ''''\<rparr>,
     ac_PublicKeyAuth = \<lparr>pk_Method = '''', pk_Webhook = sample_webhook\<rparr>, ac_KeyboardInteractiveMethod = '''', ac_OAuth2 = zero_OAuth2,
     ac_GSSAPIMethod = '''', ac_GSSAPIKeytab = '''', ac_AuthzMethod = '''', ac_AuthzWebhook = sample_webhook, ac_AuthTimeout = 0,
     ac_HTTP = zero_HTTPClient, ac_Password = None, ac_PubKey = None\<rparr>"

definition sample_app :: AppConfig where
  "sample_app = \<lparr>
     app_SSH = \<lparr>ssh_ServerVersion = ''SSH-2.0-ContainerSSH'', ssh_Ciphers = [''aes256-ctr''], ssh_KexAlgorithms = [''ecdh-sha2-nistp256''],
       ssh_MACs = [''hmac-sha2-256''], ssh_HostKeys = [''/etc/key''], ssh_ClientAliveInterval = 0, ssh_ClientAliveCountMax = 3\<rparr>,
     app_ConfigServer = \<lparr>cl_HTTP = zero_HTTPClient, cl_TransmitSensitiveMetadata = False\<rparr>,
     app_Auth = sample_auth,
     app_Log = \<lparr>lg_Level = 5, lg_Format = ''ljson'', lg_Destination = ''stdout'',
       lg_Syslog = \<lparr>sl_Destination = '''', sl_Facility = ''auth''\<rparr>, lg_has_T = False\<rparr>,
     app_Metrics = \<lparr>mt_Enable = True, mt_Path = ''/metrics'', mt_Server = zero_HTTPServer\<lparr>hs_Listen := ''[::1]:9100''\<rparr>\<rparr>,
     app_GeoIP = \<lparr>geo_Provider = ''dummy'', geo_GeoIP2File = ''''\<rparr>,
     app_Audit = \<lparr>au_Enable = False, au_Format = '''', au_Storage = '''', au_Directory = '''',
       au_S3 = \<lparr>s3_Local = '''', s3_AccessKey = '''', s3_SecretKey = '''', s3_Bucket = '''', s3_UploadPartSize = 0, s3_ParallelUploads = 0\<rparr>\<rparr>,
     app_Health = \<lparr>hl_Enable = False, hl_Server = zero_HTTPServer, hl_Client = zero_HTTPClient\<rparr>,
     app_Security = open_config,
     app_Backend = ''docker'',
     app_Docker = \<lparr>dc_Host = ''unix:///var/run/docker.sock'', dc_Mode = ''connection'', dc_IdleCommand = [''wait''],
       dc_ShellCommand = [''/bin/bash''], dc_ImagePullPolicy = ''Always'', dc_RestartPolicy = None, dc_Image = Some ''guest''\<rparr>,
     app_has_DockerRun = False,
     app_Kubernetes = \<lparr>kc_Host = '''', kc_APIPath = '''', kc_BearerTokenFile = '''', kc_Namespace = '''', kc_Images = [], kc_RestartPolicy = '''',
       kc_ConsoleContainerNumber = 0, kc_IdleCommand = [], kc_ShellCommand = [], kc_AgentPath = '''', kc_DisableAgent = False, kc_Mode = ''''\<rparr>,
     app_has_KubeRun = False,
     app_SSHProxy = \<lparr>px_Server = '''', px_Port = 0, px_UsernamePassThrough = False, px_Username = '''', px_Password = '''', px_PrivateKey = '''',
       px_AllowedHostKeyFingerprints = [], px_Ciphers = [], px_KexAlgorithms = [], px_MACs = [], px_HostKeyAlgorithms = [], px_ClientVersion = ''''\<rparr>\<rparr>"

lemma sample_app_fields [simp]:
  "app_Backend sample_app = ''docker''" "app_Security sample_app = open_config"
  "\<not> app_has_DockerRun sample_app" "\<not> app_has_KubeRun sample_app" "app_Auth sample_app = sample_auth"
  "hc_URL (cl_HTTP (app_ConfigServer sample_app)) = ''''"
  by (simp_all add: sample_app_def zero_HTTPClient_def)

lemma sample_version: "Validate_ServerVersion ''SSH-2.0-ContainerSSH'' = None"
  by (simp add: Validate_ServerVersion_def version_matches_def has_prefix_def)

lemma sample_listen: "SplitHostPort ''[::1]:9100'' = Inr (''::1'', ''9100'')"
  by (simp add: SplitHostPort_def)

lemma sample_auth_valid: "Validate_Auth sample_platform sample_auth = None"
  by (simp add: Validate_Auth_def sample_auth_def Validate_Password_def Validate_Webhook_def sample_webhook_def Validate_HTTPClient_def
      sample_platform_def zero_HTTPClient_def validateCACert_def TrimSpace_def validateClientCert_def Validate_RequestEncoding_def has_prefix_def)

lemma sample_static_valid: "static_valid sample_platform sample_app"
  unfolding static_valid_def
proof (intro conjI)
  show "Validate_SSH (app_SSH sample_app) = None"
    by (simp add: sample_app_def Validate_SSH_def sample_version Validate_SSHCipherList_def Validate_SSHCipher_def Validate_algo_def
        supportedCiphers_def Validate_SSHKexList_def Validate_SSHKex_def supportedKexAlgos_def Validate_SSHMACList_def Validate_SSHMAC_def
        supportedMACs_def)
  show "Validate_Metrics sample_platform (app_Metrics sample_app) = None"
    by (simp add: sample_app_def Validate_Metrics_def Validate_HTTPServer_def zero_HTTPServer_def sample_listen)
qed (simp_all add: sample_app_def Validate_Client_def zero_HTTPClient_def sample_auth_valid Validate_Log_def Validate_LogLevel_def
    Validate_GeoIP_def Validate_AuditLog_def Validate_Health_def)

lemma sample_backend_valid: "backend_valid sample_platform sample_app"
  by (simp add: backend_valid_def sample_app_def Validate_Docker_def Validate_DockerExecution_def)

lemma open_config_valid: "Security.Validate open_config = None"
  by (simp add: Security.Validate_def open_config_def Validate_policy_None Validate_env_def Validate_command_def Validate_shell_def
      Validate_subsystem_def Validate_tty_def Validate_signal_def)

text \<open>C27: What validation decides does not depend on the order of the sections, only which error is reported does. A
  configuration is accepted exactly if it uses no removed backend and each of its eight fixed sections is valid on its own,
  and, unless a configuration server is set and the configuration is not that of a connection, its security settings
  are valid and its backend is known and validly configured. Otherwise the error is that of an invalid section with the
  name of the section in front of the path of the option.\<close>
theorem app_config_valid_iff:
  assumes "\<And>items. set (iter items) = set items"
  shows "(AppConfig_Validate p iter cfg dynamic = None \<longleftrightarrow>
       \<not> app_has_DockerRun cfg \<and> \<not> app_has_KubeRun cfg \<and> static_valid p cfg \<and>
       (hc_URL (cl_HTTP (app_ConfigServer cfg)) \<noteq> '''' \<and> \<not> dynamic \<or>
        Security.Validate (app_Security cfg) = None \<and> backend_valid p cfg))
     \<and> (\<forall>e. AppConfig_Validate p iter cfg dynamic = Some e \<longrightarrow> app_has_DockerRun cfg \<or> app_has_KubeRun cfg \<or>
          (\<exists>name err. (name, Some err) \<in> set (validation_items p cfg dynamic) \<and> wrap_option (Some err) name = Some e \<and>
             option_path (Some e) = name # option_path (Some err)))"
  using AppConfig_Validate_None [OF assms, of p cfg dynamic] AppConfig_Validate_Some [OF assms, of p cfg dynamic] by blast

text \<open>The sample is valid in any order of the sections; without a shell command for the containers it is not.\<close>
theorem app_config_valid_iff_witness:
  "AppConfig_Validate sample_platform rev sample_app False = None \<and>
   AppConfig_Validate sample_platform rev (sample_app\<lparr>app_Docker := (app_Docker sample_app)\<lparr>dc_ShellCommand := []\<rparr>\<rparr>) False \<noteq> None"
proof
  show "AppConfig_Validate sample_platform rev sample_app False = None"
    using app_config_valid_iff [of rev sample_platform sample_app False] sample_static_valid sample_backend_valid open_config_valid
    by simp
  show "AppConfig_Validate sample_platform rev (sample_app\<lparr>app_Docker := (app_Docker sample_app)\<lparr>dc_ShellCommand := []\<rparr>\<rparr>) False \<noteq> None"
    using app_config_valid_iff [of rev sample_platform "sample_app\<lparr>app_Docker := (app_Docker sample_app)\<lparr>dc_ShellCommand := []\<rparr>\<rparr>" False]
    by (auto simp: backend_valid_def Validate_Docker_def Validate_DockerExecution_def sample_app_def zero_HTTPClient_def)
qed

section \<open>Options of older versions are not what they were\<close>

lemma Validate_password_flag:
  "Validate_KeyboardInteractive p (c\<lparr>ac_Password := b\<rparr>) = Validate_KeyboardInteractive p c"
  "Validate_GSSAPI p (c\<lparr>ac_Password := b\<rparr>) = Validate_GSSAPI p c"
  "Validate_Authz p (c\<lparr>ac_Password := b\<rparr>) = Validate_Authz p c"
  by (simp_all add: Validate_KeyboardInteractive_def Validate_GSSAPI_def Validate_Authz_def)

lemma Validate_Auth_password_flag:
  assumes "hc_URL (ac_HTTP c) = ''''" "pw_Method (ac_PasswordAuth c) \<noteq> ''''"
  shows "Validate_Auth p (c\<lparr>ac_Password := b\<rparr>) = Validate_Auth p c"
  unfolding Validate_Auth_def using assms by (simp add: Validate_password_flag check_def)

text \<open>The old option for the URL of the authentication server turns on password and public key authentication, both,
  whatever the old flags for them say: a configuration that disables passwords is loaded as one that accepts them, and
  validation does not look at the flag any more.\<close>
theorem legacy_flags_ignored:
  assumes "hc_URL (ac_HTTP (app_Auth cfg)) \<noteq> ''''"
    and "hc_URL (wh_HTTP (pw_Webhook (ac_PasswordAuth (app_Auth cfg)))) = ''''"
    and "fixCompatibility cfg = cfg'"
  shows "pw_Method (ac_PasswordAuth (app_Auth cfg')) = ''webhook'' \<and> pk_Method (ac_PublicKeyAuth (app_Auth cfg')) = ''webhook'' \<and>
         wh_HTTP (pw_Webhook (ac_PasswordAuth (app_Auth cfg'))) = ac_HTTP (app_Auth cfg) \<and>
         ac_Password (app_Auth cfg') = ac_Password (app_Auth cfg) \<and>
         Validate_Auth p ((app_Auth cfg')\<lparr>ac_Password := flag\<rparr>) = Validate_Auth p (app_Auth cfg')"
proof -
  have "hc_URL (ac_HTTP (app_Auth cfg')) = ''''" "pw_Method (ac_PasswordAuth (app_Auth cfg')) = ''webhook''"
    using assms by (auto simp: fixCompatibility_def Let_def zero_HTTPClient_def)
  with Validate_Auth_password_flag [of "app_Auth cfg'" p flag] show ?thesis
    using assms by (auto simp: fixCompatibility_def Let_def)
qed

definition legacy_app :: AppConfig where
  "legacy_app = sample_app\<lparr>app_Auth := sample_auth\<lparr>
     ac_PasswordAuth := \<lparr>pw_Method = '''', pw_Webhook = \<lparr>wh_HTTP = zero_HTTPClient, wh_AuthTimeout = 0\<rparr>, pw_Keytab = ''''\<rparr>,
     ac_HTTP := wh_HTTP sample_webhook, ac_Password := Some False, ac_PubKey := Some True\<rparr>\<rparr>"

text \<open>Passwords are disabled, and enabled by the loader.\<close>
theorem legacy_flags_ignored_witness:
  "ac_Password (app_Auth legacy_app) = Some False \<and>
   pw_Method (ac_PasswordAuth (app_Auth (fixCompatibility legacy_app))) = ''webhook''"
proof -
  have "hc_URL (ac_HTTP (app_Auth legacy_app)) \<noteq> ''''"
    "hc_URL (wh_HTTP (pw_Webhook (ac_PasswordAuth (app_Auth legacy_app)))) = ''''"
    by (simp_all add: legacy_app_def sample_webhook_def zero_HTTPClient_def)
  from legacy_flags_ignored [OF this refl] show ?thesis by (simp add: legacy_app_def)
qed

section \<open>What the configuration server answers\<close>

text \<open>The answers of a sequence of requests, decoded one after the other into the same response.\<close>

definition decoded_all :: "config_attempt list \<Rightarrow> config_response \<Rightarrow> config_response" where
  "decoded_all attempts response = fold (\<lambda>att response. fst (cf_reply att response)) attempts response"

definition request_fails :: "config_attempt \<Rightarrow> bool" where
  "request_fails att \<longleftrightarrow> \<not> cf_expired att \<and> (\<forall>response. configServerRequest (snd (cf_reply att response)) \<noteq> None)"

lemma Get_loop_accumulates:
  assumes "\<forall>att\<in>set failed. request_fails att"
    and "\<And>response. configServerRequest (snd (cf_reply last_att response)) = None"
  shows "\<exists>c'. Get_loop response before (failed @ last_att # rest) c =
     Ret (Inr (cr_Config (decoded_all (failed @ [last_att]) response), cr_meta (decoded_all (failed @ [last_att]) response)), c')"
  using assms(1)
proof (induction failed arbitrary: response before c)
  case Nil
  show ?case using assms(2) [of response] by (auto simp: decoded_all_def Let_def split: prod.splits)
next
  case (Cons att failed)
  obtain response' r where reply: "cf_reply att response = (response', r)" by fastforce
  have "configServerRequest r \<noteq> None" "\<not> cf_expired att"
    using Cons.prems reply by (auto simp: request_fails_def dest: spec [of _ response])
  then show ?case
    using Cons.IH [of response'] Cons.prems reply by (auto simp: decoded_all_def Let_def)
qed

text \<open>A configuration is put together from all answers of the configuration server. Requests are repeated until one
  is answered with status 200, and the client then returns; but every answer is decoded into the same structure, and
  what an answer with an error status set is still there when a later answer does not set it again: the configuration
  and the metadata returned are those of the last answer decoded over all earlier ones.\<close>
theorem config_answers_accumulate:
  assumes "hc_URL (cl_HTTP cfg) \<noteq> ''''" and "\<forall>att\<in>set failed. request_fails att"
    and "\<And>response. configServerRequest (snd (cf_reply last_att response)) = None"
  shows "\<exists>c'. config_Get zero cfg meta (failed @ last_att # rest) c =
     Ret (Inr (cr_Config (decoded_all (failed @ [last_att]) zero), cr_meta (decoded_all (failed @ [last_att]) zero)), c')"
  using Get_loop_accumulates [OF assms(2,3), of zero False rest c] assms(1) by (simp add: config_Get_def)

definition sample_response :: config_response where
  "sample_response = \<lparr>cr_meta = Authenticated (StartAuthentication (sample_arrival []) '''' '''') '''', cr_Config = sample_app\<rparr>"

definition error_with_backend :: config_attempt where
  "error_with_backend = \<lparr>cf_reply = (\<lambda>response. (response\<lparr>cr_Config := (cr_Config response)\<lparr>app_Backend := ''kubernetes''\<rparr>\<rparr>, Inr 500)),
     cf_expired = False\<rparr>"

definition empty_answer :: config_attempt where
  "empty_answer = \<lparr>cf_reply = (\<lambda>response. (response, Inr 200)), cf_expired = False\<rparr>"

text \<open>The backend set by an answer with status 500 is used, although the answer with status 200 sets none.\<close>
theorem config_answers_accumulate_witness:
  "\<exists>cfg meta c'. config_Get sample_response \<lparr>cl_HTTP = wh_HTTP sample_webhook, cl_TransmitSensitiveMetadata = False\<rparr>
       (cr_meta sample_response) [error_with_backend, empty_answer] new_collector = Ret (Inr (cfg, meta), c') \<and>
     app_Backend cfg = ''kubernetes'' \<and> app_Backend (cr_Config sample_response) = ''docker''"
proof -
  let ?cfg = "\<lparr>cl_HTTP = wh_HTTP sample_webhook, cl_TransmitSensitiveMetadata = False\<rparr>"
  have "hc_URL (cl_HTTP ?cfg) \<noteq> ''''" by (simp add: sample_webhook_def)
  moreover have "\<forall>att\<in>set [error_with_backend]. request_fails att"
    by (simp add: request_fails_def error_with_backend_def configServerRequest_def)
  moreover have "\<And>response. configServerRequest (snd (cf_reply empty_answer response)) = None"
    by (simp add: empty_answer_def configServerRequest_def)
  ultimately show ?thesis
    using config_answers_accumulate [of ?cfg "[error_with_backend]" empty_answer sample_response "cr_meta sample_response" "[]" new_collector]
    by (auto simp: decoded_all_def error_with_backend_def empty_answer_def sample_response_def)
qed

section \<open>TLS settings\<close>

lemma getCurveID_returns: "Validate_ECDHCurve c = None \<Longrightarrow> \<exists>x. getCurveID c = Ret x"
  unfolding Validate_ECDHCurve_def check_None by (elim insertE emptyE) (simp_all add: getCurveID_def curveToID_def)

lemma getCipher_returns: "Validate_CipherSuite c = None \<Longrightarrow> \<exists>x. getCipher c = Ret x"
  by (cases "map_of stringToCipherSuite c") (simp_all add: Validate_CipherSuite_def getCipher_def)

lemma curves_GetList_returns:
  "\<forall>c\<in>set cs. Validate_ECDHCurve c = None \<Longrightarrow> \<exists>ids. curves_GetList cs = Ret ids \<and> length ids = length cs"
proof (induction cs)
  case (Cons c cs)
  then obtain x xs where "getCurveID c = Ret x" "curves_GetList cs = Ret xs" "length xs = length cs"
    using getCurveID_returns [of c] by fastforce
  then show ?case by simp
qed simp

lemma ciphers_GetList_returns:
  "\<forall>c\<in>set cs. Validate_CipherSuite c = None \<Longrightarrow> \<exists>ids. ciphers_GetList cs = Ret ids \<and> length ids = length cs"
proof (induction cs)
  case (Cons c cs)
  then obtain x xs where "getCipher c = Ret x" "ciphers_GetList cs = Ret xs" "length xs = length cs"
    using getCipher_returns [of c] by fastforce
  then show ?case by simp
qed simp

lemma https_settings_valid:
  assumes "Validate_HTTPClient p c = None" and "has_prefix (hc_URL c) ''https://''"
  shows "Validate_TLSVersion (hc_TLSVersion c) = None" "Validate_ECDHCurveList (hc_ECDHCurves c) = None"
    "Validate_CipherSuiteList (hc_CipherSuites c) = None"
  using assms by (simp_all add: Validate_HTTPClient_def)

text \<open>The TLS settings of a validated HTTPS client can be used: the conversion of the version, of the curves and of the
  cipher suites does not panic and keeps every entry. But the version a client asks for does not count: with 1.3, as with
  1.2, connections of version 1.2 are accepted.\<close>
theorem tls_settings_usable:
  assumes "Validate_HTTPClient p c = None" and "has_prefix (hc_URL c) ''https://''"
  shows "GetTLSVersion (hc_TLSVersion c) = Ret 0x0303 \<and>
     (\<exists>curves. curves_GetList (hc_ECDHCurves c) = Ret curves \<and> length curves = length (hc_ECDHCurves c) \<and> curves \<noteq> []) \<and>
     (\<exists>ciphers. ciphers_GetList (hc_CipherSuites c) = Ret ciphers \<and> length ciphers = length (hc_CipherSuites c) \<and> ciphers \<noteq> [])"
proof (intro conjI)
  note valid = https_settings_valid [OF assms]
  have "hc_TLSVersion c = ''1.2'' \<or> hc_TLSVersion c = ''1.3''" using valid(1) by (simp add: Validate_TLSVersion_def)
  then show "GetTLSVersion (hc_TLSVersion c) = Ret 0x0303" by (elim disjE) (simp_all add: GetTLSVersion_def)
  have curves: "hc_ECDHCurves c \<noteq> []" "\<forall>x\<in>set (hc_ECDHCurves c). Validate_ECDHCurve x = None"
    using valid(2) by (simp_all add: Validate_ECDHCurveList_def)
  from curves_GetList_returns [OF curves(2)] obtain ids where "curves_GetList (hc_ECDHCurves c) = Ret ids" "length ids = length (hc_ECDHCurves c)"
    by blast
  with curves(1) show "\<exists>curves. curves_GetList (hc_ECDHCurves c) = Ret curves \<and> length curves = length (hc_ECDHCurves c) \<and> curves \<noteq> []"
    by (intro exI [of _ ids]) auto
  have ciphers: "hc_CipherSuites c \<noteq> []" "\<forall>x\<in>set (hc_CipherSuites c). Validate_CipherSuite x = None"
    using valid(3) by (simp_all add: Validate_CipherSuiteList_def)
  from ciphers_GetList_returns [OF ciphers(2)] obtain ids where "ciphers_GetList (hc_CipherSuites c) = Ret ids" "length ids = length (hc_CipherSuites c)"
    by blast
  with ciphers(1) show "\<exists>ciphers. ciphers_GetList (hc_CipherSuites c) = Ret ciphers \<and> length ciphers = length (hc_CipherSuites c) \<and> ciphers \<noteq> []"
    by (intro exI [of _ ids]) auto
qed

definition https_client :: HTTPClientConfiguration where
  "https_client = zero_HTTPClient\<lparr>hc_URL := ''https://auth'', hc_Timeout := 2000000000, hc_TLSVersion := ''1.3'',
     hc_ECDHCurves := [''x25519''], hc_CipherSuites := [''TLS_AES_128_GCM_SHA256'']\<rparr>"

theorem tls_settings_usable_witness: "hc_TLSVersion https_client = ''1.3'' \<and> GetTLSVersion (hc_TLSVersion https_client) = Ret 0x0303"
proof -
  have "Validate_HTTPClient sample_platform https_client = None"
    by (simp add: https_client_def zero_HTTPClient_def Validate_HTTPClient_def sample_platform_def validateCACert_def TrimSpace_def
        Validate_RequestEncoding_def has_prefix_def Validate_TLSVersion_def Validate_ECDHCurveList_def Validate_ECDHCurve_def
        Validate_CipherSuiteList_def Validate_CipherSuite_def stringToCipherSuite_def validateClientCert_def)
  moreover have "has_prefix (hc_URL https_client) ''https://''" by (simp add: https_client_def has_prefix_def)
  ultimately show ?thesis using tls_settings_usable [of sample_platform https_client] by (simp add: https_client_def)
qed

end
