(* ===== verification/Backend.thy ===== *)
theory Backend
  imports Config Authentication
begin

text \<open>
  The backend of a connection, \<open>internal/backend/handler.go\<close>, and the security layer around it,
  \<open>internal/security/handler_network.go\<close>: once a user is authenticated, the configuration of the connection is loaded and
  validated, the backend it names is created and put behind the security layer.

  The constructors of the Docker, Kubernetes and SSH proxy backends are the fields of \<open>constructors\<close>, over a state
  \<open>'w\<close>. A handler of a network connection is given here with the handler of the SSH connection that the end of the
  handshake returns.
\<close>

section \<open>The security layer of a network connection\<close>

record 'w backend_network =
  bk_OnHandshakeSuccess :: "ConnectionAuthenticatedMetadata \<Rightarrow> 'w \<Rightarrow> (go_error + 'w ssh_connection_handler) \<times> 'w"
  bk_OnDisconnect :: "'w \<Rightarrow> 'w"
  bk_OnShutdown :: "'w \<Rightarrow> 'w"

text \<open>Each SSH connection starts with its own counter of sessions.\<close>

definition secured_OnHandshakeSuccess ::
    "SecurityConfig \<Rightarrow> 'w backend_network \<Rightarrow> ConnectionAuthenticatedMetadata \<Rightarrow> uint64 \<times> 'w \<Rightarrow>
     (go_error + (uint64 \<times> 'w) ssh_connection_handler) \<times> (uint64 \<times> 'w)" where
  "secured_OnHandshakeSuccess config backend meta nw =
     (case bk_OnHandshakeSuccess backend meta (snd nw) of
        (Inl failureReason, w) \<Rightarrow> (Inl failureReason, fst nw, w)
      | (Inr conn, w) \<Rightarrow> (Inr (security_connection config conn), 0, w))"

definition security_New :: "SecurityConfig \<Rightarrow> 'w backend_network \<Rightarrow> go_error + (uint64 \<times> 'w) backend_network" where
  "security_New config backend =
     (case Security.Validate config of
        Some err \<Rightarrow> Inl (caused ''invalid security configuration'' err)
      | None \<Rightarrow> Inr \<lparr>bk_OnHandshakeSuccess = secured_OnHandshakeSuccess config backend,
                     bk_OnDisconnect = apsnd (bk_OnDisconnect backend),
                     bk_OnShutdown = apsnd (bk_OnShutdown backend)\<rparr>)"

section \<open>The backend handler\<close>

record 'w constructors =
  docker_New :: "DockerConfig \<Rightarrow> go_error + 'w backend_network"
  kubernetes_New :: "KubernetesConfig \<Rightarrow> go_error + 'w backend_network"
  sshproxy_New :: "SSHProxyConfig \<Rightarrow> go_error + 'w backend_network"

text \<open>What the handlers of all connections share. \<open>merge\<close> is the library's merging of structures, \<open>zero\<close> the unset response.\<close>

record root_handler =
  rh_platform :: platform
  rh_iter :: "validation_queue \<Rightarrow> validation_queue"
  rh_merge :: "AppConfig \<Rightarrow> AppConfig \<Rightarrow> go_error + AppConfig"
  rh_zero :: config_response
  rh_config :: AppConfig
  rh_authResponse :: AuthResponse

type_synonym 'w backend_state = "(uint64 \<times> 'w) backend_network option \<times> collector \<times> (uint64 \<times> 'w)"

definition bn_authResponse :: "root_handler \<Rightarrow> ConnectionAuthPendingMetadata \<Rightarrow> auth_result" where
  "bn_authResponse h meta =
     (case rh_authResponse h of
        AuthResponseUnavailable \<Rightarrow>
          (AuthResponseUnavailable, AuthFailed meta, Some (ErrorString ''the backend handler does not support authentication''))
      | AuthResponseSuccess \<Rightarrow> (AuthResponseSuccess, Authenticated meta (Username meta), None)
      | _ \<Rightarrow> (AuthResponseFailure, AuthFailed meta, None))"

definition getConfiguredBackend :: "'w constructors \<Rightarrow> AppConfig \<Rightarrow> go_error + 'w backend_network" where
  "getConfiguredBackend mk appConfig =
     (if app_Backend appConfig = ''docker'' then docker_New mk (app_Docker appConfig)
      else if app_Backend appConfig = ''kubernetes'' then kubernetes_New mk (app_Kubernetes appConfig)
      else if app_Backend appConfig = ''sshproxy'' then sshproxy_New mk (app_SSHProxy appConfig)
      else Inl (ErrorString (''invalid backend: '' @ app_Backend appConfig)))"

text \<open>The requests to the configuration server are made for a minute at most.\<close>

definition loadConnectionSpecificConfig ::
    "root_handler \<Rightarrow> ConnectionAuthenticatedMetadata \<Rightarrow> config_attempt list \<Rightarrow> collector \<Rightarrow>
     ((go_error + AppConfig \<times> ConnectionAuthenticatedMetadata) \<times> collector) go" where
  "loadConnectionSpecificConfig h meta attempts c =
     go_bind (LoadConnection (rh_merge h) (rh_zero h) (app_ConfigServer (rh_config h)) meta attempts (rh_config h) c) (\<lambda>(r, c).
       case r of
         Inl err \<Rightarrow> Ret (Inl (caused ''failed to load connections-specific configuration'' err), c)
       | Inr (appConfig, newMeta) \<Rightarrow>
           (case AppConfig_Validate (rh_platform h) (rh_iter h) appConfig True of
              Some err \<Rightarrow> Ret (Inl (caused ''configuration server returned invalid configuration'' err), c)
            | None \<Rightarrow> Ret (Inr (appConfig, Merge meta newMeta), c)))"

text \<open>The counters of the backend get its name as a label. The backend is remembered before the end of the handshake is
  handed to it.\<close>

definition initBackend ::
    "'w constructors \<Rightarrow> ConnectionAuthenticatedMetadata \<Rightarrow> AppConfig \<Rightarrow> 'w backend_state \<Rightarrow>
     ((go_error + (uint64 \<times> 'w) ssh_connection_handler) \<times> 'w backend_state) go" where
  "initBackend mk meta appConfig bs =
     (let (b, c, nw) = bs
      in go_bind (Label ''backend'' (app_Backend appConfig)) (\<lambda>_.
           case getConfiguredBackend mk appConfig of
             Inl failureReason \<Rightarrow> Ret (Inl failureReason, b, c, nw)
           | Inr backend \<Rightarrow>
               (case security_New (app_Security appConfig) backend of
                  Inl failureReason \<Rightarrow> Ret (Inl failureReason, b, c, nw)
                | Inr backend \<Rightarrow>
                    (case bk_OnHandshakeSuccess backend meta nw of (r, nw) \<Rightarrow> Ret (r, Some backend, c, nw)))))"

definition bn_OnHandshakeSuccess ::
    "root_handler \<Rightarrow> 'w constructors \<Rightarrow> config_attempt list \<Rightarrow> ConnectionAuthenticatedMetadata \<Rightarrow> 'w backend_state \<Rightarrow>
     ((go_error + (uint64 \<times> 'w) ssh_connection_handler) \<times> 'w backend_state) go" where
  "bn_OnHandshakeSuccess h mk attempts meta bs =
     (let (b, c, nw) = bs
      in go_bind (loadConnectionSpecificConfig h meta attempts c) (\<lambda>(r, c). case r of
           Inl err \<Rightarrow> Ret (Inl err, b, c, nw)
         | Inr (appConfig, newMeta) \<Rightarrow> initBackend mk newMeta appConfig (b, c, nw)))"

definition bn_OnDisconnect :: "'w backend_state \<Rightarrow> 'w backend_state" where
  "bn_OnDisconnect bs =
     (let (b, c, nw) = bs in case b of Some backend \<Rightarrow> (None, c, bk_OnDisconnect backend nw) | None \<Rightarrow> (None, c, nw))"

definition bn_OnShutdown :: "'w backend_state \<Rightarrow> 'w backend_state" where
  "bn_OnShutdown bs =
     (let (b, c, nw) = bs in case b of Some backend \<Rightarrow> (b, c, bk_OnShutdown backend nw) | None \<Rightarrow> (b, c, nw))"

section \<open>Every connection is guarded\<close>

lemma Label_backend: "b \<noteq> '''' \<Longrightarrow> Label ''backend'' b = Ret (''backend'', b)"
  by (simp add: Label_def)

lemma load_validates:
  assumes "loadConnectionSpecificConfig h meta attempts c = Ret (Inr (cfg, meta'), c')"
  shows "AppConfig_Validate (rh_platform h) (rh_iter h) cfg True = None"
  using assms by (auto simp: loadConnectionSpecificConfig_def elim!: go_bind_RetE split: sum.splits option.splits)

lemma valid_connection_config:
  assumes "\<And>items. set (rh_iter h items) = set items"
    and "AppConfig_Validate (rh_platform h) (rh_iter h) cfg True = None"
  shows "Security.Validate (app_Security cfg) = None" "backend_valid (rh_platform h) cfg"
  using AppConfig_Validate_None [OF assms(1), of "rh_platform h" cfg True] assms(2) by simp_all

lemma backend_valid_named: "backend_valid p cfg \<Longrightarrow> app_Backend cfg \<noteq> ''''"
  by (auto simp: backend_valid_def)

lemma initBackend_spec:
  assumes "Security.Validate (app_Security cfg) = None" and "app_Backend cfg \<noteq> ''''"
  shows "initBackend mk meta cfg (b, c, n, w) =
     Ret (case getConfiguredBackend mk cfg of
            Inl err \<Rightarrow> (Inl err, b, c, n, w)
          | Inr backend \<Rightarrow>
              (case bk_OnHandshakeSuccess backend meta w of
                 (Inl err, w') \<Rightarrow> (Inl err, Some (projr (security_New (app_Security cfg) backend)), c, n, w')
               | (Inr conn, w') \<Rightarrow> (Inr (security_connection (app_Security cfg) conn),
                    Some (projr (security_New (app_Security cfg) backend)), c, 0, w')))"
  using assms
  by (simp add: initBackend_def Label_backend security_New_def secured_OnHandshakeSuccess_def split: sum.splits prod.splits)


text \<open>A backend that accepts every session with a handler that refuses all requests, for any connection.\<close>

definition sample_backend :: "unit traced backend_network" where
  "sample_backend = \<lparr>bk_OnHandshakeSuccess = (\<lambda>_ w. (Inr (sample_conn (recorder AbstractSessionChannelHandler)), w)),
     bk_OnDisconnect = (\<lambda>w. w), bk_OnShutdown = (\<lambda>w. w)\<rparr>"

definition sample_constructors :: "unit traced constructors" where
  "sample_constructors = \<lparr>docker_New = (\<lambda>_. Inr sample_backend), kubernetes_New = (\<lambda>_. Inl (ErrorString ''no cluster'')),
     sshproxy_New = (\<lambda>_. Inl (ErrorString ''no server''))\<rparr>"

definition sample_root :: root_handler where
  "sample_root = \<lparr>rh_platform = sample_platform, rh_iter = rev, rh_merge = (\<lambda>a b. Inr a), rh_zero = sample_response,
     rh_config = sample_app, rh_authResponse = AuthResponseUnavailable\<rparr>"

lemma sample_root_valid: "AppConfig_Validate sample_platform rev sample_app True = None"
  using AppConfig_Validate_None [of rev sample_platform sample_app True] sample_static_valid sample_backend_valid open_config_valid by simp


section \<open>The end of a connection\<close>

text \<open>The backend is told of the end of the connection once, however often it is reported.\<close>

lemma bn_OnDisconnect_once: "bn_OnDisconnect (bn_OnDisconnect bs) = bn_OnDisconnect bs"
  by (simp add: bn_OnDisconnect_def Let_def split: prod.splits option.splits)

text \<open>A backend that failed at the end of the handshake is told of the end of the connection all the same.\<close>

lemma failed_backend_disconnected:
  assumes "Security.Validate (app_Security cfg) = None" "app_Backend cfg \<noteq> ''''"
    and "getConfiguredBackend mk cfg = Inr backend" "bk_OnHandshakeSuccess backend meta w = (Inl err, w')"
    and "initBackend mk meta cfg (b, c, n, w) = Ret (r, bs)"
  shows "bn_OnDisconnect bs = (None, c, n, bk_OnDisconnect backend w')"
  using assms(5) unfolding initBackend_spec [OF assms(1,2)]
  by (auto simp: assms(3,4) bn_OnDisconnect_def security_New_def assms(1))

end
