(* ===== verification/SSH_Proxy.thy ===== *)
theory SSH_Proxy
  imports Backend
begin

text \<open>
  The SSH proxy backend, \<open>internal/sshproxy\<close>: the handlers that pass a connection on to another SSH server, the backing
  server. The SSH library is the record \<open>ssh_library\<close>, over the state \<open>'w\<close> of the backing server; a channel to it is a
  number, and \<open>ssh.Marshal\<close> is the parameter \<open>mar\<close>. The request payloads of the package have the fields of those of
  \<open>internal/ssh\<close> and are values of \<open>payload\<close>.

  The state of a connection holds the handlers of its sessions, as the code does through pointers. A mutex that is held while
  the code waits is a flag.
\<close>

section \<open>The SSH library\<close>

datatype auth_method = PasswordMethod string | PublicKeysMethod string

record ssh_ClientConfig =
  scc_KeyExchanges :: "string list"
  scc_Ciphers :: "string list"
  scc_MACs :: "string list"
  scc_User :: string
  scc_Auth :: "auth_method list"
  scc_HostKeyCallback :: "bytes \<Rightarrow> go_error option"
  scc_ClientVersion :: string
  scc_HostKeyAlgorithms :: "string list"

text \<open>The error of opening a channel: the backing server's refusal, or another one.\<close>

datatype open_error = OpenChannelError RejectionReason string | OtherError go_error

record 'w ssh_library =
  FingerprintSHA256 :: "bytes \<Rightarrow> string"
  NewClientConn :: "ssh_ClientConfig \<Rightarrow> 'w \<Rightarrow> go_error option \<times> 'w"
  OpenChannel :: "string \<Rightarrow> bytes \<Rightarrow> 'w \<Rightarrow> (open_error + nat) \<times> 'w"
  SendRequest :: "string \<Rightarrow> bytes \<Rightarrow> 'w \<Rightarrow> (go_error + bool) \<times> 'w"
  ch_SendRequest :: "nat \<Rightarrow> string \<Rightarrow> bytes \<Rightarrow> 'w \<Rightarrow> (go_error + bool) \<times> 'w"
  ch_CloseWrite :: "nat \<Rightarrow> 'w \<Rightarrow> go_error option \<times> 'w"
  ch_Close :: "nat \<Rightarrow> 'w \<Rightarrow> go_error option \<times> 'w"

section \<open>Session channels\<close>

record sshChannelHandler =
  backingChannel :: nat
  started :: bool
  done_closed :: bool
  exited :: bool

definition sp_sendRequest ::
    "'w ssh_library \<Rightarrow> (payload \<Rightarrow> bytes) \<Rightarrow> string \<Rightarrow> payload option \<Rightarrow> sshChannelHandler \<times> 'w \<Rightarrow>
     go_error option \<times> sshChannelHandler \<times> 'w" where
  "sp_sendRequest lib mar name p hw =
     (let (h, w) = hw
      in case ch_SendRequest lib (backingChannel h) name (case p of None \<Rightarrow> [] | Some p \<Rightarrow> mar p) w of
           (Inl err, w) \<Rightarrow>
             (Some (WrapUser err ''SSHPROXY_BACKEND_REQUEST_FAILED'' ''Cannot complete request.''
                (''Sending a '' @ name @ '' request to the backend resulted in an error.'')), h, w)
         | (Inr success, w) \<Rightarrow>
             (if success then None
              else Some (UserMessage ''SSHPROXY_BACKEND_REQUEST_FAILED'' ''Cannot complete request.''
                     (''Sending a '' @ name @ '' request resulted in a rejection from the backend.'')), h, w))"

definition already_started :: "string \<Rightarrow> string \<Rightarrow> go_error" where
  "already_started user explanation = UserMessage ''SSHPROXY_PROGRAM_ALREADY_STARTED'' user explanation"

definition second_program :: go_error where
  "second_program = already_started ''Cannot start a program after another program has started.''
     ''Client tried start a second program after the program was already started.''"

definition sp_streamStdio :: "sshChannelHandler \<times> 'w \<Rightarrow> go_error option \<times> sshChannelHandler \<times> 'w" where
  "sp_streamStdio hw =
     (let (h, w) = hw
      in if started h
         then (Some (already_started ''Cannot start new program after program has started.''
                 ''Client tried to start a program after the program was already started.''), h, w)
         else (None, h\<lparr>started := True\<rparr>, w))"

definition sp_OnEnvRequest where
  "sp_OnEnvRequest lib mar name val hw =
     (if started (fst hw)
      then (Some (already_started ''Cannot set environment variable after program has started.''
              ''Client tried to set environment variables after the program was already started.''), hw)
      else sp_sendRequest lib mar ''env'' (Some (EnvRequestPayload name val)) hw)"

definition sp_OnPtyRequest where
  "sp_OnPtyRequest lib mar trm columns rows width height modeList hw =
     (if started (fst hw)
      then (Some (already_started ''Cannot request PTY after program has started.''
              ''Client tried request PTY after the program was already started.''), hw)
      else sp_sendRequest lib mar ''pty-req'' (Some (PtyRequestPayload trm columns rows width height modeList)) hw)"

definition sp_OnExecRequest where
  "sp_OnExecRequest lib mar program hw =
     (if started (fst hw) then (Some second_program, hw)
      else case sp_sendRequest lib mar ''exec'' (Some (ExecRequestPayload program)) hw of
             (Some err, hw) \<Rightarrow> (Some err, hw)
           | (None, hw) \<Rightarrow> sp_streamStdio hw)"

definition sp_OnShell where
  "sp_OnShell lib mar hw =
     (if started (fst hw) then (Some second_program, hw)
      else case sp_sendRequest lib mar ''shell'' None hw of
             (Some err, hw) \<Rightarrow> (Some err, hw)
           | (None, hw) \<Rightarrow> sp_streamStdio hw)"

definition sp_OnSubsystem where
  "sp_OnSubsystem lib mar subsystem hw =
     (if started (fst hw) then (Some second_program, hw)
      else case sp_sendRequest lib mar ''subsystem'' (Some (SubsystemRequestPayload subsystem)) hw of
             (Some err, hw) \<Rightarrow> (Some err, hw)
           | (None, hw) \<Rightarrow> sp_streamStdio hw)"

definition sp_OnSignal where
  "sp_OnSignal lib mar sig hw =
     (if \<not> started (fst hw)
      then (Some (UserMessage ''SSHPROXY_PROGRAM_NOT_STARTED'' ''Cannot signal before program has started.''
              ''Client tried send a signal before the program was started.''), hw)
      else sp_sendRequest lib mar ''signal'' (Some (SignalRequestPayload sig)) hw)"

definition sp_OnWindow where
  "sp_OnWindow lib mar columns rows width height hw =
     (if \<not> started (fst hw)
      then (Some (UserMessage ''SSHPROXY_PROGRAM_NOT_STARTED'' ''Cannot resize window before program has started.''
              ''Client tried request a window change before the program was started.''), hw)
      else apfst (map_option (\<lambda>err. WrapUser err ''SSHPROXY_BACKEND_WINDOW_CHANGE_FAILED'' ''Cannot change window size.''
               ''ContainerSSH cannot change the window size because of an error on the backend connection.''))
             (sp_sendRequest lib mar ''window-change'' (Some (WindowRequestPayload columns rows width height)) hw))"

definition sp_OnX11Request where
  "sp_OnX11Request lib mar singleConnection protocol cookie screen hw =
     apfst (map_option (\<lambda>err. WrapUser err ''SSHPROXY_X11_FAILED'' ''Error requesting X11 forwarding''
              ''ContainerSSH cannot enable X11 forwarding because of an error on the backend connection''))
       (sp_sendRequest lib mar ''x11-req'' (Some (X11RequestPayload singleConnection protocol cookie screen)) hw)"

text \<open>What is left to do of \<open>OnClose\<close> is to count the session as finished.\<close>

definition sp_OnClose_channel :: "'w ssh_library \<Rightarrow> sshChannelHandler \<times> 'w \<Rightarrow> (sshChannelHandler \<times> 'w) go" where
  "sp_OnClose_channel lib hw =
     (let (h, w) = hw;
          w = (if \<not> started h then snd (ch_Close lib (backingChannel h) w) else w);
          w = snd (ch_Close lib (backingChannel h) w)
      in if done_closed h then Panic ''close of closed channel''
         else Ret (h\<lparr>done_closed := True, exited := True\<rparr>, w))"

text \<open>\<open>expired\<close> says that the time of the shut-down is over before the client closes the session.\<close>

definition sp_OnShutdown where
  "sp_OnShutdown lib mar expired hw =
     (let (_, h, w) = sp_sendRequest lib mar ''signal'' (Some (SignalRequestPayload ''TERM'')) hw
      in if done_closed h \<or> \<not> expired \<or> exited h then (h, w)
         else case sp_sendRequest lib mar ''signal'' (Some (SignalRequestPayload ''KILL'')) (h, w) of
                (Some _, h, w) \<Rightarrow> (h, snd (ch_Close lib (backingChannel h) w))
              | (None, h, w) \<Rightarrow> (h, w))"

section \<open>What the backing server says on a channel\<close>

record exit_unmarshaler =
  um_ExitStatus :: "bytes \<Rightarrow> go_error + uint32"
  um_ExitSignal :: "bytes \<Rightarrow> go_error + string \<times> bool \<times> string \<times> string"

definition reply_if :: "ssh_request \<Rightarrow> bool \<Rightarrow> string \<Rightarrow> server_event list" where
  "reply_if request ok text = (if req_WantReply request then [Reply ok text] else [])"

definition handleExitStatusFromBackend ::
    "exit_unmarshaler \<Rightarrow> ssh_request \<Rightarrow> channel_wrapper \<Rightarrow> (server_event list \<times> channel_wrapper) go" where
  "handleExitStatusFromBackend um request session =
     (case um_ExitStatus um (req_Payload request) of
        Inl err \<Rightarrow> Ret (reply_if request False ''Failed to decode message.'', session)
      | Inr status \<Rightarrow> go_bind (ExitStatus status session) (\<lambda>session. Ret (reply_if request True '''', session)))"

definition handleExitSignalFromBackend ::
    "exit_unmarshaler \<Rightarrow> ssh_request \<Rightarrow> channel_wrapper \<Rightarrow> (server_event list \<times> channel_wrapper) go" where
  "handleExitSignalFromBackend um request session =
     (case um_ExitSignal um (req_Payload request) of
        Inl err \<Rightarrow> Ret (reply_if request False '''', session)
      | Inr (sig, coreDumped, errorMessage, languageTag) \<Rightarrow>
          go_bind (ExitSignal sig coreDumped errorMessage languageTag session) (\<lambda>session. Ret (reply_if request True '''', session)))"

text \<open>The loop over the requests of the backing server. It ends when the backing server closes the channel (\<open>ended\<close>), or when the
  client has closed the session.\<close>

fun handleBackendClientRequests ::
    "exit_unmarshaler \<Rightarrow> ssh_request list \<Rightarrow> bool \<Rightarrow> channel_wrapper \<Rightarrow> (server_event list \<times> channel_wrapper) go" where
  "handleBackendClientRequests um [] ended session =
     (if ended then go_bind (Close_wrapper session) (\<lambda>session. Ret ([], session)) else Ret ([], session))"
| "handleBackendClientRequests um (request # requests) ended session =
     go_bind (if req_Type request = ''exit-status'' then handleExitStatusFromBackend um request session
              else if req_Type request = ''exit-signal'' then handleExitSignalFromBackend um request session
              else Ret (reply_if request False '''', session)) (\<lambda>(evs, session).
       go_bind (handleBackendClientRequests um requests ended session) (\<lambda>(evs', session). Ret (evs @ evs', session)))"

section \<open>The connection\<close>

record 'w proxy_conn =
  pc_wg :: int
  pc_lock :: bool
  pc_done :: bool
  pc_disconnected :: bool
  pc_tcpConn :: "bool option"
  pc_reverseHandler :: "reverse_forward option"
  pc_sessions :: "(uint64 \<times> sshChannelHandler) list"
  pc_metrics :: collector
  pc_backing :: 'w

definition wg_Done :: "'w proxy_conn \<Rightarrow> 'w proxy_conn go" where
  "wg_Done c = (if pc_wg c \<le> 0 then Panic ''sync: negative WaitGroup counter'' else Ret (c\<lparr>pc_wg := pc_wg c - 1\<rparr>))"

text \<open>An operation of a session on the state of the connection; \<open>r\<close> stands for the result of one that does not return.\<close>

definition at_session ::
    "'r \<Rightarrow> uint64 \<Rightarrow> (sshChannelHandler \<times> 'w \<Rightarrow> ('r \<times> sshChannelHandler \<times> 'w) go) \<Rightarrow> 'w proxy_conn \<Rightarrow> ('r \<times> 'w proxy_conn) go" where
  "at_session r ch f c =
     (case map_of (pc_sessions c) ch of
        None \<Rightarrow> Panic ''nil pointer dereference''
      | Some h \<Rightarrow>
          go_bind (f (h, pc_backing c)) (\<lambda>(r, h, w).
            Ret (r, c\<lparr>pc_sessions := AList.update ch h (pc_sessions c), pc_backing := w\<rparr>)))"

definition in_session ::
    "uint64 \<Rightarrow> (sshChannelHandler \<times> 'w \<Rightarrow> go_error option \<times> sshChannelHandler \<times> 'w) \<Rightarrow> 'w proxy_conn go \<Rightarrow>
     go_error option \<times> 'w proxy_conn go" where
  "in_session ch f = on_conn None (at_session None ch (\<lambda>hw. Ret (f hw)))"

definition sp_OnClose :: "'w ssh_library \<Rightarrow> uint64 \<Rightarrow> 'w proxy_conn \<Rightarrow> 'w proxy_conn go" where
  "sp_OnClose lib ch c =
     go_bind (at_session () ch (\<lambda>hw. go_bind (sp_OnClose_channel lib hw) (\<lambda>hw. Ret ((), hw))) c) (\<lambda>(_, c). wg_Done c)"

definition proxy_session ::
    "'w ssh_library \<Rightarrow> (payload \<Rightarrow> bytes) \<Rightarrow> bool \<Rightarrow> uint64 \<Rightarrow> 'w proxy_conn go session_channel_handler" where
  "proxy_session lib mar expired ch = \<lparr>
     OnUnsupportedChannelRequest = (\<lambda>_ _ _ g. g),
     OnFailedDecodeChannelRequest = (\<lambda>_ _ _ _ g. g),
     OnEnvRequest = (\<lambda>_ n v. in_session ch (sp_OnEnvRequest lib mar n v)),
     OnPtyRequest = (\<lambda>_ t c rw w ht m. in_session ch (sp_OnPtyRequest lib mar t c rw w ht m)),
     OnX11Request = (\<lambda>_ sc pr ck scr _. in_session ch (sp_OnX11Request lib mar sc pr ck scr)),
     OnExecRequest = (\<lambda>_ p. in_session ch (sp_OnExecRequest lib mar p)),
     OnShell = (\<lambda>_. in_session ch (sp_OnShell lib mar)),
     OnSubsystem = (\<lambda>_ n. in_session ch (sp_OnSubsystem lib mar n)),
     OnSignal = (\<lambda>_ n. in_session ch (sp_OnSignal lib mar n)),
     OnWindow = (\<lambda>_ c rw w ht. in_session ch (sp_OnWindow lib mar c rw w ht)),
     OnClose = (\<lambda>g. go_bind g (sp_OnClose lib ch)),
     OnShutdown = (\<lambda>g. snd (in_session ch (\<lambda>hw. (None, sp_OnShutdown lib mar expired hw)) g))\<rparr>"

definition rejected_by_backend :: "string \<Rightarrow> open_error \<Rightarrow> ChannelRejection" where
  "rejected_by_backend code err =
     (case err of
        OpenChannelError reason text \<Rightarrow> NewChannelRejection reason code text (''Backend rejected channel with message: '' @ text)
      | OtherError e \<Rightarrow>
          NewChannelRejection ConnectionFailed code ''Cannot open session.''
            (''Backend rejected channel with message: '' @ error_text e))"

text \<open>The lock of the network handler is taken first; \<open>OnDisconnect\<close> holds it while it waits.\<close>

definition sp_OnSessionChannel ::
    "'w ssh_library \<Rightarrow> (payload \<Rightarrow> bytes) \<Rightarrow> bool \<Rightarrow> ChannelMetadata \<Rightarrow> bytes \<Rightarrow> 'w proxy_conn \<Rightarrow>
     ((ChannelRejection + 'w proxy_conn go session_channel_handler) \<times> 'w proxy_conn) go" where
  "sp_OnSessionChannel lib mar expired meta extraData c =
     (if pc_lock c then Block
      else if pc_done c
      then Ret (Inl (NewChannelRejection ConnectionFailed ''SSHPROXY_SHUTTING_DOWN'' ''Cannot open session.''
                  ''Rejected new session because connection is closing.''), c)
      else let c = c\<lparr>pc_wg := pc_wg c + 1\<rparr>
           in case OpenChannel lib ''session'' extraData (pc_backing c) of
                (Inl err, w) \<Rightarrow>
                  go_bind (wg_Done (c\<lparr>pc_backing := w\<rparr>)) (\<lambda>c.
                    Ret (Inl (rejected_by_backend ''SSHPROXY_BACKEND_SESSION_FAILED'' err), c))
              | (Inr channel, w) \<Rightarrow>
                  Ret (Inr (proxy_session lib mar expired (ChannelID meta)),
                    c\<lparr>pc_sessions := AList.update (ChannelID meta)
                         \<lparr>backingChannel = channel, started = False, done_closed = False, exited = False\<rparr> (pc_sessions c),
                      pc_backing := w\<rparr>))"

text \<open>The channel to the backing server is handed to the client as it is.\<close>

definition sp_OnTCPForwardChannel ::
    "'w ssh_library \<Rightarrow> (ForwardTCPChannelOpenPayload \<Rightarrow> bytes) \<Rightarrow> string \<Rightarrow> uint32 \<Rightarrow> string \<Rightarrow> uint32 \<Rightarrow> 'w proxy_conn \<Rightarrow>
     ((ChannelRejection + forward_channel) \<times> 'w proxy_conn) go" where
  "sp_OnTCPForwardChannel lib mar host port ohost oport c =
     (if pc_lock c then Block
      else if pc_done c
      then Ret (Inl (NewChannelRejection ConnectionFailed ''SSHPROXY_SHUTTING_DOWN'' ''Cannot open forward.''
                  ''Rejected new forwarding because connection is closing.''), c)
      else let c = c\<lparr>pc_wg := pc_wg c + 1\<rparr>;
               p = \<lparr>ConnectedAddress = host, ConnectedPort = port, OriginatorAddress = ohost, OriginatorPort = oport\<rparr>
           in case OpenChannel lib ''direct-tcpip'' (mar p) (pc_backing c) of
                (Inl err, w) \<Rightarrow> Ret (Inl (rejected_by_backend ''SSHPROXY_BACKEND_FORWARD_FAILED'' err), c\<lparr>pc_backing := w\<rparr>)
              | (Inr channel, w) \<Rightarrow> Ret (Inr (SSHChannel (of_nat channel)), c\<lparr>pc_backing := w\<rparr>))"

definition sp_OnDirectStreamLocal ::
    "'w ssh_library \<Rightarrow> (DirectStreamLocalChannelOpenPayload \<Rightarrow> bytes) \<Rightarrow> string \<Rightarrow> 'w proxy_conn \<Rightarrow>
     ((ChannelRejection + forward_channel) \<times> 'w proxy_conn) go" where
  "sp_OnDirectStreamLocal lib mar path c =
     (case OpenChannel lib ''direct-streamlocal@openssh.com'' (mar \<lparr>SocketPath = path, Reserved1 = '''', Reserved2 = 0\<rparr>) (pc_backing c) of
        (Inl err, w) \<Rightarrow> Ret (Inl (rejected_by_backend ''SSHPROXY_BACKEND_FORWARD_FAILED'' err), c\<lparr>pc_backing := w\<rparr>)
      | (Inr channel, w) \<Rightarrow> Ret (Inr (SSHChannel (of_nat channel)), c\<lparr>pc_backing := w\<rparr>))"

definition global_request ::
    "'w ssh_library \<Rightarrow> string \<Rightarrow> bytes \<Rightarrow> string \<Rightarrow> 'w proxy_conn \<Rightarrow> go_error option \<times> 'w proxy_conn" where
  "global_request lib name p what c =
     (case SendRequest lib name p (pc_backing c) of
        (Inl err, w) \<Rightarrow> (Some err, c\<lparr>pc_backing := w\<rparr>)
      | (Inr ok, w) \<Rightarrow>
          (if ok then None
           else Some (NewMessage ''SSHPROXY_BACKEND_REQUEST_FAILED''
                  (''Failed to request '' @ what @ '' because the backing SSH server rejected the request'')), c\<lparr>pc_backing := w\<rparr>))"

text \<open>The handler of the first accepted request is kept, and used for all channels the backing server opens.\<close>

definition keep_reverse :: "reverse_forward \<Rightarrow> go_error option \<times> 'w proxy_conn \<Rightarrow> go_error option \<times> 'w proxy_conn" where
  "keep_reverse rf ec =
     (case ec of
        (None, c) \<Rightarrow> (None, if pc_reverseHandler c = None then c\<lparr>pc_reverseHandler := Some rf\<rparr> else c)
      | (Some err, c) \<Rightarrow> (Some err, c))"

definition sp_OnRequestTCPReverseForward where
  "sp_OnRequestTCPReverseForward lib mar bindHost bindPort rf c =
     keep_reverse rf (global_request lib ''tcpip-forward'' (mar (ForwardTCPIPRequestPayload bindHost bindPort)) ''forwarding'' c)"

definition sp_OnRequestCancelTCPReverseForward where
  "sp_OnRequestCancelTCPReverseForward lib mar bindHost bindPort c =
     global_request lib ''cancel-tcpip-forward'' (mar (ForwardTCPIPRequestPayload bindHost bindPort)) ''forwarding cancellation'' c"

definition sp_OnRequestStreamLocal where
  "sp_OnRequestStreamLocal lib mar path rf c =
     keep_reverse rf (global_request lib ''streamlocal-forward@openssh.com'' (mar (StreamLocalForwardRequestPayload path)) ''streamlocal'' c)"

definition sp_OnRequestCancelStreamLocal where
  "sp_OnRequestCancelStreamLocal lib mar path c =
     global_request lib ''cancel-streamlocal-forward@openssh.com'' (mar (StreamLocalForwardRequestPayload path)) ''streamlocal cancellation'' c"

record marshaler =
  mar_Request :: "payload \<Rightarrow> bytes"
  mar_Forward :: "ForwardTCPChannelOpenPayload \<Rightarrow> bytes"
  mar_Direct :: "DirectStreamLocalChannelOpenPayload \<Rightarrow> bytes"

definition proxy_connection :: "'w ssh_library \<Rightarrow> marshaler \<Rightarrow> bool \<Rightarrow> 'w proxy_conn go ssh_connection_handler" where
  "proxy_connection lib mar expired = \<lparr>
     OnUnsupportedGlobalRequest = (\<lambda>_ _ _ g. g),
     OnFailedDecodeGlobalRequest = (\<lambda>_ _ _ _ g. g),
     OnUnsupportedChannel = (\<lambda>_ _ _ g. g),
     OnSessionChannel = (\<lambda>meta extraData _.
       on_conn (Inr AbstractSessionChannelHandler) (sp_OnSessionChannel lib (mar_Request mar) expired meta extraData)),
     OnTCPForwardChannel = (\<lambda>_ ht p oht op.
       on_conn (Inr (SSHChannel 0)) (sp_OnTCPForwardChannel lib (mar_Forward mar) ht p oht op)),
     OnRequestTCPReverseForward = (\<lambda>ht p rf. on_conn None (Ret \<circ> sp_OnRequestTCPReverseForward lib (mar_Request mar) ht p rf)),
     OnRequestCancelTCPReverseForward = (\<lambda>ht p. on_conn None (Ret \<circ> sp_OnRequestCancelTCPReverseForward lib (mar_Request mar) ht p)),
     OnDirectStreamLocal = (\<lambda>_ path. on_conn (Inr (SSHChannel 0)) (sp_OnDirectStreamLocal lib (mar_Direct mar) path)),
     OnRequestStreamLocal = (\<lambda>path rf. on_conn None (Ret \<circ> sp_OnRequestStreamLocal lib (mar_Request mar) path rf)),
     OnRequestCancelStreamLocal = (\<lambda>path. on_conn None (Ret \<circ> sp_OnRequestCancelStreamLocal lib (mar_Request mar) path)),
     OnConnectionShutdown = (\<lambda>g. g)\<rparr>"

section \<open>Connecting to the backing server\<close>

definition HostKeyCallback :: "'w ssh_library \<Rightarrow> SSHProxyConfig \<Rightarrow> bytes \<Rightarrow> go_error option" where
  "HostKeyCallback lib config key =
     (if FingerprintSHA256 lib key \<in> set (px_AllowedHostKeyFingerprints config) then None
      else Some (UserMessage ''SSHPROXY_INVALID_FINGERPRINT'' ''SSH service currently unavailable''
             (''invalid host key fingerprint: '' @ FingerprintSHA256 lib key)))"

definition createClientConfig :: "'w ssh_library \<Rightarrow> SSHProxyConfig \<Rightarrow> string option \<Rightarrow> string \<Rightarrow> ssh_ClientConfig" where
  "createClientConfig lib config privateKey username = \<lparr>
     scc_KeyExchanges = px_KexAlgorithms config,
     scc_Ciphers = px_Ciphers config,
     scc_MACs = px_MACs config,
     scc_User = (if px_UsernamePassThrough config then username else px_Username config),
     scc_Auth = PasswordMethod (px_Password config) # (case privateKey of None \<Rightarrow> [] | Some key \<Rightarrow> [PublicKeysMethod key]),
     scc_HostKeyCallback = HostKeyCallback lib config,
     scc_ClientVersion = px_ClientVersion config,
     scc_HostKeyAlgorithms = px_HostKeyAlgorithms config\<rparr>"

text \<open>The counters of the backend, with its name as a label.\<close>

definition backend_counter :: "string \<Rightarrow> labels \<Rightarrow> collector \<Rightarrow> collector" where
  "backend_counter name labels c = snd (counter_IncrementBy name [(''backend'', ''sshproxy'')] 1 labels c)"

definition count_proxy_failure :: "string \<Rightarrow> collector \<Rightarrow> collector" where
  "count_proxy_failure what = backend_counter ''containerssh_backend_errors_total'' [(''failure'', what)]"

text \<open>One attempt to connect: its error, and whether the time is over when the wait after it ends.\<close>

fun createBackendTCPConnection :: "(go_error option \<times> bool) list \<Rightarrow> collector \<Rightarrow> (go_error option \<times> collector) go" where
  "createBackendTCPConnection [] c = Block"
| "createBackendTCPConnection ((lastError, expired) # dials) c =
     (case lastError of
        None \<Rightarrow> Ret (None, c)
      | Some err \<Rightarrow>
          let c = count_proxy_failure ''tcp'' c
          in if expired
             then Ret (Some (WrapUser err ''SSHPROXY_BACKEND_FAILED'' ''service currently unavailable''
                         ''connection to SSH backend failed, giving up''), c)
             else createBackendTCPConnection dials c)"

definition createBackendSSHConnection ::
    "'w ssh_library \<Rightarrow> SSHProxyConfig \<Rightarrow> string option \<Rightarrow> (go_error option \<times> bool) list \<Rightarrow> string \<Rightarrow> 'w proxy_conn \<Rightarrow>
     (go_error option \<times> 'w proxy_conn) go" where
  "createBackendSSHConnection lib config privateKey dials username c =
     go_bind (createBackendTCPConnection dials (backend_counter ''containerssh_backend_requests_total'' [] (pc_metrics c))) (\<lambda>(err, m).
       let c = c\<lparr>pc_metrics := m\<rparr>
       in case err of
            Some e \<Rightarrow> Ret (Some e, c)
          | None \<Rightarrow>
              let c = c\<lparr>pc_tcpConn := Some True\<rparr>
              in case NewClientConn lib (createClientConfig lib config privateKey username) (pc_backing c) of
                   (Some e, w) \<Rightarrow>
                     Ret (Some (WrapUser e ''SSHPROXY_BACKEND_HANDSHAKE_FAILED'' ''SSH service is currently unavailable.''
                            ''Failed to authenticate with the backend.''),
                       c\<lparr>pc_backing := w, pc_metrics := count_proxy_failure ''handshake'' (pc_metrics c)\<rparr>)
                 | (None, w) \<Rightarrow> Ret (None, c\<lparr>pc_backing := w\<rparr>))"

definition sp_OnHandshakeSuccess ::
    "'w ssh_library \<Rightarrow> marshaler \<Rightarrow> bool \<Rightarrow> SSHProxyConfig \<Rightarrow> string option \<Rightarrow> (go_error option \<times> bool) list \<Rightarrow>
     ConnectionAuthenticatedMetadata \<Rightarrow> 'w proxy_conn \<Rightarrow> ((go_error + 'w proxy_conn go ssh_connection_handler) \<times> 'w proxy_conn) go" where
  "sp_OnHandshakeSuccess lib mar expired config privateKey dials meta c =
     (if pc_lock c then Block
      else if pc_disconnected c
      then Ret (Inl (NewMessage ''SSHPROXY_DISCONNECTED''
                  ''could not connect to backend because the user already disconnected''), c)
      else go_bind (createBackendSSHConnection lib config privateKey dials (Username meta) c) (\<lambda>(err, c).
             case err of
               Some e \<Rightarrow> Ret (Inl e, c)
             | None \<Rightarrow> Ret (Inr (proxy_connection lib mar expired), c)))"

text \<open>\<open>OnDisconnect\<close> takes the lock, waits for the sessions and closes the connection. Between its two halves other operations go
  on, the lock is held.\<close>

definition sp_OnDisconnect_lock :: "'w proxy_conn \<Rightarrow> 'w proxy_conn go" where
  "sp_OnDisconnect_lock c = (if pc_lock c then Block else Ret (c\<lparr>pc_lock := True\<rparr>))"

definition sp_OnDisconnect_waited :: "'w proxy_conn \<Rightarrow> 'w proxy_conn go" where
  "sp_OnDisconnect_waited c =
     (if pc_wg c \<noteq> 0 then Block
      else Ret (c\<lparr>pc_done := True, pc_disconnected := True, pc_tcpConn := map_option (\<lambda>_. False) (pc_tcpConn c), pc_lock := False\<rparr>))"

definition no_proxy_auth :: "ConnectionAuthPendingMetadata \<Rightarrow> auth_result" where
  "no_proxy_auth meta = (AuthResponseUnavailable, AuthFailed meta, Some (ErrorString ''ssh proxy does not support authentication''))"

definition new_proxy_conn :: "collector \<Rightarrow> 'w \<Rightarrow> 'w proxy_conn" where
  "new_proxy_conn m w = \<lparr>pc_wg = 0, pc_lock = False, pc_done = False, pc_disconnected = False, pc_tcpConn = None,
     pc_reverseHandler = None, pc_sessions = [], pc_metrics = m, pc_backing = w\<rparr>"

definition sp_New :: "platform \<Rightarrow> SSHProxyConfig \<Rightarrow> collector \<Rightarrow> 'w \<Rightarrow> (go_error + string option \<times> 'w proxy_conn) go" where
  "sp_New p config m w =
     (case Validate_SSHProxy config of
        Some err \<Rightarrow> Ret (Inl err)
      | None \<Rightarrow>
          go_bind (LoadPrivateKey p config) (\<lambda>r. case r of
              Inl err \<Rightarrow> Ret (Inl err)
            | Inr privateKey \<Rightarrow> Ret (Inr (privateKey, new_proxy_conn m w))))"

section \<open>Channels the backing server opens\<close>

text \<open>The interface \<open>ReverseForward\<close>, over the state \<open>'s\<close> of what is behind it.\<close>

record 's ReverseForward =
  rv_NewChannelTCP :: "reverse_forward \<Rightarrow> string \<Rightarrow> uint32 \<Rightarrow> string \<Rightarrow> uint32 \<Rightarrow> 's \<Rightarrow> ((go_error + forward_channel \<times> uint64) \<times> 's) go"
  rv_NewChannelUnix :: "reverse_forward \<Rightarrow> string \<Rightarrow> 's \<Rightarrow> ((go_error + forward_channel \<times> uint64) \<times> 's) go"
  rv_NewChannelX11 :: "reverse_forward \<Rightarrow> string \<Rightarrow> uint32 \<Rightarrow> 's \<Rightarrow> ((go_error + forward_channel \<times> uint64) \<times> 's) go"

text \<open>What \<open>ssh.Unmarshal\<close> leaves in the payload, also when it returns an error, which is only logged.\<close>

record open_unmarshaler =
  uo_Forward :: "bytes \<Rightarrow> ForwardTCPChannelOpenPayload"
  uo_StreamLocal :: "bytes \<Rightarrow> string"
  uo_X11 :: "bytes \<Rightarrow> string \<times> uint32"

text \<open>A channel the backing server opens is connected with one to the client. The errors of opening and accepting are only
  logged: the copying goroutines then work on a channel that is \<open>nil\<close>, and the process ends with a panic, as it does when
  there is no handler.\<close>

definition connect_channels ::
    "(reverse_forward \<Rightarrow> 's \<Rightarrow> ((go_error + forward_channel \<times> uint64) \<times> 's) go) \<Rightarrow> go_error option \<Rightarrow> reverse_forward option \<Rightarrow> 's \<Rightarrow>
     (server_event list \<times> 's) go" where
  "connect_channels new_channel accept_err reverseHandler s =
     (case reverseHandler of
        None \<Rightarrow> Panic ''nil pointer dereference''
      | Some rf \<Rightarrow>
          go_bind (new_channel rf s) (\<lambda>(r, s). case r of
              Inl err \<Rightarrow> Panic ''nil pointer dereference''
            | Inr (clientChannel, _) \<Rightarrow>
                if accept_err \<noteq> None then Panic ''nil pointer dereference'' else Ret ([Accepted, Serve clientChannel], s)))"

definition handleReverseForwardChannel where
  "handleReverseForwardChannel rv uo extraData =
     (let p = uo_Forward uo extraData
      in connect_channels (\<lambda>rf. rv_NewChannelTCP rv rf (ConnectedAddress p) (ConnectedPort p) (OriginatorAddress p) (OriginatorPort p)))"

definition handleStreamLocalChannel where
  "handleStreamLocalChannel rv uo extraData = connect_channels (\<lambda>rf. rv_NewChannelUnix rv rf (uo_StreamLocal uo extraData))"

definition handleX11Channel where
  "handleX11Channel rv uo extraData =
     (let (address, port) = uo_X11 uo extraData in connect_channels (\<lambda>rf. rv_NewChannelX11 rv rf address port))"

text \<open>A channel is given by its type, its data and the error of accepting it.\<close>

fun sp_handleChannels ::
    "'s ReverseForward \<Rightarrow> open_unmarshaler \<Rightarrow> (string \<times> bytes \<times> go_error option) list \<Rightarrow> reverse_forward option \<Rightarrow> 's \<Rightarrow>
     (server_event list \<times> 's) go" where
  "sp_handleChannels rv uo [] reverseHandler s = Ret ([], s)"
| "sp_handleChannels rv uo ((channelType, extraData, accept_err) # chans) reverseHandler s =
     go_bind (if channelType = ''x11'' then handleX11Channel rv uo extraData accept_err reverseHandler s
              else if channelType = ''forwarded-streamlocal@openssh.com'' then handleStreamLocalChannel rv uo extraData accept_err reverseHandler s
              else if channelType = ''forwarded-tcpip'' then handleReverseForwardChannel rv uo extraData accept_err reverseHandler s
              else Ret ([Reject Prohibited ''Unsupported channel type''], s)) (\<lambda>(evs, s).
       go_bind (sp_handleChannels rv uo chans reverseHandler s) (\<lambda>(evs', s). Ret (evs @ evs', s)))"

text \<open>Requests of the backing server outside a session are all refused.\<close>

definition rejectAllRequests :: "ssh_request list \<Rightarrow> server_event list" where
  "rejectAllRequests requests = concat (map (\<lambda>request. reply_if request False '''') requests)"

section \<open>What the backing server is asked\<close>

text \<open>A request on a channel of the backing server, and whether it was accepted.\<close>

datatype asked = Asked (asked_channel: nat) (asked_name: string) (asked_payload: bytes) (asked_ok: bool)

definition recorded :: "'w ssh_library \<Rightarrow> (asked list \<times> 'w) ssh_library" where
  "recorded lib = \<lparr>
     FingerprintSHA256 = FingerprintSHA256 lib,
     NewClientConn = (\<lambda>cfg. on_snd (NewClientConn lib cfg)),
     OpenChannel = (\<lambda>t x. on_snd (OpenChannel lib t x)),
     SendRequest = (\<lambda>n p. on_snd (SendRequest lib n p)),
     ch_SendRequest = (\<lambda>ch name p (log, w).
       case ch_SendRequest lib ch name p w of (r, w) \<Rightarrow> (r, log @ [Asked ch name p (r = Inr True)], w)),
     ch_CloseWrite = (\<lambda>ch. on_snd (ch_CloseWrite lib ch)),
     ch_Close = (\<lambda>ch. on_snd (ch_Close lib ch))\<rparr>"

text \<open>The request a call of the client stands for, before a program runs (\<open>st\<close> is false) and after.\<close>

fun relayed :: "(payload \<Rightarrow> bytes) \<Rightarrow> bool \<Rightarrow> session_call \<Rightarrow> (string \<times> bytes) option" where
  "relayed mar st (CallEnv r n v) = (if st then None else Some (''env'', mar (EnvRequestPayload n v)))"
| "relayed mar st (CallPty r t c rw w ht m) = (if st then None else Some (''pty-req'', mar (PtyRequestPayload t c rw w ht m)))"
| "relayed mar st (CallExec r n) = (if st then None else Some (''exec'', mar (ExecRequestPayload n)))"
| "relayed mar st (CallShell r) = (if st then None else Some (''shell'', []))"
| "relayed mar st (CallSubsystem r n) = (if st then None else Some (''subsystem'', mar (SubsystemRequestPayload n)))"
| "relayed mar st (CallSignal r n) = (if st then Some (''signal'', mar (SignalRequestPayload n)) else None)"
| "relayed mar st (CallWindow r c rw w ht) = (if st then Some (''window-change'', mar (WindowRequestPayload c rw w ht)) else None)"
| "relayed mar st (CallX11 r sc pr ck scr rf) = Some (''x11-req'', mar (X11RequestPayload sc pr ck scr))"
| "relayed mar st _ = None"

fun starts :: "session_call \<Rightarrow> bool" where
  "starts (CallExec r n) = True"
| "starts (CallShell r) = True"
| "starts (CallSubsystem r n) = True"
| "starts _ = False"

text \<open>Calls without a request behind them never fail.\<close>

fun notice :: "session_call \<Rightarrow> bool" where
  "notice (CallUnsupported r t p) = True"
| "notice (CallFailedDecode r t p e) = True"
| "notice _ = False"

abbreviation client_call :: "session_call \<Rightarrow> bool" where
  "client_call c \<equiv> c \<noteq> CallClose \<and> c \<noteq> CallShutdown"

definition runs_after :: "bool \<Rightarrow> session_call \<Rightarrow> go_error option \<Rightarrow> bool" where
  "runs_after st c err \<longleftrightarrow> st \<or> starts c \<and> err = None"

text \<open>\<open>log\<close> is what the calls and their outcomes amount to on channel \<open>b\<close>.\<close>

fun relays :: "(payload \<Rightarrow> bytes) \<Rightarrow> nat \<Rightarrow> bool \<Rightarrow> (session_call \<times> go_error option) list \<Rightarrow> asked list \<Rightarrow> bool" where
  "relays mar b st [] log \<longleftrightarrow> log = []"
| "relays mar b st ((c, err) # rest) log \<longleftrightarrow>
     (case relayed mar st c of
        None \<Rightarrow> (err = None \<longleftrightarrow> notice c) \<and> relays mar b st rest log
      | Some (name, p) \<Rightarrow>
          (case log of
             [] \<Rightarrow> False
           | a # log \<Rightarrow> a = Asked b name p (err = None) \<and> relays mar b (runs_after st c err) rest log))"

definition program_request :: "asked \<Rightarrow> bool" where
  "program_request a \<longleftrightarrow> asked_name a \<in> {''exec'', ''shell'', ''subsystem''}"

lemma sp_sendRequest_recorded:
  "\<exists>err w'. sp_sendRequest (recorded lib) mar name p (h, log, w) =
     (err, h, log @ [Asked (backingChannel h) name (case p of None \<Rightarrow> [] | Some p \<Rightarrow> mar p) (err = None)], w')"
proof -
  obtain r w' where send: "ch_SendRequest lib (backingChannel h) name (case p of None \<Rightarrow> [] | Some p \<Rightarrow> mar p) w = (r, w')"
    by fastforce
  then show ?thesis by (cases r) (auto simp: sp_sendRequest_def recorded_def)
qed

text \<open>The operations of a session on its own state.\<close>

fun session_op ::
    "'w ssh_library \<Rightarrow> (payload \<Rightarrow> bytes) \<Rightarrow> session_call \<Rightarrow> sshChannelHandler \<times> 'w \<Rightarrow> go_error option \<times> sshChannelHandler \<times> 'w" where
  "session_op lib mar (CallEnv r n v) = sp_OnEnvRequest lib mar n v"
| "session_op lib mar (CallPty r t c rw w ht m) = sp_OnPtyRequest lib mar t c rw w ht m"
| "session_op lib mar (CallX11 r sc pr ck scr rf) = sp_OnX11Request lib mar sc pr ck scr"
| "session_op lib mar (CallExec r n) = sp_OnExecRequest lib mar n"
| "session_op lib mar (CallShell r) = sp_OnShell lib mar"
| "session_op lib mar (CallSubsystem r n) = sp_OnSubsystem lib mar n"
| "session_op lib mar (CallSignal r n) = sp_OnSignal lib mar n"
| "session_op lib mar (CallWindow r c rw w ht) = sp_OnWindow lib mar c rw w ht"
| "session_op lib mar c = Pair None"

lemma perform_proxy_session:
  assumes "client_call call" "map_of (pc_sessions c) ch = Some h"
  shows "perform (proxy_session lib mar expired ch) call (Ret c) =
     (case session_op lib mar call (h, pc_backing c) of
        (err, h', w) \<Rightarrow>
          (err, Ret (if notice call then c
                     else c\<lparr>pc_sessions := AList.update ch h' (pc_sessions c), pc_backing := w\<rparr>)))"
  using assms by (cases call) (simp_all add: proxy_session_def in_session_def on_conn_def at_session_def split: prod.splits)

lemmas session_op_defs = sp_OnEnvRequest_def sp_OnPtyRequest_def sp_OnX11Request_def sp_OnExecRequest_def sp_OnShell_def
  sp_OnSubsystem_def sp_OnSignal_def sp_OnWindow_def sp_streamStdio_def

text \<open>One call: the handler stays on its channel, what is passed on is what the specification says, and the outcome is that of
  the backing server.\<close>

lemma session_op_relays:
  assumes "client_call call"
  shows "\<exists>err w'. session_op (recorded lib) mar call (h, log, w) =
     (err, h\<lparr>started := runs_after (started h) call err\<rparr>,
      log @ (case relayed mar (started h) call of None \<Rightarrow> [] | Some (name, p) \<Rightarrow> [Asked (backingChannel h) name p (err = None)]), w')
     \<and> (relayed mar (started h) call = None \<longrightarrow> (err = None \<longleftrightarrow> notice call))"
proof -
  have sent: "\<exists>err w'. sp_sendRequest (recorded lib) mar name p (h, log, w) =
     (err, h, log @ [Asked (backingChannel h) name (case p of None \<Rightarrow> [] | Some p \<Rightarrow> mar p) (err = None)], w')" for name p
    by (rule sp_sendRequest_recorded)
  show ?thesis
  proof (cases call)
    case (CallEnv r n v)
    then show ?thesis using sent [of "''env''" "Some (EnvRequestPayload n v)"]
      by (auto simp: session_op_defs runs_after_def)
  next
    case (CallPty r t c rw wd ht m)
    then show ?thesis using sent [of "''pty-req''" "Some (PtyRequestPayload t c rw wd ht m)"]
      by (auto simp: session_op_defs runs_after_def)
  next
    case (CallX11 r sc pr ck scr rf)
    then show ?thesis using sent [of "''x11-req''" "Some (X11RequestPayload sc pr ck scr)"]
      by (auto simp: session_op_defs runs_after_def)
  next
    case (CallExec r n)
    then show ?thesis using sent [of "''exec''" "Some (ExecRequestPayload n)"]
      by (auto simp: session_op_defs runs_after_def split: option.splits)
  next
    case (CallShell r)
    then show ?thesis using sent [of "''shell''" None]
      by (auto simp: session_op_defs runs_after_def split: option.splits)
  next
    case (CallSubsystem r n)
    then show ?thesis using sent [of "''subsystem''" "Some (SubsystemRequestPayload n)"]
      by (auto simp: session_op_defs runs_after_def split: option.splits)
  next
    case (CallSignal r n)
    then show ?thesis using sent [of "''signal''" "Some (SignalRequestPayload n)"]
      by (auto simp: session_op_defs runs_after_def)
  next
    case (CallWindow r c rw wd ht)
    then show ?thesis using sent [of "''window-change''" "Some (WindowRequestPayload c rw wd ht)"]
      by (auto simp: session_op_defs runs_after_def)
  qed (use assms in \<open>auto simp: runs_after_def\<close>)
qed

lemma client_calls_from: "\<forall>c\<in>set (calls_from um cid r requests). client_call c"
proof (induction requests arbitrary: r)
  case (Cons request requests)
  have "call_id (request_call um cid r request) \<noteq> None" by simp
  then have "client_call (request_call um cid r request)" by (auto simp del: call_id_request_call)
  with Cons.IH show ?case by simp
qed simp

lemma outcomes_proxy_session:
  assumes "\<forall>call\<in>set calls. client_call call" "map_of (pc_sessions c) ch = Some h" "pc_backing c = (log, w)"
  shows "\<exists>errs c' log' w' st. outcomes (proxy_session (recorded lib) mar expired ch) calls (Ret c) = (errs, Ret c')
     \<and> length errs = length calls \<and> relays mar (backingChannel h) (started h) (zip calls errs) log'
     \<and> pc_backing c' = (log @ log', w') \<and> c' = c\<lparr>pc_sessions := pc_sessions c', pc_backing := pc_backing c'\<rparr>
     \<and> map_of (pc_sessions c') = (map_of (pc_sessions c))(ch \<mapsto> h\<lparr>started := st\<rparr>)"
  using assms
proof (induction calls arbitrary: c h log w)
  case Nil
  have "map_of (pc_sessions c) = (map_of (pc_sessions c))(ch \<mapsto> h\<lparr>started := started h\<rparr>)"
    using Nil.prems(2) by (simp add: fun_upd_idem)
  then show ?case using Nil.prems(3)
    by (intro exI [of _ "[]"] exI [of _ c] exI [of _ w] exI [of _ "started h"]) simp
next
  case (Cons call calls)
  let ?h = "proxy_session (recorded lib) mar expired ch"
  obtain err w1 where op: "session_op (recorded lib) mar call (h, log, w) =
     (err, h\<lparr>started := runs_after (started h) call err\<rparr>,
      log @ (case relayed mar (started h) call of None \<Rightarrow> [] | Some (name, p) \<Rightarrow> [Asked (backingChannel h) name p (err = None)]), w1)"
    and refused: "relayed mar (started h) call = None \<longrightarrow> (err = None \<longleftrightarrow> notice call)"
    using session_op_relays [of call lib mar h log w] Cons.prems(1) by auto
  show ?case
  proof (cases "notice call")
    case True
    then have none: "relayed mar (started h) call = None" "\<not> starts call" by (cases call; simp)+
    with True refused have "perform ?h call (Ret c) = (None, Ret c)"
      using perform_proxy_session [of call c ch h "recorded lib" mar expired] Cons.prems op by simp
    moreover obtain errs c' log' w' st where
      "outcomes ?h calls (Ret c) = (errs, Ret c')" "length errs = length calls"
      "relays mar (backingChannel h) (started h) (zip calls errs) log'" "pc_backing c' = (log @ log', w')"
      "c' = c\<lparr>pc_sessions := pc_sessions c', pc_backing := pc_backing c'\<rparr>"
      "map_of (pc_sessions c') = (map_of (pc_sessions c))(ch \<mapsto> h\<lparr>started := st\<rparr>)"
      using Cons.IH [of c h log w] Cons.prems by force
    ultimately show ?thesis using none True by (intro exI [of _ "None # errs"] exI [of _ c']) auto
  next
    case False
    let ?st = "runs_after (started h) call err"
    let ?new = "case relayed mar (started h) call of None \<Rightarrow> [] | Some (name, p) \<Rightarrow> [Asked (backingChannel h) name p (err = None)]"
    let ?c = "c\<lparr>pc_sessions := AList.update ch (h\<lparr>started := ?st\<rparr>) (pc_sessions c), pc_backing := (log @ ?new, w1)\<rparr>"
    have step: "perform ?h call (Ret c) = (err, Ret ?c)"
      using perform_proxy_session [of call c ch h "recorded lib" mar expired] Cons.prems op False by simp
    have "map_of (pc_sessions ?c) ch = Some (h\<lparr>started := ?st\<rparr>)" "pc_backing ?c = (log @ ?new, w1)" "\<forall>call\<in>set calls. client_call call"
      using Cons.prems(1) by (simp_all add: update_conv')
    from Cons.IH [OF this(3,1,2)] obtain errs c' log' w' st where rest:
      "outcomes ?h calls (Ret ?c) = (errs, Ret c')" "length errs = length calls"
      "relays mar (backingChannel (h\<lparr>started := ?st\<rparr>)) (started (h\<lparr>started := ?st\<rparr>)) (zip calls errs) log'"
      "pc_backing c' = ((log @ ?new) @ log', w')"
      "c' = ?c\<lparr>pc_sessions := pc_sessions c', pc_backing := pc_backing c'\<rparr>"
      "map_of (pc_sessions c') = (map_of (pc_sessions ?c))(ch \<mapsto> h\<lparr>started := ?st\<rparr>\<lparr>started := st\<rparr>)"
      by blast
    have "relays mar (backingChannel h) (started h) (zip (call # calls) (err # errs)) (?new @ log')"
    proof (cases "relayed mar (started h) call")
      case None
      with refused False have "err \<noteq> None" by simp
      with None rest(3) False show ?thesis by (simp add: runs_after_def)
    qed (use rest(3) in auto)
    moreover have "c' = c\<lparr>pc_sessions := pc_sessions c', pc_backing := pc_backing c'\<rparr>"
      by (subst rest(5)) simp
    moreover have "map_of (pc_sessions c') = (map_of (pc_sessions c))(ch \<mapsto> h\<lparr>started := st\<rparr>)"
      using rest(6) by (simp add: update_conv')
    ultimately show ?thesis using step rest(1,2,4)
      by (intro exI [of _ "err # errs"] exI [of _ c'] exI [of _ "?new @ log'"]) auto
  qed
qed

lemma relayed_program:
  "relayed mar st c = Some (name, p) \<Longrightarrow> (name \<in> {''exec'', ''shell'', ''subsystem''} \<longleftrightarrow> starts c) \<and> (starts c \<longrightarrow> \<not> st)"
  by (cases c) (auto split: if_splits)

lemma relays_one_program:
  "relays mar b st ces log \<Longrightarrow> length (filter (\<lambda>a. program_request a \<and> asked_ok a) log) \<le> (if st then 0 else 1)"
proof (induction ces arbitrary: st log)
  case (Cons ce ces)
  obtain c err where ce: "ce = (c, err)" by fastforce
  show ?case
  proof (cases "relayed mar st c")
    case None
    then show ?thesis using Cons ce by simp
  next
    case (Some np)
    obtain name p where np: "np = (name, p)" by fastforce
    then obtain log' where log: "log = Asked b name p (err = None) # log'" "relays mar b (runs_after st c err) ces log'"
      using Cons.prems ce Some by (auto split: list.splits)
    have "program_request (Asked b name p (err = None)) \<longleftrightarrow> starts c" "starts c \<longrightarrow> \<not> st"
      using relayed_program [of mar st c name p] Some np by (simp_all add: program_request_def)
    with Cons.IH [OF log(2)] log(1) show ?thesis by (auto simp: runs_after_def split: if_splits)
  qed
qed simp

text \<open>C22: The proxy relays a session as it is. Whatever requests a client sends on a session channel, the channel is served to its end.
  The requests the backing server gets on the channel behind it are those of the client, in their order and with their
  content; only signals and window changes before a program runs, and all but signals, window changes and X11 after that,
  are refused without asking. A request that is passed on succeeds for the client exactly if the backing server accepts it, and
  the backing server accepts at most one program.\<close>
theorem session_relayed:
  assumes "ConnectionID (Connection meta) \<in> conns" and "map_of (pc_sessions c) ch = Some h" and "\<not> started h"
    and "pc_backing c = (log, w)"
  shows "\<exists>errs c' log' w'.
     serve_requests um conns meta (proxy_session (recorded lib) mar expired ch) 0 requests (Ret c) = Ret (replies_from um requests errs, Ret c')
     \<and> length errs = length requests
     \<and> pc_backing c' = (log @ log', w')
     \<and> relays mar (backingChannel h) False (zip (calls_from um (ConnectionID (Connection meta)) 0 requests) errs) log'
     \<and> length (filter (\<lambda>a. program_request a \<and> asked_ok a) log') \<le> 1"
proof -
  let ?calls = "calls_from um (ConnectionID (Connection meta)) 0 requests"
  obtain errs c' log' w' where run: "outcomes (proxy_session (recorded lib) mar expired ch) ?calls (Ret c) = (errs, Ret c')"
    "length errs = length ?calls" "relays mar (backingChannel h) (started h) (zip ?calls errs) log'"
    "pc_backing c' = (log @ log', w')"
    using outcomes_proxy_session [of ?calls c ch h log w lib mar expired, OF client_calls_from assms(2,4)] by blast
  then have "length (filter (\<lambda>a. program_request a \<and> asked_ok a) log') \<le> 1"
    using relays_one_program [OF run(3)] assms(3) by simp
  with run assms(3) show ?thesis
    by (intro exI [of _ errs] exI [of _ c'] exI [of _ log'] exI [of _ w'])
      (simp add: serve_requests_outcomes [OF assms(1)])
qed

text \<open>A backing server that accepts everything.\<close>

definition sample_lib :: "unit ssh_library" where
  "sample_lib = \<lparr>FingerprintSHA256 = (\<lambda>_. ''SHA256:abc''), NewClientConn = (\<lambda>cfg w. (scc_HostKeyCallback cfg [], w)),
     OpenChannel = (\<lambda>_ _ w. (Inr 0, w)), SendRequest = (\<lambda>_ _ w. (Inr True, w)), ch_SendRequest = (\<lambda>_ _ _ w. (Inr True, w)),
     ch_CloseWrite = (\<lambda>_ w. (None, w)), ch_Close = (\<lambda>_ w. (None, w))\<rparr>"

definition sample_handler :: sshChannelHandler where
  "sample_handler = \<lparr>backingChannel = 7, started = False, done_closed = False, exited = False\<rparr>"

definition sample_mar :: "payload \<Rightarrow> bytes" where
  "sample_mar p = (case p of ExecRequestPayload program \<Rightarrow> map of_char program | _ \<Rightarrow> [])"

definition sample_proxy :: "(asked list \<times> unit) proxy_conn" where
  "sample_proxy = (new_proxy_conn new_collector ([], ()))\<lparr>pc_wg := 1, pc_tcpConn := Some True, pc_sessions := [(3, sample_handler)]\<rparr>"

theorem session_relayed_witness:
  "\<exists>errs c' w'.
     serve_requests sample_um {''c1''} sample_meta (proxy_session (recorded sample_lib) sample_mar False 3) 0 sample_requests (Ret sample_proxy) =
       Ret (replies_from sample_um sample_requests errs, Ret c')
     \<and> pc_backing c' = ([Asked 7 ''env'' [] (errs ! 0 = None), Asked 7 ''x11-req'' [] (errs ! 1 = None),
                         Asked 7 ''exec'' [of_char CHR ''l'', of_char CHR ''s''] (errs ! 2 = None)], w')"
proof -
  have "ConnectionID (Connection sample_meta) \<in> {''c1''}" by simp
  moreover have "map_of (pc_sessions sample_proxy) 3 = Some sample_handler" "\<not> started sample_handler" "pc_backing sample_proxy = ([], ())"
    by (simp_all add: sample_proxy_def sample_handler_def new_proxy_conn_def)
  ultimately obtain errs c' log' w' where run:
    "serve_requests sample_um {''c1''} sample_meta (proxy_session (recorded sample_lib) sample_mar False 3) 0 sample_requests (Ret sample_proxy) =
       Ret (replies_from sample_um sample_requests errs, Ret c')"
    "length errs = length sample_requests" "pc_backing c' = ([] @ log', w')"
    "relays sample_mar (backingChannel sample_handler) False
       (zip (calls_from sample_um (ConnectionID (Connection sample_meta)) 0 sample_requests) errs) log'"
    using session_relayed [of sample_meta "{''c1''}" sample_proxy 3 sample_handler "[]" "()"] by blast
  from run(2) obtain e0 e1 e2 where errs: "errs = [e0, e1, e2]"
    by (auto simp: sample_requests_def length_Suc_conv)
  have "log' = [Asked 7 ''env'' [] (e0 = None), Asked 7 ''x11-req'' [] (e1 = None),
                Asked 7 ''exec'' [of_char CHR ''l'', of_char CHR ''s''] (e2 = None)]"
    using run(4) unfolding errs
    by (simp add: sample_requests_def request_call_def unmarshalChannelRequestPayload_def unmarshal_defs sample_um_def sample_handler_def
        sample_mar_def runs_after_def split: list.splits)
  with run errs show ?thesis by auto
qed

section \<open>The life of a connection\<close>

text \<open>What happens on a connection, in the order in which it happens: its channels are opened and used, and \<open>OnDisconnect\<close> takes the
  lock and later ends its wait.\<close>

datatype proxy_event =
    PxSession ChannelMetadata bytes
  | PxCall uint64 session_call
  | PxForward string uint32 string uint32
  | PxDirect string
  | PxReverse string uint32 reverse_forward
  | PxStreamLocal string reverse_forward
  | PxDisconnect
  | PxDisconnected

fun proxy_next :: "'w ssh_library \<Rightarrow> marshaler \<Rightarrow> bool \<Rightarrow> proxy_event \<Rightarrow> 'w proxy_conn \<Rightarrow> 'w proxy_conn go" where
  "proxy_next lib mar expired (PxSession meta x) c =
     snd (OnSessionChannel (proxy_connection lib mar expired) meta x (ChannelWrapper (ChannelID meta)) (Ret c))"
| "proxy_next lib mar expired (PxCall ch call) c = snd (perform (proxy_session lib (mar_Request mar) expired ch) call (Ret c))"
| "proxy_next lib mar expired (PxForward ht p oht op) c =
     snd (OnTCPForwardChannel (proxy_connection lib mar expired) 0 ht p oht op (Ret c))"
| "proxy_next lib mar expired (PxDirect path) c = snd (OnDirectStreamLocal (proxy_connection lib mar expired) 0 path (Ret c))"
| "proxy_next lib mar expired (PxReverse ht p rf) c =
     snd (OnRequestTCPReverseForward (proxy_connection lib mar expired) ht p rf (Ret c))"
| "proxy_next lib mar expired (PxStreamLocal path rf) c =
     snd (OnRequestStreamLocal (proxy_connection lib mar expired) path rf (Ret c))"
| "proxy_next lib mar expired PxDisconnect c = sp_OnDisconnect_lock c"
| "proxy_next lib mar expired PxDisconnected c = (if pc_lock c then sp_OnDisconnect_waited c else Block)"

fun proxy_run :: "'w ssh_library \<Rightarrow> marshaler \<Rightarrow> bool \<Rightarrow> proxy_event list \<Rightarrow> 'w proxy_conn \<Rightarrow> 'w proxy_conn go" where
  "proxy_run lib mar expired [] c = Ret c"
| "proxy_run lib mar expired (e # es) c = go_bind (proxy_next lib mar expired e c) (proxy_run lib mar expired es)"

text \<open>The channels that were opened, and the number of ports the client forwarded while the connection was up.\<close>

fun opened :: "proxy_event list \<Rightarrow> uint64 list" where
  "opened [] = []"
| "opened (PxSession meta x # es) = ChannelID meta # opened es"
| "opened (_ # es) = opened es"

fun forwards :: "bool \<Rightarrow> proxy_event list \<Rightarrow> nat" where
  "forwards down [] = 0"
| "forwards down (PxForward ht p oht op # es) = (if down then 0 else 1) + forwards down es"
| "forwards down (PxDisconnected # es) = forwards True es"
| "forwards down (_ # es) = forwards down es"

abbreviation open_sessions :: "'w proxy_conn \<Rightarrow> nat" where
  "open_sessions c \<equiv> count_vals (\<lambda>h. \<not> exited h) (pc_sessions c)"

definition proxy_inv :: "nat \<Rightarrow> 'w proxy_conn \<Rightarrow> bool" where
  "proxy_inv n c \<longleftrightarrow> pc_wg c = int (open_sessions c) + int n \<and> (\<forall>ch h. map_of (pc_sessions c) ch = Some h \<longrightarrow> done_closed h = exited h)
     \<and> distinct (map fst (pc_sessions c)) \<and> (n > 0 \<longrightarrow> \<not> pc_done c) \<and> (pc_tcpConn c = Some False \<longrightarrow> pc_done c)"

lemma in_session_result:
  assumes "snd (in_session ch f (Ret c)) = Ret c'"
  obtains h r h' w where "map_of (pc_sessions c) ch = Some h" "f (h, pc_backing c) = (r, h', w)"
    "c' = c\<lparr>pc_sessions := AList.update ch h' (pc_sessions c), pc_backing := w\<rparr>"
  using assms by (auto simp: in_session_def on_conn_def at_session_def split: option.splits prod.splits)

lemma session_op_handler:
  assumes "session_op lib mar call (h, w) = (err, h', w')"
  shows "exited h' = exited h \<and> done_closed h' = done_closed h"
proof -
  have send: "fst (snd (sp_sendRequest lib mar name p (h, w))) = h" for name p w
    by (auto simp: sp_sendRequest_def split: prod.splits sum.splits)
  have "exited (fst (snd (session_op lib mar call (h, w)))) = exited h \<and>
        done_closed (fst (snd (session_op lib mar call (h, w)))) = done_closed h"
    by (cases call) (auto simp: session_op_defs send split: prod.splits option.splits dest!: arg_cong [where f = "\<lambda>x. fst (snd x)"])
  with assms show ?thesis by simp
qed

lemma keys_update: "map_of al k = Some v \<Longrightarrow> map fst (AList.update k v' al) = map fst al"
  by (simp add: update_keys image_iff) (metis map_of_eq_None_iff option.distinct(1) image_iff)

lemma proxy_inv_backing [simp]: "proxy_inv n (c\<lparr>pc_backing := w\<rparr>) = proxy_inv n c"
  by (simp add: proxy_inv_def)

lemma proxy_inv_session:
  assumes "proxy_inv n c" "map_of (pc_sessions c) ch = Some h" "exited h' = exited h" "done_closed h' = done_closed h"
  shows "proxy_inv n (c\<lparr>pc_sessions := AList.update ch h' (pc_sessions c), pc_backing := w\<rparr>)"
  using assms count_vals_update_old [OF assms(2), of "\<lambda>h. \<not> exited h" h']
  by (auto simp: proxy_inv_def update_conv' distinct_update split: if_splits)

lemma proxy_inv_call:
  assumes "proxy_inv n c" "client_call call" "snd (perform (proxy_session lib mar expired ch) call (Ret c)) = Ret c'"
  shows "proxy_inv n c' \<and> pc_done c' = pc_done c \<and> map fst (pc_sessions c') = map fst (pc_sessions c)"
proof (cases "notice call")
  case True
  with assms(3) have "c' = c" by (cases call) (simp_all add: proxy_session_def)
  with assms(1) show ?thesis by simp
next
  case False
  with assms(2) have "perform (proxy_session lib mar expired ch) call (Ret c) = in_session ch (session_op lib mar call) (Ret c)"
    by (cases call) (simp_all add: proxy_session_def)
  with assms(3) obtain h r h' w where s: "map_of (pc_sessions c) ch = Some h" "session_op lib mar call (h, pc_backing c) = (r, h', w)"
    "c' = c\<lparr>pc_sessions := AList.update ch h' (pc_sessions c), pc_backing := w\<rparr>"
    by (metis in_session_result)
  moreover have "map fst (AList.update ch h' (pc_sessions c)) = map fst (pc_sessions c)" by (rule keys_update [OF s(1)])
  ultimately show ?thesis using proxy_inv_session [OF assms(1) s(1)] session_op_handler [OF s(2)] by simp
qed

lemma proxy_inv_shutdown:
  assumes "proxy_inv n c" "snd (perform (proxy_session lib mar expired ch) CallShutdown (Ret c)) = Ret c'"
  shows "proxy_inv n c' \<and> pc_done c' = pc_done c \<and> map fst (pc_sessions c') = map fst (pc_sessions c)"
proof -
  have send: "fst (snd (sp_sendRequest lib mar name p (h, w))) = h" for name p h w
    by (auto simp: sp_sendRequest_def split: prod.splits sum.splits)
  have same: "fst (sp_OnShutdown lib mar expired (h, w)) = h" for h w
    by (auto simp: sp_OnShutdown_def split: prod.splits option.splits dest!: arg_cong [where f = "\<lambda>x. fst (snd x)"] simp: send)
  from assms(2) obtain h r h' w where s: "map_of (pc_sessions c) ch = Some h"
    "(None :: go_error option, sp_OnShutdown lib mar expired (h, pc_backing c)) = (r, h', w)"
    "c' = c\<lparr>pc_sessions := AList.update ch h' (pc_sessions c), pc_backing := w\<rparr>"
    by (auto simp: proxy_session_def elim!: in_session_result)
  then have "h' = h" using same [of h "pc_backing c"] by simp
  moreover have "map fst (AList.update ch h' (pc_sessions c)) = map fst (pc_sessions c)" by (rule keys_update [OF s(1)])
  ultimately show ?thesis using proxy_inv_session [OF assms(1) s(1), of h' w] s(3) by simp
qed

lemma proxy_inv_close:
  assumes "proxy_inv n c" "snd (perform (proxy_session lib mar expired ch) CallClose (Ret c)) = Ret c'"
  shows "proxy_inv n c' \<and> pc_done c' = pc_done c \<and> map fst (pc_sessions c') = map fst (pc_sessions c)"
proof -
  from assms(2) obtain h w where s: "map_of (pc_sessions c) ch = Some h" "\<not> done_closed h" "pc_wg c > 0"
    "c' = c\<lparr>pc_sessions := AList.update ch (h\<lparr>done_closed := True, exited := True\<rparr>) (pc_sessions c), pc_backing := w, pc_wg := pc_wg c - 1\<rparr>"
    by (auto simp: proxy_session_def sp_OnClose_def at_session_def sp_OnClose_channel_def wg_Done_def Let_def
        split: option.splits prod.splits if_splits)
  have "\<not> exited h" using assms(1) s(1,2) by (auto simp: proxy_inv_def)
  moreover have "map fst (pc_sessions c') = map fst (pc_sessions c)"
    using s(1,4) by (simp add: keys_update)
  ultimately show ?thesis
    using assms(1) s count_vals_update_old [OF s(1), of "\<lambda>h. \<not> exited h" "h\<lparr>done_closed := True, exited := True\<rparr>"]
    by (auto simp: proxy_inv_def update_conv' distinct_update split: if_splits)
qed

lemma perform_unreached:
  assumes "\<nexists>c. g = Ret c"
  shows "\<nexists>c. snd (perform (proxy_session lib mar expired ch) call g) = Ret c"
  using assms by (cases g; cases call) (simp_all add: proxy_session_def in_session_def on_conn_def)

text \<open>Every operation of a session keeps the count of the sessions right.\<close>

lemma proxy_session_keeps:
  assumes "\<forall>c. g = Ret c \<longrightarrow> proxy_inv n c"
  shows "\<forall>c. snd (perform (proxy_session lib mar expired ch) call g) = Ret c \<longrightarrow> proxy_inv n c"
proof (cases "\<exists>c. g = Ret c")
  case True
  then obtain c where c: "g = Ret c" "proxy_inv n c" using assms by blast
  then show ?thesis
    using proxy_inv_call [OF c(2), of call lib mar expired ch] proxy_inv_close [OF c(2), of lib mar expired ch]
      proxy_inv_shutdown [OF c(2), of lib mar expired ch] by metis
next
  case False
  then show ?thesis using perform_unreached by blast
qed

interpretation proxy: session_contract "proxy_session lib mar expired ch" "\<lambda>g. \<forall>c. g = Ret c \<longrightarrow> proxy_inv n c" for lib mar expired ch n
  by (rule session_contractI) (rule proxy_session_keeps)

lemma proxy_inv_new_session:
  assumes "proxy_inv n c" "ChannelID meta \<notin> fst ` set (pc_sessions c)"
    and "proxy_next lib mar expired (PxSession meta x) c = Ret c'"
  shows "proxy_inv n c' \<and> pc_done c' = pc_done c \<and> set (map fst (pc_sessions c')) \<subseteq> insert (ChannelID meta) (set (map fst (pc_sessions c)))"
proof -
  have fresh: "map_of (pc_sessions c) (ChannelID meta) = None" using assms(2) by (simp add: map_of_eq_None_iff)
  have locked: "\<not> pc_lock c" using assms(3) by (auto simp: proxy_connection_def on_conn_def sp_OnSessionChannel_def)
  show ?thesis
  proof (cases "pc_done c")
    case True
    with assms(1,3) locked show ?thesis by (auto simp: proxy_connection_def on_conn_def sp_OnSessionChannel_def)
  next
    case False
    obtain r w where chan: "OpenChannel lib ''session'' x (pc_backing c) = (r, w)" by fastforce
    show ?thesis
    proof (cases r)
      case (Inl err)
      then have "c' = c\<lparr>pc_backing := w\<rparr>"
        using assms(1,3) False locked chan
        by (auto simp: proxy_connection_def on_conn_def sp_OnSessionChannel_def wg_Done_def proxy_inv_def split: if_splits)
      with assms(1) show ?thesis by auto
    next
      case (Inr channel)
      let ?h = "\<lparr>backingChannel = channel, started = False, done_closed = False, exited = False\<rparr>"
      have "c' = c\<lparr>pc_wg := pc_wg c + 1, pc_sessions := AList.update (ChannelID meta) ?h (pc_sessions c), pc_backing := w\<rparr>"
        using assms(3) False locked chan Inr by (simp add: proxy_connection_def on_conn_def sp_OnSessionChannel_def)
      then show ?thesis
        using assms(1) count_vals_update_new [OF fresh, of "\<lambda>h. \<not> exited h" ?h]
        by (auto simp: proxy_inv_def update_conv' distinct_update update_keys split: if_splits)
    qed
  qed
qed

lemma proxy_inv_forward:
  assumes "proxy_inv n c" "proxy_next lib mar expired (PxForward ht p oht op) c = Ret c'"
  shows "proxy_inv (if pc_done c then n else Suc n) c' \<and> pc_done c' = pc_done c \<and> pc_sessions c' = pc_sessions c"
  using assms
  by (auto simp: proxy_connection_def on_conn_def sp_OnTCPForwardChannel_def Let_def proxy_inv_def split: if_splits prod.splits sum.splits)

lemma global_request_frame:
  "snd (global_request lib name p what c) = c\<lparr>pc_backing := pc_backing (snd (global_request lib name p what c))\<rparr>"
  by (simp add: global_request_def split: prod.splits sum.splits)

lemma keep_reverse_frame:
  "snd (keep_reverse rf ec) = (snd ec)\<lparr>pc_reverseHandler := pc_reverseHandler (snd (keep_reverse rf ec))\<rparr>"
  by (cases ec) (auto simp: keep_reverse_def split: option.splits)

lemma proxy_inv_global:
  assumes "proxy_next lib mar expired e c = Ret c'" and "e = PxDirect path \<or> e = PxReverse ht p rf \<or> e = PxStreamLocal path rf"
  obtains w kept where "c' = c\<lparr>pc_backing := w, pc_reverseHandler := kept\<rparr>"
  using assms(2)
proof (elim disjE)
  assume "e = PxDirect path"
  with assms(1) show thesis
    by (intro that [where w = "pc_backing c'" and kept = "pc_reverseHandler c"])
      (auto simp: proxy_connection_def on_conn_def sp_OnDirectStreamLocal_def split: prod.splits sum.splits)
next
  let ?g = "global_request lib ''tcpip-forward'' (mar_Request mar (ForwardTCPIPRequestPayload ht p)) ''forwarding'' c"
  assume "e = PxReverse ht p rf"
  with assms(1) have "c' = snd (keep_reverse rf ?g)"
    by (auto simp: proxy_connection_def on_conn_def sp_OnRequestTCPReverseForward_def split: prod.splits)
  then show thesis using keep_reverse_frame [of rf ?g] global_request_frame [of lib "''tcpip-forward''"]
    by (intro that [where w = "pc_backing (snd ?g)" and kept = "pc_reverseHandler c'"]) metis
next
  let ?g = "global_request lib ''streamlocal-forward@openssh.com'' (mar_Request mar (StreamLocalForwardRequestPayload path)) ''streamlocal'' c"
  assume "e = PxStreamLocal path rf"
  with assms(1) have "c' = snd (keep_reverse rf ?g)"
    by (auto simp: proxy_connection_def on_conn_def sp_OnRequestStreamLocal_def split: prod.splits)
  then show thesis using keep_reverse_frame [of rf ?g] global_request_frame [of lib "''streamlocal-forward@openssh.com''"]
    by (intro that [where w = "pc_backing (snd ?g)" and kept = "pc_reverseHandler c'"]) metis
qed

lemma proxy_inv_step:
  assumes "proxy_inv n c" "proxy_next lib mar expired e c = Ret c'" "set (opened [e]) \<inter> set (map fst (pc_sessions c)) = {}"
  shows "proxy_inv (n + forwards (pc_done c) [e]) c' \<and> pc_done c' = (pc_done c \<or> e = PxDisconnected)
     \<and> set (map fst (pc_sessions c')) \<subseteq> set (opened [e]) \<union> set (map fst (pc_sessions c))"
proof (cases e)
  case (PxSession meta x)
  then show ?thesis using proxy_inv_new_session [OF assms(1), of meta lib mar expired x c'] assms(2,3) by auto
next
  case (PxCall ch call)
  have "proxy_inv n c' \<and> pc_done c' = pc_done c \<and> map fst (pc_sessions c') = map fst (pc_sessions c)"
  proof (cases "client_call call")
    case True
    then show ?thesis using proxy_inv_call [OF assms(1)] assms(2) PxCall by simp
  next
    case False
    then show ?thesis using proxy_inv_shutdown [OF assms(1)] proxy_inv_close [OF assms(1)] assms(2) PxCall
      by (metis proxy_next.simps(2))
  qed
  then show ?thesis using PxCall by simp
next
  case (PxForward ht p oht op)
  then show ?thesis using proxy_inv_forward [OF assms(1), of lib mar expired ht p oht op c'] assms(2) by auto
next
  case (PxDirect path)
  then obtain w kept where "c' = c\<lparr>pc_backing := w, pc_reverseHandler := kept\<rparr>" using proxy_inv_global [OF assms(2)] by blast
  then show ?thesis using assms(1) PxDirect by (simp add: proxy_inv_def)
next
  case (PxReverse ht p rf)
  then obtain w kept where "c' = c\<lparr>pc_backing := w, pc_reverseHandler := kept\<rparr>" using proxy_inv_global [OF assms(2)] by blast
  then show ?thesis using assms(1) PxReverse by (simp add: proxy_inv_def)
next
  case (PxStreamLocal path rf)
  then obtain w kept where "c' = c\<lparr>pc_backing := w, pc_reverseHandler := kept\<rparr>" using proxy_inv_global [OF assms(2)] by blast
  then show ?thesis using assms(1) PxStreamLocal by (simp add: proxy_inv_def)
next
  case PxDisconnect
  then show ?thesis using assms(1,2) by (auto simp: sp_OnDisconnect_lock_def proxy_inv_def split: if_splits)
next
  case PxDisconnected
  then show ?thesis using assms(1,2) by (auto simp: sp_OnDisconnect_waited_def proxy_inv_def split: if_splits)
qed

lemma forwards_Cons: "forwards d (e # es) = forwards d [e] + forwards (d \<or> e = PxDisconnected) es"
  by (cases e) auto

lemma opened_Cons: "opened (e # es) = opened [e] @ opened es"
  by (cases e) auto

lemma proxy_run_inv:
  assumes "proxy_inv n c" "distinct (opened es)" "set (map fst (pc_sessions c)) \<inter> set (opened es) = {}"
    and "proxy_run lib mar expired es c = Ret c'"
  shows "proxy_inv (n + forwards (pc_done c) es) c'"
  using assms
proof (induction es arbitrary: n c)
  case (Cons e es)
  from Cons.prems(4) obtain c1 where c1: "proxy_next lib mar expired e c = Ret c1" "proxy_run lib mar expired es c1 = Ret c'"
    by (auto elim: go_bind_RetE)
  note fresh = Cons.prems(2,3) [unfolded opened_Cons [of e es]]
  have "set (opened [e]) \<inter> set (map fst (pc_sessions c)) = {}" using fresh by auto
  from proxy_inv_step [OF Cons.prems(1) c1(1) this]
  have step: "proxy_inv (n + forwards (pc_done c) [e]) c1" "pc_done c1 = (pc_done c \<or> e = PxDisconnected)"
    "set (map fst (pc_sessions c1)) \<subseteq> set (opened [e]) \<union> set (map fst (pc_sessions c))" by blast+
  have "distinct (opened es)" "set (map fst (pc_sessions c1)) \<inter> set (opened es) = {}"
    using fresh step(3) unfolding set_append distinct_append by blast+
  from Cons.IH [OF step(1) this c1(2)] step(2) show ?case by (simp add: forwards_Cons [of _ e es] add.assoc)
qed simp

text \<open>C33: When a client disconnects, the proxy waits for as long as ports were forwarded. For every sequence of operations on a
  connection, the number the proxy waits for to become zero is the number of sessions that are not closed plus the number of TCP
  forwardings the client has ever asked for, which nothing takes back. So the wait ends once all sessions are closed exactly
  if no port was forwarded; otherwise it never does, and the connection to the backing server is never closed.\<close>
theorem forwarding_blocks_disconnect:
  assumes "proxy_run lib mar expired es c = Ret c'" and "pc_wg c = 0" and "pc_sessions c = []" and "\<not> pc_done c"
    and "pc_tcpConn c = Some True" and "distinct (opened es)"
  shows "pc_wg c' = int (open_sessions c') + int (forwards False es)
     \<and> (sp_OnDisconnect_waited c' \<noteq> Block \<longleftrightarrow> open_sessions c' = 0 \<and> forwards False es = 0)
     \<and> (forwards False es > 0 \<longrightarrow> \<not> pc_done c' \<and> pc_tcpConn c' \<noteq> Some False)"
proof -
  have "proxy_inv 0 c" using assms(2-5) by (simp add: proxy_inv_def)
  from proxy_run_inv [OF this assms(6) _ assms(1)] have "proxy_inv (forwards False es) c'"
    using assms(3,4) by simp
  then show ?thesis by (auto simp: proxy_inv_def sp_OnDisconnect_waited_def)
qed

definition sample_marshaler :: marshaler where
  "sample_marshaler = \<lparr>mar_Request = sample_mar, mar_Forward = (\<lambda>_. []), mar_Direct = (\<lambda>_. [])\<rparr>"

definition connected_proxy :: "unit proxy_conn" where
  "connected_proxy = (new_proxy_conn new_collector ())\<lparr>pc_tcpConn := Some True\<rparr>"

theorem forwarding_blocks_disconnect_witness:
  "\<exists>c'. proxy_run sample_lib sample_marshaler False
          [PxSession sample_meta [], PxForward ''db'' 5432 ''::1'' 40000, PxCall 0 CallClose, PxDisconnect] connected_proxy = Ret c'
     \<and> open_sessions c' = 0 \<and> sp_OnDisconnect_waited c' = Block"
proof -
  let ?es = "[PxSession sample_meta [], PxForward ''db'' 5432 ''::1'' 40000, PxCall 0 CallClose, PxDisconnect]"
  have id: "ChannelID sample_meta = 0" by (simp add: sample_meta_def Channel_def)
  have "\<exists>c'. proxy_run sample_lib sample_marshaler False ?es connected_proxy = Ret c' \<and> open_sessions c' = 0"
    by (simp add: id connected_proxy_def new_proxy_conn_def sample_lib_def sample_marshaler_def proxy_connection_def proxy_session_def on_conn_def
        sp_OnSessionChannel_def sp_OnTCPForwardChannel_def sp_OnClose_def at_session_def sp_OnClose_channel_def wg_Done_def
        sp_OnDisconnect_lock_def Let_def)
  then obtain c' where run: "proxy_run sample_lib sample_marshaler False ?es connected_proxy = Ret c'" "open_sessions c' = 0" by blast
  have "sp_OnDisconnect_waited c' \<noteq> Block \<longleftrightarrow> open_sessions c' = 0 \<and> forwards False ?es = 0"
    using forwarding_blocks_disconnect [OF run(1)] by (simp add: connected_proxy_def new_proxy_conn_def)
  with run show ?thesis by auto
qed

section \<open>The host key\<close>

lemma createBackendTCPConnection_returns:
  assumes "\<exists>d\<in>set dials. fst d = None \<or> snd d"
  shows "\<exists>err m'. createBackendTCPConnection dials m = Ret (err, m')"
  using assms
proof (induction dials arbitrary: m)
  case (Cons d dials)
  then show ?case by (cases d; cases "fst d") (auto simp: Let_def)
qed simp

text \<open>C23: A session is passed on only to a server whose host key is allowed. When the user is authenticated and an attempt to connect
  succeeds or the time is over, the proxy returns, with an error or with a connection; and in the second case the backing
  server has proved, as the library checks it, to have a key with one of the configured fingerprints, and the TCP connection to
  it is open. The library must refuse a server when the callback for its key does.\<close>
theorem backing_host_verified:
  assumes "\<And>cfg w w'. NewClientConn lib cfg w = (None, w') \<Longrightarrow> scc_HostKeyCallback cfg (presented w) = None"
    and "\<exists>d\<in>set dials. fst d = None \<or> snd d" and "\<not> pc_lock c"
  shows "\<exists>r c'. sp_OnHandshakeSuccess lib mar expired config privateKey dials meta c = Ret (r, c')
     \<and> (\<forall>conn. r = Inr conn \<longrightarrow> FingerprintSHA256 lib (presented (pc_backing c)) \<in> set (px_AllowedHostKeyFingerprints config)
          \<and> \<not> pc_disconnected c \<and> pc_tcpConn c' = Some True)"
proof (cases "pc_disconnected c")
  case True
  then show ?thesis using assms(3) by (simp add: sp_OnHandshakeSuccess_def)
next
  case False
  obtain err m where dial: "createBackendTCPConnection dials (backend_counter ''containerssh_backend_requests_total'' [] (pc_metrics c)) = Ret (err, m)"
    using createBackendTCPConnection_returns [OF assms(2)] by blast
  show ?thesis
  proof (cases err)
    case (Some e)
    then show ?thesis using False assms(3) dial by (simp add: sp_OnHandshakeSuccess_def createBackendSSHConnection_def)
  next
    case None
    obtain r w where shake: "NewClientConn lib (createClientConfig lib config privateKey (Username meta)) (pc_backing c) = (r, w)" by fastforce
    show ?thesis
    proof (cases r)
      case None
      with shake assms(1) have "HostKeyCallback lib config (presented (pc_backing c)) = None"
        by (fastforce simp: createClientConfig_def)
      then have "FingerprintSHA256 lib (presented (pc_backing c)) \<in> set (px_AllowedHostKeyFingerprints config)"
        by (simp add: HostKeyCallback_def split: if_splits)
      then show ?thesis using False assms(3) dial \<open>err = None\<close> shake None
        by (simp add: sp_OnHandshakeSuccess_def createBackendSSHConnection_def)
    next
      case (Some e)
      then show ?thesis using False assms(3) dial \<open>err = None\<close> shake
        by (simp add: sp_OnHandshakeSuccess_def createBackendSSHConnection_def)
    qed
  qed
qed

definition sample_proxy_config :: SSHProxyConfig where
  "sample_proxy_config = \<lparr>px_Server = ''host'', px_Port = 22, px_UsernamePassThrough = True, px_Username = '''', px_Password = ''secret'',
     px_PrivateKey = '''', px_AllowedHostKeyFingerprints = [''SHA256:abc''], px_Ciphers = [''aes256-ctr''],
     px_KexAlgorithms = [''ecdh-sha2-nistp256''], px_MACs = [''hmac-sha1''], px_HostKeyAlgorithms = [''ssh-rsa''],
     px_ClientVersion = ''SSH-2.0-ContainerSSH''\<rparr>"

theorem backing_host_verified_witness:
  "\<exists>r c'. sp_OnHandshakeSuccess sample_lib sample_marshaler False sample_proxy_config None
       [(Some (ErrorString ''connection refused''), False), (None, False)] (Connection sample_meta) (new_proxy_conn new_collector ()) = Ret (r, c')
     \<and> isl r = False \<and> pc_tcpConn c' = Some True"
proof -
  let ?shake = "sp_OnHandshakeSuccess sample_lib sample_marshaler False sample_proxy_config None
       [(Some (ErrorString ''connection refused''), False), (None, False)] (Connection sample_meta) (new_proxy_conn new_collector ())"
  have lib: "NewClientConn sample_lib cfg w = (None, w') \<Longrightarrow> scc_HostKeyCallback cfg ((\<lambda>_. []) w) = None" for cfg w w'
    by (simp add: sample_lib_def)
  obtain r c' where run: "?shake = Ret (r, c')" "\<forall>conn. r = Inr conn \<longrightarrow> pc_tcpConn c' = Some True"
    using backing_host_verified [of sample_lib "\<lambda>_. []" "[(Some (ErrorString ''connection refused''), False), (None, False)]"
        "new_proxy_conn new_collector ()" sample_marshaler False sample_proxy_config None "Connection sample_meta", OF lib]
    by (auto simp: new_proxy_conn_def)
  have "\<exists>conn c'. ?shake = Ret (Inr conn, c')"
    by (simp add: sp_OnHandshakeSuccess_def createBackendSSHConnection_def new_proxy_conn_def sample_lib_def createClientConfig_def
        HostKeyCallback_def sample_proxy_config_def Let_def)
  with run show ?thesis by auto
qed

section \<open>X11\<close>

fun keeps_reverse :: "proxy_event \<Rightarrow> bool" where
  "keeps_reverse (PxReverse ht p rf) = True"
| "keeps_reverse (PxStreamLocal path rf) = True"
| "keeps_reverse _ = False"

lemma perform_reverseHandler:
  assumes "snd (perform (proxy_session lib mar expired ch) call (Ret c)) = Ret c'"
  shows "pc_reverseHandler c' = pc_reverseHandler c"
proof (cases "client_call call \<or> call = CallShutdown")
  case True
  then consider "c' = c" | f where "snd (in_session ch f (Ret c)) = Ret c'"
    using assms by (cases call) (auto simp: proxy_session_def)
  then show ?thesis by cases (auto elim: in_session_result)
next
  case False
  with assms show ?thesis
    by (auto simp: proxy_session_def sp_OnClose_def at_session_def wg_Done_def split: option.splits if_splits elim!: go_bind_RetE)
qed

lemma proxy_next_reverseHandler:
  assumes "proxy_next lib mar expired e c = Ret c'" "\<not> keeps_reverse e"
  shows "pc_reverseHandler c' = pc_reverseHandler c"
proof (cases e)
  case (PxCall ch call)
  then show ?thesis using assms(1) perform_reverseHandler by fastforce
qed (use assms in \<open>auto simp: proxy_connection_def on_conn_def sp_OnSessionChannel_def sp_OnTCPForwardChannel_def sp_OnDirectStreamLocal_def
    wg_Done_def sp_OnDisconnect_lock_def sp_OnDisconnect_waited_def Let_def split: if_splits prod.splits sum.splits\<close>)

lemma proxy_run_reverseHandler:
  "proxy_run lib mar expired es c = Ret c' \<Longrightarrow> \<not> list_ex keeps_reverse es \<Longrightarrow> pc_reverseHandler c' = pc_reverseHandler c"
  by (induction es arbitrary: c) (auto elim!: go_bind_RetE dest!: proxy_next_reverseHandler)

text \<open>X11 forwarding through the proxy ends the server. Whatever happened on a connection, X11 requests the backing server accepted
  included, as long as no address was forwarded back to the client there is no handler to open channels with; when the backing
  server then opens the channel for an X11 connection, the goroutine that serves it dereferences a nil pointer, which nothing
  recovers from.\<close>
theorem x11_channel_crashes:
  assumes "proxy_run lib mar expired es c = Ret c'" and "pc_reverseHandler c = None" and "\<not> list_ex keeps_reverse es"
  shows "sp_handleChannels rv uo ((''x11'', extraData, accept_err) # chans) (pc_reverseHandler c') s = Panic ''nil pointer dereference''"
  using proxy_run_reverseHandler [OF assms(1,3)] assms(2)
  by (simp add: handleX11Channel_def connect_channels_def split: prod.splits)

definition sample_reverse :: "unit ReverseForward" where
  "sample_reverse = \<lparr>rv_NewChannelTCP = (\<lambda>_ _ _ _ _ s. Ret (Inr (SSHChannel 0, 1), s)), rv_NewChannelUnix = (\<lambda>_ _ s. Ret (Inr (SSHChannel 0, 1), s)),
     rv_NewChannelX11 = (\<lambda>_ _ _ s. Ret (Inr (SSHChannel 0, 1), s))\<rparr>"

definition sample_open :: open_unmarshaler where
  "sample_open = \<lparr>uo_Forward = (\<lambda>_. \<lparr>ConnectedAddress = ''localhost'', ConnectedPort = 80, OriginatorAddress = ''::1'', OriginatorPort = 40000\<rparr>),
     uo_StreamLocal = (\<lambda>_. ''/tmp/s''), uo_X11 = (\<lambda>_. (''::1'', 6000))\<rparr>"

theorem x11_channel_crashes_witness:
  "\<exists>c'. proxy_run sample_lib sample_marshaler False
          [PxSession sample_meta [], PxCall 0 (CallX11 0 False ''MIT-MAGIC-COOKIE-1'' ''00'' 0 (ReverseForwardHandler ''c1'' False)),
           PxCall 0 (CallExec 1 ''xterm'')] connected_proxy = Ret c'
     \<and> sp_handleChannels sample_reverse sample_open [(''x11'', [], None)] (pc_reverseHandler c') () = Panic ''nil pointer dereference''"
proof -
  let ?es = "[PxSession sample_meta [], PxCall 0 (CallX11 0 False ''MIT-MAGIC-COOKIE-1'' ''00'' 0 (ReverseForwardHandler ''c1'' False)),
           PxCall 0 (CallExec 1 ''xterm'')]"
  have id: "ChannelID sample_meta = 0" by (simp add: sample_meta_def Channel_def)
  obtain c' where run: "proxy_run sample_lib sample_marshaler False ?es connected_proxy = Ret c'"
    by (simp add: id connected_proxy_def new_proxy_conn_def sample_lib_def sample_marshaler_def proxy_connection_def proxy_session_def on_conn_def
        sp_OnSessionChannel_def in_session_def at_session_def session_op_defs sp_sendRequest_def Let_def)
  have "pc_reverseHandler connected_proxy = None" by (simp add: connected_proxy_def new_proxy_conn_def)
  from x11_channel_crashes [OF run this, of sample_reverse sample_open "[]" None "[]" "()"] run show ?thesis
    by (intro exI [of _ c']) simp
qed

section \<open>The exit of a program\<close>

definition statuses :: "exit_unmarshaler \<Rightarrow> ssh_request list \<Rightarrow> uint32 list" where
  "statuses um requests = concat (map (\<lambda>r. if req_Type r = ''exit-status''
     then (case um_ExitStatus um (req_Payload r) of Inl _ \<Rightarrow> [] | Inr n \<Rightarrow> [n]) else []) requests)"

definition signals :: "exit_unmarshaler \<Rightarrow> ssh_request list \<Rightarrow> (string \<times> bool \<times> string \<times> string) list" where
  "signals um requests = concat (map (\<lambda>r. if req_Type r = ''exit-signal''
     then (case um_ExitSignal um (req_Payload r) of Inl _ \<Rightarrow> [] | Inr s \<Rightarrow> [s]) else []) requests)"

fun sent_statuses :: "channel_msg list \<Rightarrow> uint32 list" where
  "sent_statuses [] = []"
| "sent_statuses (MsgExitStatus n # ms) = n # sent_statuses ms"
| "sent_statuses (_ # ms) = sent_statuses ms"

fun sent_signals :: "channel_msg list \<Rightarrow> (string \<times> bool \<times> string \<times> string) list" where
  "sent_signals [] = []"
| "sent_signals (MsgExitSignal g d e l # ms) = (g, d, e, l) # sent_signals ms"
| "sent_signals (_ # ms) = sent_signals ms"

lemma sent_statuses_append [simp]: "sent_statuses (xs @ ys) = sent_statuses xs @ sent_statuses ys"
  by (induction xs rule: sent_statuses.induct) simp_all

lemma sent_signals_append [simp]: "sent_signals (xs @ ys) = sent_signals xs @ sent_signals ys"
  by (induction xs rule: sent_signals.induct) simp_all

lemma take1_append: "length xs \<le> 1 \<Longrightarrow> take (Suc 0) (xs @ ys) = xs @ (if xs = [] then take (Suc 0) ys else [])"
  by (cases xs) auto

text \<open>One request: what it sends, and what is noted as sent.\<close>

definition one_request :: "exit_unmarshaler \<Rightarrow> ssh_request \<Rightarrow> channel_wrapper \<Rightarrow> (server_event list \<times> channel_wrapper) go" where
  "one_request um request s =
     (if req_Type request = ''exit-status'' then handleExitStatusFromBackend um request s
      else if req_Type request = ''exit-signal'' then handleExitSignalFromBackend um request s
      else Ret (reply_if request False '''', s))"

lemma one_request_relayed:
  assumes "channel_open s" "\<not> closed s"
  shows "\<exists>evs s1 ms. one_request um request s = Ret (evs, s1) \<and> channel_open s1 \<and> \<not> closed s1
     \<and> length evs = (if req_WantReply request then 1 else 0) \<and> sent s1 = sent s @ ms \<and> length ms = length (sent_statuses ms) + length (sent_signals ms)
     \<and> sent_statuses ms = (if exitSent s then [] else statuses um [request]) \<and> exitSent s1 = (exitSent s \<or> statuses um [request] \<noteq> [])
     \<and> sent_signals ms = (if exitSignalSent s then [] else signals um [request])
     \<and> exitSignalSent s1 = (exitSignalSent s \<or> signals um [request] \<noteq> [])"
  using assms
  by (cases "um_ExitStatus um (req_Payload request)"; cases "um_ExitSignal um (req_Payload request)")
    (auto simp: one_request_def handleExitStatusFromBackend_def handleExitSignalFromBackend_def reply_if_def ExitStatus_def
      ExitSignal_def statuses_def signals_def)

lemma exit_requests_relayed:
  assumes "channel_open s" "\<not> closed s"
  shows "\<exists>evs s' ms. handleBackendClientRequests um requests ended s = Ret (evs, s')
     \<and> length evs = length (filter req_WantReply requests)
     \<and> sent s' = sent s @ ms @ (if ended then [MsgClose] else []) \<and> length ms = length (sent_statuses ms) + length (sent_signals ms)
     \<and> sent_statuses ms = (if exitSent s then [] else take 1 (statuses um requests))
     \<and> sent_signals ms = (if exitSignalSent s then [] else take 1 (signals um requests))"
  using assms
proof (induction requests arbitrary: s)
  case Nil
  then show ?case by (simp add: Close_wrapper_def statuses_def signals_def)
next
  case (Cons request requests)
  obtain evs s1 ms where one: "one_request um request s = Ret (evs, s1)" "channel_open s1" "\<not> closed s1"
    "length evs = (if req_WantReply request then 1 else 0)" "sent s1 = sent s @ ms" "length ms = length (sent_statuses ms) + length (sent_signals ms)"
    "sent_statuses ms = (if exitSent s then [] else statuses um [request])" "exitSent s1 = (exitSent s \<or> statuses um [request] \<noteq> [])"
    "sent_signals ms = (if exitSignalSent s then [] else signals um [request])"
    "exitSignalSent s1 = (exitSignalSent s \<or> signals um [request] \<noteq> [])"
    using one_request_relayed [OF Cons.prems, of um request] by blast
  from Cons.IH [OF one(2,3)] obtain evs' s' ms' where rest: "handleBackendClientRequests um requests ended s1 = Ret (evs', s')"
    "length evs' = length (filter req_WantReply requests)"
    "sent s' = sent s1 @ ms' @ (if ended then [MsgClose] else [])" "length ms' = length (sent_statuses ms') + length (sent_signals ms')"
    "sent_statuses ms' = (if exitSent s1 then [] else take 1 (statuses um requests))"
    "sent_signals ms' = (if exitSignalSent s1 then [] else take 1 (signals um requests))" by blast
  have split: "statuses um (request # requests) = statuses um [request] @ statuses um requests"
    "signals um (request # requests) = signals um [request] @ signals um requests"
    "length (statuses um [request]) \<le> 1" "length (signals um [request]) \<le> 1"
    by (auto simp: statuses_def signals_def split: sum.splits)
  have "handleBackendClientRequests um (request # requests) ended s = Ret (evs @ evs', s')"
    using one(1) rest(1) by (simp add: one_request_def)
  moreover have "sent_statuses (ms @ ms') = (if exitSent s then [] else take 1 (statuses um (request # requests)))"
    using one(7,8) rest(5) by (auto simp: split(1) take1_append [OF split(3)] simp del: take_append)
  moreover have "sent_signals (ms @ ms') = (if exitSignalSent s then [] else take 1 (signals um (request # requests)))"
    using one(9,10) rest(6) by (auto simp: split(2) take1_append [OF split(4)] simp del: take_append)
  moreover have "length (ms @ ms') = length (sent_statuses (ms @ ms')) + length (sent_signals (ms @ ms'))"
    using one(6) rest(4) by simp
  moreover have "length (evs @ evs') = length (filter req_WantReply (request # requests))"
    "sent s' = sent s @ (ms @ ms') @ (if ended then [MsgClose] else [])"
    using one(4,5) rest(2,3) by simp_all
  ultimately show ?case by blast
qed


section \<open>The output of a program\<close>

text \<open>The output of the backing server as it is copied by the goroutine of \<open>streamStdout\<close>: what was received and not copied yet,
  whether it has ended, whether the copying goes on, what was written to the client, and, for the specification, all that was
  received. The copying and the loop over the requests of the backing server run side by side.\<close>

record output_stream =
  os_pending :: bytes
  os_ended :: bool
  os_copying :: bool
  os_delivered :: bytes
  os_session :: channel_wrapper
  os_output :: bytes

definition started_stream :: output_stream where
  "started_stream = \<lparr>os_pending = [], os_ended = False, os_copying = True, os_delivered = [],
     os_session = new_channel_wrapper\<lparr>channel_open := True\<rparr>, os_output = []\<rparr>"

datatype output_event = Received bytes | OutputEnd | CopyChunk nat | RequestsEnd

text \<open>One round of \<open>io.Copy\<close>: it ends with the output, or with the error of writing to a closed channel. Then the session is closed
  for writing (\<open>closeOnOutputComplete\<close>).\<close>

definition streamStdout :: "nat \<Rightarrow> output_stream \<Rightarrow> output_stream go" where
  "streamStdout n st =
     (if \<not> os_copying st \<or> n = 0 \<or> os_pending st = [] \<and> \<not> os_ended st then Block
      else if os_pending st = [] \<or> closed (os_session st)
      then go_bind (CloseWrite (os_session st)) (\<lambda>session. Ret (st\<lparr>os_copying := False, os_session := session\<rparr>))
      else Ret (st\<lparr>os_delivered := os_delivered st @ take n (os_pending st), os_pending := drop n (os_pending st)\<rparr>))"

text \<open>The requests end after the output, when the backing server closes the channel.\<close>

fun output_next :: "exit_unmarshaler \<Rightarrow> output_event \<Rightarrow> output_stream \<Rightarrow> output_stream go" where
  "output_next um (Received b) st =
     (if os_ended st then Block else Ret (st\<lparr>os_pending := os_pending st @ b, os_output := os_output st @ b\<rparr>))"
| "output_next um OutputEnd st = Ret (st\<lparr>os_ended := True\<rparr>)"
| "output_next um (CopyChunk n) st = streamStdout n st"
| "output_next um RequestsEnd st =
     (if \<not> os_ended st then Block
      else go_bind (handleBackendClientRequests um [] True (os_session st)) (\<lambda>(_, session). Ret (st\<lparr>os_session := session\<rparr>)))"

fun output_run :: "exit_unmarshaler \<Rightarrow> output_event list \<Rightarrow> output_stream \<Rightarrow> output_stream go" where
  "output_run um [] st = Ret st"
| "output_run um (e # es) st = go_bind (output_next um e st) (output_run um es)"

definition stream_inv :: "output_stream \<Rightarrow> bool" where
  "stream_inv st \<longleftrightarrow> os_delivered st @ os_pending st = os_output st \<and> channel_open (os_session st)
     \<and> (\<not> closed (os_session st) \<longrightarrow> os_copying st \<or> os_pending st = [] \<and> os_ended st)
     \<and> (MsgEOF \<in> set (sent (os_session st)) \<longrightarrow> os_pending st = [] \<and> os_ended st)"

lemma output_next_inv: "stream_inv st \<Longrightarrow> output_next um e st = Ret st' \<Longrightarrow> stream_inv st'"
  by (cases e) (auto simp: stream_inv_def streamStdout_def CloseWrite_def Close_wrapper_def split: if_splits elim!: go_bind_RetE)

lemma output_run_inv: "stream_inv st \<Longrightarrow> output_run um es st = Ret st' \<Longrightarrow> stream_inv st'"
  by (induction es arbitrary: st) (auto elim!: go_bind_RetE dest: output_next_inv)

text \<open>Output is delivered in order, and all of it as long as the session is not closed first. For every interleaving of the output
  of the backing server, the copying and the loop over its requests, what the client has got is the beginning of the
  output; when the client is told that the output has ended, it has got all of it. But the loop closes the session as
  soon as the backing server closes the channel, whatever is left to copy: output that was received can be lost.\<close>
theorem output_lost_on_close:
  assumes "d \<noteq> []"
  shows "(\<forall>es st. output_run um es started_stream = Ret st \<longrightarrow> prefix (os_delivered st) (os_output st)
            \<and> (MsgEOF \<in> set (sent (os_session st)) \<longrightarrow> os_delivered st = os_output st))
     \<and> (\<exists>st. output_run um [Received d, OutputEnd, RequestsEnd, CopyChunk (length d)] started_stream = Ret st
            \<and> os_output st = d \<and> os_delivered st = [] \<and> \<not> os_copying st \<and> sent (os_session st) = [MsgClose])"
proof (intro conjI allI impI)
  fix es st
  assume run: "output_run um es started_stream = Ret st"
  have "stream_inv started_stream" by (simp add: stream_inv_def started_stream_def new_channel_wrapper_def)
  from output_run_inv [OF this run] have "stream_inv st" .
  then show "prefix (os_delivered st) (os_output st)" "MsgEOF \<in> set (sent (os_session st)) \<Longrightarrow> os_delivered st = os_output st"
    unfolding stream_inv_def by (metis prefixI, metis append_Nil2)
next
  show "\<exists>st. output_run um [Received d, OutputEnd, RequestsEnd, CopyChunk (length d)] started_stream = Ret st
            \<and> os_output st = d \<and> os_delivered st = [] \<and> \<not> os_copying st \<and> sent (os_session st) = [MsgClose]"
    using assms by (simp add: started_stream_def new_channel_wrapper_def streamStdout_def CloseWrite_def Close_wrapper_def)
qed

definition sample_exit :: exit_unmarshaler where
  "sample_exit = \<lparr>um_ExitStatus = (\<lambda>b. Inr 0), um_ExitSignal = (\<lambda>b. Inl (ErrorString ''short read''))\<rparr>"

theorem output_lost_on_close_witness:
  "\<exists>st. output_run sample_exit [Received [104, 105], OutputEnd, RequestsEnd, CopyChunk (length [104, 105 :: uint8])] started_stream = Ret st
     \<and> os_output st = [104, 105] \<and> os_delivered st = [] \<and> \<not> os_copying st \<and> sent (os_session st) = [MsgClose]"
proof -
  have "[104, 105 :: uint8] \<noteq> []" by simp
  from output_lost_on_close [OF this, of sample_exit] show ?thesis by blast
qed

end
