(* ===== verification/Kubernetes.thy ===== *)
theory Kubernetes
  imports Docker
begin

text \<open>
  Pods and executions of the Kubernetes backend (\<open>internal/kubernetes\<close>): how a pod is made and removed, with the retry loops, how a
  program is started in it, signalled and followed to its end, and the protocol by which the process id is read.

  The cluster is the parameter \<open>api\<close>, over its state \<open>'w\<close>. Pods and executions are named by their numbers, in the order in which
  they were made. A retry loop is given the outcomes of its attempts, each with the information whether the time is over when the
  wait after it ends; with no more outcomes it has not returned. What ends a stream is a step of its own (\<open>handleStream\<close>), since it
  runs in a goroutine.
\<close>

section \<open>The configuration of a pod\<close>

record kube_container =
  kcn_Command :: "string list"
  kcn_TTY :: bool
  kcn_Stdin :: bool
  kcn_StdinOnce :: bool
  kcn_Env :: "(string \<times> string) list"

text \<open>The part of \<open>KubernetesPodConfig\<close> the backend reads; a map that may be \<open>nil\<close> is an option.\<close>

record kube_config =
  kb_Mode :: string
  kb_ShellCommand :: "string list"
  kb_IdleCommand :: "string list"
  kb_Subsystems :: "string \<rightharpoonup> string"
  kb_DisableAgent :: bool
  kb_AgentPath :: string
  kb_ConsoleContainerNumber :: int
  kb_Labels :: "(string \<rightharpoonup> string) option"
  kb_Annotations :: "(string \<rightharpoonup> string) option"
  kb_Containers :: "kube_container list"
  kb_InitContainers :: "kube_container list"
  kb_RestartPolicy :: string
  kb_ExposeAuthMetadataAsLabels :: "(string \<times> string) list"
  kb_ExposeAuthMetadataAsAnnotations :: "(string \<times> string) list"
  kb_ExposeAuthMetadataAsEnv :: "(string \<times> string) list"

abbreviation session_mode :: "kube_config \<Rightarrow> bool" where
  "session_mode cfg \<equiv> kb_Mode cfg = ''session''"

abbreviation connection_mode :: "kube_config \<Rightarrow> bool" where
  "connection_mode cfg \<equiv> kb_Mode cfg = ''connection''"

definition at_container :: "int \<Rightarrow> (kube_container \<Rightarrow> kube_container) \<Rightarrow> kube_container list \<Rightarrow> kube_container list go" where
  "at_container i f cs =
     (if 0 \<le> i \<and> nat i < length cs then Ret (cs[nat i := f (cs ! nat i)]) else Panic ''index out of range'')"

definition addLabelsToPodConfig :: "(string \<rightharpoonup> string) \<Rightarrow> kube_config \<Rightarrow> kube_config" where
  "addLabelsToPodConfig labels pc = pc\<lparr>kb_Labels := Some (or_empty (kb_Labels pc) ++ labels)\<rparr>"

definition addAnnotationsToPodConfig :: "(string \<rightharpoonup> string) \<Rightarrow> kube_config \<Rightarrow> kube_config" where
  "addAnnotationsToPodConfig annotations pc = pc\<lparr>kb_Annotations := Some (or_empty (kb_Annotations pc) ++ annotations)\<rparr>"

fun addEnvToPodConfig :: "(string \<times> string) list \<Rightarrow> kube_config \<Rightarrow> kube_config" where
  "addEnvToPodConfig [] pc = pc"
| "addEnvToPodConfig (kv # env) pc =
     (let add = map (\<lambda>k. k\<lparr>kcn_Env := kcn_Env k @ [kv]\<rparr>)
      in addEnvToPodConfig env (pc\<lparr>kb_Containers := add (kb_Containers pc), kb_InitContainers := add (kb_InitContainers pc)\<rparr>))"

text \<open>The environment is given in the order in which Go enumerates the map.\<close>

definition getPodConfig ::
    "kube_config \<Rightarrow> bool option \<Rightarrow> string list \<Rightarrow> (string \<rightharpoonup> string) \<Rightarrow> (string \<rightharpoonup> string) \<Rightarrow> (string \<times> string) list \<Rightarrow> kube_config go" where
  "getPodConfig cfg tty cmd labels annotations env =
     go_bind (at_container (kb_ConsoleContainerNumber cfg)
         (\<lambda>k. if session_mode cfg
              then k\<lparr>kcn_TTY := (case tty of Some t \<Rightarrow> t | None \<Rightarrow> kcn_TTY k), kcn_Stdin := True, kcn_StdinOnce := True,
                     kcn_Command := (if kb_DisableAgent cfg then cmd
                                     else [kb_AgentPath cfg, ''console'', ''--wait'', ''--pid'', ''--''] @ cmd)\<rparr>
              else k\<lparr>kcn_Command := kb_IdleCommand cfg\<rparr>)
         (kb_Containers cfg)) (\<lambda>cs.
       let pc = cfg\<lparr>kb_Containers := cs,
                    kb_RestartPolicy := (if session_mode cfg \<and> kb_RestartPolicy cfg = '''' then ''Never'' else kb_RestartPolicy cfg)\<rparr>
       in Ret (addEnvToPodConfig env (addAnnotationsToPodConfig annotations (addLabelsToPodConfig labels pc))))"

section \<open>The cluster and the objects of the client\<close>

datatype pod_phase = PodPending | PodRunning | PodSucceeded | PodFailed | PodUnknown

text \<open>An event of a watch: whether the object is deleted, and the phase and the conditions (type and status) when it is a pod.\<close>

record watch_event =
  we_Deleted :: bool
  we_Pod :: "(pod_phase \<times> (string \<times> string) list) option"

datatype api_error = NotFound go_error | ApiError go_error

datatype stream_error = CodeExitError int | StreamFailed go_error

datatype exec_options = PodAttachOptions (options_tty: bool) | PodExecOptions (options_Command: "string list") (options_tty: bool)

record 'w kube_api =
  ka_Create :: "kube_config \<Rightarrow> 'w \<Rightarrow> (go_error + string) \<times> 'w"
  ka_UntilWithSync :: "(watch_event \<Rightarrow> go_error + bool) \<Rightarrow> nat \<Rightarrow> 'w \<Rightarrow> go_error option \<times> 'w"
  ka_Get :: "nat \<Rightarrow> 'w \<Rightarrow> ((api_error + int option list) \<times> bool) list \<times> 'w"
  ka_Delete :: "nat \<Rightarrow> 'w \<Rightarrow> (api_error option \<times> bool) list \<times> 'w"
  ka_NewSPDYExecutor :: "nat \<Rightarrow> exec_options \<Rightarrow> 'w \<Rightarrow> go_error option \<times> 'w"
  ka_Stdout :: "nat \<Rightarrow> 'w \<Rightarrow> bytes list \<times> 'w"
  ka_Stream :: "nat \<Rightarrow> 'w \<Rightarrow> stream_error option \<times> 'w"
  ka_Push :: "nat \<Rightarrow> uint16 \<Rightarrow> uint16 \<Rightarrow> 'w \<Rightarrow> go_error option \<times> 'w"

record kubernetesPodImpl =
  pod_Name :: string
  pod_tty :: "bool option"
  pod_wg :: int
  pod_shuttingDown :: bool
  pod_shutdown :: bool

record kubernetesExecutionImpl =
  ke_pod :: nat
  ke_options :: exec_options
  ke_tty :: bool
  ke_pid :: int
  ke_exited :: bool
  ke_queue_closed :: bool
  ke_lock :: bool

text \<open>The objects of the client, its metrics, the pods whose deletion the cluster confirmed, and the cluster.\<close>

record 'w kube =
  kw_pods :: "kubernetesPodImpl list"
  kw_execs :: "kubernetesExecutionImpl list"
  kw_requests :: nat
  kw_failures :: nat
  kw_deleted :: "nat list"
  kw_cluster :: 'w

definition on_cluster :: "('w \<Rightarrow> 'r \<times> 'w) \<Rightarrow> 'w kube \<Rightarrow> 'r \<times> 'w kube" where
  "on_cluster f k = (case f (kw_cluster k) of (r, w) \<Rightarrow> (r, k\<lparr>kw_cluster := w\<rparr>))"

definition pod_at :: "nat \<Rightarrow> 'w kube \<Rightarrow> kubernetesPodImpl go" where
  "pod_at p k = (if p < length (kw_pods k) then Ret (kw_pods k ! p) else Panic ''nil pointer dereference'')"

definition exec_at :: "nat \<Rightarrow> 'w kube \<Rightarrow> kubernetesExecutionImpl go" where
  "exec_at e k = (if e < length (kw_execs k) then Ret (kw_execs k ! e) else Panic ''nil pointer dereference'')"

definition set_pod :: "nat \<Rightarrow> kubernetesPodImpl \<Rightarrow> 'w kube \<Rightarrow> 'w kube" where
  "set_pod p x k = k\<lparr>kw_pods := (kw_pods k)[p := x]\<rparr>"

definition set_exec :: "nat \<Rightarrow> kubernetesExecutionImpl \<Rightarrow> 'w kube \<Rightarrow> 'w kube" where
  "set_exec e x k = k\<lparr>kw_execs := (kw_execs k)[e := x]\<rparr>"

text \<open>The wait group of a pod.\<close>

definition pod_wg_Add :: "nat \<Rightarrow> 'w kube \<Rightarrow> 'w kube go" where
  "pod_wg_Add p k = go_bind (pod_at p k) (\<lambda>x. Ret (set_pod p (x\<lparr>pod_wg := pod_wg x + 1\<rparr>) k))"

definition pod_wg_Done :: "nat \<Rightarrow> 'w kube \<Rightarrow> 'w kube go" where
  "pod_wg_Done p k =
     go_bind (pod_at p k) (\<lambda>x.
       if pod_wg x \<le> 0 then Panic ''sync: negative WaitGroup counter'' else Ret (set_pod p (x\<lparr>pod_wg := pod_wg x - 1\<rparr>) k))"

section \<open>Making a pod\<close>

definition isPodAvailableEvent :: "watch_event \<Rightarrow> go_error + bool" where
  "isPodAvailableEvent event =
     (if we_Deleted event then Inl (ErrorString ''pods \"\" not found'')
      else case we_Pod event of
             None \<Rightarrow> Inr False
           | Some (phase, conditions) \<Rightarrow>
               Inr (phase = PodFailed \<or> phase = PodSucceeded \<or>
                    phase = PodRunning \<and> (\<exists>c \<in> set conditions. fst c = ''Ready'' \<and> snd c = ''True'')))"

definition initialize_failed :: string where
  "initialize_failed = ''Failed to initialize SSH session.''"

definition pod_wait :: "'w kube_api \<Rightarrow> nat \<Rightarrow> 'w kube \<Rightarrow> go_error option \<times> 'w kube" where
  "pod_wait api p k =
     (case on_cluster (ka_UntilWithSync api isPodAvailableEvent p) (k\<lparr>kw_requests := kw_requests k + 1\<rparr>) of
        (None, k) \<Rightarrow> (None, k)
      | (Some err, k) \<Rightarrow>
          (Some (WrapUser err ''KUBERNETES_POD_WAIT_FAILED'' initialize_failed ''Failed to wait for pod to come up.''),
           k\<lparr>kw_failures := kw_failures k + 1\<rparr>))"

definition new_pod :: "string \<Rightarrow> bool option \<Rightarrow> kubernetesPodImpl" where
  "new_pod name tty = \<lparr>pod_Name = name, pod_tty = tty, pod_wg = 0, pod_shuttingDown = False, pod_shutdown = False\<rparr>"

definition attemptPodCreate :: "'w kube_api \<Rightarrow> kube_config \<Rightarrow> bool option \<Rightarrow> 'w kube \<Rightarrow> (go_error + nat) \<times> 'w kube" where
  "attemptPodCreate api podConfig tty k =
     (case on_cluster (ka_Create api podConfig) (k\<lparr>kw_requests := kw_requests k + 1\<rparr>) of
        (Inr name, k) \<Rightarrow>
          let p = length (kw_pods k)
          in (case pod_wait api p (k\<lparr>kw_pods := kw_pods k @ [new_pod name tty]\<rparr>) of
                (None, k) \<Rightarrow> (Inr p, k)
              | (Some err, k) \<Rightarrow> (Inl err, k))
      | (Inl err, k) \<Rightarrow> (Inl err, k\<lparr>kw_failures := kw_failures k + 1\<rparr>))"

text \<open>\<open>expireds\<close> says of each failed attempt whether the time is over afterwards.\<close>

fun create_loop :: "'w kube_api \<Rightarrow> kube_config \<Rightarrow> bool option \<Rightarrow> bool list \<Rightarrow> 'w kube \<Rightarrow> ((go_error + nat) \<times> 'w kube) go" where
  "create_loop api podConfig tty [] k = Block"
| "create_loop api podConfig tty (expired # expireds) k =
     (case attemptPodCreate api podConfig tty k of
        (Inr p, k) \<Rightarrow> Ret (Inr p, k)
      | (Inl lastError, k) \<Rightarrow>
          if expired
          then Ret (Inl (WrapUser lastError ''KUBERNETES_POD_CREATE_FAILED'' initialize_failed ''Failed to create pod, giving up''), k)
          else create_loop api podConfig tty expireds k)"

definition createPod ::
    "'w kube_api \<Rightarrow> kube_config \<Rightarrow> bool list \<Rightarrow> (string \<rightharpoonup> string) \<Rightarrow> (string \<rightharpoonup> string) \<Rightarrow> (string \<times> string) list \<Rightarrow> bool option \<Rightarrow>
     string list \<Rightarrow> 'w kube \<Rightarrow> ((go_error + nat) \<times> 'w kube) go" where
  "createPod api cfg expireds labels annotations env tty cmd k =
     go_bind (getPodConfig cfg tty cmd labels annotations env) (\<lambda>podConfig. create_loop api podConfig tty expireds k)"

section \<open>The process id\<close>

text \<open>The writer of the standard output of the stream. What is behind it is given by \<open>write\<close>, with the number of bytes and the error
  it returns.\<close>

record 'b stdoutProxyWriter =
  sw_backend :: 'b
  sw_pidChannel :: "uint32 list"
  sw_pidRead :: bool
  sw_buf :: bytes
  sw_tty :: bool

definition new_stdoutProxyWriter :: "bool \<Rightarrow> 'b \<Rightarrow> 'b stdoutProxyWriter" where
  "new_stdoutProxyWriter tty backend = \<lparr>sw_backend = backend, sw_pidChannel = [], sw_pidRead = False, sw_buf = [], sw_tty = tty\<rparr>"

definition stdout_Write ::
    "(bytes \<Rightarrow> 'b \<Rightarrow> (nat \<times> go_error option) \<times> 'b) \<Rightarrow> bytes \<Rightarrow> 'b stdoutProxyWriter \<Rightarrow>
     (nat \<times> go_error option) \<times> 'b stdoutProxyWriter" where
  "stdout_Write write p s =
     (if sw_pidRead s
      then (case write p (sw_backend s) of (r, b) \<Rightarrow> (r, s\<lparr>sw_backend := b\<rparr>))
      else let bufferBytes = sw_buf s @ p
           in if sw_tty s \<and> length bufferBytes \<ge> 6 \<or> \<not> sw_tty s \<and> length bufferBytes \<ge> 4
              then let s = s\<lparr>sw_pidRead := True, sw_buf := [],
                             sw_pidChannel := sw_pidChannel s @ [littleEndian32 (take 4 bufferBytes)]\<rparr>;
                       remainingBytes = drop 4 bufferBytes
                   in if length remainingBytes > 0
                      then (case write remainingBytes (sw_backend s) of ((_, err), b) \<Rightarrow> ((length p, err), s\<lparr>sw_backend := b\<rparr>))
                      else ((length p, None), s)
              else ((length p, None), s\<lparr>sw_buf := bufferBytes\<rparr>))"

fun stdout_writes ::
    "(bytes \<Rightarrow> 'b \<Rightarrow> (nat \<times> go_error option) \<times> 'b) \<Rightarrow> bytes list \<Rightarrow> 'b stdoutProxyWriter \<Rightarrow> 'b stdoutProxyWriter" where
  "stdout_writes write [] s = s"
| "stdout_writes write (p # ps) s = stdout_writes write ps (snd (stdout_Write write p s))"

text \<open>A writer that takes everything.\<close>

definition buffer_Write :: "bytes \<Rightarrow> bytes \<Rightarrow> (nat \<times> go_error option) \<times> bytes" where
  "buffer_Write p b = ((length p, None), b @ p)"

text \<open>The reader of the standard input in session mode: the first byte tells the agent to start. Without a terminal the byte is the
  one that was in the buffer of the caller.\<close>

record 'b stdinProxyReader =
  sr_backend :: 'b
  sr_startWritten :: bool
  sr_tty :: bool

definition stdin_Read ::
    "(bytes \<Rightarrow> 'b \<Rightarrow> ((nat \<times> go_error option) \<times> bytes) \<times> 'b) \<Rightarrow> bytes \<Rightarrow> 'b stdinProxyReader \<Rightarrow>
     ((nat \<times> go_error option) \<times> bytes) \<times> 'b stdinProxyReader" where
  "stdin_Read read b s =
     (if sr_startWritten s then (case read b (sr_backend s) of (r, x) \<Rightarrow> (r, s\<lparr>sr_backend := x\<rparr>))
      else if b = [] then (((0, None), b), s)
      else (((1, None), if sr_tty s then b[0 := 10] else b), s\<lparr>sr_startWritten := True\<rparr>))"

section \<open>Programs in a pod\<close>

definition new_kube_exec :: "nat \<Rightarrow> exec_options \<Rightarrow> kubernetesExecutionImpl" where
  "new_kube_exec p options =
     \<lparr>ke_pod = p, ke_options = options, ke_tty = options_tty options, ke_pid = 0, ke_exited = False, ke_queue_closed = False,
      ke_lock = False\<rparr>"

text \<open>The request names the console container.\<close>

definition make_exec :: "'w kube_api \<Rightarrow> kube_config \<Rightarrow> nat \<Rightarrow> exec_options \<Rightarrow> 'w kube \<Rightarrow> ((go_error + nat) \<times> 'w kube) go" where
  "make_exec api cfg p options k =
     go_bind (at_container (kb_ConsoleContainerNumber cfg) id (kb_Containers cfg)) (\<lambda>_.
       case on_cluster (ka_NewSPDYExecutor api p options) k of
         (Some err, k) \<Rightarrow> Ret (Inl err, k)
       | (None, k) \<Rightarrow> Ret (Inr (length (kw_execs k)), k\<lparr>kw_execs := kw_execs k @ [new_kube_exec p options]\<rparr>))"

definition kube_attach :: "'w kube_api \<Rightarrow> kube_config \<Rightarrow> nat \<Rightarrow> 'w kube \<Rightarrow> ((go_error + nat) \<times> 'w kube) go" where
  "kube_attach api cfg p k =
     go_bind (pod_at p k) (\<lambda>x. case pod_tty x of
         None \<Rightarrow> Panic ''nil pointer dereference''
       | Some tty \<Rightarrow> make_exec api cfg p (PodAttachOptions tty) k)"

text \<open>The environment is given in the order in which Go enumerates the map.\<close>

definition agent_command :: "kube_config \<Rightarrow> (string \<times> string) list \<Rightarrow> string list \<Rightarrow> string list" where
  "agent_command cfg env program =
     (if kb_DisableAgent cfg then program
      else [kb_AgentPath cfg, ''console'', ''--pid''] @ concat (map (\<lambda>(key, val). [''--env'', key @ ''='' @ val]) env) @ [''--''] @ program)"

definition createExecLocked ::
    "'w kube_api \<Rightarrow> kube_config \<Rightarrow> nat \<Rightarrow> string list \<Rightarrow> (string \<times> string) list \<Rightarrow> bool \<Rightarrow> 'w kube \<Rightarrow> ((go_error + nat) \<times> 'w kube) go" where
  "createExecLocked api cfg p program env tty k = make_exec api cfg p (PodExecOptions (agent_command cfg env program) tty) k"

definition kube_createExec ::
    "'w kube_api \<Rightarrow> kube_config \<Rightarrow> nat \<Rightarrow> string list \<Rightarrow> (string \<times> string) list \<Rightarrow> bool \<Rightarrow> 'w kube \<Rightarrow> ((go_error + nat) \<times> 'w kube) go" where
  "kube_createExec api cfg p program env tty k =
     go_bind (pod_at p k) (\<lambda>x.
       if pod_shuttingDown x
       then Ret (Inl (UserMessage ''KUBERNETES_POD_SHUTTING_DOWN'' ''Server is shutting down''
                   ''Refusing new Kubernetes execution because the pod is shutting down.''), k)
       else go_bind (pod_wg_Add p k) (\<lambda>k.
              go_bind (createExecLocked api cfg p program env tty k) (\<lambda>(r, k). case r of
                  Inl err \<Rightarrow> go_bind (pod_wg_Done p k) (\<lambda>k. Ret (Inl err, k))
                | Inr e \<Rightarrow> Ret (Inr e, k))))"

text \<open>\<open>run\<close> starts the stream and waits until the process id is read from the output. The standard output is given by the pieces in which it
  arrives.\<close>

definition kube_run :: "'w kube_api \<Rightarrow> kube_config \<Rightarrow> nat \<Rightarrow> 'w kube \<Rightarrow> 'w kube go" where
  "kube_run api cfg e k =
     go_bind (exec_at e k) (\<lambda>x.
       let k = k\<lparr>kw_requests := kw_requests k + 1\<rparr>
       in if kb_DisableAgent cfg then Ret k
          else let (chunks, k) = on_cluster (ka_Stdout api e) k
               in case sw_pidChannel (stdout_writes buffer_Write chunks (new_stdoutProxyWriter (ke_tty x) [])) of
                    [] \<Rightarrow> Block
                  | pid # _ \<Rightarrow> Ret (set_exec e (x\<lparr>ke_pid := uint pid\<rparr>) k))"

definition kube_writeFile :: "'w kube_api \<Rightarrow> kube_config \<Rightarrow> nat \<Rightarrow> string \<Rightarrow> bytes \<Rightarrow> 'w kube \<Rightarrow> (go_error option \<times> 'w kube) go" where
  "kube_writeFile api cfg p path content k =
     (let writeCmd = (if session_mode cfg then [kb_AgentPath cfg, ''console'', ''--wait'', ''--''] else []) @
                     [kb_AgentPath cfg, ''write-file'', path]
      in go_bind (kube_createExec api cfg p writeCmd [] False k) (\<lambda>(r, k). case r of
             Inl err \<Rightarrow> Ret (Some err, k)
           | Inr e \<Rightarrow> go_bind (kube_run api cfg e k) (\<lambda>k. Ret (None, k))))"

text \<open>A resize is handed to the stream; its queue is closed when the stream ends.\<close>

definition kube_resize :: "'w kube_api \<Rightarrow> nat \<Rightarrow> uint32 \<Rightarrow> uint32 \<Rightarrow> 'w kube \<Rightarrow> (go_error option \<times> 'w kube) go" where
  "kube_resize api e height width k =
     go_bind (exec_at e k) (\<lambda>x.
       if ke_queue_closed x then Panic ''send on closed channel''
       else Ret (on_cluster (ka_Push api e (ucast width) (ucast height)) k))"

section \<open>The end of a program\<close>

definition exit_code_error :: "go_error \<Rightarrow> string \<Rightarrow> go_error" where
  "exit_code_error err text = Wrap err ''KUBERNETES_EXIT_CODE_FAILED'' text"

fun getExitCode :: "int \<Rightarrow> ((api_error + int option list) \<times> bool) list \<Rightarrow> (int \<times> go_error option) go" where
  "getExitCode i [] = Block"
| "getExitCode i ((result, expired) # attempts) =
     (case result of
        Inr statuses \<Rightarrow>
          if 0 \<le> i \<and> nat i < length statuses
          then (case statuses ! nat i of
                  Some exitCode \<Rightarrow> Ret (exitCode, None)
                | None \<Rightarrow>
                    if expired
                    then Ret (-1, Some (exit_code_error (ErrorString ''pod has not terminated yet'') ''failed to fetch pod exit status, giving up''))
                    else getExitCode i attempts)
          else Panic ''index out of range''
      | Inl (NotFound err) \<Rightarrow> Ret (137, Some (exit_code_error err ''failed to fetch pod exit status, pod already removed''))
      | Inl (ApiError err) \<Rightarrow>
          if expired then Ret (-1, Some (exit_code_error err ''failed to fetch pod exit status, giving up''))
          else getExitCode i attempts)"

definition sendExitCodeToClient :: "'w kube_api \<Rightarrow> kube_config \<Rightarrow> nat \<Rightarrow> 'w kube \<Rightarrow> (int \<times> 'w kube) go" where
  "sendExitCodeToClient api cfg p k =
     (let (attempts, k) = on_cluster (ka_Get api p) k
      in go_bind (getExitCode (kb_ConsoleContainerNumber cfg) attempts) (\<lambda>(exitCode, err).
           Ret (if err = None then exitCode else 137, k)))"

text \<open>The end of \<open>handleStream\<close>, after the stream has ended with the given error; the result is what \<open>onExit\<close> is called with.\<close>

definition exit_status :: "'w kube_api \<Rightarrow> kube_config \<Rightarrow> nat \<Rightarrow> stream_error option \<Rightarrow> 'w kube \<Rightarrow> (int \<times> 'w kube) go" where
  "exit_status api cfg p err k =
     (case err of
        Some (CodeExitError code) \<Rightarrow> Ret (code, k)
      | Some (StreamFailed _) \<Rightarrow> sendExitCodeToClient api cfg p k
      | None \<Rightarrow> if connection_mode cfg then Ret (0, k) else sendExitCodeToClient api cfg p k)"

definition handleStream :: "'w kube_api \<Rightarrow> kube_config \<Rightarrow> nat \<Rightarrow> stream_error option \<Rightarrow> 'w kube \<Rightarrow> (int \<times> 'w kube) go" where
  "handleStream api cfg e err k =
     go_bind (exec_at e k) (\<lambda>x.
       if ke_exited x then Panic ''close of closed channel''
       else let k = set_exec e (x\<lparr>ke_exited := True, ke_queue_closed := True\<rparr>) k
            in go_bind (if connection_mode cfg then pod_wg_Done (ke_pod x) k else Ret k) (exit_status api cfg (ke_pod x) err))"

section \<open>Signals\<close>

definition processSignalExec :: "'w kube_api \<Rightarrow> kube_config \<Rightarrow> nat \<Rightarrow> string \<Rightarrow> int \<Rightarrow> 'w kube \<Rightarrow> (go_error option \<times> 'w kube) go" where
  "processSignalExec api cfg p sig pid k =
     go_bind (createExecLocked api cfg p [kb_AgentPath cfg, ''signal'', ''--pid'', itoa pid, ''--signal'', sig] [] False k) (\<lambda>(r, k).
       case r of
         Inl err \<Rightarrow> go_bind (pod_wg_Done p k) (\<lambda>k. Ret (Some err, k))
       | Inr e \<Rightarrow>
           go_bind (kube_run api cfg e k) (\<lambda>k.
             let (err, k) = on_cluster (ka_Stream api e) k
             in go_bind (handleStream api cfg e err k) (\<lambda>(exitStatus, k).
                  Ret (if exitStatus \<noteq> 0
                       then (Some (ErrorString (''non-zero exit status ('' @ itoa exitStatus @ '')'')), k\<lparr>kw_failures := kw_failures k + 1\<rparr>)
                       else (None, k)))))"

definition signal_refused :: "string \<Rightarrow> string \<Rightarrow> string \<Rightarrow> go_error" where
  "signal_refused code user text = UserMessage code user text"

text \<open>The lock of the execution is not released when the pod has been shut down.\<close>

definition kube_signal :: "'w kube_api \<Rightarrow> kube_config \<Rightarrow> nat \<Rightarrow> string \<Rightarrow> 'w kube \<Rightarrow> (go_error option \<times> 'w kube) go" where
  "kube_signal api cfg e sig k =
     go_bind (exec_at e k) (\<lambda>x.
       if kb_DisableAgent cfg
       then Ret (Some (signal_refused ''KUBERNETES_EXEC_SIGNAL_FAILED_NO_AGENT'' ''Cannot send signal to process.''
                   (''Cannot send signal '' @ sig @ '' to process because the ContainerSSH agent is disabled'')), k)
       else if ke_lock x then Block
       else if ke_pid x \<le> 0
       then Ret (Some (signal_refused ''KUBERNETES_SIGNAL_FAILED_NO_PID'' ''Cannot send signal to process''
                   ''could not send signal to exec, process ID not found''), k)
       else if ke_exited x
       then Ret (Some (signal_refused ''KUBERNETES_SIGNAL_FAILED_EXITED'' ''Cannot send signal to process''
                   ''could not send signal to exec, process already exited''), k)
       else go_bind (pod_at (ke_pod x) k) (\<lambda>pod.
              if pod_shutdown pod
              then Ret (Some (signal_refused ''KUBERNETES_EXEC_SIGNAL_FAILED'' ''Cannot send signal to process.''
                          ''Not sending signal to process, pod is already shutting down.''), set_exec e (x\<lparr>ke_lock := True\<rparr>) k)
              else go_bind (pod_wg_Add (ke_pod x) k) (\<lambda>k.
                     go_bind (processSignalExec api cfg (ke_pod x) sig (ke_pid x) k) (\<lambda>(err, k).
                       Ret (map_option (\<lambda>err. Wrap err ''KUBERNETES_EXEC_SIGNAL_FAILED''
                              (''Cannot send '' @ sig @ '' signal to pod '' @ pod_Name pod @ '' pid '' @ itoa (ke_pid x))) err, k)))))"

definition kube_stop :: "string \<Rightarrow> 'w kube_api \<Rightarrow> kube_config \<Rightarrow> nat \<Rightarrow> 'w kube \<Rightarrow> 'w kube go" where
  "kube_stop sig api cfg e k =
     go_bind (exec_at e k) (\<lambda>x.
       if ke_exited x then Ret k else go_bind (kube_signal api cfg e sig k) (\<lambda>(_, k). Ret k))"

definition kube_term :: "'w kube_api \<Rightarrow> kube_config \<Rightarrow> nat \<Rightarrow> 'w kube \<Rightarrow> 'w kube go" where
  "kube_term = kube_stop ''TERM''"

definition kube_kill :: "'w kube_api \<Rightarrow> kube_config \<Rightarrow> nat \<Rightarrow> 'w kube \<Rightarrow> 'w kube go" where
  "kube_kill = kube_stop ''KILL''"

section \<open>Removing a pod\<close>

fun remove_loop :: "(api_error option \<times> bool) list \<Rightarrow> go_error option go" where
  "remove_loop [] = Block"
| "remove_loop ((lastError, expired) # attempts) =
     (case lastError of
        None \<Rightarrow> Ret None
      | Some (NotFound _) \<Rightarrow> Ret None
      | Some (ApiError err) \<Rightarrow>
          if expired then Ret (Some (Wrap err ''KUBERNETES_POD_REMOVE_FAILED'' ''Failed to remove pod, giving up.''))
          else remove_loop attempts)"

text \<open>The removal waits for the wait group in session mode only; a second call does nothing. The pod is noted as deleted when the cluster
  confirmed it.\<close>

definition kube_remove :: "'w kube_api \<Rightarrow> kube_config \<Rightarrow> nat \<Rightarrow> 'w kube \<Rightarrow> (go_error option \<times> 'w kube) go" where
  "kube_remove api cfg p k =
     go_bind (pod_at p k) (\<lambda>x.
       if pod_shuttingDown x then Ret (None, k)
       else if session_mode cfg \<and> pod_wg x \<noteq> 0 then Block
       else let k = set_pod p (x\<lparr>pod_shuttingDown := True, pod_shutdown := True\<rparr>) k;
                (attempts, k) = on_cluster (ka_Delete api p) k
            in go_bind (remove_loop attempts) (\<lambda>err.
                 Ret (err, if err = None then k\<lparr>kw_deleted := kw_deleted k @ [p]\<rparr> else k)))"

section \<open>The life of the pods\<close>

text \<open>What may happen to the pods and executions, in any order: \<open>EvStream\<close> is the end of a stream. Attaching is for session mode.\<close>

datatype kube_event =
    EvCreate "bool list" "string \<rightharpoonup> string" "string \<rightharpoonup> string" "(string \<times> string) list" "bool option" "string list"
  | EvAttach nat
  | EvExec nat "string list" "(string \<times> string) list" bool
  | EvRun nat
  | EvFile nat string bytes
  | EvSignal nat string
  | EvStop string nat
  | EvStream nat "stream_error option"
  | EvRemove nat

fun kube_next :: "'w kube_api \<Rightarrow> kube_config \<Rightarrow> kube_event \<Rightarrow> 'w kube \<Rightarrow> 'w kube go" where
  "kube_next api cfg (EvCreate expireds labels annotations env tty cmd) k =
     go_bind (createPod api cfg expireds labels annotations env tty cmd k) (Ret \<circ> snd)"
| "kube_next api cfg (EvAttach p) k = (if session_mode cfg then go_bind (kube_attach api cfg p k) (Ret \<circ> snd) else Block)"
| "kube_next api cfg (EvExec p program env tty) k = go_bind (kube_createExec api cfg p program env tty k) (Ret \<circ> snd)"
| "kube_next api cfg (EvRun e) k = kube_run api cfg e k"
| "kube_next api cfg (EvFile p path content) k = go_bind (kube_writeFile api cfg p path content k) (Ret \<circ> snd)"
| "kube_next api cfg (EvSignal e sig) k = go_bind (kube_signal api cfg e sig k) (Ret \<circ> snd)"
| "kube_next api cfg (EvStop sig e) k = kube_stop sig api cfg e k"
| "kube_next api cfg (EvStream e err) k = go_bind (handleStream api cfg e err k) (Ret \<circ> snd)"
| "kube_next api cfg (EvRemove p) k = go_bind (kube_remove api cfg p k) (Ret \<circ> snd)"

fun kube_steps :: "'w kube_api \<Rightarrow> kube_config \<Rightarrow> kube_event list \<Rightarrow> 'w kube \<Rightarrow> 'w kube go" where
  "kube_steps api cfg [] k = Ret k"
| "kube_steps api cfg (ev # evs) k = go_bind (kube_next api cfg ev k) (kube_steps api cfg evs)"

definition new_kube :: "'w \<Rightarrow> 'w kube" where
  "new_kube w = \<lparr>kw_pods = [], kw_execs = [], kw_requests = 0, kw_failures = 0, kw_deleted = [], kw_cluster = w\<rparr>"

fun is_exec :: "exec_options \<Rightarrow> bool" where
  "is_exec (PodExecOptions _ _) = True"
| "is_exec (PodAttachOptions _) = False"

text \<open>The programs of a pod that its wait group counts: the running ones in connection mode, all there ever were in session mode.\<close>

definition counted :: "kube_config \<Rightarrow> nat \<Rightarrow> kubernetesExecutionImpl \<Rightarrow> bool" where
  "counted cfg p x \<longleftrightarrow> ke_pod x = p \<and> is_exec (ke_options x) \<and> \<not> (connection_mode cfg \<and> ke_exited x)"

definition active :: "kube_config \<Rightarrow> nat \<Rightarrow> kubernetesExecutionImpl list \<Rightarrow> nat" where
  "active cfg p xs = length (filter (counted cfg p) xs)"

text \<open>\<open>d\<close> is what an operation in progress has added to the wait groups.\<close>

definition wg_inv :: "kube_config \<Rightarrow> (nat \<Rightarrow> int) \<Rightarrow> 'w kube \<Rightarrow> bool" where
  "wg_inv cfg d k \<longleftrightarrow>
     (\<forall>p < length (kw_pods k). pod_wg (kw_pods k ! p) = int (active cfg p (kw_execs k)) + d p) \<and>
     (\<forall>x \<in> set (kw_execs k). ke_pod x < length (kw_pods k) \<and> (connection_mode cfg \<longrightarrow> is_exec (ke_options x)))"

lemma wg_inv_frame:
  assumes "kw_pods k' = kw_pods k" and "kw_execs k' = kw_execs k"
  shows "wg_inv cfg d k' = wg_inv cfg d k"
  using assms by (simp add: wg_inv_def)

lemma on_clusterD: "on_cluster f k = (r, k') \<Longrightarrow> \<exists>w. k' = k\<lparr>kw_cluster := w\<rparr>"
  by (auto simp: on_cluster_def split: prod.splits)

lemma pod_atE:
  assumes "go_bind (pod_at p k) f = Ret r"
  obtains "p < length (kw_pods k)" and "f (kw_pods k ! p) = Ret r"
  using assms by (auto simp: pod_at_def split: if_splits)

lemma exec_atE:
  assumes "go_bind (exec_at e k) f = Ret r"
  obtains "e < length (kw_execs k)" and "f (kw_execs k ! e) = Ret r"
  using assms by (auto simp: exec_at_def split: if_splits)

lemma wg_inv_set_pod:
  assumes "wg_inv cfg d k" and "p < length (kw_pods k)"
  shows "wg_inv cfg (d(p := d p + (pod_wg x - pod_wg (kw_pods k ! p)))) (set_pod p x k)"
  using assms by (auto simp: wg_inv_def set_pod_def nth_list_update)

lemma pod_wg_Add_inv:
  assumes "pod_wg_Add p k = Ret k'" and "wg_inv cfg d k"
  shows "wg_inv cfg (d(p := d p + 1)) k'" and "p < length (kw_pods k)" and "length (kw_pods k') = length (kw_pods k)"
    and "kw_execs k' = kw_execs k"
  using assms wg_inv_set_pod [of cfg d k p "(kw_pods k ! p)\<lparr>pod_wg := pod_wg (kw_pods k ! p) + 1\<rparr>"]
  by (auto simp: pod_wg_Add_def set_pod_def elim!: pod_atE)

lemma pod_wg_Done_inv:
  assumes "pod_wg_Done p k = Ret k'" and "wg_inv cfg d k"
  shows "wg_inv cfg (d(p := d p - 1)) k'" and "length (kw_pods k') = length (kw_pods k)" and "kw_execs k' = kw_execs k"
  using assms wg_inv_set_pod [of cfg d k p "(kw_pods k ! p)\<lparr>pod_wg := pod_wg (kw_pods k ! p) - 1\<rparr>"]
  by (auto simp: pod_wg_Done_def set_pod_def elim!: pod_atE split: if_splits)

lemma wg_inv_add_exec:
  assumes "wg_inv cfg d k" and "p < length (kw_pods k)" and "kw_pods k' = kw_pods k" and "kw_execs k' = kw_execs k @ [new_kube_exec p options]"
    and "connection_mode cfg \<longrightarrow> is_exec options"
  shows "wg_inv cfg (if is_exec options then d(p := d p - 1) else d) k'"
  using assms by (auto simp: wg_inv_def active_def counted_def new_kube_exec_def)

lemma make_exec_cases:
  assumes "make_exec api cfg p options k = Ret (r, k')"
  shows "(\<exists>err. r = Inl err) \<and> kw_execs k' = kw_execs k \<or>
      r = Inr (length (kw_execs k)) \<and> kw_execs k' = kw_execs k @ [new_kube_exec p options]"
    and "kw_pods k' = kw_pods k" and "kw_deleted k' = kw_deleted k"
  using assms unfolding make_exec_def
  by (auto elim!: go_bind_RetE split: prod.splits option.splits dest!: on_clusterD)


lemma length_filter_update:
  "e < length xs \<Longrightarrow> length (filter P (xs[e := x])) + of_bool (P (xs ! e)) = length (filter P xs) + of_bool (P x)"
proof (induction xs arbitrary: e)
  case (Cons y ys)
  then show ?case by (cases e) auto
qed simp

lemma active_update:
  assumes "e < length xs"
  shows "int (active cfg p (xs[e := x])) = int (active cfg p xs) + of_bool (counted cfg p x) - of_bool (counted cfg p (xs ! e))"
  using length_filter_update [OF assms, of "counted cfg p" x] by (auto simp: active_def split: if_splits)

lemma wg_inv_set_exec:
  assumes "wg_inv cfg d k" and "e < length (kw_execs k)" and "ke_pod x = ke_pod (kw_execs k ! e)"
    and "ke_options x = ke_options (kw_execs k ! e)"
  shows "wg_inv cfg (d(ke_pod x := d (ke_pod x) + of_bool (counted cfg (ke_pod x) (kw_execs k ! e)) - of_bool (counted cfg (ke_pod x) x)))
    (set_exec e x k)"
proof -
  have others: "counted cfg p x = counted cfg p (kw_execs k ! e)" if "p \<noteq> ke_pod x" for p
    using assms that by (auto simp: counted_def)
  have "ke_pod y < length (kw_pods k) \<and> (connection_mode cfg \<longrightarrow> is_exec (ke_options y))" if "y \<in> set ((kw_execs k)[e := x])" for y
    using assms that set_update_subset_insert [of "kw_execs k" e x] by (fastforce simp: wg_inv_def)
  then show ?thesis
    using assms others by (auto simp: wg_inv_def set_exec_def active_update)
qed

lemma wg_inv_unchanged_exec:
  assumes "wg_inv cfg d k" and "e < length (kw_execs k)" and "ke_pod x = ke_pod (kw_execs k ! e)"
    and "ke_options x = ke_options (kw_execs k ! e)" and "ke_exited x = ke_exited (kw_execs k ! e)"
  shows "wg_inv cfg d (set_exec e x k)"
proof -
  have "counted cfg (ke_pod x) x = counted cfg (ke_pod x) (kw_execs k ! e)" using assms by (simp add: counted_def)
  then show ?thesis using wg_inv_set_exec [OF assms(1-4)] by simp
qed

lemma make_exec_inv:
  assumes "make_exec api cfg p options k = Ret (r, k')" and "wg_inv cfg d k" and "p < length (kw_pods k)"
    and "connection_mode cfg \<longrightarrow> is_exec options"
  shows "wg_inv cfg (if is_exec options \<and> \<not> isl r then d(p := d p - 1) else d) k'"
  using make_exec_cases [OF assms(1)] wg_inv_add_exec [OF assms(2,3), of k' options] assms(2,4) wg_inv_frame [of k' k cfg d]
  by auto

lemma kube_createExec_inv:
  assumes "kube_createExec api cfg p program env tty k = Ret (r, k')" and "wg_inv cfg d k"
  shows "wg_inv cfg d k'" and "r = Inr e \<Longrightarrow> e < length (kw_execs k')"
proof -
  consider "k' = k" "isl r"
    | (made) k1 k2 r2 where "pod_wg_Add p k = Ret k1" "make_exec api cfg p (PodExecOptions (agent_command cfg env program) tty) k1 = Ret (r2, k2)"
        "case r2 of Inl err \<Rightarrow> pod_wg_Done p k2 = Ret k' \<and> r = Inl err | Inr e \<Rightarrow> r = Inr e \<and> k' = k2"
    using assms(1) unfolding kube_createExec_def createExecLocked_def
    by (auto elim!: pod_atE go_bind_RetE split: if_splits sum.splits)
  then have "wg_inv cfg d k' \<and> (r = Inr e \<longrightarrow> e < length (kw_execs k'))"
  proof cases
    case made
    note add = pod_wg_Add_inv [OF made(1) assms(2)]
    have k2: "wg_inv cfg (if \<not> isl r2 then d else d(p := d p + 1)) k2"
      using make_exec_inv [OF made(2) add(1)] add(2,3) by (auto split: if_splits)
    show ?thesis
    proof (cases r2)
      case (Inl err)
      then show ?thesis using made(3) k2 pod_wg_Done_inv [of p k2 k'] by fastforce
    next
      case (Inr e')
      then show ?thesis using made(3) k2 make_exec_cases(1) [OF made(2)] by auto
    qed
  qed (use assms(2) in auto)
  then show "wg_inv cfg d k'" and "r = Inr e \<Longrightarrow> e < length (kw_execs k')" by simp_all
qed

lemma kube_run_inv:
  assumes "kube_run api cfg e k = Ret k'" and "wg_inv cfg d k"
  shows "wg_inv cfg d k'"
proof -
  from assms(1) consider (agentless) "k' = k\<lparr>kw_requests := kw_requests k + 1\<rparr>"
    | (agent) w pid where "e < length (kw_execs k)"
        "k' = set_exec e ((kw_execs k ! e)\<lparr>ke_pid := pid\<rparr>) (k\<lparr>kw_requests := kw_requests k + 1, kw_cluster := w\<rparr>)"
    unfolding kube_run_def
    by (auto simp: Let_def elim!: exec_atE split: if_splits prod.splits list.splits dest!: on_clusterD)
  then show ?thesis
  proof cases
    case agentless
    then show ?thesis using assms(2) wg_inv_frame [of k' k] by simp
  next
    case agent
    then show ?thesis
      using assms(2) wg_inv_unchanged_exec [of cfg d "k\<lparr>kw_requests := kw_requests k + 1, kw_cluster := w\<rparr>" e "(kw_execs k ! e)\<lparr>ke_pid := pid\<rparr>"]
        wg_inv_frame [of "k\<lparr>kw_requests := kw_requests k + 1, kw_cluster := w\<rparr>" k] by simp
  qed
qed

lemma sendExitCodeToClient_frame: "sendExitCodeToClient api cfg p k = Ret (status, k') \<Longrightarrow> \<exists>w. k' = k\<lparr>kw_cluster := w\<rparr>"
  unfolding sendExitCodeToClient_def by (auto elim!: go_bind_RetE split: prod.splits dest!: on_clusterD)

lemma cluster_same: "k = k\<lparr>kw_cluster := kw_cluster k\<rparr>"
  by simp

lemma exit_status_frame: "exit_status api cfg p err k = Ret (status, k') \<Longrightarrow> \<exists>w. k' = k\<lparr>kw_cluster := w\<rparr>"
  unfolding exit_status_def
  by (cases err) (auto split: stream_error.splits if_splits dest: sendExitCodeToClient_frame intro: cluster_same)

lemma handleStreamE:
  assumes "handleStream api cfg e err k = Ret (status, k')"
  obtains k1 where "e < length (kw_execs k)" and "\<not> ke_exited (kw_execs k ! e)"
    and "(if connection_mode cfg
          then pod_wg_Done (ke_pod (kw_execs k ! e)) (set_exec e ((kw_execs k ! e)\<lparr>ke_exited := True, ke_queue_closed := True\<rparr>) k)
          else Ret (set_exec e ((kw_execs k ! e)\<lparr>ke_exited := True, ke_queue_closed := True\<rparr>) k)) = Ret k1"
    and "exit_status api cfg (ke_pod (kw_execs k ! e)) err k1 = Ret (status, k')"
  using assms unfolding handleStream_def Let_def by (elim exec_atE) (auto elim!: go_bind_RetE split: if_splits)

lemma pod_wg_Done_execs: "pod_wg_Done p k = Ret k' \<Longrightarrow> kw_execs k' = kw_execs k"
  by (auto simp: pod_wg_Done_def set_pod_def elim!: pod_atE split: if_splits)

lemma handleStream_inv:
  assumes "handleStream api cfg e err k = Ret (status, k')" and "wg_inv cfg d k"
  shows "wg_inv cfg d k'"
proof -
  define x where "x = (kw_execs k ! e)\<lparr>ke_exited := True, ke_queue_closed := True\<rparr>"
  obtain k1 where e: "e < length (kw_execs k)" "\<not> ke_exited (kw_execs k ! e)"
    and k1: "(if connection_mode cfg then pod_wg_Done (ke_pod (kw_execs k ! e)) (set_exec e x k) else Ret (set_exec e x k)) = Ret k1"
    and "exit_status api cfg (ke_pod (kw_execs k ! e)) err k1 = Ret (status, k')"
    by (rule handleStreamE [OF assms(1), folded x_def])
  then have k': "\<exists>w. k' = k1\<lparr>kw_cluster := w\<rparr>" by (blast dest: exit_status_frame)
  have kept: "ke_pod x = ke_pod (kw_execs k ! e)" "ke_options x = ke_options (kw_execs k ! e)" by (simp_all add: x_def)
  note set = wg_inv_set_exec [OF assms(2) e(1) kept]
  have "wg_inv cfg d k1"
  proof (cases "connection_mode cfg")
    case True
    then have "is_exec (ke_options (kw_execs k ! e))" using assms(2) e(1) by (auto simp: wg_inv_def)
    then have "wg_inv cfg (d(ke_pod x := d (ke_pod x) + 1)) (set_exec e x k)"
      using set True e(2) by (simp add: counted_def x_def)
    then show ?thesis using pod_wg_Done_inv(1) k1 True kept by fastforce
  next
    case False
    then show ?thesis using set k1 by (simp add: counted_def x_def)
  qed
  then show ?thesis using k' wg_inv_frame [of k' k1] by auto
qed

lemma processSignalExec_inv:
  assumes "processSignalExec api cfg p sig pid k = Ret (r, k')" and "wg_inv cfg (d(p := d p + 1)) k" and "p < length (kw_pods k)"
  shows "wg_inv cfg d k'"
proof -
  obtain made k1 where made: "make_exec api cfg p (PodExecOptions (agent_command cfg []
      [kb_AgentPath cfg, ''signal'', ''--pid'', itoa pid, ''--signal'', sig]) False) k = Ret (made, k1)"
    and rest: "(case made of Inl err \<Rightarrow> pod_wg_Done p k1 = Ret k'
      | Inr e \<Rightarrow> \<exists>k2 k3 err status k4. kube_run api cfg e k1 = Ret k2 \<and> on_cluster (ka_Stream api e) k2 = (err, k3) \<and>
          handleStream api cfg e err k3 = Ret (status, k4) \<and> kw_pods k' = kw_pods k4 \<and> kw_execs k' = kw_execs k4)"
    using assms(1) unfolding processSignalExec_def createExecLocked_def
    by (force elim!: go_bind_RetE split: sum.splits prod.splits if_splits)
  have k1: "wg_inv cfg (if isl made then d(p := d p + 1) else d) k1"
    using make_exec_inv [OF made assms(2,3)] by (auto split: if_splits)
  show ?thesis
  proof (cases made)
    case (Inl err)
    then show ?thesis using rest k1 pod_wg_Done_inv(1) [of p k1 k'] by fastforce
  next
    case (Inr e)
    then obtain k2 k3 err status k4 where steps: "kube_run api cfg e k1 = Ret k2" "on_cluster (ka_Stream api e) k2 = (err, k3)"
      "handleStream api cfg e err k3 = Ret (status, k4)" "kw_pods k' = kw_pods k4" "kw_execs k' = kw_execs k4"
      using rest by auto
    have "wg_inv cfg d k2" using kube_run_inv [OF steps(1)] k1 Inr by simp
    then have "wg_inv cfg d k3" using wg_inv_frame [of k3 k2] on_clusterD [OF steps(2)] by auto
    then have "wg_inv cfg d k4" by (rule handleStream_inv [OF steps(3)])
    then show ?thesis using wg_inv_frame [of k' k4] steps(4,5) by simp
  qed
qed

lemma kube_signal_inv:
  assumes "kube_signal api cfg e sig k = Ret (r, k')" and "wg_inv cfg d k"
  shows "wg_inv cfg d k'"
proof -
  define x where "x = kw_execs k ! e"
  from assms(1) consider "k' = k" | (locked) "e < length (kw_execs k)" "k' = set_exec e (x\<lparr>ke_lock := True\<rparr>) k"
    | (sent) k1 r1 where "pod_wg_Add (ke_pod x) k = Ret k1" "processSignalExec api cfg (ke_pod x) sig (ke_pid x) k1 = Ret (r1, k')"
    unfolding kube_signal_def x_def by (elim exec_atE) (auto elim!: go_bind_RetE pod_atE split: if_splits)
  then show ?thesis
  proof cases
    case locked
    then show ?thesis using wg_inv_unchanged_exec [OF assms(2) locked(1), of "x\<lparr>ke_lock := True\<rparr>"] by (simp add: x_def)
  next
    case sent
    note add = pod_wg_Add_inv [OF sent(1) assms(2)]
    show ?thesis using processSignalExec_inv [OF sent(2) add(1)] add(2,3) by simp
  qed (use assms(2) in simp)
qed

lemma kube_stop_inv:
  assumes "kube_stop sig api cfg e k = Ret k'" and "wg_inv cfg d k"
  shows "wg_inv cfg d k'"
  using assms unfolding kube_stop_def
  by (elim exec_atE) (auto elim!: go_bind_RetE split: if_splits intro: kube_signal_inv)

lemma kube_remove_inv:
  assumes "kube_remove api cfg p k = Ret (r, k')" and "wg_inv cfg d k"
  shows "wg_inv cfg d k'"
proof -
  define x where "x = (kw_pods k ! p)\<lparr>pod_shuttingDown := True, pod_shutdown := True\<rparr>"
  from assms(1) consider "k' = k"
    | (removed) "p < length (kw_pods k)" "kw_pods k' = kw_pods (set_pod p x k)" "kw_execs k' = kw_execs (set_pod p x k)"
    unfolding kube_remove_def x_def Let_def
    by (elim pod_atE) (auto elim!: go_bind_RetE split: if_splits prod.splits dest!: on_clusterD)
  then show ?thesis
  proof cases
    case removed
    have "wg_inv cfg d (set_pod p x k)" using wg_inv_set_pod [OF assms(2) removed(1), of x] by (simp add: x_def)
    then show ?thesis using wg_inv_frame [of k' "set_pod p x k"] removed by simp
  qed (use assms(2) in simp)
qed

text \<open>Making pods only adds pods, deletes none and touches no execution.\<close>

definition added_pods :: "bool option \<Rightarrow> 'w kube \<Rightarrow> 'w kube \<Rightarrow> bool" where
  "added_pods tty k k' \<longleftrightarrow>
     (\<exists>names. kw_pods k' = kw_pods k @ map (\<lambda>name. new_pod name tty) names) \<and> kw_execs k' = kw_execs k \<and> kw_deleted k' = kw_deleted k"

lemma added_pods_trans: "added_pods tty k k1 \<Longrightarrow> added_pods tty k1 k2 \<Longrightarrow> added_pods tty k k2"
  unfolding added_pods_def by (auto simp: map_append [symmetric] simp del: map_append)

lemma pod_wait_frame:
  assumes "pod_wait api p k = (r, k')"
  shows "kw_pods k' = kw_pods k" and "kw_execs k' = kw_execs k" and "kw_deleted k' = kw_deleted k"
  using assms by (auto simp: pod_wait_def split: prod.splits option.splits dest!: on_clusterD)

lemma attemptPodCreate_adds:
  assumes "attemptPodCreate api pc tty k = (r, k')"
  shows "added_pods tty k k'" and "r = Inr p \<Longrightarrow> p = length (kw_pods k) \<and> length (kw_pods k') = Suc p"
proof -
  obtain name_err k1 where c: "on_cluster (ka_Create api pc) (k\<lparr>kw_requests := kw_requests k + 1\<rparr>) = (name_err, k1)"
    by (cases "on_cluster (ka_Create api pc) (k\<lparr>kw_requests := kw_requests k + 1\<rparr>)")
  from on_clusterD [OF c] have k1: "kw_pods k1 = kw_pods k" "kw_execs k1 = kw_execs k" "kw_deleted k1 = kw_deleted k" by auto
  have "\<exists>names. kw_pods k' = kw_pods k @ map (\<lambda>name. new_pod name tty) names \<and> kw_execs k' = kw_execs k \<and>
      kw_deleted k' = kw_deleted k \<and> (\<forall>p. r = Inr p \<longrightarrow> p = length (kw_pods k) \<and> length names = 1)"
  proof (cases name_err)
    case (Inl err)
    then show ?thesis using assms c k1 by (intro exI [of _ "[]"]) (auto simp: attemptPodCreate_def)
  next
    case (Inr name)
    obtain r2 k2 where w: "pod_wait api (length (kw_pods k1)) (k1\<lparr>kw_pods := kw_pods k1 @ [new_pod name tty]\<rparr>) = (r2, k2)"
      by (cases "pod_wait api (length (kw_pods k1)) (k1\<lparr>kw_pods := kw_pods k1 @ [new_pod name tty]\<rparr>)")
    have "k' = k2" "r = (case r2 of None \<Rightarrow> Inr (length (kw_pods k1)) | Some err \<Rightarrow> Inl err)"
      using assms c w Inr by (simp_all add: attemptPodCreate_def split: option.splits)
    then show ?thesis using pod_wait_frame [OF w] k1 by (intro exI [of _ "[name]"]) (auto split: option.splits)
  qed
  then show "added_pods tty k k'" and "r = Inr p \<Longrightarrow> p = length (kw_pods k) \<and> length (kw_pods k') = Suc p"
    by (auto simp: added_pods_def)
qed

lemma create_loop_adds:
  assumes "create_loop api pc tty expireds k = Ret (r, k')"
  shows "added_pods tty k k' \<and> (\<forall>p. r = Inr p \<longrightarrow> length (kw_pods k') = Suc p \<and> length (kw_pods k) \<le> p)"
  using assms
proof (induction expireds arbitrary: k)
  case (Cons expired expireds)
  obtain r1 k1 where a: "attemptPodCreate api pc tty k = (r1, k1)" by (cases "attemptPodCreate api pc tty k")
  note adds = attemptPodCreate_adds [OF a]
  show ?case
  proof (cases r1)
    case (Inl err)
    then consider "k' = k1" "isl r" | "create_loop api pc tty expireds k1 = Ret (r, k')"
      using Cons.prems a by (auto split: if_splits)
    then show ?thesis
    proof cases
      case 2
      from Cons.IH [OF this] have "added_pods tty k1 k'" "\<forall>p. r = Inr p \<longrightarrow> length (kw_pods k') = Suc p \<and> length (kw_pods k1) \<le> p"
        by simp_all
      moreover have "length (kw_pods k) \<le> length (kw_pods k1)" using adds(1) by (auto simp: added_pods_def)
      ultimately show ?thesis using added_pods_trans [OF adds(1)] by auto
    qed (use adds in auto)
  next
    case (Inr p)
    then show ?thesis using Cons.prems a adds by auto
  qed
qed simp

lemma createPod_adds:
  assumes "createPod api cfg expireds labels annotations env tty cmd k = Ret (r, k')"
  shows "added_pods tty k k'" and "r = Inr p \<Longrightarrow> length (kw_pods k') = Suc p \<and> length (kw_pods k) \<le> p"
  using assms create_loop_adds unfolding createPod_def by (blast elim!: go_bind_RetE)+

lemma wg_inv_added:
  assumes "added_pods tty k k'" and "wg_inv cfg d k" and "\<And>p. length (kw_pods k) \<le> p \<Longrightarrow> d p = 0"
  shows "wg_inv cfg d k'"
proof -
  obtain names where k': "kw_pods k' = kw_pods k @ map (\<lambda>name. new_pod name tty) names" "kw_execs k' = kw_execs k"
    using assms(1) by (auto simp: added_pods_def)
  have "active cfg p (kw_execs k) = 0" if "length (kw_pods k) \<le> p" for p
    using assms(2) that by (auto simp: wg_inv_def active_def counted_def filter_empty_conv)
  then show ?thesis using assms(2,3) k' by (auto simp: wg_inv_def nth_append new_pod_def)
qed

lemma kube_writeFile_inv:
  assumes "kube_writeFile api cfg p path content k = Ret (r, k')" and "wg_inv cfg d k"
  shows "wg_inv cfg d k'"
proof -
  obtain cmd made k1 where made: "kube_createExec api cfg p cmd [] False k = Ret (made, k1)"
    and rest: "case made of Inl err \<Rightarrow> k' = k1 | Inr e \<Rightarrow> kube_run api cfg e k1 = Ret k'"
    using assms(1) unfolding kube_writeFile_def Let_def by (elim go_bind_RetE) (auto elim!: go_bind_RetE split: sum.splits)
  have "wg_inv cfg d k1" by (rule kube_createExec_inv(1) [OF made assms(2)])
  then show ?thesis using rest kube_run_inv by (auto split: sum.splits)
qed

lemma kube_next_inv:
  assumes "kube_next api cfg ev k = Ret k'" and "wg_inv cfg (\<lambda>_. 0) k"
  shows "wg_inv cfg (\<lambda>_. 0) k'"
proof (cases ev)
  case (EvCreate expireds labels annotations env tty cmd)
  then obtain r where "createPod api cfg expireds labels annotations env tty cmd k = Ret (r, k')"
    using assms(1) by (auto elim!: go_bind_RetE)
  from wg_inv_added [OF createPod_adds(1) [OF this] assms(2)] show ?thesis by simp
next
  case (EvAttach p)
  then obtain tty r where "session_mode cfg" "p < length (kw_pods k)" "make_exec api cfg p (PodAttachOptions tty) k = Ret (r, k')"
    using assms(1) by (auto simp: kube_attach_def elim!: go_bind_RetE pod_atE split: if_splits option.splits)
  then show ?thesis using make_exec_inv [OF _ assms(2)] by fastforce
next
  case (EvFile p path content)
  then obtain r where "kube_writeFile api cfg p path content k = Ret (r, k')" using assms(1) by (auto elim!: go_bind_RetE)
  then show ?thesis by (rule kube_writeFile_inv [OF _ assms(2)])
next
  case (EvExec p program env tty)
  then obtain r where "kube_createExec api cfg p program env tty k = Ret (r, k')" using assms(1) by (auto elim!: go_bind_RetE)
  then show ?thesis by (rule kube_createExec_inv(1) [OF _ assms(2)])
next
  case (EvSignal e sig)
  then obtain r where "kube_signal api cfg e sig k = Ret (r, k')" using assms(1) by (auto elim!: go_bind_RetE)
  then show ?thesis by (rule kube_signal_inv [OF _ assms(2)])
next
  case (EvStream e err)
  then obtain r where "handleStream api cfg e err k = Ret (r, k')" using assms(1) by (auto elim!: go_bind_RetE)
  then show ?thesis by (rule handleStream_inv [OF _ assms(2)])
next
  case (EvRemove p)
  then obtain r where "kube_remove api cfg p k = Ret (r, k')" using assms(1) by (auto elim!: go_bind_RetE)
  then show ?thesis by (rule kube_remove_inv [OF _ assms(2)])
qed (use assms kube_run_inv kube_stop_inv in simp_all)

lemma kube_steps_inv:
  assumes "kube_steps api cfg evs k = Ret k'" and "wg_inv cfg (\<lambda>_. 0) k"
  shows "wg_inv cfg (\<lambda>_. 0) k'"
  using assms by (induction evs arbitrary: k) (auto elim!: go_bind_RetE dest: kube_next_inv)

lemma wg_inv_new: "wg_inv cfg (\<lambda>_. 0) (new_kube w)"
  by (simp add: wg_inv_def new_kube_def)

lemma kube_remove_returns:
  assumes "p < length (kw_pods k)" and "remove_loop (fst (ka_Delete api p (kw_cluster k))) = Ret err"
  shows "(\<exists>r. kube_remove api cfg p k = Ret r) \<longleftrightarrow>
    pod_shuttingDown (kw_pods k ! p) \<or> \<not> session_mode cfg \<or> pod_wg (kw_pods k ! p) = 0"
  using assms by (auto simp: kube_remove_def pod_at_def on_cluster_def set_pod_def Let_def split: prod.splits)

section \<open>What the client guarantees\<close>

text \<open>C24: The wait group of a pod, whatever pods are made and removed, and whatever programs are started, signalled and end in them. In
  connection mode it counts the programs of the pod that are running. In session mode it counts all programs ever started in the
  pod by \<open>createExec\<close> or for a signal, since their end is not noted; so a removal that the cluster would carry out returns only if
  no file was written to the pod and no signal was sent to its program, and waits forever otherwise.\<close>
theorem pod_wait_group:
  assumes "kube_steps api cfg evs (new_kube w) = Ret k" and "p < length (kw_pods k)"
    and "remove_loop (fst (ka_Delete api p (kw_cluster k))) = Ret err"
  shows "pod_wg (kw_pods k ! p) =
      int (length (filter (\<lambda>x. ke_pod x = p \<and> is_exec (ke_options x) \<and> \<not> (connection_mode cfg \<and> ke_exited x)) (kw_execs k))) \<and>
    ((\<exists>r. kube_remove api cfg p k = Ret r) \<longleftrightarrow>
       pod_shuttingDown (kw_pods k ! p) \<or> \<not> session_mode cfg \<or> (\<forall>x \<in> set (kw_execs k). ke_pod x = p \<longrightarrow> \<not> is_exec (ke_options x)))"
proof -
  have wg: "pod_wg (kw_pods k ! p) = int (active cfg p (kw_execs k))"
    using kube_steps_inv [OF assms(1) wg_inv_new] assms(2) by (simp add: wg_inv_def)
  moreover have "pod_wg (kw_pods k ! p) = 0 \<longleftrightarrow> (\<forall>x \<in> set (kw_execs k). ke_pod x = p \<longrightarrow> \<not> is_exec (ke_options x))" if "session_mode cfg"
    using wg that by (auto simp: active_def counted_def filter_empty_conv)
  ultimately show ?thesis using kube_remove_returns [OF assms(2,3), of cfg] by (auto simp: active_def counted_def [abs_def])
qed

definition sample_cluster :: "unit kube_api" where
  "sample_cluster = \<lparr>ka_Create = (\<lambda>_ w. (Inr ''pod'', w)), ka_UntilWithSync = (\<lambda>_ _ w. (None, w)),
     ka_Get = (\<lambda>_ w. ([(Inr [None], True)], w)), ka_Delete = (\<lambda>_ w. ([(None, False)], w)),
     ka_NewSPDYExecutor = (\<lambda>_ _ w. (None, w)), ka_Stdout = (\<lambda>_ w. ([[7, 0], [0, 0, 42]], w)), ka_Stream = (\<lambda>_ w. (None, w)),
     ka_Push = (\<lambda>_ _ _ w. (None, w))\<rparr>"

definition sample_kube_config :: "string \<Rightarrow> kube_config" where
  "sample_kube_config mode = \<lparr>kb_Mode = mode, kb_ShellCommand = [''/bin/sh''], kb_IdleCommand = [''idle''], kb_Subsystems = Map.empty,
     kb_DisableAgent = False, kb_AgentPath = ''agent'', kb_ConsoleContainerNumber = 0, kb_Labels = None, kb_Annotations = None,
     kb_Containers = [\<lparr>kcn_Command = [], kcn_TTY = False, kcn_Stdin = False, kcn_StdinOnce = False, kcn_Env = []\<rparr>],
     kb_InitContainers = [], kb_RestartPolicy = '''', kb_ExposeAuthMetadataAsLabels = [], kb_ExposeAuthMetadataAsAnnotations = [],
     kb_ExposeAuthMetadataAsEnv = []\<rparr>"

lemmas kube_sample =
  sample_cluster_def sample_kube_config_def new_kube_def createPod_def getPodConfig_def at_container_def addLabelsToPodConfig_def
  addAnnotationsToPodConfig_def attemptPodCreate_def pod_wait_def on_cluster_def kube_writeFile_def kube_createExec_def createExecLocked_def
  make_exec_def pod_at_def exec_at_def pod_wg_Add_def pod_wg_Done_def set_pod_def set_exec_def kube_run_def new_pod_def new_kube_exec_def
  agent_command_def new_stdoutProxyWriter_def stdout_Write_def buffer_Write_def littleEndian32_def bigEndian32_def Let_def

theorem pod_wait_group_witness:
  "\<exists>k. kube_steps sample_cluster (sample_kube_config ''session'')
       [EvCreate [True] Map.empty Map.empty [] (Some False) [''/bin/true''], EvFile 0 ''/etc/motd'' [72]] (new_kube ()) = Ret k \<and>
     pod_wg (kw_pods k ! 0) = 1 \<and> \<not> (\<exists>r. kube_remove sample_cluster (sample_kube_config ''session'') 0 k = Ret r)"
proof -
  define evs where "evs = [EvCreate [True] Map.empty Map.empty [] (Some False) [''/bin/true''], EvFile 0 ''/etc/motd'' [72]]"
  obtain k where k: "kube_steps sample_cluster (sample_kube_config ''session'') evs (new_kube ()) = Ret k"
    and xs: "length (kw_pods k) = 1" "map ke_pod (kw_execs k) = [0]" "map (is_exec \<circ> ke_options) (kw_execs k) = [True]"
      "\<not> pod_shuttingDown (kw_pods k ! 0)"
    by (simp add: evs_def kube_sample)
  then obtain x where x: "kw_execs k = [x]" "ke_pod x = 0" "is_exec (ke_options x)" by (auto simp: map_eq_Cons_conv)
  have "remove_loop (fst (ka_Delete sample_cluster 0 (kw_cluster k))) = Ret None" by (simp add: sample_cluster_def)
  from pod_wait_group [OF k _ this] xs x show ?thesis
    unfolding evs_def [symmetric] using k by (auto simp: sample_kube_config_def)
qed

text \<open>A writer that has the process id passes everything on.\<close>

lemma stdout_writes_read:
  assumes "sw_pidRead s"
  shows "stdout_writes buffer_Write chunks s = s\<lparr>sw_backend := sw_backend s @ concat chunks\<rparr>"
  using assms by (induction chunks arbitrary: s) (simp_all add: stdout_Write_def buffer_Write_def)

lemma stdout_Write_pid:
  assumes "\<not> sw_pidRead s" and "sw_pidChannel s = []" and "sw_backend s = []" and "(if sw_tty s then 6 else 4) \<le> length (sw_buf s @ p)"
  shows "snd (stdout_Write buffer_Write p s) = s\<lparr>sw_pidRead := True, sw_buf := [],
    sw_pidChannel := [littleEndian32 (take 4 (sw_buf s @ p))], sw_backend := drop 4 (sw_buf s @ p)\<rparr>"
  using assms by (cases "drop 4 (sw_buf s @ p)") (auto simp: stdout_Write_def buffer_Write_def Let_def split: if_splits)

lemma stdout_writes_pid:
  assumes "\<not> sw_pidRead s" and "sw_pidChannel s = []" and "sw_backend s = []" and "length (sw_buf s) < (if sw_tty s then 6 else 4)"
    and "(if sw_tty s then 6 else 4) \<le> length (sw_buf s @ concat chunks)"
  shows "sw_pidChannel (stdout_writes buffer_Write chunks s) = [littleEndian32 (take 4 (sw_buf s @ concat chunks))] \<and>
    sw_backend (stdout_writes buffer_Write chunks s) = drop 4 (sw_buf s @ concat chunks)"
  using assms
proof (induction chunks arbitrary: s)
  case (Cons c cs)
  show ?case
  proof (cases "(if sw_tty s then 6 else 4) \<le> length (sw_buf s @ c)")
    case True
    then have "4 \<le> length (sw_buf s) + length c" by (simp split: if_splits)
    then show ?thesis using True stdout_Write_pid [OF Cons.prems(1-3), of c] by (simp add: stdout_writes_read)
  next
    case False
    then have "snd (stdout_Write buffer_Write c s) = s\<lparr>sw_buf := sw_buf s @ c\<rparr>"
      using Cons.prems(1) by (auto simp: stdout_Write_def Let_def split: if_splits)
    then show ?thesis using Cons.IH [of "s\<lparr>sw_buf := sw_buf s @ c\<rparr>"] Cons.prems False by (simp split: if_splits)
  qed
qed (auto split: if_splits)

text \<open>C28: The process id is found however the output is cut into pieces: it is the first four bytes, and everything after them reaches
  the client in order. With a terminal in session mode the output begins with the line break that the terminal echoes; these two
  bytes are taken for the low half of the process id, and the high half of the real one is shown to the client.\<close>
theorem pid_read_any_pieces:
  assumes "concat chunks = b1 # b2 # b3 # b4 # out" and "tty \<Longrightarrow> 2 \<le> length out"
  shows "(let s = stdout_writes buffer_Write chunks (new_stdoutProxyWriter tty [])
          in sw_pidChannel s = [littleEndian32 [b1, b2, b3, b4]] \<and> sw_backend s = out) \<and>
    (let s = stdout_writes buffer_Write ([13, 10] # chunks) (new_stdoutProxyWriter True [])
     in sw_pidChannel s = [littleEndian32 [13, 10, b1, b2]] \<and> sw_backend s = b3 # b4 # out)"
  using assms stdout_writes_pid [of "new_stdoutProxyWriter tty []" chunks]
    stdout_writes_pid [of "new_stdoutProxyWriter True []" "[13, 10] # chunks"]
  by (auto simp: new_stdoutProxyWriter_def Let_def eval_nat_numeral)

theorem pid_read_any_pieces_witness:
  "let s = stdout_writes buffer_Write [[7, 0], [0], [0, 72, 105]] (new_stdoutProxyWriter False [])
   in sw_pidChannel s = [7] \<and> sw_backend s = [72, 105]"
  using pid_read_any_pieces [of "[[7, 0], [0], [0, 72, 105]]" 7 0 0 0 "[72, 105]" False]
  by (simp add: Let_def littleEndian32_def bigEndian32_def)

lemma create_loop_returns:
  assumes "True \<in> set expireds"
  shows "\<exists>r. create_loop api pc tty expireds k = Ret r"
  using assms by (induction expireds arbitrary: k) (auto split: prod.splits sum.splits)

lemma create_loop_waits_fail:
  assumes "True \<in> set expireds" and "\<And>pc w. \<not> isl (fst (ka_Create api pc w))" and "\<And>f p w. fst (ka_UntilWithSync api f p w) \<noteq> None"
  shows "\<exists>err k'. create_loop api pc tty expireds k = Ret (Inl err, k') \<and>
    length (kw_pods k') = length (kw_pods k) + length (takeWhile Not expireds) + 1"
  using assms(1)
proof (induction expireds arbitrary: k)
  case (Cons expired expireds)
  obtain err k1 where a: "attemptPodCreate api pc tty k = (Inl err, k1)" "length (kw_pods k1) = Suc (length (kw_pods k))"
  proof -
    obtain name w1 where c: "ka_Create api pc (kw_cluster k) = (Inr name, w1)"
      using assms(2) [of pc "kw_cluster k"] by (cases "ka_Create api pc (kw_cluster k)"; cases "fst (ka_Create api pc (kw_cluster k))") auto
    obtain e w2 where u: "ka_UntilWithSync api isPodAvailableEvent (length (kw_pods k)) w1 = (Some e, w2)"
      using assms(3) [of isPodAvailableEvent "length (kw_pods k)" w1] by (cases "ka_UntilWithSync api isPodAvailableEvent (length (kw_pods k)) w1") auto
    show ?thesis by (rule that, simp add: attemptPodCreate_def pod_wait_def on_cluster_def c u Let_def, simp)
  qed
  show ?case
  proof (cases expired)
    case False
    then have "True \<in> set expireds" using Cons.prems by simp
    from Cons.IH [OF this, of k1] show ?thesis using a False by auto
  qed (use a in simp)
qed simp

text \<open>C29: Making a pod ends: when the time runs out after one of the attempts, \<open>createPod\<close> returns, with the pod that it made last
  or with an error. It deletes no pod: the pods of attempts in which the pod did not come up are left in the cluster, one for each
  attempt if none comes up.\<close>
theorem pod_created_or_left:
  assumes "True \<in> set expireds" and "0 \<le> kb_ConsoleContainerNumber cfg" and "nat (kb_ConsoleContainerNumber cfg) < length (kb_Containers cfg)"
  shows "(\<exists>r k'. createPod api cfg expireds labels annotations env tty cmd k = Ret (r, k') \<and> kw_deleted k' = kw_deleted k \<and>
      (\<forall>p. r = Inr p \<longrightarrow> length (kw_pods k') = Suc p \<and> length (kw_pods k) \<le> p) \<and>
      ((\<forall>pc w. \<not> isl (fst (ka_Create api pc w))) \<and> (\<forall>f p w. fst (ka_UntilWithSync api f p w) \<noteq> None) \<longrightarrow>
         isl r \<and> length (kw_pods k') = length (kw_pods k) + length (takeWhile Not expireds) + 1))"
proof -
  obtain pc where pc: "getPodConfig cfg tty cmd labels annotations env = Ret pc"
    using assms(2,3) by (simp add: getPodConfig_def at_container_def Let_def)
  obtain r k' where r: "create_loop api pc tty expireds k = Ret (r, k')" using create_loop_returns [OF assms(1), of api pc tty k] by auto
  have made: "createPod api cfg expireds labels annotations env tty cmd k = Ret (r, k')" using pc r by (simp add: createPod_def)
  have "isl r \<and> length (kw_pods k') = length (kw_pods k) + length (takeWhile Not expireds) + 1"
    if "\<forall>pc w. \<not> isl (fst (ka_Create api pc w))" "\<forall>f p w. fst (ka_UntilWithSync api f p w) \<noteq> None"
    using create_loop_waits_fail [OF assms(1), of api pc tty k] that r by auto
  then show ?thesis using made create_loop_adds [OF r] by (auto simp: added_pods_def)
qed

definition sick_cluster :: "unit kube_api" where
  "sick_cluster = sample_cluster\<lparr>ka_UntilWithSync := (\<lambda>_ _ w. (Some (ErrorString ''timed out''), w))\<rparr>"

theorem pod_created_or_left_witness:
  "\<exists>r k'. createPod sick_cluster (sample_kube_config ''session'') [False, False, True] Map.empty Map.empty [] None [] (new_kube ()) = Ret (r, k') \<and>
     isl r \<and> length (kw_pods k') = 3 \<and> kw_deleted k' = []"
  using pod_created_or_left [of "[False, False, True]" "sample_kube_config ''session''" sick_cluster Map.empty Map.empty "[]" None "[]" "new_kube ()"]
  by (fastforce simp: sick_cluster_def sample_cluster_def sample_kube_config_def new_kube_def)

text \<open>The status is one the cluster reports for the console container, or the one of a killed program.\<close>

definition reported :: "int \<Rightarrow> ((api_error + int option list) \<times> bool) list \<Rightarrow> int \<Rightarrow> bool" where
  "reported i attempts status \<longleftrightarrow>
     (\<exists>statuses expired. (Inr statuses, expired) \<in> set attempts \<and> 0 \<le> i \<and> nat i < length statuses \<and> statuses ! nat i = Some status)"

lemma reported_Cons: "reported i attempts status \<Longrightarrow> reported i (a # attempts) status"
  by (auto simp: reported_def)

lemma getExitCode_reported:
  assumes "getExitCode i attempts = Ret (code, None)"
  shows "reported i attempts code"
  using assms
proof (induction i attempts rule: getExitCode.induct)
  case (2 i result expired attempts)
  show ?case
  proof (cases result)
    case (Inl a)
    then show ?thesis using 2 by (cases a) (auto split: if_splits intro: reported_Cons)
  next
    case (Inr statuses)
    show ?thesis
    proof (cases "statuses ! nat i")
      case None
      then show ?thesis using 2 Inr by (auto split: if_splits intro: reported_Cons)
    next
      case (Some c)
      then have "0 \<le> i \<and> nat i < length statuses \<and> c = code" using 2(3) Inr by (auto split: if_splits)
      then show ?thesis using Inr Some by (auto simp: reported_def)
    qed
  qed
qed simp

lemma sendExitCodeToClient_reported:
  assumes "sendExitCodeToClient api cfg p k = Ret (status, k')"
  shows "status = 137 \<or> reported (kb_ConsoleContainerNumber cfg) (fst (ka_Get api p (kw_cluster k))) status"
  using assms unfolding sendExitCodeToClient_def on_cluster_def
  by (auto elim!: go_bind_RetE split: prod.splits if_splits dest!: getExitCode_reported)

lemma kube_status_reported:
  assumes "exit_status api cfg p err k = Ret (status, k')"
  shows "(case err of
      Some (CodeExitError code) \<Rightarrow> status = code
    | None \<Rightarrow> if connection_mode cfg then status = 0
              else status = 137 \<or> (\<exists>w. reported (kb_ConsoleContainerNumber cfg) (fst (ka_Get api p w)) status)
    | Some (StreamFailed _) \<Rightarrow> status = 137 \<or> (\<exists>w. reported (kb_ConsoleContainerNumber cfg) (fst (ka_Get api p w)) status))"
  using assms sendExitCodeToClient_reported [of api cfg p k status k'] unfolding exit_status_def
  by (auto split: option.splits stream_error.splits)

lemma handleStream_status:
  assumes "handleStream api cfg e err k = Ret (status, k')"
  shows "e < length (kw_execs k')" and "ke_exited (kw_execs k' ! e)" and "ke_queue_closed (kw_execs k' ! e)"
    and "\<exists>k1. exit_status api cfg (ke_pod (kw_execs k ! e)) err k1 = Ret (status, k')"
proof -
  define x where "x = (kw_execs k ! e)\<lparr>ke_exited := True, ke_queue_closed := True\<rparr>"
  obtain k1 where e: "e < length (kw_execs k)"
    and k1: "(if connection_mode cfg then pod_wg_Done (ke_pod (kw_execs k ! e)) (set_exec e x k) else Ret (set_exec e x k)) = Ret k1"
    and status: "exit_status api cfg (ke_pod (kw_execs k ! e)) err k1 = Ret (status, k')"
    by (rule handleStreamE [OF assms, folded x_def])
  have "kw_execs k1 = (kw_execs k)[e := x]"
    using k1 by (auto simp: set_exec_def dest!: pod_wg_Done_execs split: if_splits)
  then show "e < length (kw_execs k')" and "ke_exited (kw_execs k' ! e)" and "ke_queue_closed (kw_execs k' ! e)"
    using e exit_status_frame [OF status] by (auto simp: x_def)
  show "\<exists>k1. exit_status api cfg (ke_pod (kw_execs k ! e)) err k1 = Ret (status, k')" using status by blast
qed


text \<open>A pod of session mode whose program has ended with status 3.\<close>

definition ended_cluster :: "unit kube_api" where
  "ended_cluster = sample_cluster\<lparr>ka_Get := (\<lambda>_ w. ([(Inr [None], False), (Inr [Some 3], False)], w))\<rparr>"

definition attached_kube :: "unit kube" where
  "attached_kube = (new_kube ())\<lparr>kw_pods := [new_pod ''pod'' (Some True)], kw_execs := [new_kube_exec 0 (PodAttachOptions True)]\<rparr>"


lemma processSignalExec_delivered:
  assumes "processSignalExec api cfg p sig pid k = Ret (None, k')" and "\<not> connection_mode cfg" and "\<And>e w. fst (ka_Stream api e w) = None"
  shows "\<exists>w. reported (kb_ConsoleContainerNumber cfg) (fst (ka_Get api p w)) 0"
proof -
  obtain e k1 where made: "make_exec api cfg p (PodExecOptions (agent_command cfg []
      [kb_AgentPath cfg, ''signal'', ''--pid'', itoa pid, ''--signal'', sig]) False) k = Ret (Inr e, k1)"
    and "\<exists>k2 k3 err k4. kube_run api cfg e k1 = Ret k2 \<and> on_cluster (ka_Stream api e) k2 = (err, k3) \<and>
          handleStream api cfg e err k3 = Ret (0, k4)"
    using assms(1) unfolding processSignalExec_def createExecLocked_def
    by (auto elim!: go_bind_RetE split: sum.splits prod.splits if_splits)
  then obtain k2 k3 err k4 where steps: "kube_run api cfg e k1 = Ret k2" "on_cluster (ka_Stream api e) k2 = (err, k3)"
    "handleStream api cfg e err k3 = Ret (0, k4)"
    by auto
  have e: "kw_execs k1 ! e = new_kube_exec p (PodExecOptions (agent_command cfg []
      [kb_AgentPath cfg, ''signal'', ''--pid'', itoa pid, ''--signal'', sig]) False)" "e < length (kw_execs k1)"
    using make_exec_cases(1) [OF made] by auto
  have "ke_pod (kw_execs k2 ! e) = p"
    using steps(1) e unfolding kube_run_def
    by (elim exec_atE) (auto simp: Let_def set_exec_def new_kube_exec_def split: if_splits prod.splits list.splits dest!: on_clusterD)
  moreover have "kw_execs k3 = kw_execs k2" using on_clusterD [OF steps(2)] by auto
  moreover have "err = None" using steps(2) assms(3) [of e "kw_cluster k2"] by (auto simp: on_cluster_def split: prod.splits)
  ultimately show ?thesis using handleStream_status(4) [OF steps(3)] kube_status_reported [of api cfg p err _ 0 k4] assms(2) by auto
qed

text \<open>Outside connection mode a signal is reported as sent only when the console container has ended with status zero: the program that sends
  the signal ends without an error, and its status is then taken from the container it was sent to. A signal that the program
  survives, or that ends it with another status, is reported as failed.\<close>
theorem session_signal_needs_exit:
  assumes "kube_signal api cfg e sig k = Ret (None, k')" and "\<not> connection_mode cfg" and "\<And>e w. fst (ka_Stream api e w) = None"
  shows "\<exists>w. reported (kb_ConsoleContainerNumber cfg) (fst (ka_Get api (ke_pod (kw_execs k ! e)) w)) 0"
proof -
  obtain k1 pid where "processSignalExec api cfg (ke_pod (kw_execs k ! e)) sig pid k1 = Ret (None, k')"
    using assms(1) unfolding kube_signal_def by (elim exec_atE) (auto elim!: go_bind_RetE pod_atE split: if_splits)
  from processSignalExec_delivered [OF this assms(2,3)] show ?thesis .
qed

text \<open>A program with process id 7 in session mode; the container has ended with status zero when the signal was sent.\<close>

definition running_kube :: "unit kube" where
  "running_kube = attached_kube\<lparr>kw_execs := [(new_kube_exec 0 (PodAttachOptions True))\<lparr>ke_pid := 7\<rparr>]\<rparr>"

definition quiet_cluster :: "unit kube_api" where
  "quiet_cluster = sample_cluster\<lparr>ka_Get := (\<lambda>_ w. ([(Inr [Some 0], False)], w))\<rparr>"

theorem session_signal_needs_exit_witness:
  "reported 0 (fst (ka_Get quiet_cluster 0 ())) 0 \<and>
   (\<exists>k'. kube_signal quiet_cluster (sample_kube_config ''session'') 0 ''TERM'' running_kube = Ret (None, k'))"
proof -
  obtain k' where k': "kube_signal quiet_cluster (sample_kube_config ''session'') 0 ''TERM'' running_kube = Ret (None, k')"
    by (simp add: kube_signal_def processSignalExec_def handleStream_def exit_status_def sendExitCodeToClient_def
        quiet_cluster_def attached_kube_def running_kube_def kube_sample itoa_def)
  from session_signal_needs_exit [OF this]
  have "\<exists>w. reported 0 (fst (ka_Get quiet_cluster 0 w)) 0"
    by (simp add: quiet_cluster_def sample_cluster_def sample_kube_config_def running_kube_def attached_kube_def new_kube_exec_def)
  then show ?thesis using k' by simp
qed

text \<open>When the pod has been shut down, a signal returns an error and leaves the lock of the execution locked, so that the next signal to
  the program, also the one that kills it, waits forever.\<close>

lemma signal_lock_kept:
  assumes "e < length (kw_execs k)" and "x = kw_execs k ! e" and "\<not> kb_DisableAgent cfg" and "\<not> ke_lock x" and "ke_pid x > 0"
    and "\<not> ke_exited x" and "ke_pod x < length (kw_pods k)" and "pod_shutdown (kw_pods k ! ke_pod x)"
  shows "\<exists>err k'. kube_signal api cfg e sig k = Ret (Some err, k') \<and> kube_signal api cfg e sig' k' = Block \<and> kube_kill api cfg e k' = Block"
  using assms by (auto simp: kube_signal_def kube_kill_def kube_stop_def exec_at_def pod_at_def set_exec_def)

end
