(* ===== verification/Kubernetes_Connection.thy ===== *)
theory Kubernetes_Connection
  imports Kubernetes Docker_Connection Config_Options
begin

text \<open>
  A connection served by the Kubernetes backend: \<open>networkHandler.go\<close>, \<open>sshConnectionHandler.go\<close> and \<open>channelHandler.go\<close> of
  \<open>internal/kubernetes\<close>, over the pods and executions of \<open>Kubernetes\<close>. In connection mode there is one pod for the connection, made
  after the handshake; in session mode each program has a pod of its own.

  The lock of the network handler is a flag of the state. It is taken and released by each operation, except that starting a program is
  split where it waits for the process id with the lock held.
\<close>

section \<open>The session channel\<close>

record kube_channel =
  kc_env :: "string \<rightharpoonup> string"
  kc_files :: "(string \<times> bytes) list"
  kc_pty :: bool
  kc_x11 :: bool
  kc_columns :: uint32
  kc_rows :: uint32
  kc_exec :: "nat option"
  kc_pod :: "nat option"

text \<open>The network handler, what the SSH connection handler adds, the channels and the client.\<close>

record 'w kube_conn =
  kn_mutex :: bool
  kn_pod :: "nat option"
  kn_disconnected :: bool
  kn_done :: bool
  kn_labels :: "string \<rightharpoonup> string"
  kn_annotations :: "string \<rightharpoonup> string"
  kn_env :: "string \<rightharpoonup> string"
  kn_files :: "(string \<times> bytes) list"
  kn_forward :: agentForward
  kn_channels :: "(uint64 \<times> kube_channel) list"
  kn_kube :: "'w kube"

text \<open>What a connection is given: the cluster, the configuration, the order in which Go enumerates a map, the times of the attempts to make a
  pod, the parser of command lines, the codec and the first packet of the agent, and whether the time of a shut-down is over before the
  program has ended.\<close>

record 'w kube_setting =
  kr_api :: "'w kube_api"
  kr_config :: kube_config
  kr_range :: "(string \<rightharpoonup> string) \<Rightarrow> (string \<times> string) list"
  kr_times :: "'w kube \<Rightarrow> bool list"
  kr_ParseCMD :: "string \<Rightarrow> go_error + string list"
  kr_codec :: codec
  kr_agent_says :: "'w \<Rightarrow> (go_error + Packet) \<times> 'w"
  kr_expired :: bool

type_synonym 'w channel_op = "kube_channel \<times> 'w kube_conn \<Rightarrow> (go_error option \<times> kube_channel \<times> 'w kube_conn) go"

definition in_kube :: "('w kube \<Rightarrow> ('r \<times> 'w kube) go) \<Rightarrow> 'w kube_conn \<Rightarrow> ('r \<times> 'w kube_conn) go" where
  "in_kube f c = go_bind (f (kn_kube c)) (\<lambda>(r, k). Ret (r, c\<lparr>kn_kube := k\<rparr>))"

definition in_kube_unit :: "('w kube \<Rightarrow> 'w kube go) \<Rightarrow> 'w kube_conn \<Rightarrow> 'w kube_conn go" where
  "in_kube_unit f c = go_bind (f (kn_kube c)) (\<lambda>k. Ret (c\<lparr>kn_kube := k\<rparr>))"

definition kube_already_running :: go_error where
  "kube_already_running = UserMessage ''KUBERNETES_PROGRAM_ALREADY_RUNNING'' ''program already running'' ''program already running''"

definition kube_not_running :: "string \<Rightarrow> go_error" where
  "kube_not_running text = UserMessage ''KUBERNETES_PROGRAM_NOT_RUNNING'' text text"

definition kc_OnEnvRequest :: "string \<Rightarrow> string \<Rightarrow> 'w channel_op" where
  "kc_OnEnvRequest name val hc =
     (let (h, c) = hc
      in if kc_exec h \<noteq> None then Ret (Some kube_already_running, h, c)
         else Ret (None, h\<lparr>kc_env := (kc_env h)(name \<mapsto> val)\<rparr>, c))"

definition kc_OnPtyRequest :: "string \<Rightarrow> uint32 \<Rightarrow> uint32 \<Rightarrow> 'w channel_op" where
  "kc_OnPtyRequest term columns rows hc =
     (let (h, c) = hc
      in if kc_exec h \<noteq> None then Ret (Some kube_already_running, h, c)
         else Ret (None, h\<lparr>kc_env := (kc_env h)(''TERM'' \<mapsto> term), kc_pty := True, kc_columns := columns, kc_rows := rows\<rparr>, c))"

definition kc_parseProgram :: "(string \<Rightarrow> go_error + string list) \<Rightarrow> string \<Rightarrow> string list go" where
  "kc_parseProgram ParseCMD program =
     (case ParseCMD program of
        Inl err \<Rightarrow> Ret [''/bin/sh'', ''-c'', program]
      | Inr [] \<Rightarrow> Panic ''index out of range''
      | Inr (first # rest) \<Rightarrow>
          if has_prefix first ''/'' \<or> has_prefix first ''./'' \<or> has_prefix first ''../'' then Ret (first # rest)
          else Ret [''/bin/sh'', ''-c'', program])"

definition kc_handleExecModeConnection :: "'w kube_setting \<Rightarrow> string list \<Rightarrow> 'w channel_op" where
  "kc_handleExecModeConnection st program hc =
     (let (h, c) = hc
      in case kn_pod c of
           None \<Rightarrow> Panic ''nil pointer dereference''
         | Some p \<Rightarrow>
             go_bind (in_kube (kube_createExec (kr_api st) (kr_config st) p program (kr_range st (kc_env h)) (kc_pty h)) c) (\<lambda>(r, c).
               case r of
                 Inl err \<Rightarrow> Ret (Some err, h, c)
               | Inr e \<Rightarrow> Ret (None, h\<lparr>kc_exec := Some e\<rparr>, c)))"

text \<open>An error of writing a file is only logged.\<close>

fun kube_write_files :: "'w kube_setting \<Rightarrow> nat \<Rightarrow> (string \<times> bytes) list \<Rightarrow> 'w kube \<Rightarrow> 'w kube go" where
  "kube_write_files st p [] k = Ret k"
| "kube_write_files st p ((path, content) # files) k =
     go_bind (kube_writeFile (kr_api st) (kr_config st) p path content k) (\<lambda>(_, k). kube_write_files st p files k)"

text \<open>The pod is kept in the channel handler, and is \<open>nil\<close> after an error.\<close>

definition kc_handleExecModeSession :: "'w kube_setting \<Rightarrow> string list \<Rightarrow> 'w channel_op" where
  "kc_handleExecModeSession st program hc =
     (let (h, c) = hc
      in go_bind (in_kube (createPod (kr_api st) (kr_config st) (kr_times st (kn_kube c)) (kn_labels c) (kn_annotations c)
                     (kr_range st (kc_env h)) (Some (kc_pty h)) program) c) (\<lambda>(r, c).
           case r of
             Inl err \<Rightarrow> Ret (Some err, h\<lparr>kc_pod := None\<rparr>, c)
           | Inr p \<Rightarrow>
               go_bind (in_kube_unit (kube_write_files st p (kc_files h)) c) (\<lambda>c.
               go_bind (in_kube (kube_attach (kr_api st) (kr_config st) p) c) (\<lambda>(r, c).
                 case r of
                   Inl err \<Rightarrow>
                     go_bind (in_kube (kube_remove (kr_api st) (kr_config st) p) c) (\<lambda>(_, c).
                       Ret (Some err, h\<lparr>kc_exec := None, kc_pod := None\<rparr>, c))
                 | Inr e \<Rightarrow> Ret (None, h\<lparr>kc_exec := Some e, kc_pod := Some p\<rparr>, c)))))"

text \<open>\<open>run\<close> up to the wait for the process id; the lock stays taken when there is no error.\<close>

definition kc_run_start :: "'w kube_setting \<Rightarrow> string list \<Rightarrow> 'w channel_op" where
  "kc_run_start st program hc =
     (let (h, c) = hc
      in if kn_mutex c then Block
         else go_bind (if connection_mode (kr_config st) then kc_handleExecModeConnection st program (h, c)
                       else if session_mode (kr_config st) then kc_handleExecModeSession st program (h, c)
                       else Ret (Some (ErrorString (''invalid execution mode: '' @ kb_Mode (kr_config st))), h, c)) (\<lambda>(err, h, c).
                Ret (err, h, c\<lparr>kn_mutex := err = None\<rparr>)))"

text \<open>The rest of \<open>run\<close>: the process id, and the size of the terminal; an error of setting it is only logged.\<close>

definition kc_run_finish :: "'w kube_setting \<Rightarrow> kube_channel \<times> 'w kube_conn \<Rightarrow> (kube_channel \<times> 'w kube_conn) go" where
  "kc_run_finish st hc =
     (let (h, c) = hc
      in case kc_exec h of
           None \<Rightarrow> Panic ''nil pointer dereference''
         | Some e \<Rightarrow>
             go_bind (in_kube_unit (kube_run (kr_api st) (kr_config st) e) c) (\<lambda>c.
             go_bind (if kc_pty h then go_bind (in_kube (kube_resize (kr_api st) e (kc_rows h) (kc_columns h)) c) (Ret \<circ> snd) else Ret c) (\<lambda>c.
               Ret (h, c\<lparr>kn_mutex := False\<rparr>))))"

definition kc_run :: "'w kube_setting \<Rightarrow> string list \<Rightarrow> 'w channel_op" where
  "kc_run st program hc =
     go_bind (kc_run_start st program hc) (\<lambda>(err, hc).
       if err \<noteq> None then Ret (err, hc) else go_bind (kc_run_finish st hc) (\<lambda>hc. Ret (None, hc)))"

definition kc_OnExecRequest :: "'w kube_setting \<Rightarrow> string \<Rightarrow> 'w channel_op" where
  "kc_OnExecRequest st program hc = go_bind (kc_parseProgram (kr_ParseCMD st) program) (\<lambda>program. kc_run st program hc)"

definition kc_OnShell :: "'w kube_setting \<Rightarrow> 'w channel_op" where
  "kc_OnShell st = kc_run st (kb_ShellCommand (kr_config st))"

definition kc_OnSubsystem :: "'w kube_setting \<Rightarrow> string \<Rightarrow> 'w channel_op" where
  "kc_OnSubsystem st subsystem hc =
     (case kb_Subsystems (kr_config st) subsystem of
        Some binary \<Rightarrow> kc_run st [binary] hc
      | None \<Rightarrow> Ret (Some (UserMessage ''KUBERNETES_SUBSYSTEM_NOT_SUPPORTED'' ''subsystem not supported''
                       (''the specified subsystem is not supported ('' @ subsystem @ '')'')), hc))"

definition kc_OnSignal :: "'w kube_setting \<Rightarrow> string \<Rightarrow> 'w channel_op" where
  "kc_OnSignal st sig hc =
     (let (h, c) = hc
      in if kn_mutex c then Block
         else case kc_exec h of
                None \<Rightarrow> Ret (Some (kube_not_running ''Cannot send signal, program is not running.''), h, c)
              | Some e \<Rightarrow> go_bind (in_kube (kube_signal (kr_api st) (kr_config st) e sig) c) (\<lambda>(err, c). Ret (err, h, c)))"

definition kc_OnWindow :: "'w kube_setting \<Rightarrow> uint32 \<Rightarrow> uint32 \<Rightarrow> 'w channel_op" where
  "kc_OnWindow st columns rows hc =
     (let (h, c) = hc
      in if kn_mutex c then Block
         else case kc_exec h of
                None \<Rightarrow> Ret (Some (kube_not_running ''Cannot resize window, program is not running.''), h, c)
              | Some e \<Rightarrow> go_bind (in_kube (kube_resize (kr_api st) e rows columns) c) (\<lambda>(err, c). Ret (err, h, c)))"

section \<open>Forwarding\<close>

text \<open>The agent is a program in the pod of the connection; there is none in session mode.\<close>

definition kn_setupAgent :: "'w kube_setting \<Rightarrow> 'w kube_conn \<Rightarrow> 'w kube go agent_starter" where
  "kn_setupAgent st c =
     on_conn (Inl (ErrorString '''')) (\<lambda>k.
       if connection_mode (kr_config st)
       then (case kn_pod c of
               None \<Rightarrow> Panic ''nil pointer dereference''
             | Some p \<Rightarrow>
                 go_bind (kube_createExec (kr_api st) (kr_config st) p [kb_AgentPath (kr_config st), ''forward-server'']
                     (kr_range st (kn_env c)) False k) (\<lambda>(r, k).
                   case r of
                     Inl err \<Rightarrow> Ret (Inl err, k)
                   | Inr e \<Rightarrow>
                       go_bind (kube_run (kr_api st) (kr_config st) e k) (\<lambda>k.
                         case on_cluster (kr_agent_says st) k of (resp, k) \<Rightarrow> Ret (Inr resp, k))))
       else Ret (Inl (ErrorString ''port forwarding does not work in session mode''), k))"

text \<open>An operation of the forwarding, which may start the agent.\<close>

definition in_forward ::
    "(agentForward \<times> 'w kube go \<Rightarrow> ('r \<times> agentForward \<times> 'w kube go) go) \<Rightarrow> 'w kube_conn \<Rightarrow> ('r \<times> 'w kube_conn) go" where
  "in_forward f c =
     go_bind (f (kn_forward c, Ret (kn_kube c))) (\<lambda>(r, fwd, g). go_bind g (\<lambda>k. Ret (r, c\<lparr>kn_forward := fwd, kn_kube := k\<rparr>)))"

definition kc_OnX11Request :: "'w kube_setting \<Rightarrow> bool \<Rightarrow> string \<Rightarrow> string \<Rightarrow> uint32 \<Rightarrow> 'w channel_op" where
  "kc_OnX11Request st singleConnection proto cookie screen hc =
     (let (h, c) = hc
      in if kc_x11 h then Ret (Some (ErrorString ''X11 forwarding already setup for this channel''), h, c)
         else let h = h\<lparr>kc_env := (kc_env h)(''DISPLAY'' \<mapsto> ''localhost:10'')\<rparr>
              in go_bind (in_forward (\<lambda>fw. Ret (af_NewX11Forwarding (kr_codec st) (kn_setupAgent st c) singleConnection proto cookie screen fw)) c)
                   (\<lambda>(err, c). Ret (err, if err = None then h\<lparr>kc_x11 := True\<rparr> else h, c)))"

section \<open>The end of a session\<close>

text \<open>The pod that is removed in session mode is the one of the network handler.\<close>

definition kc_OnClose :: "'w kube_setting \<Rightarrow> kube_channel \<times> 'w kube_conn \<Rightarrow> (kube_channel \<times> 'w kube_conn) go" where
  "kc_OnClose st hc =
     (let (h, c) = hc
      in go_bind (case kc_exec h of None \<Rightarrow> Ret c | Some e \<Rightarrow> in_kube_unit (kube_kill (kr_api st) (kr_config st) e) c) (\<lambda>c.
         let c = (if kc_x11 h then c\<lparr>kn_forward := snd (af_CloseX11Forwarding (kn_forward c))\<rparr> else c)
         in case kn_pod c of
              Some p \<Rightarrow>
                if session_mode (kr_config st)
                then go_bind (in_kube (kube_remove (kr_api st) (kr_config st) p) c) (\<lambda>(_, c). Ret (h, c))
                else Ret (h, c)
            | None \<Rightarrow> Ret (h, c)))"

definition kc_OnShutdown :: "'w kube_setting \<Rightarrow> kube_channel \<times> 'w kube_conn \<Rightarrow> (kube_channel \<times> 'w kube_conn) go" where
  "kc_OnShutdown st hc =
     (let (h, c) = hc
      in case kc_exec h of
           None \<Rightarrow> Ret (h, c)
         | Some e \<Rightarrow>
             go_bind (in_kube_unit (kube_term (kr_api st) (kr_config st) e) c) (\<lambda>c.
             go_bind (if kr_expired st then in_kube_unit (kube_kill (kr_api st) (kr_config st) e) c else Ret c) (\<lambda>c. Ret (h, c))))"

text \<open>An operation of one channel in the state of the connection.\<close>

definition at_channel ::
    "uint64 \<Rightarrow> (kube_channel \<times> 'w kube_conn \<Rightarrow> ('r \<times> kube_channel \<times> 'w kube_conn) go) \<Rightarrow> 'w kube_conn \<Rightarrow> ('r \<times> 'w kube_conn) go" where
  "at_channel ch f c =
     (case map_of (kn_channels c) ch of
        None \<Rightarrow> Panic ''nil pointer dereference''
      | Some h \<Rightarrow> go_bind (f (h, c)) (\<lambda>(r, h, c). Ret (r, c\<lparr>kn_channels := AList.update ch h (kn_channels c)\<rparr>)))"

definition in_channel :: "uint64 \<Rightarrow> 'w channel_op \<Rightarrow> 'w kube_conn go \<Rightarrow> go_error option \<times> 'w kube_conn go" where
  "in_channel ch f = on_conn None (at_channel ch f)"

definition in_channel_unit :: "uint64 \<Rightarrow> (kube_channel \<times> 'w kube_conn \<Rightarrow> (kube_channel \<times> 'w kube_conn) go) \<Rightarrow> 'w kube_conn go \<Rightarrow> 'w kube_conn go" where
  "in_channel_unit ch f g = snd (in_channel ch (\<lambda>hc. go_bind (f hc) (\<lambda>hc. Ret (None, hc))) g)"

definition kube_session :: "'w kube_setting \<Rightarrow> uint64 \<Rightarrow> 'w kube_conn go session_channel_handler" where
  "kube_session st ch = \<lparr>
     OnUnsupportedChannelRequest = (\<lambda>_ _ _ g. g),
     OnFailedDecodeChannelRequest = (\<lambda>_ _ _ _ g. g),
     OnEnvRequest = (\<lambda>_ n v. in_channel ch (kc_OnEnvRequest n v)),
     OnPtyRequest = (\<lambda>_ t c rw _ _ _. in_channel ch (kc_OnPtyRequest t c rw)),
     OnX11Request = (\<lambda>_ sc pr ck scr _. in_channel ch (kc_OnX11Request st sc pr ck scr)),
     OnExecRequest = (\<lambda>_ p. in_channel ch (kc_OnExecRequest st p)),
     OnShell = (\<lambda>_. in_channel ch (kc_OnShell st)),
     OnSubsystem = (\<lambda>_ n. in_channel ch (kc_OnSubsystem st n)),
     OnSignal = (\<lambda>_ n. in_channel ch (kc_OnSignal st n)),
     OnWindow = (\<lambda>_ c rw _ _. in_channel ch (kc_OnWindow st c rw)),
     OnClose = in_channel_unit ch (kc_OnClose st),
     OnShutdown = in_channel_unit ch (kc_OnShutdown st)\<rparr>"

section \<open>The SSH connection\<close>

definition kn_OnSessionChannel ::
    "'w kube_setting \<Rightarrow> ChannelMetadata \<Rightarrow> 'w kube_conn go \<Rightarrow> (ChannelRejection + 'w kube_conn go session_channel_handler) \<times> 'w kube_conn go" where
  "kn_OnSessionChannel st meta g =
     (Inr (kube_session st (ChannelID meta)),
      go_bind g (\<lambda>c. Ret (c\<lparr>kn_channels := AList.update (ChannelID meta)
        \<lparr>kc_env = kn_env c, kc_files = kn_files c, kc_pty = False, kc_x11 = False, kc_columns = 0, kc_rows = 0, kc_exec = None,
         kc_pod = None\<rparr> (kn_channels c)\<rparr>)))"

definition kube_rejection :: ChannelRejection where
  "kube_rejection = NewChannelRejection ConnectionFailed ''KUBERNETES_FORWARDING_FAILED'' ''Error setting up the forwarding''
     ''Error setting up the forwarding''"

text \<open>Opening a forwarded channel through the agent.\<close>

definition kn_forward_channel ::
    "'w kube_setting \<Rightarrow> ('w kube go agent_starter \<Rightarrow> agentForward \<times> 'w kube go \<Rightarrow> ((go_error + uint64) \<times> agentForward \<times> 'w kube go) go) \<Rightarrow>
     'w kube_conn \<Rightarrow> ((ChannelRejection + forward_channel) \<times> 'w kube_conn) go" where
  "kn_forward_channel st connect c =
     go_bind (in_forward (connect (kn_setupAgent st c)) c) (\<lambda>(r, c).
       Ret (case r of Inl err \<Rightarrow> Inl kube_rejection | Inr conn \<Rightarrow> Inr (AgentConnection conn), c))"

definition kube_connection :: "'w kube_setting \<Rightarrow> 'w kube_conn go ssh_connection_handler" where
  "kube_connection st = \<lparr>
     OnUnsupportedGlobalRequest = (\<lambda>_ _ _ g. g),
     OnFailedDecodeGlobalRequest = (\<lambda>_ _ _ _ g. g),
     OnUnsupportedChannel = (\<lambda>_ _ _ g. g),
     OnSessionChannel = (\<lambda>meta _ _. kn_OnSessionChannel st meta),
     OnTCPForwardChannel = (\<lambda>_ h p oh op.
       on_conn (Inl kube_rejection) (kn_forward_channel st (\<lambda>starter. NewForwardTCP (kr_codec st) starter h p oh op))),
     OnRequestTCPReverseForward = (\<lambda>h p _.
       on_conn None (\<lambda>c. in_forward (NewTCPReverseForwarding (kr_codec st) (kn_setupAgent st c) h p) c)),
     OnRequestCancelTCPReverseForward = (\<lambda>h p.
       on_conn None (in_forward (\<lambda>(fwd, w). go_bind (CancelTCPForwarding h p fwd) (\<lambda>(err, fwd). Ret (err, fwd, w))))),
     OnDirectStreamLocal = (\<lambda>_ path.
       on_conn (Inl kube_rejection) (kn_forward_channel st (\<lambda>starter. NewForwardUnix (kr_codec st) starter path))),
     OnRequestStreamLocal = (\<lambda>path _.
       on_conn None (\<lambda>c. in_forward (NewUnixReverseForwarding (kr_codec st) (kn_setupAgent st c) path) c)),
     OnRequestCancelStreamLocal = (\<lambda>path.
       on_conn None (in_forward (\<lambda>(fwd, w). go_bind (CancelStreamLocalForwarding path fwd) (\<lambda>(err, fwd). Ret (err, fwd, w))))),
     OnConnectionShutdown = (\<lambda>g. g)\<rparr>"

section \<open>The network connection\<close>

definition kn_no_auth :: "ConnectionAuthPendingMetadata \<Rightarrow> auth_result" where
  "kn_no_auth meta = (AuthResponseUnavailable, AuthFailed meta, Some (ErrorString ''the backend handler does not support authentication''))"

text \<open>Metadata is copied to the names the configuration gives.\<close>

fun expose :: "(string \<rightharpoonup> string) \<Rightarrow> (string \<times> string) list \<Rightarrow> (string \<rightharpoonup> string) \<Rightarrow> (string \<rightharpoonup> string)" where
  "expose metadata [] m = m"
| "expose metadata ((authMetadataName, name) # names) m =
     expose metadata names (case metadata authMetadataName of None \<Rightarrow> m | Some v \<Rightarrow> m(name \<mapsto> v))"

text \<open>The replacement of \<open>[^[:alnum:]|\.]\<close> by a dash; a username is taken to be ASCII. The bar is one of the characters that stay.\<close>

definition label_char :: "char \<Rightarrow> char" where
  "label_char ch =
     (let n = of_char ch :: nat
      in if 48 \<le> n \<and> n \<le> 57 \<or> 65 \<le> n \<and> n \<le> 90 \<or> 97 \<le> n \<and> n \<le> 122 \<or> ch = CHR ''|'' \<or> ch = CHR ''.'' then ch else CHR ''-'')"

definition pod_labels :: "kube_config \<Rightarrow> string \<Rightarrow> ConnectionAuthenticatedMetadata \<Rightarrow> (string \<rightharpoonup> string)" where
  "pod_labels cfg connectionID meta =
     expose (values_of (fst (GetMetadata meta))) (kb_ExposeAuthMetadataAsLabels cfg)
       ((if length (AuthenticatedUsername meta) \<le> 63
         then [''containerssh_username'' \<mapsto> map label_char (AuthenticatedUsername meta)] else Map.empty)
        (''containerssh_connection_id'' \<mapsto> connectionID))"

definition pod_annotations :: "kube_config \<Rightarrow> string \<Rightarrow> ConnectionAuthenticatedMetadata \<Rightarrow> (string \<rightharpoonup> string)" where
  "pod_annotations cfg client_ip meta =
     expose (values_of (fst (GetMetadata meta))) (kb_ExposeAuthMetadataAsAnnotations cfg)
       [''containerssh_ip'' \<mapsto> map (\<lambda>ch. if ch = CHR '':'' then CHR ''-'' else ch) client_ip]"

definition pod_env :: "kube_config \<Rightarrow> ConnectionAuthenticatedMetadata \<Rightarrow> (string \<rightharpoonup> string)" where
  "pod_env cfg meta = expose (values_of (fst (GetMetadata meta))) (kb_ExposeAuthMetadataAsEnv cfg) (values_of (fst (GetEnvironment meta)))"

text \<open>\<open>files\<close> are the files of the metadata, in the order in which Go enumerates the map.\<close>

definition kn_OnHandshakeSuccess ::
    "'w kube_setting \<Rightarrow> string \<Rightarrow> string \<Rightarrow> (string \<times> bytes) list \<Rightarrow> ConnectionAuthenticatedMetadata \<Rightarrow> 'w kube_conn \<Rightarrow>
     (go_error option \<times> 'w kube_conn) go" where
  "kn_OnHandshakeSuccess st client_ip connectionID files meta c =
     (let cfg = kr_config st
      in if kn_mutex c then Block
         else if kn_pod c \<noteq> None then Ret (Some (ErrorString ''handshake already complete''), c)
         else go_bind (at_container (kb_ConsoleContainerNumber cfg) id (kb_Containers cfg)) (\<lambda>_.
           let env = pod_env cfg meta;
               c = c\<lparr>kn_labels := pod_labels cfg connectionID meta, kn_annotations := pod_annotations cfg client_ip meta\<rparr>
           in if connection_mode cfg
              then go_bind (in_kube (createPod (kr_api st) cfg (kr_times st (kn_kube c)) (kn_labels c) (kn_annotations c) (kr_range st env) None []) c)
                     (\<lambda>(r, c). case r of
                         Inl err \<Rightarrow> Ret (Some err, c)
                       | Inr p \<Rightarrow>
                           go_bind (in_kube_unit (kube_write_files st p files) (c\<lparr>kn_pod := Some p\<rparr>)) (\<lambda>c.
                             Ret (None, c\<lparr>kn_env := env, kn_files := files\<rparr>)))
              else Ret (None, c\<lparr>kn_env := env, kn_files := files\<rparr>)))"

definition kn_OnDisconnect :: "'w kube_setting \<Rightarrow> 'w kube_conn \<Rightarrow> 'w kube_conn go" where
  "kn_OnDisconnect st c =
     (if kn_mutex c then Block
      else if kn_disconnected c then Ret c
      else let c = c\<lparr>kn_disconnected := True\<rparr>
           in go_bind (case kn_pod c of
                         None \<Rightarrow> Ret c
                       | Some p \<Rightarrow> go_bind (in_kube (kube_remove (kr_api st) (kr_config st) p) c) (Ret \<circ> snd)) (\<lambda>c.
                if kn_done c then Panic ''close of closed channel'' else Ret (c\<lparr>kn_done := True\<rparr>)))"

definition kn_OnShutdown :: "'w kube_setting \<Rightarrow> 'w kube_conn \<Rightarrow> 'w kube_conn go" where
  "kn_OnShutdown st c = (if kr_expired st then kn_OnDisconnect st c else if kn_done c then Ret c else Block)"

definition kube_network ::
    "'w kube_setting \<Rightarrow> string \<Rightarrow> string \<Rightarrow> (string \<times> bytes) list \<Rightarrow> 'w kube_conn go network_handler" where
  "kube_network st client_ip connectionID files = AbstractNetworkConnectionHandler\<lparr>
     OnAuthPassword := (\<lambda>meta _ s. (kn_no_auth meta, s)),
     OnAuthPubKey := (\<lambda>meta _ s. (kn_no_auth meta, s)),
     OnHandshakeSuccess := (\<lambda>meta. on_conn None (kn_OnHandshakeSuccess st client_ip connectionID files meta)),
     OnDisconnect := (\<lambda>g. go_bind g (kn_OnDisconnect st)),
     OnNetworkShutdown := (\<lambda>g. go_bind g (kn_OnShutdown st))\<rparr>"

definition new_kube_conn :: "'w \<Rightarrow> 'w kube_conn" where
  "new_kube_conn w = \<lparr>kn_mutex = False, kn_pod = None, kn_disconnected = False, kn_done = False, kn_labels = Map.empty,
     kn_annotations = Map.empty, kn_env = Map.empty, kn_files = [], kn_forward = NewAgentForward, kn_channels = [], kn_kube = new_kube w\<rparr>"

text \<open>\<open>New\<close>: the configuration is validated and the client is made, which may fail.\<close>

definition kube_New :: "platform \<Rightarrow> KubernetesConfig \<Rightarrow> go_error option \<Rightarrow> 'w \<Rightarrow> go_error + 'w kube_conn" where
  "kube_New p config client_error w =
     (case Validate_Kubernetes p config of
        Some err \<Rightarrow> Inl err
      | None \<Rightarrow> (case client_error of Some err \<Rightarrow> Inl err | None \<Rightarrow> Inr (new_kube_conn w)))"

section \<open>Properties of the pods that all operations keep\<close>

text \<open>The contract of the operations on pods towards a property of the pods, the executions and the deleted pods: apart from attaching and
  removing, they change an execution only in its process id, its lock and its end, a pod only in its wait group and its lock-free flags
  other than \<open>shuttingDown\<close>, and add programs and pods.\<close>

locale pod_property =
  fixes P :: "'w kube \<Rightarrow> bool"
  assumes frame: "P k \<Longrightarrow> kw_pods k' = kw_pods k \<Longrightarrow> kw_execs k' = kw_execs k \<Longrightarrow> kw_deleted k' = kw_deleted k \<Longrightarrow> P k'"
    and exec_changed: "P k \<Longrightarrow> e < length (kw_execs k) \<Longrightarrow> ke_pod x = ke_pod (kw_execs k ! e) \<Longrightarrow>
      ke_options x = ke_options (kw_execs k ! e) \<Longrightarrow> P (set_exec e x k)"
    and pod_changed: "P k \<Longrightarrow> p < length (kw_pods k) \<Longrightarrow> pod_shuttingDown y = pod_shuttingDown (kw_pods k ! p) \<Longrightarrow> P (set_pod p y k)"
    and exec_added: "P k \<Longrightarrow> is_exec options \<Longrightarrow> P (k\<lparr>kw_execs := kw_execs k @ [new_kube_exec p options]\<rparr>)"
    and pod_added: "P k \<Longrightarrow> P (k\<lparr>kw_pods := kw_pods k @ map (\<lambda>name. new_pod name tty) names\<rparr>)"
begin

lemma cluster: "on_cluster f k = (r, k') \<Longrightarrow> P k \<Longrightarrow> P k'"
  using frame [of k k'] by (auto dest: on_clusterD)

lemma wg_Add: "pod_wg_Add p k = Ret k' \<Longrightarrow> P k \<Longrightarrow> P k'"
  by (auto simp: pod_wg_Add_def elim!: pod_atE intro!: pod_changed)

lemma wg_Done: "pod_wg_Done p k = Ret k' \<Longrightarrow> P k \<Longrightarrow> P k'"
  by (auto simp: pod_wg_Done_def elim!: pod_atE split: if_splits intro!: pod_changed)

lemma exec_made:
  assumes "make_exec api cfg p options k = Ret (r, k')" and "P k" and "is_exec options"
  shows "P k'"
  using make_exec_cases [OF assms(1)] frame [OF assms(2), of k'] frame [OF exec_added [OF assms(2,3), of p], of k'] by auto

lemma createExec:
  assumes "kube_createExec api cfg p program env tty k = Ret (r, k')" and "P k"
  shows "P k'"
proof -
  consider "k' = k"
    | (made) k1 k2 r2 where "pod_wg_Add p k = Ret k1" "make_exec api cfg p (PodExecOptions (agent_command cfg env program) tty) k1 = Ret (r2, k2)"
        "pod_wg_Done p k2 = Ret k' \<or> k' = k2"
    using assms(1) unfolding kube_createExec_def createExecLocked_def
    by (auto elim!: pod_atE go_bind_RetE split: if_splits sum.splits)
  then show ?thesis
  proof cases
    case made
    have "P k2" using exec_made [OF made(2) wg_Add [OF made(1) assms(2)]] by simp
    then show ?thesis using made(3) wg_Done by blast
  qed (use assms(2) in simp)
qed

lemma run:
  assumes "kube_run api cfg e k = Ret k'" and "P k"
  shows "P k'"
proof -
  from assms(1) consider (agentless) "k' = k\<lparr>kw_requests := kw_requests k + 1\<rparr>"
    | (agent) w pid where "e < length (kw_execs k)"
        "k' = set_exec e ((kw_execs k ! e)\<lparr>ke_pid := pid\<rparr>) (k\<lparr>kw_requests := kw_requests k + 1, kw_cluster := w\<rparr>)"
    unfolding kube_run_def
    by (auto simp: Let_def elim!: exec_atE split: if_splits prod.splits list.splits dest!: on_clusterD)
  then show ?thesis
  proof cases
    case agentless
    then show ?thesis using frame [OF assms(2)] by simp
  next
    case agent
    have "P (k\<lparr>kw_requests := kw_requests k + 1, kw_cluster := w\<rparr>)" by (rule frame [OF assms(2)]) simp_all
    then show ?thesis unfolding agent(2) by (rule exec_changed) (use agent(1) in simp_all)
  qed
qed

lemma writeFile:
  assumes "kube_writeFile api cfg p path content k = Ret (r, k')" and "P k"
  shows "P k'"
proof -
  obtain cmd made k1 where made: "kube_createExec api cfg p cmd [] False k = Ret (made, k1)"
    and rest: "case made of Inl err \<Rightarrow> k' = k1 | Inr e \<Rightarrow> kube_run api cfg e k1 = Ret k'"
    using assms(1) unfolding kube_writeFile_def Let_def by (elim go_bind_RetE) (auto elim!: go_bind_RetE split: sum.splits)
  have "P k1" by (rule createExec [OF made assms(2)])
  then show ?thesis using rest run by (auto split: sum.splits)
qed

lemma write_files: "kube_write_files st p files k = Ret k' \<Longrightarrow> P k \<Longrightarrow> P k'"
  by (induction files arbitrary: k) (auto elim!: go_bind_RetE dest!: writeFile)

lemma resize: "kube_resize api e height width k = Ret (r, k') \<Longrightarrow> P k \<Longrightarrow> P k'"
  by (auto simp: kube_resize_def elim!: exec_atE split: if_splits dest: cluster)

lemma stream:
  assumes "handleStream api cfg e err k = Ret (status, k')" and "P k"
  shows "P k'"
proof -
  define x where "x = (kw_execs k ! e)\<lparr>ke_exited := True, ke_queue_closed := True\<rparr>"
  obtain k1 where e: "e < length (kw_execs k)"
    and k1: "(if connection_mode cfg then pod_wg_Done (ke_pod (kw_execs k ! e)) (set_exec e x k) else Ret (set_exec e x k)) = Ret k1"
    and status: "exit_status api cfg (ke_pod (kw_execs k ! e)) err k1 = Ret (status, k')"
    by (rule handleStreamE [OF assms(1), folded x_def])
  have "P (set_exec e x k)" by (rule exec_changed [OF assms(2) e]) (simp_all add: x_def)
  then have "P k1" using k1 wg_Done by (auto split: if_splits)
  then show ?thesis using frame [of k1 k'] exit_status_frame [OF status] by auto
qed

lemma signal_exec:
  assumes "processSignalExec api cfg p sig pid k = Ret (r, k')" and "P k"
  shows "P k'"
proof -
  obtain made k1 where made: "make_exec api cfg p (PodExecOptions (agent_command cfg []
      [kb_AgentPath cfg, ''signal'', ''--pid'', itoa pid, ''--signal'', sig]) False) k = Ret (made, k1)"
    and rest: "(case made of Inl err \<Rightarrow> pod_wg_Done p k1 = Ret k'
      | Inr e \<Rightarrow> \<exists>k2 k3 err status k4. kube_run api cfg e k1 = Ret k2 \<and> on_cluster (ka_Stream api e) k2 = (err, k3) \<and>
          handleStream api cfg e err k3 = Ret (status, k4) \<and> kw_pods k' = kw_pods k4 \<and> kw_execs k' = kw_execs k4 \<and>
          kw_deleted k' = kw_deleted k4)"
    using assms(1) unfolding processSignalExec_def createExecLocked_def
    by (force elim!: go_bind_RetE split: sum.splits prod.splits if_splits)
  have "P k1" using exec_made [OF made assms(2)] by simp
  then show ?thesis using rest by (auto split: sum.splits intro: frame dest!: run cluster stream wg_Done)
qed

lemma signalled:
  assumes "kube_signal api cfg e sig k = Ret (r, k')" and "P k"
  shows "P k'"
proof -
  define x where "x = kw_execs k ! e"
  from assms(1) consider "k' = k" | (locked) "e < length (kw_execs k)" "k' = set_exec e (x\<lparr>ke_lock := True\<rparr>) k"
    | (sent) k1 r1 where "pod_wg_Add (ke_pod x) k = Ret k1" "processSignalExec api cfg (ke_pod x) sig (ke_pid x) k1 = Ret (r1, k')"
    unfolding kube_signal_def x_def by (elim exec_atE) (auto elim!: go_bind_RetE pod_atE split: if_splits)
  then show ?thesis
  proof cases
    case locked
    show ?thesis unfolding locked(2) by (rule exec_changed [OF assms(2) locked(1)]) (simp_all add: x_def)
  next
    case sent
    show ?thesis by (rule signal_exec [OF sent(2) wg_Add [OF sent(1) assms(2)]])
  qed (use assms(2) in simp)
qed

lemma stopped: "kube_stop sig api cfg e k = Ret k' \<Longrightarrow> P k \<Longrightarrow> P k'"
  unfolding kube_stop_def by (elim exec_atE) (auto elim!: go_bind_RetE split: if_splits dest: signalled)

lemma createPod:
  assumes "createPod api cfg expireds labels annotations env tty cmd k = Ret (r, k')" and "P k"
  shows "P k'"
  using createPod_adds(1) [OF assms(1)] frame [OF pod_added [OF assms(2)], of k'] unfolding added_pods_def by auto

lemma agent_started:
  assumes "kn_setupAgent st c g = (r, Ret k')" and "g = Ret k" and "P k"
  shows "P k'"
  using assms unfolding kn_setupAgent_def on_conn_def
  by (auto split: go.splits if_splits option.splits sum.splits prod.splits elim!: go_bind_RetE dest!: createExec run cluster)

end

text \<open>What may happen on a connection after the handshake: the calls of the server, and the end of a stream.\<close>

datatype kube_conn_event =
    KSession ChannelMetadata
  | KCall uint64 session_call
  | KForwardTCP uint64 string uint32 string uint32
  | KForwardUnix uint64 string
  | KReverseTCP string uint32 reverse_forward
  | KReverseUnix string reverse_forward
  | KCancelTCP string uint32
  | KCancelUnix string
  | KStream nat "stream_error option"
  | KDisconnect

fun kube_conn_next :: "'w kube_setting \<Rightarrow> kube_conn_event \<Rightarrow> 'w kube_conn \<Rightarrow> 'w kube_conn go" where
  "kube_conn_next st (KSession meta) c = snd (kn_OnSessionChannel st meta (Ret c))"
| "kube_conn_next st (KCall ch call) c = snd (perform (kube_session st ch) call (Ret c))"
| "kube_conn_next st (KForwardTCP ch h p oh op) c = snd (OnTCPForwardChannel (kube_connection st) ch h p oh op (Ret c))"
| "kube_conn_next st (KForwardUnix ch path) c = snd (OnDirectStreamLocal (kube_connection st) ch path (Ret c))"
| "kube_conn_next st (KReverseTCP h p rf) c = snd (OnRequestTCPReverseForward (kube_connection st) h p rf (Ret c))"
| "kube_conn_next st (KReverseUnix path rf) c = snd (OnRequestStreamLocal (kube_connection st) path rf (Ret c))"
| "kube_conn_next st (KCancelTCP h p) c = snd (OnRequestCancelTCPReverseForward (kube_connection st) h p (Ret c))"
| "kube_conn_next st (KCancelUnix path) c = snd (OnRequestCancelStreamLocal (kube_connection st) path (Ret c))"
| "kube_conn_next st (KStream e err) c = go_bind (in_kube (handleStream (kr_api st) (kr_config st) e err) c) (Ret \<circ> snd)"
| "kube_conn_next st KDisconnect c = kn_OnDisconnect st c"

fun kube_conn_run :: "'w kube_setting \<Rightarrow> kube_conn_event list \<Rightarrow> 'w kube_conn \<Rightarrow> 'w kube_conn go" where
  "kube_conn_run st [] c = Ret c"
| "kube_conn_run st (ev # evs) c = go_bind (kube_conn_next st ev c) (kube_conn_run st evs)"

lemma in_kubeE:
  assumes "in_kube f c = Ret (r, c')"
  obtains k where "f (kn_kube c) = Ret (r, k)" and "c' = c\<lparr>kn_kube := k\<rparr>"
  using assms by (auto simp: in_kube_def elim!: go_bind_RetE)

lemma in_kube_unitE:
  assumes "in_kube_unit f c = Ret c'"
  obtains k where "f (kn_kube c) = Ret k" and "c' = c\<lparr>kn_kube := k\<rparr>"
  using assms by (auto simp: in_kube_unit_def elim!: go_bind_RetE)

lemma on_conn_Ret: "snd (on_conn r f (Ret c)) = Ret c' \<Longrightarrow> \<exists>r'. f c = Ret (r', c')"
  by (auto simp: on_conn_def split: go.splits)

text \<open>A property of the pods together with the pod of the network handler.\<close>

definition conn_keeps :: "('w kube \<Rightarrow> bool) \<Rightarrow> nat option \<Rightarrow> bool \<Rightarrow> 'w kube_conn \<Rightarrow> bool" where
  "conn_keeps P pod d c \<longleftrightarrow> P (kn_kube c) \<and> kn_pod c = pod \<and> kn_disconnected c = d"

lemma conn_keeps_frame:
  "conn_keeps P pod d c \<Longrightarrow> kn_kube c' = kn_kube c \<Longrightarrow> kn_pod c' = kn_pod c \<Longrightarrow> kn_disconnected c' = kn_disconnected c \<Longrightarrow> conn_keeps P pod d c'"
  by (simp add: conn_keeps_def)

text \<open>The contract at the level of the connection: the property is also kept when a program is started in session mode, and the pod of the
  network handler is the given one; there is none in session mode.\<close>

locale kube_connection_property = pod_property P for P :: "'w kube \<Rightarrow> bool" +
  fixes st :: "'w kube_setting" and pod :: "nat option"
  assumes session_started: "session_mode (kr_config st) \<Longrightarrow> P (kn_kube c) \<Longrightarrow>
      kc_handleExecModeSession st program (h, c) = Ret (err, h', c') \<Longrightarrow> P (kn_kube c')"
    and no_session_pod: "session_mode (kr_config st) \<Longrightarrow> pod = None"
begin

lemma started_in_session:
  assumes "kc_handleExecModeSession st program (h, c) = Ret (err, h', c')" and "session_mode (kr_config st)" and "conn_keeps P pod d c"
  shows "conn_keeps P pod d c'"
proof -
  have "kn_pod c' = kn_pod c \<and> kn_disconnected c' = kn_disconnected c"
    using assms(1) unfolding kc_handleExecModeSession_def Let_def
    by (auto elim!: go_bind_RetE in_kubeE in_kube_unitE split: sum.splits)
  then show ?thesis using assms(3) session_started [OF assms(2) _ assms(1)] by (simp add: conn_keeps_def)
qed

lemma started_in_connection:
  assumes "kc_handleExecModeConnection st program (h, c) = Ret (err, h', c')" and "conn_keeps P pod d c"
  shows "conn_keeps P pod d c'"
  using assms unfolding kc_handleExecModeConnection_def Let_def
  by (auto simp: conn_keeps_def elim!: go_bind_RetE in_kubeE split: option.splits sum.splits dest!: createExec)

lemma run_started:
  assumes "kc_run_start st program (h, c) = Ret (err, h', c')" and "conn_keeps P pod d c"
  shows "conn_keeps P pod d c'"
proof -
  from assms(1) consider "c' = c\<lparr>kn_mutex := False\<rparr>"
    | (connection) c1 where "kc_handleExecModeConnection st program (h, c) = Ret (err, h', c1)" "c' = c1\<lparr>kn_mutex := err = None\<rparr>"
    | (session) c1 where "session_mode (kr_config st)" "kc_handleExecModeSession st program (h, c) = Ret (err, h', c1)"
        "c' = c1\<lparr>kn_mutex := err = None\<rparr>"
    unfolding kc_run_start_def Let_def by (auto elim!: go_bind_RetE split: if_splits)
  then show ?thesis
  proof cases
    case connection
    then show ?thesis using started_in_connection [OF connection(1) assms(2)] by (simp add: conn_keeps_def)
  next
    case session
    then show ?thesis using started_in_session [OF session(2,1) assms(2)] by (simp add: conn_keeps_def)
  qed (use assms(2) in \<open>simp add: conn_keeps_def\<close>)
qed

lemma run_finished:
  assumes "kc_run_finish st (h, c) = Ret (h', c')" and "conn_keeps P pod d c"
  shows "conn_keeps P pod d c'"
  using assms unfolding kc_run_finish_def Let_def
  by (auto simp: conn_keeps_def elim!: go_bind_RetE in_kubeE in_kube_unitE split: option.splits if_splits dest!: run resize)

lemma program_run:
  assumes "kc_run st program (h, c) = Ret (err, h', c')" and "conn_keeps P pod d c"
  shows "conn_keeps P pod d c'"
  using assms unfolding kc_run_def by (auto elim!: go_bind_RetE split: if_splits dest!: run_started run_finished)

lemma forwarded:
  assumes "in_forward f c = Ret (r, c')" and "conn_keeps P pod d c"
    and "\<And>fwd r fwd' k k'. f (fwd, Ret k) = Ret (r, fwd', Ret k') \<Longrightarrow> P k \<Longrightarrow> P k'"
  shows "conn_keeps P pod d c'"
  using assms(1,2) unfolding in_forward_def
  by (auto simp: conn_keeps_def elim!: go_bind_RetE dest!: assms(3))

lemma agent: "kn_setupAgent st c (Ret k) = (r, Ret k') \<Longrightarrow> P k \<Longrightarrow> P k'"
  using agent_started by blast

lemma x11_forwarded:
  assumes "af_NewX11Forwarding cd (kn_setupAgent st c) sc pr ck scr (fwd, Ret k) = (err, fwd', Ret k')" and "P k"
  shows "P k'"
  using assms unfolding af_NewX11Forwarding_def setupX11_def Let_def
  by (auto split: if_splits prod.splits sum.splits dest: agent)

lemma reverse_forwarded:
  assumes "reverse_forwarding already key (kn_setupAgent st c) startClient (fwd, Ret k) = Ret (err, fwd', Ret k')" and "P k"
  shows "P k'"
  using assms unfolding reverse_forwarding_def Let_def
  by (auto elim!: go_bind_RetE split: if_splits prod.splits sum.splits dest: agent)

lemma direct_forwarded:
  assumes "forward_direct cd (kn_setupAgent st c) connect (fwd, Ret k) = Ret (r, fwd', Ret k')" and "P k"
  shows "P k'"
  using assms unfolding forward_direct_def setupDirectForward_def Let_def
  by (auto elim!: go_bind_RetE split: if_splits prod.splits sum.splits option.splits dest: agent)

lemma channel_op:
  assumes "at_channel ch f c = Ret (r, c')" and "conn_keeps P pod d c"
    and "\<And>h r h' c'. f (h, c) = Ret (r, h', c') \<Longrightarrow> conn_keeps P pod d c'"
  shows "conn_keeps P pod d c'"
  using assms(1) unfolding at_channel_def
  by (auto elim!: go_bind_RetE split: option.splits dest!: assms(3) intro: conn_keeps_frame)

lemma in_channel_op:
  assumes "snd (in_channel ch f (Ret c)) = Ret c'" and "conn_keeps P pod d c"
    and "\<And>h r h' c'. f (h, c) = Ret (r, h', c') \<Longrightarrow> conn_keeps P pod d c'"
  shows "conn_keeps P pod d c'"
proof -
  obtain r where "at_channel ch f c = Ret (r, c')" using on_conn_Ret [OF assms(1) [unfolded in_channel_def]] by blast
  then show ?thesis using channel_op [of ch f c r c'] assms(2,3) by blast
qed

lemma in_channel_unit_op:
  assumes "in_channel_unit ch f (Ret c) = Ret c'" and "conn_keeps P pod d c"
    and "\<And>h h' c'. f (h, c) = Ret (h', c') \<Longrightarrow> conn_keeps P pod d c'"
  shows "conn_keeps P pod d c'"
  by (rule in_channel_op [OF assms(1) [unfolded in_channel_unit_def] assms(2)]) (auto elim!: go_bind_RetE dest: assms(3))

lemma window_changed: "kc_OnWindow st columns rows (h, c) = Ret (r, h', c') \<Longrightarrow> conn_keeps P pod d c \<Longrightarrow> conn_keeps P pod d c'"
  unfolding kc_OnWindow_def Let_def
  by (auto simp: conn_keeps_def elim!: go_bind_RetE in_kubeE split: if_splits option.splits dest!: resize)

lemma signal_sent: "kc_OnSignal st sig (h, c) = Ret (r, h', c') \<Longrightarrow> conn_keeps P pod d c \<Longrightarrow> conn_keeps P pod d c'"
  unfolding kc_OnSignal_def Let_def
  by (auto simp: conn_keeps_def elim!: go_bind_RetE in_kubeE split: if_splits option.splits dest!: signalled)

lemma x11_requested: "kc_OnX11Request st sc pr ck scr (h, c) = Ret (r, h', c') \<Longrightarrow> conn_keeps P pod d c \<Longrightarrow> conn_keeps P pod d c'"
  unfolding kc_OnX11Request_def Let_def
  by (auto elim!: go_bind_RetE split: if_splits dest!: forwarded dest: x11_forwarded)

lemma session_closed:
  assumes "kc_OnClose st (h, c) = Ret (h', c')" and "conn_keeps P pod d c"
  shows "conn_keeps P pod d c'"
proof -
  obtain c1 where killed: "(case kc_exec h of None \<Rightarrow> Ret c | Some e \<Rightarrow> in_kube_unit (kube_kill (kr_api st) (kr_config st) e) c) = Ret c1"
    and c': "kn_pod c1 \<noteq> None \<and> session_mode (kr_config st) \<or> kn_kube c' = kn_kube c1 \<and> kn_pod c' = kn_pod c1 \<and> kn_disconnected c' = kn_disconnected c1"
    using assms(1) unfolding kc_OnClose_def Let_def by (auto elim!: go_bind_RetE split: if_splits option.splits)
  have "conn_keeps P pod d c1"
    using killed assms(2) by (auto simp: conn_keeps_def kube_kill_def elim!: in_kube_unitE split: option.splits dest!: stopped)
  then show ?thesis using c' no_session_pod by (auto simp: conn_keeps_def)
qed

lemma session_stopped: "kc_OnShutdown st (h, c) = Ret (h', c') \<Longrightarrow> conn_keeps P pod d c \<Longrightarrow> conn_keeps P pod d c'"
  unfolding kc_OnShutdown_def Let_def
  by (auto simp: conn_keeps_def kube_kill_def kube_term_def elim!: go_bind_RetE in_kube_unitE split: if_splits option.splits dest!: stopped)

lemma session_call:
  assumes "snd (perform (kube_session st ch) call (Ret c)) = Ret c'" and "conn_keeps P pod d c"
  shows "conn_keeps P pod d c'"
proof -
  note op = in_channel_op [OF _ assms(2)] and unit_op = in_channel_unit_op [OF _ assms(2)]
  show ?thesis
  proof (cases call)
    case (CallEnv r n v)
    show ?thesis by (rule op [of ch "kc_OnEnvRequest n v"]) (use assms CallEnv in \<open>auto simp: kube_session_def kc_OnEnvRequest_def split: if_splits\<close>)
  next
    case (CallPty r t cl rw w ht m)
    show ?thesis by (rule op [of ch "kc_OnPtyRequest t cl rw"]) (use assms CallPty in \<open>auto simp: kube_session_def kc_OnPtyRequest_def split: if_splits\<close>)
  next
    case (CallX11 r sc pr ck scr rf)
    show ?thesis by (rule op [of ch "kc_OnX11Request st sc pr ck scr"]) (use assms CallX11 x11_requested in \<open>auto simp: kube_session_def\<close>)
  next
    case (CallExec r n)
    show ?thesis
      by (rule op [of ch "kc_OnExecRequest st n"])
        (use assms CallExec in \<open>auto simp: kube_session_def kc_OnExecRequest_def elim!: go_bind_RetE dest!: program_run\<close>)
  next
    case (CallShell r)
    show ?thesis
      by (rule op [of ch "kc_OnShell st"]) (use assms CallShell in \<open>auto simp: kube_session_def kc_OnShell_def dest!: program_run\<close>)
  next
    case (CallSubsystem r n)
    show ?thesis
      by (rule op [of ch "kc_OnSubsystem st n"])
        (use assms CallSubsystem in \<open>auto simp: kube_session_def kc_OnSubsystem_def split: option.splits dest!: program_run\<close>)
  next
    case (CallSignal r n)
    show ?thesis by (rule op [of ch "kc_OnSignal st n"]) (use assms CallSignal signal_sent in \<open>auto simp: kube_session_def\<close>)
  next
    case (CallWindow r cl rw w ht)
    show ?thesis by (rule op [of ch "kc_OnWindow st cl rw"]) (use assms CallWindow window_changed in \<open>auto simp: kube_session_def\<close>)
  next
    case CallClose
    show ?thesis by (rule unit_op [of ch "kc_OnClose st"]) (use assms CallClose session_closed in \<open>auto simp: kube_session_def\<close>)
  next
    case CallShutdown
    show ?thesis by (rule unit_op [of ch "kc_OnShutdown st"]) (use assms CallShutdown session_stopped in \<open>auto simp: kube_session_def\<close>)
  qed (use assms in \<open>auto simp: kube_session_def\<close>)
qed

lemma forward_opened:
  assumes "kn_forward_channel st connect c = Ret (r, c')" and "conn_keeps P pod d c"
    and "\<And>fwd r fwd' k k'. connect (kn_setupAgent st c) (fwd, Ret k) = Ret (r, fwd', Ret k') \<Longrightarrow> P k \<Longrightarrow> P k'"
  shows "conn_keeps P pod d c'"
  using assms(1) unfolding kn_forward_channel_def by (auto elim!: go_bind_RetE dest!: forwarded [OF _ assms(2,3)])

lemma conn_event:
  assumes "kube_conn_next st ev c = Ret c'" and "conn_keeps P pod d c" and "ev \<noteq> KDisconnect"
  shows "conn_keeps P pod d c'"
proof (cases ev)
  case (KSession meta)
  then show ?thesis using assms(1,2) by (auto simp: kn_OnSessionChannel_def conn_keeps_def)
next
  case (KCall ch call)
  then show ?thesis using assms session_call by simp
next
  case (KForwardTCP ch h p oh op)
  then show ?thesis using assms(1,2)
    by (auto simp: kube_connection_def NewForwardTCP_def dest!: on_conn_Ret dest: forward_opened [OF _ _ direct_forwarded])
next
  case (KForwardUnix ch path)
  then show ?thesis using assms(1,2)
    by (auto simp: kube_connection_def NewForwardUnix_def dest!: on_conn_Ret dest: forward_opened [OF _ _ direct_forwarded])
next
  case (KReverseTCP h p rf)
  then show ?thesis using assms(1,2)
    by (auto simp: kube_connection_def NewTCPReverseForwarding_def dest!: on_conn_Ret dest: forwarded [OF _ _ reverse_forwarded])
next
  case (KReverseUnix path rf)
  then show ?thesis using assms(1,2)
    by (auto simp: kube_connection_def NewUnixReverseForwarding_def dest!: on_conn_Ret dest: forwarded [OF _ _ reverse_forwarded])
next
  case (KCancelTCP h p)
  then show ?thesis using assms(1,2)
    by (auto simp: kube_connection_def in_forward_def conn_keeps_def dest!: on_conn_Ret elim!: go_bind_RetE)
next
  case (KCancelUnix path)
  then show ?thesis using assms(1,2)
    by (auto simp: kube_connection_def in_forward_def conn_keeps_def dest!: on_conn_Ret elim!: go_bind_RetE)
next
  case (KStream e err)
  then show ?thesis using assms(1,2) by (auto simp: conn_keeps_def elim!: go_bind_RetE in_kubeE dest!: stream)
qed (use assms(3) in simp)

lemma conn_events:
  "kube_conn_run st evs c = Ret c' \<Longrightarrow> conn_keeps P pod d c \<Longrightarrow> KDisconnect \<notin> set evs \<Longrightarrow> conn_keeps P pod d c'"
  by (induction evs arbitrary: c) (auto elim!: go_bind_RetE dest: conn_event)

end

section \<open>Which pods are left\<close>

text \<open>The pods a program was attached to, which are those of sessions, are not deleted.\<close>

definition attached_kept :: "'w kube \<Rightarrow> bool" where
  "attached_kept k \<longleftrightarrow>
     (\<forall>x \<in> set (kw_execs k). \<not> is_exec (ke_options x) \<longrightarrow> ke_pod x < length (kw_pods k) \<and> ke_pod x \<notin> set (kw_deleted k)) \<and>
     (\<forall>p \<in> set (kw_deleted k). p < length (kw_pods k))"

text \<open>No program is attached to a pod, and it is not deleted.\<close>

definition unused_pod :: "nat \<Rightarrow> 'w kube \<Rightarrow> bool" where
  "unused_pod p k \<longleftrightarrow> attached_kept k \<and> p < length (kw_pods k) \<and> p \<notin> set (kw_deleted k) \<and>
     (\<forall>x \<in> set (kw_execs k). \<not> is_exec (ke_options x) \<longrightarrow> ke_pod x \<noteq> p)"

lemma changed_exec:
  assumes "e < length xs" and "ke_pod x = ke_pod (xs ! e)" and "ke_options x = ke_options (xs ! e)" and "y \<in> set (xs[e := x])"
  shows "\<exists>z \<in> set xs. ke_pod y = ke_pod z \<and> ke_options y = ke_options z"
proof -
  have "y = x \<or> y \<in> set xs" using assms(4) set_update_subset_insert [of xs e x] by auto
  then show ?thesis using assms(1-3) nth_mem [of e xs] by metis
qed

interpretation attached: pod_property attached_kept
proof (unfold_locales, goal_cases)
  case (2 k e x)
  then show ?case
    using changed_exec [OF 2(2,3,4)] unfolding attached_kept_def set_exec_def by simp metis
qed (auto simp: attached_kept_def set_pod_def new_kube_exec_def)

interpretation unused: pod_property "unused_pod p" for p
proof (unfold_locales, goal_cases)
  case (2 k e x)
  then show ?case
    using changed_exec [OF 2(2,3,4)] attached.exec_changed [of k e x] unfolding unused_pod_def by (simp add: set_exec_def) metis
next
  case (3 k q y)
  then show ?case using attached.pod_changed [of k q y] by (auto simp: unused_pod_def set_pod_def)
next
  case (4 k options q)
  then show ?case using attached.exec_added [of k options q] by (auto simp: unused_pod_def new_kube_exec_def)
next
  case (5 k tty names)
  then show ?case using attached.pod_added [of k tty names] by (auto simp: unused_pod_def)
qed (auto simp: unused_pod_def attached_kept_def)

lemma unused_attached:
  assumes "kube_attach api cfg p k = Ret (r, k')" and "unused_pod p k"
  shows "attached_kept k'" and "isl r \<Longrightarrow> unused_pod p k'"
proof -
  obtain tty where made: "make_exec api cfg p (PodAttachOptions tty) k = Ret (r, k')"
    using assms(1) by (auto simp: kube_attach_def elim!: pod_atE split: option.splits)
  show "attached_kept k'" and "isl r \<Longrightarrow> unused_pod p k'"
    using make_exec_cases [OF made] assms(2) by (auto simp: unused_pod_def attached_kept_def new_kube_exec_def)
qed

lemma unused_removed:
  assumes "kube_remove api cfg p k = Ret (r, k')" and "unused_pod p k"
  shows "attached_kept k'"
  using assms unfolding kube_remove_def Let_def
  by (elim pod_atE) (auto simp: unused_pod_def attached_kept_def set_pod_def elim!: go_bind_RetE split: if_splits prod.splits dest!: on_clusterD)

lemma session_started_kept:
  assumes "kc_handleExecModeSession st program (h, c) = Ret (err, h', c')" and "attached_kept (kn_kube c)"
  shows "attached_kept (kn_kube c')"
proof -
  obtain r k1 where made: "createPod (kr_api st) (kr_config st) (kr_times st (kn_kube c)) (kn_labels c) (kn_annotations c)
      (kr_range st (kc_env h)) (Some (kc_pty h)) program (kn_kube c) = Ret (r, k1)"
    and rest: "case r of Inl err \<Rightarrow> kn_kube c' = k1
      | Inr p \<Rightarrow> \<exists>k2 a k3. kube_write_files st p (kc_files h) k1 = Ret k2 \<and> kube_attach (kr_api st) (kr_config st) p k2 = Ret (a, k3) \<and>
          (if isl a then \<exists>e. kube_remove (kr_api st) (kr_config st) p k3 = Ret (e, kn_kube c') else kn_kube c' = k3)"
    using assms(1) unfolding kc_handleExecModeSession_def Let_def
    by (auto elim!: go_bind_RetE in_kubeE in_kube_unitE split: sum.splits)
  have k1: "attached_kept k1" by (rule attached.createPod [OF made assms(2)])
  show ?thesis
  proof (cases r)
    case (Inr p)
    then obtain k2 a k3 where steps: "kube_write_files st p (kc_files h) k1 = Ret k2" "kube_attach (kr_api st) (kr_config st) p k2 = Ret (a, k3)"
      "if isl a then \<exists>e. kube_remove (kr_api st) (kr_config st) p k3 = Ret (e, kn_kube c') else kn_kube c' = k3"
      using rest by auto
    have "length (kw_pods k1) = Suc p" "length (kw_pods (kn_kube c)) \<le> p" using createPod_adds(2) [OF made Inr] by simp_all
    moreover have "kw_execs k1 = kw_execs (kn_kube c)" "kw_deleted k1 = kw_deleted (kn_kube c)"
      using createPod_adds(1) [OF made] by (simp_all add: added_pods_def)
    ultimately have "unused_pod p k1" using assms(2) k1 by (fastforce simp: unused_pod_def attached_kept_def)
    from unused.write_files [OF steps(1) this] have k3: "attached_kept k3" "isl a \<Longrightarrow> unused_pod p k3"
      using unused_attached [OF steps(2)] by simp_all
    then show ?thesis using steps(3) unused_removed by (auto split: if_splits)
  qed (use k1 rest in simp)
qed

interpretation session_pods: kube_connection_property "\<lambda>k. session_mode (kr_config st) \<longrightarrow> attached_kept k" st None for st
proof (unfold_locales, goal_cases)
  case (1 k k')
  then show ?case using attached.frame by blast
qed (auto intro: attached.exec_changed attached.pod_changed attached.exec_added attached.pod_added dest: session_started_kept)

interpretation connection_pods: kube_connection_property
    "\<lambda>k. connection_mode (kr_config st) \<longrightarrow> kw_deleted k = deleted \<and> p < length (kw_pods k) \<and> \<not> pod_shuttingDown (kw_pods k ! p)"
    st "if connection_mode (kr_config st) then Some p else None"
  for st deleted p
  by unfold_locales (auto simp: set_exec_def set_pod_def nth_append nth_list_update)

lemma session_disconnect:
  assumes "kn_OnDisconnect st c = Ret c'" and "kn_pod c = None"
  shows "kn_kube c' = kn_kube c" and "kn_pod c' = None"
  using assms by (auto simp: kn_OnDisconnect_def Let_def split: if_splits)

lemma session_run_kept:
  assumes "kube_conn_run st evs c = Ret c'" and "session_mode (kr_config st)" and "attached_kept (kn_kube c)" and "kn_pod c = None"
  shows "attached_kept (kn_kube c') \<and> kn_pod c' = None"
  using assms(1,3,4)
proof (induction evs arbitrary: c)
  case (Cons ev evs)
  obtain c1 where next1: "kube_conn_next st ev c = Ret c1" and rest: "kube_conn_run st evs c1 = Ret c'"
    using Cons.prems(1) by (auto elim!: go_bind_RetE)
  have "attached_kept (kn_kube c1) \<and> kn_pod c1 = None"
  proof (cases "ev = KDisconnect")
    case True
    then show ?thesis using next1 session_disconnect [of st c c1] Cons.prems by simp
  next
    case False
    then show ?thesis using session_pods.conn_event [OF next1, of "kn_disconnected c"] Cons.prems assms(2) by (simp add: conn_keeps_def)
  qed
  then show ?case using Cons.IH [OF rest] by simp
qed simp

lemma handshake_session:
  assumes "kn_OnHandshakeSuccess st ip connectionID files meta (new_kube_conn w) = Ret (None, c)" and "session_mode (kr_config st)"
  shows "kn_kube c = new_kube w" and "kn_pod c = None"
  using assms by (auto simp: kn_OnHandshakeSuccess_def new_kube_conn_def Let_def elim!: go_bind_RetE)

lemma handshake_connection:
  assumes "kn_OnHandshakeSuccess st ip connectionID files meta (new_kube_conn w) = Ret (None, c)" and "connection_mode (kr_config st)"
  obtains p where "conn_keeps (\<lambda>k. connection_mode (kr_config st) \<longrightarrow> kw_deleted k = [] \<and> p < length (kw_pods k) \<and>
      \<not> pod_shuttingDown (kw_pods k ! p)) (Some p) False c"
proof -
  obtain labels annotations env p k1 k2 where
      made: "createPod (kr_api st) (kr_config st) (kr_times st (new_kube w)) labels annotations env None [] (new_kube w) = Ret (Inr p, k1)"
    and written: "kube_write_files st p files k1 = Ret k2"
    and c: "kn_kube c = k2" "kn_pod c = Some p" "kn_disconnected c = False"
    using assms by (auto simp: kn_OnHandshakeSuccess_def new_kube_conn_def Let_def elim!: go_bind_RetE in_kubeE in_kube_unitE split: sum.splits)
  have "kw_deleted k1 = [] \<and> p < length (kw_pods k1) \<and> \<not> pod_shuttingDown (kw_pods k1 ! p)"
    using createPod_adds [OF made] by (auto simp: added_pods_def new_kube_def new_pod_def)
  then have "kw_deleted k2 = [] \<and> p < length (kw_pods k2) \<and> \<not> pod_shuttingDown (kw_pods k2 ! p)"
    using connection_pods.write_files [OF written, of st "[]" p] assms(2) by simp
  then show ?thesis using c that by (simp add: conn_keeps_def)
qed

lemma disconnect_connection:
  assumes "kn_OnDisconnect st c = Ret c'" and "kn_pod c = Some p" and "\<not> kn_disconnected c" and "p < length (kw_pods (kn_kube c))"
    and "\<not> pod_shuttingDown (kw_pods (kn_kube c) ! p)"
  shows "kw_deleted (kn_kube c') = kw_deleted (kn_kube c) @
    (if remove_loop (fst (ka_Delete (kr_api st) p (kw_cluster (kn_kube c)))) = Ret None then [p] else [])"
  using assms
  by (auto simp: kn_OnDisconnect_def kube_remove_def pod_at_def set_pod_def on_cluster_def Let_def elim!: go_bind_RetE in_kubeE
      split: if_splits prod.splits)


text \<open>C21: In session mode the pod of a session is never deleted. Whatever happens on the connection, also when all sessions are closed and the
  client has disconnected, none of the pods that a program was attached to is deleted: a session removes the pod of the network
  handler, and there is none.\<close>
theorem session_pods_left:
  assumes "session_mode (kr_config st)"
    and "kn_OnHandshakeSuccess st ip connectionID files meta (new_kube_conn w) = Ret (None, c0)"
    and "kube_conn_run st evs c0 = Ret c"
    and "x \<in> set (kw_execs (kn_kube c))" and "\<not> is_exec (ke_options x)"
  shows "ke_pod x < length (kw_pods (kn_kube c)) \<and> ke_pod x \<notin> set (kw_deleted (kn_kube c))"
proof -
  have "attached_kept (kn_kube c0)" using handshake_session [OF assms(2,1)] by (simp add: attached_kept_def new_kube_def)
  then have "attached_kept (kn_kube c)"
    using session_run_kept [OF assms(3,1)] handshake_session [OF assms(2,1)] by simp
  then show ?thesis using assms(4,5) by (simp add: attached_kept_def)
qed

definition sample_setting :: "string \<Rightarrow> unit kube_setting" where
  "sample_setting mode = \<lparr>kr_api = sample_cluster, kr_config = sample_kube_config mode, kr_range = (\<lambda>_. []), kr_times = (\<lambda>_. [True]),
     kr_ParseCMD = (\<lambda>program. Inr [program]), kr_codec = sample_codec,
     kr_agent_says = (\<lambda>w. (Inl (ErrorString ''EOF''), w)), kr_expired = False\<rparr>"

text \<open>One session in which a program runs to its end.\<close>

definition one_program :: "kube_conn_event list" where
  "one_program = [KSession (Channel sample_user 0), KCall 0 (CallExec 0 ''/bin/true''), KStream 0 None, KCall 0 CallClose]"

lemmas kube_connection_sample =
  kube_sample sample_setting_def one_program_def new_kube_conn_def kn_OnHandshakeSuccess_def in_kube_def in_kube_unit_def kn_OnSessionChannel_def
  kube_session_def in_channel_def in_channel_unit_def at_channel_def on_conn_def kc_OnExecRequest_def kc_parseProgram_def kc_run_def
  kc_run_start_def kc_run_finish_def kc_handleExecModeConnection_def kc_handleExecModeSession_def has_prefix_def kc_OnClose_def kube_kill_def
  kube_stop_def handleStream_def exit_status_def sendExitCodeToClient_def kube_attach_def Channel_def


theorem session_pods_left_witness:
  "\<exists>c0 c. kn_OnHandshakeSuccess (sample_setting ''session'') ''::1'' ''c1'' [] sample_user (new_kube_conn ()) = Ret (None, c0) \<and>
     kube_conn_run (sample_setting ''session'') (one_program @ [KDisconnect]) c0 = Ret c \<and>
     (\<exists>x \<in> set (kw_execs (kn_kube c)). ke_pod x < length (kw_pods (kn_kube c)) \<and> ke_pod x \<notin> set (kw_deleted (kn_kube c)))"
proof -
  let ?st = "sample_setting ''session''"
  obtain c0 where c0: "kn_OnHandshakeSuccess ?st ''::1'' ''c1'' [] sample_user (new_kube_conn ()) = Ret (None, c0)"
    and c: "\<exists>c x. kube_conn_run ?st (one_program @ [KDisconnect]) c0 = Ret c \<and> kw_execs (kn_kube c) = [x] \<and> \<not> is_exec (ke_options x)"
    by (simp add: kube_connection_sample kn_OnDisconnect_def)
  then obtain c x where run: "kube_conn_run ?st (one_program @ [KDisconnect]) c0 = Ret c"
    and x: "x \<in> set (kw_execs (kn_kube c))" "\<not> is_exec (ke_options x)"
    by auto
  have "session_mode (kr_config ?st)" by (simp add: sample_setting_def sample_kube_config_def)
  from session_pods_left [OF this c0 run x] show ?thesis using c0 run x(1) by blast
qed

lemma stdout_writes_short:
  assumes "\<not> sw_pidRead s" and "length (sw_buf s @ concat chunks) < 4"
  shows "sw_pidChannel (stdout_writes write chunks s) = sw_pidChannel s"
  using assms
proof (induction chunks arbitrary: s)
  case (Cons c cs)
  then have "snd (stdout_Write write c s) = s\<lparr>sw_buf := sw_buf s @ c\<rparr>" by (simp add: stdout_Write_def Let_def)
  then show ?case using Cons.IH [of "s\<lparr>sw_buf := sw_buf s @ c\<rparr>"] Cons.prems by simp
qed simp

lemma createExec_exec:
  assumes "kube_createExec api cfg p program env tty k = Ret (Inr e, k')"
  shows "e < length (kw_execs k')"
proof -
  obtain k1 where "make_exec api cfg p (PodExecOptions (agent_command cfg env program) tty) k1 = Ret (Inr e, k')"
    using assms unfolding kube_createExec_def createExecLocked_def by (auto elim!: pod_atE go_bind_RetE split: if_splits sum.splits)
  from make_exec_cases(1) [OF this] show ?thesis by auto
qed

lemma attach_exec:
  assumes "kube_attach api cfg p k = Ret (Inr e, k')"
  shows "e < length (kw_execs k')"
proof -
  obtain tty where "make_exec api cfg p (PodAttachOptions tty) k = Ret (Inr e, k')"
    using assms by (auto simp: kube_attach_def elim!: pod_atE split: option.splits)
  from make_exec_cases(1) [OF this] show ?thesis by auto
qed

lemma run_start_exec:
  assumes "kc_run_start st program (h, c) = Ret (None, h', c')"
  shows "kn_mutex c'" and "\<exists>e. kc_exec h' = Some e \<and> e < length (kw_execs (kn_kube c'))"
proof -
  from assms have "kn_mutex c' \<and> (\<exists>e. kc_exec h' = Some e \<and> e < length (kw_execs (kn_kube c')))"
    unfolding kc_run_start_def kc_handleExecModeConnection_def kc_handleExecModeSession_def Let_def
    by (auto elim!: go_bind_RetE in_kubeE in_kube_unitE split: if_splits option.splits sum.splits dest!: createExec_exec attach_exec)
  then show "kn_mutex c'" and "\<exists>e. kc_exec h' = Some e \<and> e < length (kw_execs (kn_kube c'))" by simp_all
qed

lemma kube_run_queue:
  assumes "kube_run api cfg e k = Ret k'"
  shows "length (kw_execs k') = length (kw_execs k)" and "ke_queue_closed (kw_execs k' ! e) = ke_queue_closed (kw_execs k ! e)"
  using assms unfolding kube_run_def
  by (auto simp: Let_def set_exec_def elim!: exec_atE split: if_splits prod.splits list.splits dest!: on_clusterD)

lemma kube_run_short:
  assumes "e < length (kw_execs k)" and "\<not> kb_DisableAgent cfg" and "\<And>w. length (concat (fst (ka_Stdout api e w))) < 4"
  shows "kube_run api cfg e k = Block"
proof -
  obtain chunks w where out: "ka_Stdout api e (kw_cluster k) = (chunks, w)" by (cases "ka_Stdout api e (kw_cluster k)")
  have "length (concat chunks) < 4" using assms(3) [of "kw_cluster k"] out by simp
  then have "sw_pidChannel (stdout_writes buffer_Write chunks (new_stdoutProxyWriter tty [])) = []" for tty
    using stdout_writes_short [of "new_stdoutProxyWriter tty []" chunks buffer_Write] by (simp add: new_stdoutProxyWriter_def)
  then show ?thesis using assms(1,2) out by (simp add: kube_run_def exec_at_def on_cluster_def Let_def)
qed

text \<open>C34: A program that ends before it has written the bytes of its process id blocks the connection for good. The request to start it does
  not return, and it holds the lock of the connection, so that signals, changes of the window, further programs and the disconnection
  wait forever too; the pod of the connection is then never deleted.\<close>
theorem unstarted_program_blocks:
  assumes "kc_run_start st program (h, c) = Ret (None, h', c')" and "\<not> kb_DisableAgent (kr_config st)"
    and "\<And>e w. kc_exec h' = Some e \<Longrightarrow> length (concat (fst (ka_Stdout (kr_api st) e w))) < 4"
  shows "kc_run st program (h, c) = Block \<and> kn_OnDisconnect st c' = Block \<and>
    kc_OnSignal st sig (h2, c') = Block \<and> kc_OnWindow st columns rows (h2, c') = Block \<and> kc_run_start st program2 (h2, c') = Block"
proof -
  obtain e where e: "kc_exec h' = Some e" "e < length (kw_execs (kn_kube c'))" using run_start_exec(2) [OF assms(1)] by blast
  have "kube_run (kr_api st) (kr_config st) e (kn_kube c') = Block" by (rule kube_run_short [OF e(2) assms(2) assms(3) [OF e(1)]])
  then have "kc_run st program (h, c) = Block" using assms(1) e(1) by (simp add: kc_run_def kc_run_finish_def in_kube_unit_def)
  then show ?thesis using run_start_exec(1) [OF assms(1)]
    by (simp add: kn_OnDisconnect_def kc_OnSignal_def kc_OnWindow_def kc_run_start_def)
qed

text \<open>A cluster in which a program fails at once, with nothing on the standard output.\<close>

definition broken_setting :: "unit kube_setting" where
  "broken_setting = (sample_setting ''session'')\<lparr>kr_api := sample_cluster\<lparr>ka_Stdout := (\<lambda>_ w. ([], w))\<rparr>\<rparr>"

definition sample_kube_channel :: kube_channel where
  "sample_kube_channel = \<lparr>kc_env = Map.empty, kc_files = [], kc_pty = False, kc_x11 = False, kc_columns = 0, kc_rows = 0, kc_exec = None, kc_pod = None\<rparr>"

theorem unstarted_program_blocks_witness:
  "kc_run broken_setting [''/nonexistent''] (sample_kube_channel, new_kube_conn ()) = Block \<and>
   (\<exists>h c. kc_run_start broken_setting [''/nonexistent''] (sample_kube_channel, new_kube_conn ()) = Ret (None, h, c) \<and>
      kn_OnDisconnect broken_setting c = Block)"
proof -
  obtain h c where started: "kc_run_start broken_setting [''/nonexistent''] (sample_kube_channel, new_kube_conn ()) = Ret (None, h, c)"
    by (simp add: kube_connection_sample broken_setting_def sample_kube_channel_def)
  have agent: "\<not> kb_DisableAgent (kr_config broken_setting)"
    and "length (concat (fst (ka_Stdout (kr_api broken_setting) e w))) < 4" for e w
    by (simp_all add: broken_setting_def sample_setting_def sample_kube_config_def)
  from unstarted_program_blocks [OF started this] started show ?thesis by blast
qed

text \<open>A change of the window after the program has ended crashes the server. The end of a stream closes the queue of sizes, and the
  session is closed only later, when the exit status is known; a request in between sends on the closed queue. When the program has
  ended before its first size was set, starting it crashes the server as well.\<close>
theorem window_after_exit_panics:
  assumes "handleStream (kr_api st) (kr_config st) e err (kn_kube c) = Ret (status, k)" and "kc_exec h = Some e" and "\<not> kn_mutex c"
  shows "kc_OnWindow st columns rows (h, c\<lparr>kn_kube := k\<rparr>) = Panic ''send on closed channel'' \<and>
    (kc_pty h \<and> kube_run (kr_api st) (kr_config st) e k = Ret k2 \<longrightarrow>
       kc_run_finish st (h, c\<lparr>kn_kube := k, kn_mutex := True\<rparr>) = Panic ''send on closed channel'')"
proof -
  note closed = handleStream_status(1,3) [OF assms(1)]
  have "kube_resize (kr_api st) e rows columns k = Panic ''send on closed channel''" for rows columns
    using closed by (simp add: kube_resize_def exec_at_def)
  moreover have "kube_resize (kr_api st) e rows columns k2 = Panic ''send on closed channel''"
    if "kube_run (kr_api st) (kr_config st) e k = Ret k2" for rows columns
    using closed kube_run_queue [OF that] by (simp add: kube_resize_def exec_at_def)
  ultimately show ?thesis using assms(2,3) by (simp add: kc_OnWindow_def kc_run_finish_def in_kube_def in_kube_unit_def)
qed

text \<open>A program that was attached to and has a terminal.\<close>

definition attached_conn :: "unit kube_conn" where
  "attached_conn = (new_kube_conn ())\<lparr>kn_kube := attached_kube\<rparr>"

theorem window_after_exit_panics_witness:
  "\<exists>status k. handleStream sample_cluster (sample_kube_config ''session'') 0 None attached_kube = Ret (status, k) \<and>
     kc_OnWindow (sample_setting ''session'') 80 25 (sample_kube_channel\<lparr>kc_exec := Some 0\<rparr>, attached_conn\<lparr>kn_kube := k\<rparr>) =
       Panic ''send on closed channel''"
proof -
  obtain status k where ended: "handleStream sample_cluster (sample_kube_config ''session'') 0 None attached_kube = Ret (status, k)"
    by (simp add: handleStream_def exit_status_def sendExitCodeToClient_def attached_kube_def kube_sample)
  then show ?thesis
    using window_after_exit_panics [of "sample_setting ''session''" 0 None attached_conn status k "sample_kube_channel\<lparr>kc_exec := Some 0\<rparr>" 80 25 k]
    by (simp add: sample_setting_def attached_conn_def new_kube_conn_def sample_kube_channel_def)
qed

end
